(* ===== verification/Prelude.thy ===== *)
theory Prelude
  imports Main "HOL-Library.AList"
begin

text \<open>
  Shared vocabulary of the development.  Python dictionaries keep insertion order, so a
  dictionary is an association list updated with \<open>AList.update\<close> (an existing key keeps its
  position, a new key is appended), which is what \<open>d[k] = v\<close> does.  Characters are the
  bytes of the UTF-8 text.  The collection \<open>eval_simps\<close> holds the rules that let the
  simplifier run the model on concrete inputs; the witnesses use it.
\<close>

named_theorems eval_simps "rules that evaluate the model on concrete inputs"

type_synonym ('k, 'v) pydict = "('k \<times> 'v) list"

abbreviation sq :: char where "sq \<equiv> CHR 0x27"
abbreviation dq :: char where "dq \<equiv> CHR 0x22"
abbreviation nl :: char where "nl \<equiv> CHR 0x0A"
abbreviation bsl :: char where "bsl \<equiv> CHR 0x5C"

declare upt_rec [eval_simps] char_of_def [eval_simps] bit_Suc_0_iff [eval_simps] Let_def [eval_simps]

subsection \<open>Python's \<open>str.startswith\<close> and substring test\<close>

fun startswith :: "string \<Rightarrow> string \<Rightarrow> bool" where
  "startswith s [] = True"
| "startswith [] (c # p) = False"
| "startswith (x # s) (c # p) = (x = c \<and> startswith s p)"

fun contains_str :: "string \<Rightarrow> string \<Rightarrow> bool" where
  "contains_str [] p = (p = [])"
| "contains_str (x # s) p = (startswith (x # s) p \<or> contains_str s p)"

lemma startswith_iff: "startswith s p \<longleftrightarrow> (\<exists>t. s = p @ t)"
  by (induction s p rule: startswith.induct) auto

lemma contains_str_iff: "contains_str s p \<longleftrightarrow> (\<exists>a b. s = a @ p @ b)"
proof (induction s)
  case Nil
  then show ?case by auto
next
  case (Cons x s)
  show ?case
  proof
    assume c: "contains_str (x # s) p"
    show "\<exists>a b. x # s = a @ p @ b"
    proof (cases "startswith (x # s) p")
      case True
      then show ?thesis by (metis append_Nil startswith_iff)
    next
      case False
      with c Cons.IH obtain a b where "s = a @ p @ b" by auto
      then have "x # s = (x # a) @ p @ b" by simp
      then show ?thesis by blast
    qed
  next
    assume "\<exists>a b. x # s = a @ p @ b"
    then obtain a b where ab: "x # s = a @ p @ b" by blast
    show "contains_str (x # s) p"
    proof (cases a)
      case Nil
      with ab have "startswith (x # s) p" by (simp add: startswith_iff)
      then show ?thesis by simp
    next
      case (Cons y a')
      with ab Cons.IH show ?thesis by auto
    qed
  qed
qed

lemma startswith_length [simp]: "startswith s p \<Longrightarrow> length p \<le> length s"
  by (auto simp: startswith_iff)

lemma drop_startswith_shorter [simp]:
  "p \<noteq> [] \<Longrightarrow> startswith s p \<Longrightarrow> length (drop (length p) s) < length s"
  by (auto simp: startswith_iff)

subsection \<open>Python dictionaries as association lists\<close>

lemma map_of_update_same [simp]: "map_of (AList.update k v kvs) k = Some v"
  by (simp add: update_conv')

lemma map_of_update_other [simp]: "k' \<noteq> k \<Longrightarrow> map_of (AList.update k v kvs) k' = map_of kvs k'"
  by (simp add: update_conv')

lemma keys_update [simp]: "set (map fst (AList.update k v kvs)) = insert k (set (map fst kvs))"
  by (induction kvs) auto

end
