(* ===== verification/Python.thy ===== *)
theory Python
  imports Prelude
begin

text \<open>
  The part of the Python runtime the pipeline's code relies on: the values that
  \<open>json.loads\<close> and \<open>ast.literal_eval\<close> produce (\<open>pyval\<close>), the exceptions the code
  raises or catches (\<open>pyexc\<close>), and the builtins it calls: \<open>x in c\<close>, \<open>c[k]\<close>,
  \<open>xs[i]\<close>, \<open>str.strip\<close>, \<open>str.lower\<close>, \<open>str.split\<close>, \<open>str.replace\<close>.
  These are library semantics, written from the Python documentation.  Floats are kept as
  their decimal text, which is enough for the pipeline, which never computes with them.
  Strings are byte strings (UTF-8); \<open>strip\<close> and \<open>lower\<close> act on ASCII characters.
  \<open>RequestException\<close> stands for the exceptions of the \<open>requests\<close> library (HTTP errors,
  connection errors, timeouts, undecodable responses).
\<close>

datatype pyexc =
    TypeError | ValueError | KeyError | IndexError | AttributeError | NameError
  | JSONDecodeError | SyntaxError | ZeroDivisionError | RequestException

datatype pyval =
    PNone
  | PBool bool
  | PInt int
  | PFloat string
  | PStr string
  | PList "pyval list"
  | PTuple "pyval list"
  | PDict "(pyval, pyval) pydict"
  | PSet "pyval list"

type_synonym 'a pyres = "pyexc + 'a"

subsection \<open>Exceptions: raising, propagating and catching\<close>

text \<open>\<open>pbind r f\<close> runs \<open>f\<close> on the value of \<open>r\<close> and propagates an exception;
  \<open>py_try r d\<close> is \<open>try: x = r except: x = d\<close>; \<open>pmap f xs\<close> is the list
  comprehension \<open>[f(x) for x in xs]\<close>, which stops at the first exception.\<close>

definition pbind :: "'a pyres \<Rightarrow> ('a \<Rightarrow> 'b pyres) \<Rightarrow> 'b pyres" where
  "pbind r f = (case r of Inl e \<Rightarrow> Inl e | Inr v \<Rightarrow> f v)"

definition py_try :: "'a pyres \<Rightarrow> 'a \<Rightarrow> 'a" where
  "py_try r d = (case r of Inl e \<Rightarrow> d | Inr v \<Rightarrow> v)"

primrec pmap :: "('a \<Rightarrow> 'b pyres) \<Rightarrow> 'a list \<Rightarrow> 'b list pyres" where
  "pmap f [] = Inr []"
| "pmap f (x # xs) = pbind (f x) (\<lambda>y. pbind (pmap f xs) (\<lambda>ys. Inr (y # ys)))"

text \<open>\<open>list(filter(p, xs))\<close> with a test that may raise.\<close>

primrec pfilter :: "('a \<Rightarrow> bool pyres) \<Rightarrow> 'a list \<Rightarrow> 'a list pyres" where
  "pfilter p [] = Inr []"
| "pfilter p (x # xs) = pbind (p x) (\<lambda>b. pbind (pfilter p xs) (\<lambda>ys. Inr (if b then x # ys else ys)))"

text \<open>\<open>pfoldl f acc xs\<close> is a \<open>for\<close> loop over \<open>xs\<close> updating \<open>acc\<close>, which may raise.\<close>

fun pfoldl :: "('b \<Rightarrow> 'a \<Rightarrow> 'b pyres) \<Rightarrow> 'b \<Rightarrow> 'a list \<Rightarrow> 'b pyres" where
  "pfoldl f acc [] = Inr acc"
| "pfoldl f acc (x # xs) = pbind (f acc x) (\<lambda>acc'. pfoldl f acc' xs)"

lemma pbind_simps [simp]:
  "pbind (Inl e) f = Inl e"
  "pbind (Inr v) f = f v"
  by (simp_all add: pbind_def)

lemma py_try_simps [simp]:
  "py_try (Inl e) d = d"
  "py_try (Inr v) d = v"
  by (simp_all add: py_try_def)

lemma pbind_Inr_iff: "pbind r f = Inr w \<longleftrightarrow> (\<exists>v. r = Inr v \<and> f v = Inr w)"
  by (cases r) auto

lemma pmap_Inr_iff: "pmap f xs = Inr ys \<longleftrightarrow> list_all2 (\<lambda>x y. f x = Inr y) xs ys"
proof (induction xs arbitrary: ys)
  case Nil
  then show ?case by auto
next
  case (Cons x xs)
  then show ?case by (cases ys) (auto simp: pbind_Inr_iff)
qed

lemma pmap_Inr [simp]: "pmap (\<lambda>x. Inr (g x)) xs = Inr (map g xs)"
  by (induction xs) auto

subsection \<open>Membership, subscription and indexing\<close>

text \<open>\<open>py_in x c\<close> is Python's \<open>x in c\<close>: a substring test on strings, element
  membership on lists, tuples and sets, key membership on dictionaries, and a
  \<open>TypeError\<close> on numbers, booleans and \<open>None\<close>.\<close>

fun py_in :: "pyval \<Rightarrow> pyval \<Rightarrow> bool pyres" where
  "py_in x (PStr s) = (case x of PStr p \<Rightarrow> Inr (contains_str s p) | _ \<Rightarrow> Inl TypeError)"
| "py_in x (PList xs) = Inr (x \<in> set xs)"
| "py_in x (PTuple xs) = Inr (x \<in> set xs)"
| "py_in x (PSet xs) = Inr (x \<in> set xs)"
| "py_in x (PDict kvs) = Inr (x \<in> set (map fst kvs))"
| "py_in x PNone = Inl TypeError"
| "py_in x (PBool b) = Inl TypeError"
| "py_in x (PInt i) = Inl TypeError"
| "py_in x (PFloat f) = Inl TypeError"

text \<open>\<open>py_index xs i\<close> is \<open>xs[i]\<close> on a Python sequence: a negative index counts from
  the end, and an index out of range raises \<open>IndexError\<close>.\<close>

definition py_index :: "'a list \<Rightarrow> int \<Rightarrow> 'a pyres" where
  "py_index xs i =
     (if 0 \<le> i then (if nat i < length xs then Inr (xs ! nat i) else Inl IndexError)
      else if nat (- i) \<le> length xs then Inr (xs ! (length xs - nat (- i)))
      else Inl IndexError)"

fun py_getitem :: "pyval \<Rightarrow> pyval \<Rightarrow> pyval pyres" where
  "py_getitem (PDict kvs) k = (case map_of kvs k of Some v \<Rightarrow> Inr v | None \<Rightarrow> Inl KeyError)"
| "py_getitem (PList xs) k = (case k of PInt i \<Rightarrow> py_index xs i | _ \<Rightarrow> Inl TypeError)"
| "py_getitem (PTuple xs) k = (case k of PInt i \<Rightarrow> py_index xs i | _ \<Rightarrow> Inl TypeError)"
| "py_getitem (PStr s) k = (case k of PInt i \<Rightarrow> map_sum id (\<lambda>c. PStr [c]) (py_index s i) | _ \<Rightarrow> Inl TypeError)"
| "py_getitem PNone k = Inl TypeError"
| "py_getitem (PBool b) k = Inl TypeError"
| "py_getitem (PInt i) k = Inl TypeError"
| "py_getitem (PFloat f) k = Inl TypeError"
| "py_getitem (PSet xs) k = Inl TypeError"

lemma py_index_last [simp]: "xs \<noteq> [] \<Longrightarrow> py_index xs (-1) = Inr (last xs)"
  unfolding py_index_def by (cases xs) (auto simp: last_conv_nth)

lemma py_index_Nil [simp]: "py_index [] i = Inl IndexError"
  by (simp add: py_index_def)

subsection \<open>String methods\<close>

text \<open>The characters \<open>str.isspace\<close> accepts below 128, which \<open>str.strip()\<close> removes.\<close>

definition is_space :: "char \<Rightarrow> bool" where
  "is_space c \<longleftrightarrow> of_char c \<in> {9, 10, 11, 12, 13, 28, 29, 30, 31, 32::nat}"

definition py_strip :: "string \<Rightarrow> string" where
  "py_strip s = rev (dropWhile is_space (rev (dropWhile is_space s)))"

definition lower_char :: "char \<Rightarrow> char" where
  "lower_char c = (if 65 \<le> (of_char c :: nat) \<and> (of_char c :: nat) \<le> 90 then char_of (of_char c + (32::nat)) else c)"

definition py_lower :: "string \<Rightarrow> string" where
  "py_lower s = map lower_char s"

text \<open>\<open>s.split(sep)\<close> with an explicit separator: the pieces between the non-overlapping
  occurrences of \<open>sep\<close>, found from the left; an empty separator raises \<open>ValueError\<close>.\<close>

function split_acc :: "string \<Rightarrow> string \<Rightarrow> string \<Rightarrow> string list" where
  "split_acc sep cur [] = [rev cur]"
| "split_acc sep cur (x # s) =
     (if sep \<noteq> [] \<and> startswith (x # s) sep
      then rev cur # split_acc sep [] (drop (length sep) (x # s))
      else split_acc sep (x # cur) s)"
  by pat_completeness auto
termination
  by (relation "measure (\<lambda>(sep, cur, s). length s)") auto

definition py_split :: "string \<Rightarrow> string \<Rightarrow> string list pyres" where
  "py_split sep s = (if sep = [] then Inl ValueError else Inr (split_acc sep [] s))"

text \<open>\<open>s.replace(old, new)\<close>: every non-overlapping occurrence of \<open>old\<close>, from the left,
  replaced; with an empty \<open>old\<close>, \<open>new\<close> is inserted before every character and at the end.\<close>

function replace_acc :: "string \<Rightarrow> string \<Rightarrow> string \<Rightarrow> string" where
  "replace_acc old new [] = []"
| "replace_acc old new (x # s) =
     (if old \<noteq> [] \<and> startswith (x # s) old
      then new @ replace_acc old new (drop (length old) (x # s))
      else x # replace_acc old new s)"
  by pat_completeness auto
termination
  by (relation "measure (\<lambda>(old, new, s). length s)") auto

definition py_replace :: "string \<Rightarrow> string \<Rightarrow> string \<Rightarrow> string" where
  "py_replace old new s =
     (if old = [] then new @ concat (map (\<lambda>c. c # new) s) else replace_acc old new s)"

declare split_acc.simps [eval_simps] replace_acc.simps [eval_simps]
  py_split_def [eval_simps] py_replace_def [eval_simps] py_strip_def [eval_simps]
  py_lower_def [eval_simps] lower_char_def [eval_simps] is_space_def [eval_simps]

text \<open>\<open>sep.join(ps)\<close>.\<close>

fun py_join :: "string \<Rightarrow> string list \<Rightarrow> string" where
  "py_join sep [] = []"
| "py_join sep [x] = x"
| "py_join sep (x # y # xs) = x @ sep @ py_join sep (y # xs)"

text \<open>\<open>len(x)\<close>.\<close>

fun py_len :: "pyval \<Rightarrow> nat pyres" where
  "py_len (PStr s) = Inr (length s)"
| "py_len (PList xs) = Inr (length xs)"
| "py_len (PTuple xs) = Inr (length xs)"
| "py_len (PSet xs) = Inr (length xs)"
| "py_len (PDict kvs) = Inr (length kvs)"
| "py_len v = Inl TypeError"

text \<open>The items a \<open>for\<close> loop visits: the elements of a list, tuple or set, the
  characters of a string, the keys of a dictionary; other values raise \<open>TypeError\<close>.\<close>

fun py_iter :: "pyval \<Rightarrow> pyval list pyres" where
  "py_iter (PList xs) = Inr xs"
| "py_iter (PTuple xs) = Inr xs"
| "py_iter (PSet xs) = Inr xs"
| "py_iter (PStr s) = Inr (map (\<lambda>c. PStr [c]) s)"
| "py_iter (PDict kvs) = Inr (map fst kvs)"
| "py_iter v = Inl TypeError"

text \<open>\<open>x.lower()\<close>: only strings have the method.\<close>

fun py_lower_val :: "pyval \<Rightarrow> string pyres" where
  "py_lower_val (PStr s) = Inr (py_lower s)"
| "py_lower_val v = Inl AttributeError"

text \<open>\<open>str.isupper()\<close> and \<open>str.capitalize()\<close> on ASCII: a string is upper case when it
  has a cased character and no lower-case one; \<open>capitalize\<close> upper-cases the first
  character and lower-cases the rest.\<close>

definition is_upper_char :: "char \<Rightarrow> bool" where
  "is_upper_char c \<longleftrightarrow> 65 \<le> (of_char c :: nat) \<and> (of_char c :: nat) \<le> 90"

definition is_lower_char :: "char \<Rightarrow> bool" where
  "is_lower_char c \<longleftrightarrow> 97 \<le> (of_char c :: nat) \<and> (of_char c :: nat) \<le> 122"

definition upper_char :: "char \<Rightarrow> char" where
  "upper_char c = (if is_lower_char c then char_of (of_char c - (32::nat)) else c)"

fun py_isupper_val :: "pyval \<Rightarrow> bool pyres" where
  "py_isupper_val (PStr s) = Inr ((\<exists>c\<in>set s. is_upper_char c) \<and> \<not> (\<exists>c\<in>set s. is_lower_char c))"
| "py_isupper_val v = Inl AttributeError"

fun py_capitalize_val :: "pyval \<Rightarrow> pyval pyres" where
  "py_capitalize_val (PStr []) = Inr (PStr [])"
| "py_capitalize_val (PStr (c # s)) = Inr (PStr (upper_char c # py_lower s))"
| "py_capitalize_val v = Inl AttributeError"

declare py_iter.simps [eval_simps] py_lower_val.simps [eval_simps]
  is_upper_char_def [eval_simps] is_lower_char_def [eval_simps] upper_char_def [eval_simps]
  py_isupper_val.simps [eval_simps] py_capitalize_val.simps [eval_simps]

subsection \<open>\<open>str()\<close> and \<open>repr()\<close>\<close>

text \<open>\<open>s.find(c)\<close> and \<open>s.rfind(c)\<close> for a one-character \<open>c\<close>: the index of its first
  (last) occurrence, \<open>-1\<close> when there is none.\<close>

definition py_find :: "string \<Rightarrow> char \<Rightarrow> int" where
  "py_find s c = (if c \<in> set s then int (length (takeWhile (\<lambda>x. x \<noteq> c) s)) else -1)"

definition py_rfind :: "string \<Rightarrow> char \<Rightarrow> int" where
  "py_rfind s c =
     (if c \<in> set s then int (length s) - 1 - int (length (takeWhile (\<lambda>x. x \<noteq> c) (rev s))) else -1)"

text \<open>\<open>xs[i:j]\<close>: a negative bound counts from the end, bounds are clipped to the sequence,
  and an empty slice results when \<open>j\<close> is not after \<open>i\<close>.\<close>

definition py_slice :: "'a list \<Rightarrow> int \<Rightarrow> int \<Rightarrow> 'a list" where
  "py_slice xs i j =
     (let n = int (length xs);
          i' = (if i < 0 then max 0 (n + i) else min i n);
          j' = (if j < 0 then max 0 (n + j) else min j n)
      in take (nat (j' - i')) (drop (nat i') xs))"

text \<open>\<open>d[k] = v\<close>: a dictionary keeps the position of an existing key (the keys the
  pipeline writes are strings, so hashing cannot fail); a list takes an integer index as
  \<open>xs[i]\<close> reads it; tuples, strings and the other values raise \<open>TypeError\<close>.\<close>

fun py_setitem :: "pyval \<Rightarrow> pyval \<Rightarrow> pyval \<Rightarrow> pyval pyres" where
  "py_setitem (PDict kvs) k v = Inr (PDict (AList.update k v kvs))"
| "py_setitem (PList xs) k v =
     (case k of
        PInt i \<Rightarrow>
          if 0 \<le> i then (if nat i < length xs then Inr (PList (xs[nat i := v])) else Inl IndexError)
          else if nat (- i) \<le> length xs then Inr (PList (xs[length xs - nat (- i) := v]))
          else Inl IndexError
      | _ \<Rightarrow> Inl TypeError)"
| "py_setitem d k v = Inl TypeError"

text \<open>\<open>d.get(k, default)\<close>: only dictionaries have the method.\<close>

fun py_get :: "pyval \<Rightarrow> pyval \<Rightarrow> pyval \<Rightarrow> pyval pyres" where
  "py_get (PDict kvs) k d = Inr (case map_of kvs k of Some v \<Rightarrow> v | None \<Rightarrow> d)"
| "py_get v k d = Inl AttributeError"

declare py_find_def [eval_simps] py_rfind_def [eval_simps] py_slice_def [eval_simps]

text \<open>Decimal digits of a number.\<close>

fun nat_str :: "nat \<Rightarrow> string" where
  "nat_str n = (if n < 10 then [char_of (48 + n)] else nat_str (n div 10) @ [char_of (48 + n mod 10)])"

definition int_str :: "int \<Rightarrow> string" where
  "int_str i = (if i < 0 then CHR ''-'' # nat_str (nat (- i)) else nat_str (nat i))"

text \<open>\<open>repr\<close> of a string: single quotes unless the string holds a single quote and no
  double quote; backslash, the chosen quote and the usual control characters escaped.
  Other non-printable characters are written as they are (Python writes \<open>\\xhh\<close>).\<close>

definition repr_char :: "char \<Rightarrow> char \<Rightarrow> string" where
  "repr_char q c =
     (if c = bsl then [bsl, bsl] else if c = q then [bsl, q]
      else if c = nl then [bsl, CHR ''n''] else if c = CHR 0x09 then [bsl, CHR ''t'']
      else if c = CHR 0x0D then [bsl, CHR ''r''] else [c])"

definition repr_str :: "string \<Rightarrow> string" where
  "repr_str s = (let q = (if sq \<in> set s \<and> dq \<notin> set s then dq else sq) in q # concat (map (repr_char q) s) @ [q])"

text \<open>\<open>str(x)\<close> and \<open>repr(x)\<close>: containers show the \<open>repr\<close> of their items.\<close>

fun py_repr :: "pyval \<Rightarrow> string" where
  "py_repr PNone = ''None''"
| "py_repr (PBool b) = (if b then ''True'' else ''False'')"
| "py_repr (PInt i) = int_str i"
| "py_repr (PFloat t) = t"
| "py_repr (PStr s) = repr_str s"
| "py_repr (PList xs) = ''['' @ py_join '', '' (map py_repr xs) @ '']''"
| "py_repr (PTuple xs) =
     (case xs of [x] \<Rightarrow> ''('' @ py_repr x @ '',)'' | _ \<Rightarrow> ''('' @ py_join '', '' (map py_repr xs) @ '')'')"
| "py_repr (PDict kvs) = ''{'' @ py_join '', '' (map (\<lambda>kv. py_repr (fst kv) @ '': '' @ py_repr (snd kv)) kvs) @ ''}''"
| "py_repr (PSet xs) = (if xs = [] then ''set()'' else ''{'' @ py_join '', '' (map py_repr xs) @ ''}'')"

definition py_str :: "pyval \<Rightarrow> string" where
  "py_str v = (case v of PStr s \<Rightarrow> s | _ \<Rightarrow> py_repr v)"

declare py_len.simps [eval_simps] nat_str.simps [eval_simps] int_str_def [eval_simps] py_str_def [eval_simps]
  repr_char_def [eval_simps] repr_str_def [eval_simps]

subsection \<open>Properties of the string methods\<close>

lemma split_acc_nonempty [simp]: "split_acc sep cur s \<noteq> []"
  by (induction sep cur s rule: split_acc.induct) auto

lemma split_acc_join:
  "sep \<noteq> [] \<Longrightarrow> py_join sep (split_acc sep cur s) = rev cur @ s"
proof (induction sep cur s rule: split_acc.induct)
  case (1 sep cur)
  then show ?case by simp
next
  case (2 sep cur x s)
  show ?case
  proof (cases "startswith (x # s) sep")
    case True
    have eq: "split_acc sep cur (x # s) = rev cur # split_acc sep [] (drop (length sep) (x # s))"
      using True "2.prems" by simp
    from True 2 have ih: "py_join sep (split_acc sep [] (drop (length sep) (x # s))) =
                          drop (length sep) (x # s)"
      by simp
    obtain p ps where pps: "split_acc sep [] (drop (length sep) (x # s)) = p # ps"
      by (cases "split_acc sep [] (drop (length sep) (x # s))") auto
    from True obtain t where t: "x # s = sep @ t" by (auto simp: startswith_iff)
    from eq ih pps t show ?thesis by simp
  next
    case False
    with 2 show ?thesis by simp
  qed
qed

text \<open>Joining the pieces of \<open>s.split(sep)\<close> with \<open>sep\<close> gives back \<open>s\<close>.\<close>

lemma py_split_join:
  "py_split sep s = Inr ps \<Longrightarrow> py_join sep ps = s"
  by (auto simp: py_split_def split_acc_join split: if_splits)

lemma py_split_nonempty:
  "py_split sep s = Inr ps \<Longrightarrow> ps \<noteq> []"
  by (auto simp: py_split_def split: if_splits)

lemma replace_acc_no_char:
  "c \<notin> set new \<Longrightarrow> c \<notin> set (replace_acc [c] new s)"
  by (induction "[c]" new s rule: replace_acc.induct) auto

text \<open>\<open>s.replace(c, '')\<close> for a single character removes every occurrence of it.\<close>

lemma py_replace_removes: "c \<notin> set (py_replace [c] [] s)"
  by (simp add: py_replace_def replace_acc_no_char)

lemma py_lower_idem [simp]: "py_lower (py_lower s) = py_lower s"
  by (simp add: py_lower_def lower_char_def comp_def)

text \<open>An invariant of every step of a loop that may raise holds at its end.\<close>

lemma pfoldl_inv:
  "pfoldl f acc xs = Inr r \<Longrightarrow> P acc \<Longrightarrow> (\<And>a x a'. P a \<Longrightarrow> f a x = Inr a' \<Longrightarrow> P a') \<Longrightarrow> P r"
proof (induction xs arbitrary: acc)
  case (Cons x xs)
  then obtain a' where "f acc x = Inr a'" "pfoldl f a' xs = Inr r" by (auto simp: pbind_Inr_iff)
  with Cons show ?case by blast
qed simp

text \<open>What \<open>replace\<close> with an empty replacement and \<open>strip\<close> keep of a string, and
  \<open>strip\<close> after \<open>lower\<close>.\<close>

lemma set_replace_acc_Nil: "set (replace_acc old [] s) \<subseteq> set s"
proof (induction old "[]::string" s rule: replace_acc.induct)
  case (2 old x s)
  have "set (drop (length old) (x # s)) \<subseteq> set (x # s)" by (rule set_drop_subset)
  with 2 show ?case by auto
qed simp

lemma set_py_replace_Nil: "old \<noteq> [] \<Longrightarrow> set (py_replace old [] s) \<subseteq> set s"
  by (simp add: py_replace_def set_replace_acc_Nil)

lemma set_py_strip: "set (py_strip s) \<subseteq> set s"
  unfolding py_strip_def by (auto dest!: set_dropWhileD)

lemma is_space_lower_char [simp]: "is_space (lower_char c) = is_space c"
  by (auto simp: is_space_def lower_char_def)

lemma dropWhile_map_pres: "(\<And>x. P (f x) = P x) \<Longrightarrow> dropWhile P (map f s) = map f (dropWhile P s)"
  by (induction s) simp_all

lemma py_lower_strip: "py_lower (py_strip s) = py_strip (py_lower s)"
  by (simp add: py_lower_def py_strip_def dropWhile_map_pres rev_map)

lemma py_strip_ends:
  "py_strip s = [] \<or> \<not> is_space (hd (py_strip s)) \<and> \<not> is_space (last (py_strip s))"
proof -
  define u where "u = dropWhile is_space s"
  define w where "w = dropWhile is_space (rev u)"
  have st: "py_strip s = rev w" by (simp add: py_strip_def u_def w_def)
  show ?thesis
  proof (cases "w = []")
    case False
    have "rev u = takeWhile is_space (rev u) @ w" by (simp add: w_def)
    then have lw: "last w = hd u" and un: "u \<noteq> []" using False
      by (metis last_appendR last_rev rev_is_Nil_conv) (metis False Nil_is_rev_conv dropWhile.simps(1) w_def)
    have "\<not> is_space (hd u)" using un hd_dropWhile [of is_space s] by (simp add: u_def)
    moreover have "\<not> is_space (hd w)" using False hd_dropWhile [of is_space "rev u"] by (simp add: w_def)
    ultimately show ?thesis using False lw st by (simp add: hd_rev last_rev)
  qed (simp add: st)
qed

lemma py_strip_idem [simp]: "py_strip (py_strip s) = py_strip s"
proof -
  have ends: "py_strip s = [] \<or> \<not> is_space (hd (py_strip s)) \<and> \<not> is_space (last (py_strip s))"
    by (rule py_strip_ends)
  then have "dropWhile is_space (py_strip s) = py_strip s" by (auto simp: dropWhile_eq_self_iff)
  moreover have "dropWhile is_space (rev (py_strip s)) = rev (py_strip s)"
    using ends by (auto simp: dropWhile_eq_self_iff hd_rev)
  ultimately show ?thesis by (simp add: py_strip_def [of "py_strip s"])
qed

text \<open>Where the results of a comprehension and of an index come from.\<close>

lemma pmap_Inr_set: "pmap f xs = Inr ys \<Longrightarrow> y \<in> set ys \<Longrightarrow> \<exists>x\<in>set xs. f x = Inr y"
  by (induction xs arbitrary: ys) (auto simp: pbind_Inr_iff)

lemma py_index_set: "py_index xs i = Inr r \<Longrightarrow> r \<in> set xs"
  by (auto simp: py_index_def split: if_splits)

text \<open>Slicing at one index cuts a list in two; a slice from the start is a prefix.\<close>

lemma py_slice_split: "py_slice xs 0 i @ py_slice xs i (int (length xs)) = xs"
proof -
  define k where "k = (if i < 0 then max 0 (int (length xs) + i) else min i (int (length xs)))"
  have k: "0 \<le> k" "k \<le> int (length xs)" by (auto simp: k_def)
  have "py_slice xs 0 i = take (nat k) xs" by (simp add: py_slice_def k_def)
  moreover have "py_slice xs i (int (length xs)) = drop (nat k) xs"
    using k by (simp add: py_slice_def Let_def k_def [symmetric])
  ultimately show ?thesis by simp
qed

lemma py_slice_prefix: "0 \<le> k \<Longrightarrow> py_slice xs 0 k = take (nat k) xs"
  by (cases "k \<le> int (length xs)") (simp_all add: py_slice_def min_def)

lemma pmap_length: "pmap f xs = Inr ys \<Longrightarrow> length ys = length xs"
  by (simp add: pmap_Inr_iff list_all2_lengthD)

end
