(* ===== verification/Regex.thy ===== *)
theory Regex
  imports Python
begin

text \<open>
  Python's \<open>re\<close> module, as far as the pipeline uses it: \<open>re.findall\<close> and
  \<open>re.search\<close> over the regular expressions written in
  \<open>post_process_generated_string.py\<close>.  The matcher is Python's backtracking one:
  alternatives and repetitions are tried in the order \<open>sre\<close> tries them (a greedy star
  tries one more iteration before stopping, a lazy star \<open>*?\<close> stops before trying one
  more), the first success wins, and a repetition whose body matched the empty string is
  not iterated again.  It runs on an explicit stack of frames (\<open>bt\<close>), so that it is a
  first-order function with a termination proof: the measure is the length of the input
  and, for an equal length, the weight of the stack, where a frame behind a pending
  progress check (\<open>Chk\<close>) does not count.  Its soundness against the language
  semantics \<open>rmatch\<close> is proved below.
\<close>

subsection \<open>Syntax\<close>

text \<open>Character classes: a literal, \<open>.\<close> without \<open>re.DOTALL\<close> (no newline), \<open>.\<close> with it
  and \<open>[\s\S]\<close> (any character), \<open>\d\<close>, \<open>\s\<close>, and a negated set \<open>[^...]\<close>.\<close>

datatype cls = CChar char | CDot | CAll | CDigit | CSpace | CNot "char list"

fun cls_match :: "cls \<Rightarrow> char \<Rightarrow> bool" where
  "cls_match (CChar d) x = (x = d)"
| "cls_match CDot x = (x \<noteq> nl)"
| "cls_match CAll x = True"
| "cls_match CDigit x = (48 \<le> (of_char x :: nat) \<and> (of_char x :: nat) \<le> 57)"
| "cls_match CSpace x = is_space x"
| "cls_match (CNot cs) x = (x \<notin> set cs)"

text \<open>\<open>Star\<close> is the greedy \<open>*\<close>, \<open>Lazy\<close> the non-greedy \<open>*?\<close>, \<open>Grp i\<close> the capturing
  group number \<open>i\<close>.\<close>

datatype rx = Atom cls | Seq rx rx | Alt rx rx | Star rx | Lazy rx | Grp nat rx | Eps

datatype frame = F rx | Close nat string | Chk nat

type_synonym caps = "nat \<Rightarrow> string"

fun lit :: "string \<Rightarrow> rx" where
  "lit [] = Eps"
| "lit [x] = Atom (CChar x)"
| "lit (x # xs) = Seq (Atom (CChar x)) (lit xs)"

fun seqs :: "rx list \<Rightarrow> rx" where
  "seqs [] = Eps"
| "seqs [r] = r"
| "seqs (r # rs) = Seq r (seqs rs)"

definition plus :: "rx \<Rightarrow> rx" where
  "plus r = Seq r (Star r)"

definition opt :: "rx \<Rightarrow> rx" where
  "opt r = Alt r Eps"

subsection \<open>The backtracking matcher\<close>

fun fw :: "nat \<Rightarrow> frame list \<Rightarrow> nat" where
  "fw l [] = 0"
| "fw l (F r # st) = 2 * size r + 1 + fw l st"
| "fw l (Close i s0 # st) = Suc (fw l st)"
| "fw l (Chk n # st) = (if n \<le> l then 0 else Suc (fw l st))"

function bt :: "frame list \<Rightarrow> string \<Rightarrow> caps \<Rightarrow> (string \<times> caps) option" where
  "bt [] s c = Some (s, c)"
| "bt (F (Atom a) # st) s c =
     (case s of [] \<Rightarrow> None | x # s' \<Rightarrow> if cls_match a x then bt st s' c else None)"
| "bt (F (Seq r1 r2) # st) s c = bt (F r1 # F r2 # st) s c"
| "bt (F (Alt r1 r2) # st) s c =
     (case bt (F r1 # st) s c of None \<Rightarrow> bt (F r2 # st) s c | Some m \<Rightarrow> Some m)"
| "bt (F (Star r) # st) s c =
     (case bt (F r # Chk (length s) # F (Star r) # st) s c of
        None \<Rightarrow> bt st s c
      | Some m \<Rightarrow> Some m)"
| "bt (F (Lazy r) # st) s c =
     (case bt st s c of
        None \<Rightarrow> bt (F r # Chk (length s) # F (Lazy r) # st) s c
      | Some m \<Rightarrow> Some m)"
| "bt (F (Grp i r) # st) s c = bt (F r # Close i s # st) s c"
| "bt (F Eps # st) s c = bt st s c"
| "bt (Close i s0 # st) s c = bt st s (c(i := take (length s0 - length s) s0))"
| "bt (Chk n # st) s c = (if length s < n then bt st s c else None)"
  by pat_completeness auto
termination
  by (relation "measures [\<lambda>(st, s, c). length s, \<lambda>(st, s, c). fw (length s) st]") auto

definition no_caps :: caps where
  "no_caps = (\<lambda>_. [])"

text \<open>A match of \<open>r\<close> at the start of \<open>s\<close>: the rest of the input and the groups, with
  group 0 the whole match.\<close>

definition match_here :: "rx \<Rightarrow> string \<Rightarrow> (string \<times> caps) option" where
  "match_here r s =
     (case bt [F r] s no_caps of
        None \<Rightarrow> None
      | Some (s', c) \<Rightarrow> Some (s', c(0 := take (length s - length s') s)))"

text \<open>\<open>re.search(r, s)\<close>: the leftmost position where \<open>r\<close> matches.\<close>

fun re_search :: "rx \<Rightarrow> string \<Rightarrow> caps option" where
  "re_search r s =
     (case match_here r s of
        Some (s', c) \<Rightarrow> Some c
      | None \<Rightarrow> (case s of [] \<Rightarrow> None | _ # t \<Rightarrow> re_search r t))"

text \<open>\<open>re.findall(r, s)\<close>: the successive non-overlapping matches, scanning on from the
  end of each match (one character further after an empty match).  The caller reads the
  groups it needs from each match, as \<open>[list(m) for m in matches]\<close> does.\<close>

function re_findall :: "rx \<Rightarrow> string \<Rightarrow> caps list" where
  "re_findall r s =
     (case match_here r s of
        Some (s', c) \<Rightarrow>
          c # (if length s' < length s then re_findall r s'
               else (case s of [] \<Rightarrow> [] | _ # t \<Rightarrow> re_findall r t))
      | None \<Rightarrow> (case s of [] \<Rightarrow> [] | _ # t \<Rightarrow> re_findall r t))"
  by pat_completeness auto
termination
  by (relation "measure (\<lambda>(r, s). length s)") auto

declare re_search.simps [simp del] re_findall.simps [simp del]

lemmas regex_eval [eval_simps] =
  match_here_def no_caps_def re_search.simps re_findall.simps plus_def opt_def

subsection \<open>Language semantics and soundness of the matcher\<close>

inductive rmatch :: "rx \<Rightarrow> string \<Rightarrow> bool" where
  ratom: "cls_match a x \<Longrightarrow> rmatch (Atom a) [x]"
| rseq: "rmatch r1 u \<Longrightarrow> rmatch r2 v \<Longrightarrow> rmatch (Seq r1 r2) (u @ v)"
| ralt1: "rmatch r1 u \<Longrightarrow> rmatch (Alt r1 r2) u"
| ralt2: "rmatch r2 u \<Longrightarrow> rmatch (Alt r1 r2) u"
| rstar0: "rmatch (Star r) []"
| rstar: "rmatch r u \<Longrightarrow> rmatch (Star r) v \<Longrightarrow> rmatch (Star r) (u @ v)"
| rlazy0: "rmatch (Lazy r) []"
| rlazy: "rmatch r u \<Longrightarrow> rmatch (Lazy r) v \<Longrightarrow> rmatch (Lazy r) (u @ v)"
| rgrp: "rmatch r u \<Longrightarrow> rmatch (Grp i r) u"
| reps: "rmatch Eps []"

text \<open>A stack of frames matches the concatenation of what its regular expressions match;
  the bookkeeping frames match the empty string.\<close>

inductive smatch :: "frame list \<Rightarrow> string \<Rightarrow> bool" where
  snil: "smatch [] []"
| sF: "rmatch r u \<Longrightarrow> smatch st v \<Longrightarrow> smatch (F r # st) (u @ v)"
| sclose: "smatch st v \<Longrightarrow> smatch (Close i s0 # st) v"
| schk: "smatch st v \<Longrightarrow> smatch (Chk n # st) v"

inductive_simps smatch_F [simp]: "smatch (F r # st) w"
inductive_simps smatch_Close [simp]: "smatch (Close i s0 # st) w"
inductive_simps smatch_Chk [simp]: "smatch (Chk n # st) w"
inductive_simps smatch_Nil [simp]: "smatch [] w"

lemma smatch_F_intro: "rmatch r u \<Longrightarrow> smatch st v \<Longrightarrow> w = u @ v \<Longrightarrow> smatch (F r # st) w"
  using sF by blast

lemma bt_sound: "bt st s c = Some (s', c') \<Longrightarrow> \<exists>u. s = u @ s' \<and> smatch st u"
proof (induction st s c arbitrary: s' c' rule: bt.induct)
  case (1 s c)
  then show ?case by auto
next
  case (2 a st s c)
  then obtain x t where s: "s = x # t" and a: "cls_match a x" and t: "bt st t c = Some (s', c')"
    by (auto split: list.splits if_splits)
  from "2.IH" [OF s a t] obtain u where "t = u @ s'" and "smatch st u" by blast
  moreover from a \<open>smatch st u\<close> have "smatch (F (Atom a) # st) ([x] @ u)"
    by (intro sF ratom)
  ultimately show ?case using s by auto
next
  case (3 r1 r2 st s c)
  from "3.prems" have "bt (F r1 # F r2 # st) s c = Some (s', c')" by simp
  from "3.IH" [OF this] obtain u where s: "s = u @ s'" and "smatch (F r1 # F r2 # st) u"
    by blast
  then obtain u1 u2 u3 where "u = u1 @ u2 @ u3" "rmatch r1 u1" "rmatch r2 u2" "smatch st u3"
    by auto
  then have "smatch (F (Seq r1 r2) # st) u"
    by (intro smatch_F_intro [of _ "u1 @ u2" _ u3] rseq) simp_all
  with s show ?case by blast
next
  case (4 r1 r2 st s c)
  show ?case
  proof (cases "bt (F r1 # st) s c")
    case None
    with "4.prems" have "bt (F r2 # st) s c = Some (s', c')" by simp
    from "4.IH"(2) [OF None this] obtain u where "s = u @ s'" and "smatch (F r2 # st) u"
      by blast
    then show ?thesis by (auto intro: ralt2)
  next
    case (Some m)
    with "4.prems" have "bt (F r1 # st) s c = Some (s', c')" by simp
    from "4.IH"(1) [OF this] obtain u where "s = u @ s'" and "smatch (F r1 # st) u"
      by blast
    then show ?thesis by (auto intro: ralt1)
  qed
next
  case (5 r st s c)
  show ?case
  proof (cases "bt (F r # Chk (length s) # F (Star r) # st) s c")
    case None
    with "5.prems" have "bt st s c = Some (s', c')" by simp
    from "5.IH"(2) [OF None this] obtain u where "s = u @ s'" and "smatch st u" by blast
    moreover have "smatch (F (Star r) # st) ([] @ u)"
      using \<open>smatch st u\<close> by (intro sF rstar0)
    ultimately show ?thesis by auto
  next
    case (Some m)
    with "5.prems" have "bt (F r # Chk (length s) # F (Star r) # st) s c = Some (s', c')"
      by simp
    from "5.IH"(1) [OF this] obtain u where s: "s = u @ s'"
      and "smatch (F r # Chk (length s) # F (Star r) # st) u" by blast
    then obtain u1 u2 u3 where "u = u1 @ u2 @ u3" "rmatch r u1" "rmatch (Star r) u2" "smatch st u3"
      by auto
    then have "smatch (F (Star r) # st) u"
      by (intro smatch_F_intro [of _ "u1 @ u2" _ u3] rstar) simp_all
    with s show ?thesis by blast
  qed
next
  case (6 r st s c)
  show ?case
  proof (cases "bt st s c")
    case None
    with "6.prems" have "bt (F r # Chk (length s) # F (Lazy r) # st) s c = Some (s', c')"
      by simp
    from "6.IH"(2) [OF None this] obtain u where s: "s = u @ s'"
      and "smatch (F r # Chk (length s) # F (Lazy r) # st) u" by blast
    then obtain u1 u2 u3 where "u = u1 @ u2 @ u3" "rmatch r u1" "rmatch (Lazy r) u2" "smatch st u3"
      by auto
    then have "smatch (F (Lazy r) # st) u"
      by (intro smatch_F_intro [of _ "u1 @ u2" _ u3] rlazy) simp_all
    with s show ?thesis by blast
  next
    case (Some m)
    with "6.prems" have "bt st s c = Some (s', c')" by simp
    from "6.IH"(1) [OF this] obtain u where "s = u @ s'" and "smatch st u" by blast
    moreover have "smatch (F (Lazy r) # st) ([] @ u)"
      using \<open>smatch st u\<close> by (intro sF rlazy0)
    ultimately show ?thesis by auto
  qed
next
  case (7 i r st s c)
  from "7.prems" have "bt (F r # Close i s # st) s c = Some (s', c')" by simp
  from "7.IH" [OF this] obtain u where "s = u @ s'" and "smatch (F r # Close i s # st) u"
    by blast
  then show ?case by (auto intro: rgrp)
next
  case (8 st s c)
  from "8.prems" have "bt st s c = Some (s', c')" by simp
  from "8.IH" [OF this] obtain u where "s = u @ s'" and "smatch st u" by blast
  moreover have "smatch (F Eps # st) ([] @ u)"
    using \<open>smatch st u\<close> by (intro sF reps)
  ultimately show ?case by auto
next
  case (9 i s0 st s c)
  from "9.prems" have "bt st s (c(i := take (length s0 - length s) s0)) = Some (s', c')" by simp
  from "9.IH" [OF this] show ?case by auto
next
  case (10 n st s c)
  from "10.prems" have lt: "length s < n" and "bt st s c = Some (s', c')"
    by (auto split: if_splits)
  from "10.IH" [OF this] show ?case by auto
qed

text \<open>What \<open>match_here\<close> consumes is a word of the language of the expression, and it
  is group 0.\<close>

lemma match_here_sound:
  assumes "match_here r s = Some (s', c)"
  shows "s = c 0 @ s' \<and> rmatch r (c 0)"
proof -
  obtain c1 where bt: "bt [F r] s no_caps = Some (s', c1)"
    and c: "c = c1(0 := take (length s - length s') s)"
    using assms unfolding match_here_def by (auto split: option.splits)
  from bt_sound [OF bt] obtain u where u: "s = u @ s'" and "smatch [F r] u" by blast
  then have "rmatch r u" by simp
  moreover from u c have "c 0 = u" by simp
  ultimately show ?thesis using u by simp
qed

text \<open>Every match the model of \<open>re.findall\<close> returns (as used by every regular-expression
  strategy) is a word of the language of the pattern, and it occurs in the input.\<close>

lemma re_findall_sound:
  "c \<in> set (re_findall r s) \<Longrightarrow> rmatch r (c 0) \<and> (\<exists>a b. s = a @ c 0 @ b)"
proof (induction s rule: length_induct)
  case (1 s)
  note eq = re_findall.simps [of r s]
  show ?case
  proof (cases "match_here r s")
    case None
    show ?thesis
    proof (cases s)
      case Nil
      with None "1.prems" eq show ?thesis by simp
    next
      case (Cons x t)
      with None "1.prems" eq have "c \<in> set (re_findall r t)" by simp
      with "1.IH" Cons obtain a b where "rmatch r (c 0)" "t = a @ c 0 @ b" by force
      moreover from this Cons have "s = (x # a) @ c 0 @ b" by simp
      ultimately show ?thesis by blast
    qed
  next
    case (Some m)
    obtain s' c' where m: "m = (s', c')" by fastforce
    with Some have sound: "s = c' 0 @ s'" "rmatch r (c' 0)"
      using match_here_sound by blast+
    from "1.prems" eq Some m consider "c = c'"
      | "length s' < length s" "c \<in> set (re_findall r s')"
      | x t where "\<not> length s' < length s" "s = x # t" "c \<in> set (re_findall r t)"
      by (auto split: list.splits if_splits)
    then show ?thesis
    proof cases
      case 1
      with sound have "s = [] @ c 0 @ s'" "rmatch r (c 0)" by simp_all
      then show ?thesis by blast
    next
      case 2
      with "1.IH" obtain a b where "rmatch r (c 0)" "s' = a @ c 0 @ b" by blast
      moreover from this sound have "s = (c' 0 @ a) @ c 0 @ b" by simp
      ultimately show ?thesis by blast
    next
      case (3 x t)
      with "1.IH" obtain a b where "rmatch r (c 0)" "t = a @ c 0 @ b" by force
      moreover from this 3 have "s = (x # a) @ c 0 @ b" by simp
      ultimately show ?thesis by blast
    qed
  qed
qed

end
