(* ===== verification/Strategies.thy ===== *)
theory Strategies
  imports Regex
begin

text \<open>
  The extraction strategies of \<open>src/2_inference_module/post_process_generated_string.py\<close>,
  one definition per Python function, in the order of the file.  Each returns what the
  Python function returns: the extracted structure, or its own ``not found'' sentence
  (the sentinel).  Exceptions the function catches become that sentinel (\<open>py_try\<close>);
  the one function without a \<open>try\<close>, \<open>extract_enumerated_list_of_tuples\<close>, returns a
  \<open>pyval pyres\<close>, so that the exception it lets escape is visible.  The two library
  parsers the strategies call, \<open>json.loads\<close> and \<open>ast.literal_eval\<close>, are an interface
  (\<open>pylib\<close>): the lemmas of the cascade hold for any implementation of them, and the
  concrete models of \<open>Json\<close> and \<open>LiteralEval\<close> instantiate it.
\<close>

record pylib =
  loads :: "string \<Rightarrow> pyval pyres"
  literal_eval :: "string \<Rightarrow> pyval pyres"

subsection \<open>The sentinel sentences\<close>

definition S_regex :: string where "S_regex = ''Structure may be in the text. Try REGEX.''"
definition S_dict_strings :: string where "S_dict_strings = ''No enumerated dict strings found in the text.''"
definition S_series :: string where "S_series = ''No series of lists found in the text.''"
definition S_lol :: string where "S_lol = ''No list of lists found in the text.''"
definition S_lod :: string where "S_lod = ''List of dictionaries not found in the text.''"
definition S_json :: string where "S_json = ''JSON string not found in the text.''"
definition S_tuples :: string where "S_tuples = ''No list of tuples found in the text.''"
definition S_enum_list :: string where "S_enum_list = ''No enumerated list found in the text.''"
definition S_enum_dicts :: string where "S_enum_dicts = ''No enumerated dicts found in the text.''"
definition S_enum_lot :: string where "S_enum_lot = ''No enumerated list of tuples found in the text.''"
definition S_enum_tuples :: string where "S_enum_tuples = ''No enumerated tuples found in the text.''"
definition S_dash_tuples :: string where "S_dash_tuples = ''No enumerated tuples seperated by - found in the text.''"
definition S_enum_dash :: string where "S_enum_dash = ''No enumerated items separated by - found in the text.''"
definition S_none :: string where "S_none = ''No structure found in the text.''"

lemmas sentinel_defs [eval_simps] =
  S_regex_def S_dict_strings_def S_series_def S_lol_def S_lod_def S_json_def S_tuples_def
  S_enum_list_def S_enum_dicts_def S_enum_lot_def S_enum_tuples_def S_dash_tuples_def
  S_enum_dash_def S_none_def

subsection \<open>Helpers for the comprehensions over matches\<close>

text \<open>\<open>[list(match) for match in matches]\<close> for a pattern with three groups.\<close>

definition triple_list :: "caps \<Rightarrow> pyval" where
  "triple_list c = PList [PStr (c 1), PStr (c 2), PStr (c 3)]"

definition str_list :: "string list \<Rightarrow> pyval" where
  "str_list ps = PList (map PStr ps)"

definition loads_val :: "pylib \<Rightarrow> pyval \<Rightarrow> pyval pyres" where
  "loads_val lib v = (case v of PStr s \<Rightarrow> loads lib s | _ \<Rightarrow> Inl TypeError)"

declare triple_list_def [eval_simps] str_list_def [eval_simps] loads_val_def [eval_simps]

subsection \<open>Strategy 1: the whole text as a data structure\<close>

definition load_structure :: "pylib \<Rightarrow> string \<Rightarrow> pyval" where
  "load_structure lib text =
     (let extraction = py_try (loads lib text) (PStr S_regex) in
      if extraction = PStr S_regex then
        py_try
          (pbind (literal_eval lib text) (\<lambda>e.
           pbind (pbind (py_in (PStr ''triples'') e) (\<lambda>has_triples.
                    if has_triples then py_getitem e (PStr ''triples'')
                    else pbind (py_in (PStr ''triple'') e) (\<lambda>has_triple.
                           if has_triple then py_getitem e (PStr ''triple'') else Inr e))) (\<lambda>e'.
           loads_val lib e')))
          (PStr S_regex)
      else extraction)"

subsection \<open>The regular-expression strategies\<close>

text \<open>\<open>\['(.*?)', '(.*?)', '(.*?)'\]\<close>\<close>

definition pat_series :: rx where
  "pat_series = seqs [lit (''['' @ [sq]), Grp 1 (Lazy (Atom CDot)), lit ([sq] @ '', '' @ [sq]),
                      Grp 2 (Lazy (Atom CDot)), lit ([sq] @ '', '' @ [sq]),
                      Grp 3 (Lazy (Atom CDot)), lit ([sq] @ '']'')]"

definition extract_series_of_lists :: "string \<Rightarrow> pyval" where
  "extract_series_of_lists text =
     (let extraction = PList (map triple_list (re_findall pat_series text)) in
      if extraction = PList [] then PStr S_series else extraction)"

text \<open>\<open>(\[\[.*?\]\])\<close> with \<open>re.DOTALL\<close>, then \<open>\['(.*?)',\s*'(.*?)',\s*'(.*?)'\]\<close>.\<close>

definition pat_lol_block :: rx where
  "pat_lol_block = Grp 1 (seqs [lit ''[['', Lazy (Atom CAll), lit '']]''])"

definition pat_lol_triple :: rx where
  "pat_lol_triple = seqs [lit (''['' @ [sq]), Grp 1 (Lazy (Atom CDot)), lit ([sq] @ '',''),
                          Star (Atom CSpace), lit [sq], Grp 2 (Lazy (Atom CDot)), lit ([sq] @ '',''),
                          Star (Atom CSpace), lit [sq], Grp 3 (Lazy (Atom CDot)), lit ([sq] @ '']'')]"

text \<open>\<open>pattern.search(text).group(1)\<close> raises \<open>AttributeError\<close> when there is no match,
  which the \<open>except\<close> turns into the sentinel.\<close>

definition extract_list_of_lists :: "string \<Rightarrow> pyval" where
  "extract_list_of_lists text =
     py_try
       (case re_search pat_lol_block text of
          None \<Rightarrow> Inl AttributeError
        | Some m \<Rightarrow> Inr (PList (map triple_list (re_findall pat_lol_triple (m 1)))))
       (PStr S_lol)"

text \<open>\<open>\[\s*\{.*?\}\s*\]\<close> with \<open>re.DOTALL\<close>, parsed by \<open>ast.literal_eval\<close>.\<close>

definition pat_lod :: rx where
  "pat_lod = seqs [lit ''['', Star (Atom CSpace), lit ''{'', Lazy (Atom CAll), lit ''}'',
                   Star (Atom CSpace), lit '']'']"

definition extract_list_of_dicts :: "pylib \<Rightarrow> string \<Rightarrow> pyval" where
  "extract_list_of_dicts lib text =
     (case re_search pat_lod text of
        Some m \<Rightarrow> py_try (literal_eval lib (m 0)) (PStr S_lod)
      | None \<Rightarrow> PStr S_lod)"

text \<open>\<open>```(?:json)?\n([\s\S]*?)\n```\<close>; the last fenced block is decoded.\<close>

definition pat_json_block :: rx where
  "pat_json_block = seqs [lit ''```'', opt (lit ''json''), lit [nl], Grp 1 (Lazy (Atom CAll)),
                          lit ([nl] @ ''```'')]"

definition extract_json_string :: "pylib \<Rightarrow> string \<Rightarrow> pyval" where
  "extract_json_string lib text =
     (let match = map (\<lambda>m. m 1) (re_findall pat_json_block text) in
      py_try (pbind (py_index match (-1)) (loads lib)) (PStr S_json))"

text \<open>\<open>\("([^"]+)", "([^"]+)", "([^"]+)"\)\<close>\<close>

definition pat_tuples :: rx where
  "pat_tuples = seqs [lit (''('' @ [dq]), Grp 1 (plus (Atom (CNot [dq]))), lit ([dq] @ '', '' @ [dq]),
                      Grp 2 (plus (Atom (CNot [dq]))), lit ([dq] @ '', '' @ [dq]),
                      Grp 3 (plus (Atom (CNot [dq]))), lit ([dq] @ '')'')]"

definition extract_list_of_tuples :: "string \<Rightarrow> pyval" where
  "extract_list_of_tuples text =
     (let extraction = PList (map triple_list (re_findall pat_tuples text)) in
      if extraction = PList [] then PStr S_tuples else extraction)"

text \<open>\<open>\d+\.\s+\[(.*?)\]\<close>, shared by the enumerated lists and the enumerated tuples.\<close>

definition pat_enum_list :: rx where
  "pat_enum_list = seqs [plus (Atom CDigit), lit ''.'', plus (Atom CSpace), lit ''['',
                         Grp 1 (Lazy (Atom CDot)), lit '']'']"

definition extract_enumerated_lists :: "string \<Rightarrow> pyval" where
  "extract_enumerated_lists text =
     py_try
       (let items = map (\<lambda>m. m 1) (re_findall pat_enum_list text) in
        pbind (pmap (\<lambda>item. map_sum id str_list (py_split '', '' (py_replace [sq] [] item))) items)
          (\<lambda>extraction. Inr (if extraction = [] then PStr S_enum_list else PList extraction)))
       (PStr S_enum_list)"

text \<open>\<open>\d+\.\s+({.*?})\<close>, each item decoded by \<open>json.loads\<close>; a failure of any item
  empties the whole list.\<close>

definition pat_enum_dicts :: rx where
  "pat_enum_dicts = seqs [plus (Atom CDigit), lit ''.'', plus (Atom CSpace),
                          Grp 1 (seqs [lit ''{'', Lazy (Atom CDot), lit ''}''])]"

definition extract_enumerated_dicts :: "pylib \<Rightarrow> string \<Rightarrow> pyval" where
  "extract_enumerated_dicts lib text =
     (let items = map (\<lambda>m. m 1) (re_findall pat_enum_dicts text);
          extraction = py_try (map_sum id PList (pmap (loads lib) items)) (PList [])
      in if extraction = PList [] then PStr S_enum_dicts else extraction)"

text \<open>No \<open>try\<close> here: an item that \<open>ast.literal_eval\<close> rejects raises out of the function.\<close>

definition extract_enumerated_list_of_tuples :: "pylib \<Rightarrow> string \<Rightarrow> pyval pyres" where
  "extract_enumerated_list_of_tuples lib text =
     (let items = map (\<lambda>m. m 1) (re_findall pat_enum_list text) in
      pbind (pmap (literal_eval lib) items)
        (\<lambda>extraction. Inr (if extraction = [] then PStr S_enum_lot else PList extraction)))"

text \<open>\<open>\(\s*(.*?)\s*,\s*(.*?)\s*,\s*(.*?)\s*\)\<close>\<close>

definition pat_enum_tuples :: rx where
  "pat_enum_tuples = seqs [lit ''('', Star (Atom CSpace), Grp 1 (Lazy (Atom CDot)), Star (Atom CSpace),
                           lit '','', Star (Atom CSpace), Grp 2 (Lazy (Atom CDot)), Star (Atom CSpace),
                           lit '','', Star (Atom CSpace), Grp 3 (Lazy (Atom CDot)), Star (Atom CSpace),
                           lit '')'']"

definition extract_enumerated_tuples :: "string \<Rightarrow> pyval" where
  "extract_enumerated_tuples text =
     (let extraction = PList (map triple_list (re_findall pat_enum_tuples text)) in
      if extraction = PList [] then PStr S_enum_tuples else extraction)"

text \<open>\<open>\d+\.\s+(.*?)\n\<close>, each item without double quotes split at \<open>' - '\<close>.\<close>

definition pat_dash_tuples :: rx where
  "pat_dash_tuples = seqs [plus (Atom CDigit), lit ''.'', plus (Atom CSpace), Grp 1 (Lazy (Atom CDot)),
                           lit [nl]]"

definition extract_dash_separeted_tuples :: "string \<Rightarrow> pyval" where
  "extract_dash_separeted_tuples text =
     py_try
       (let items = map (\<lambda>m. m 1) (re_findall pat_dash_tuples text) in
        pbind (pmap (\<lambda>item. map_sum id str_list (py_split '' - '' (py_replace [dq] [] item))) items)
          (\<lambda>extraction. Inr (if extraction = [] then PStr S_dash_tuples else PList extraction)))
       (PStr S_dash_tuples)"

text \<open>\<open>\d+\.\s*([^\n]+)\<close>: only the last enumerated line is used, cut at every \<open>.\<close>, and
  the pieces holding \<open>' - '\<close> are split there.\<close>

definition pat_enum_dash :: rx where
  "pat_enum_dash = seqs [plus (Atom CDigit), lit ''.'', Star (Atom CSpace), Grp 1 (plus (Atom (CNot [nl])))]"

definition extract_enumerated_dash_separated_strings :: "string \<Rightarrow> pyval" where
  "extract_enumerated_dash_separated_strings text =
     (let extraction =
        py_try
          (let matches = map (\<lambda>m. m 1) (re_findall pat_enum_dash text) in
           pbind (py_index matches (-1)) (\<lambda>last_match.
           pbind (py_split ''.'' last_match) (\<lambda>pieces.
           pbind (pmap (py_split '' - '') (filter (\<lambda>i. contains_str i '' - '') pieces)) (\<lambda>parts.
           Inr (PList (map str_list parts))))))
          (PStr S_enum_dash)
      in if extraction = PList [] then PStr S_enum_dash else extraction)"

text \<open>\<open>Subject: (.*?), Predicate: (.*?), Object: (.*?)\n\<close>\<close>

definition pat_dict_strings :: rx where
  "pat_dict_strings = seqs [lit ''Subject: '', Grp 1 (Lazy (Atom CDot)), lit '', Predicate: '',
                            Grp 2 (Lazy (Atom CDot)), lit '', Object: '', Grp 3 (Lazy (Atom CDot)), lit [nl]]"

definition extract_enumerated_dict_strings :: "string \<Rightarrow> pyval" where
  "extract_enumerated_dict_strings text =
     (let triples = map (\<lambda>m. PDict [(PStr ''subject'', PStr (m 1)), (PStr ''predicate'', PStr (m 2)),
                                     (PStr ''object'', PStr (m 3))])
                        (re_findall pat_dict_strings text)
      in if triples = [] then PStr S_dict_strings else PList triples)"

text \<open>\<open>Subject: (.*?)\n\nPredicate: (.*?)\n\nObject: (.*?)\n\n\<close> with \<open>re.DOTALL\<close>.  The
  loop only rebinds \<open>triple\<close>; the single \<open>triples.append(triple)\<close> after it appends the
  last one, and raises \<open>NameError\<close> when there was no match (\<open>triple\<close> unbound).\<close>

definition pat_dict_strings2 :: rx where
  "pat_dict_strings2 = seqs [lit ''Subject: '', Grp 1 (Lazy (Atom CAll)), lit ([nl, nl] @ ''Predicate: ''),
                             Grp 2 (Lazy (Atom CAll)), lit ([nl, nl] @ ''Object: ''),
                             Grp 3 (Lazy (Atom CAll)), lit [nl, nl]]"

definition extract_enumerated_dict_strings2 :: "string \<Rightarrow> pyval" where
  "extract_enumerated_dict_strings2 text =
     py_try
       (let matches = re_findall pat_dict_strings2 text;
            triple = foldl (\<lambda>_ m. Some (PDict [(PStr ''Subject'', PStr (py_strip (m 1))),
                                                (PStr ''Predicate'', PStr (py_strip (m 2))),
                                                (PStr ''Object'', PStr (py_strip (m 3)))])) None matches
        in case triple of
             None \<Rightarrow> Inl NameError
           | Some t \<Rightarrow> (let triples = [t] in
                         Inr (if triples = [] then PStr S_dict_strings else PList triples)))
       (PStr S_dict_strings)"

lemmas pattern_defs [eval_simps] =
  pat_series_def pat_lol_block_def pat_lol_triple_def pat_lod_def pat_json_block_def pat_tuples_def
  pat_enum_list_def pat_enum_dicts_def pat_enum_tuples_def pat_dash_tuples_def pat_enum_dash_def
  pat_dict_strings_def pat_dict_strings2_def

lemmas strategy_defs [eval_simps] =
  load_structure_def extract_series_of_lists_def extract_list_of_lists_def
  extract_list_of_dicts_def extract_json_string_def extract_list_of_tuples_def
  extract_enumerated_lists_def extract_enumerated_dicts_def extract_enumerated_list_of_tuples_def
  extract_enumerated_tuples_def extract_dash_separeted_tuples_def
  extract_enumerated_dash_separated_strings_def extract_enumerated_dict_strings_def
  extract_enumerated_dict_strings2_def

subsection \<open>Properties of the strategies\<close>

lemma foldl_const_Some:
  "foldl (\<lambda>_ m. Some (g m)) a ms = (if ms = [] then a else Some (g (last ms)))"
  by (induction ms arbitrary: a) auto

text \<open>C5: the blank-line variant of the labelled-field strategy keeps only the last
  \<open>Subject:/Predicate:/Object:\<close> block of the text: the \<open>append\<close> sits after the loop.  With
  no block at all, the \<open>NameError\<close> of the unbound \<open>triple\<close> becomes the sentinel.\<close>

theorem dict_strings2_last_only:
  "extract_enumerated_dict_strings2 text =
     (if re_findall pat_dict_strings2 text = [] then PStr S_dict_strings
      else (let m = last (re_findall pat_dict_strings2 text) in
            PList [PDict [(PStr ''Subject'', PStr (py_strip (m 1))),
                          (PStr ''Predicate'', PStr (py_strip (m 2))),
                          (PStr ''Object'', PStr (py_strip (m 3)))]]))"
  by (simp add: extract_enumerated_dict_strings2_def foldl_const_Some Let_def)

text \<open>Splitting at a nonempty separator never raises.\<close>

lemma py_split_sep_Inr: "sep \<noteq> [] \<Longrightarrow> \<exists>ps. py_split sep s = Inr ps"
  by (simp add: py_split_def)

lemma pmap_split_Inr:
  "sep \<noteq> [] \<Longrightarrow> \<exists>ys. pmap (\<lambda>item. map_sum id str_list (py_split sep (g item))) xs = Inr ys \<and> length ys = length xs"
  by (induction xs) (auto simp: py_split_def)

text \<open>The enumerated-list strategy answers its sentinel exactly when no line
  \<open>N. [...]\<close> is found.\<close>

lemma enumerated_lists_sentinel_iff:
  "extract_enumerated_lists text = PStr S_enum_list \<longleftrightarrow> re_findall pat_enum_list text = []"
proof -
  obtain ys where ys: "pmap (\<lambda>item. map_sum id str_list (py_split '', '' (py_replace [sq] [] item)))
                          (map (\<lambda>m. m 1) (re_findall pat_enum_list text)) = Inr ys"
             and len: "length ys = length (re_findall pat_enum_list text)"
    using pmap_split_Inr [of "'', ''" "py_replace [sq] []" "map (\<lambda>m. m 1) (re_findall pat_enum_list text)"]
    by auto
  show ?thesis
    unfolding extract_enumerated_lists_def Let_def ys using len by auto
qed

text \<open>C6: when the enumerated-list strategy finds nothing, the enumerated-tuple strategy,
  which reads the same lines \<open>N. [...]\<close>, finds nothing either.  So in a cascade where each
  strategy runs only after the earlier ones found nothing, the enumerated-tuple strategy never
  contributes a result.\<close>

theorem enumerated_tuples_redundant:
  "extract_enumerated_lists text = PStr S_enum_list \<Longrightarrow>
   extract_enumerated_list_of_tuples lib text = Inr (PStr S_enum_lot)"
  by (simp add: enumerated_lists_sentinel_iff extract_enumerated_list_of_tuples_def)

end
