(* ===== verification/Cascade.thy ===== *)
theory Cascade
  imports Strategies
begin

text \<open>
  The post-processing loop of \<open>main()\<close> in
  \<open>src/2_inference_module/post_process_generated_string.py\<close> (lines 247--306): the
  cascade of strategies, the conversion of sets, and the final ``no structure'' case.
  The code chains the strategies by comparing the current extraction with the sentinel
  sentence of the strategy before (\<open>if extraction == "...": extraction = f(text)\<close>);
  \<open>cascade_checks\<close> lists those fourteen tests in order and \<open>run_checks\<close> runs them.
  The specification's design (a chain of responsibility over typed results: the first
  strategy that finds something wins) is \<open>chain\<close> over \<open>strategy_chain\<close>; the refinement
  theorem at the end proves that the code implements it whenever no strategy produces the
  sentinel sentence of a later strategy (\<open>clean\<close>).
\<close>

subsection \<open>The code's chain of sentinel tests\<close>

fun run_checks :: "(string \<times> (string \<Rightarrow> pyval pyres)) list \<Rightarrow> string \<Rightarrow> pyval \<Rightarrow> pyval pyres" where
  "run_checks [] text extraction = Inr extraction"
| "run_checks ((sentinel, f) # cs) text extraction =
     (if extraction = PStr sentinel
      then pbind (f text) (run_checks cs text)
      else run_checks cs text extraction)"

definition cascade_checks :: "pylib \<Rightarrow> (string \<times> (string \<Rightarrow> pyval pyres)) list" where
  "cascade_checks lib =
     [(S_regex, \<lambda>t. Inr (extract_enumerated_dict_strings t)),
      (S_dict_strings, \<lambda>t. Inr (extract_enumerated_dict_strings2 t)),
      (S_dict_strings, \<lambda>t. Inr (extract_series_of_lists t)),
      (S_series, \<lambda>t. Inr (extract_list_of_lists t)),
      (S_lol, \<lambda>t. Inr (extract_list_of_dicts lib t)),
      (S_lod, \<lambda>t. Inr (extract_json_string lib t)),
      (S_json, \<lambda>t. Inr (extract_list_of_tuples t)),
      (S_tuples, \<lambda>t. Inr (extract_enumerated_lists t)),
      (S_enum_list, \<lambda>t. Inr (extract_enumerated_dash_separated_strings t)),
      (S_enum_dash, \<lambda>t. Inr (extract_enumerated_dicts lib t)),
      (S_enum_dicts, \<lambda>t. extract_enumerated_list_of_tuples lib t),
      (S_enum_lot, \<lambda>t. Inr (extract_enumerated_tuples t)),
      (S_enum_tuples, \<lambda>t. Inr (extract_dash_separeted_tuples t)),
      (S_dash_tuples, \<lambda>t. Inr (PStr S_none))]"

definition cascade :: "pylib \<Rightarrow> string \<Rightarrow> pyval pyres" where
  "cascade lib text = run_checks (cascade_checks lib) text (load_structure lib text)"

text \<open>Lines 294--300.  The loop keeps a new list of the items that are sets, each turned
  into a list, and rebinds \<open>extraction\<close> to it whenever it meets a set; iteration
  continues over the original list.\<close>

fun set_loop :: "pyval list \<Rightarrow> pyval list \<Rightarrow> pyval \<Rightarrow> pyval" where
  "set_loop [] new_extraction extraction = extraction"
| "set_loop (item # items) new_extraction extraction =
     (case item of
        PSet xs \<Rightarrow> set_loop items (new_extraction @ [PList xs]) (PList (new_extraction @ [PList xs]))
      | _ \<Rightarrow> set_loop items new_extraction extraction)"

definition normalize_sets :: "pyval \<Rightarrow> pyval" where
  "normalize_sets extraction =
     (case extraction of PList items \<Rightarrow> set_loop items [] extraction | _ \<Rightarrow> extraction)"

text \<open>One item of the input file: \<open>text = d["generated_text"].strip()\<close>, the cascade, the
  conversion of sets, and the last sentinel replaced by \<open>[]\<close>; the result is
  \<open>d['postprocessed']\<close>.\<close>

definition post_process :: "pylib \<Rightarrow> string \<Rightarrow> pyval pyres" where
  "post_process lib generated_text =
     (let text = py_strip generated_text in
      pbind (cascade lib text) (\<lambda>extraction.
        let extraction' = normalize_sets extraction in
        Inr (if extraction' = PStr S_none then PList [] else extraction')))"

text \<open>A whole file: the items in order; an exception escaping for one item ends the run
  before the file is written.\<close>

definition post_process_file :: "pylib \<Rightarrow> string list \<Rightarrow> pyval list pyres" where
  "post_process_file lib generated_texts = pmap (post_process lib) generated_texts"

lemmas cascade_eval [eval_simps] =
  cascade_checks_def cascade_def normalize_sets_def post_process_def post_process_file_def

subsection \<open>The specification: a chain of responsibility\<close>

text \<open>Each strategy with its own ``nothing found'' sentence, in the cascade's order; the
  last entry is the final \<open>"No structure found in the text."\<close>.\<close>

definition strategy_chain :: "pylib \<Rightarrow> ((string \<Rightarrow> pyval pyres) \<times> string) list" where
  "strategy_chain lib =
     [(\<lambda>t. Inr (load_structure lib t), S_regex),
      (\<lambda>t. Inr (extract_enumerated_dict_strings t), S_dict_strings),
      (\<lambda>t. Inr (extract_enumerated_dict_strings2 t), S_dict_strings),
      (\<lambda>t. Inr (extract_series_of_lists t), S_series),
      (\<lambda>t. Inr (extract_list_of_lists t), S_lol),
      (\<lambda>t. Inr (extract_list_of_dicts lib t), S_lod),
      (\<lambda>t. Inr (extract_json_string lib t), S_json),
      (\<lambda>t. Inr (extract_list_of_tuples t), S_tuples),
      (\<lambda>t. Inr (extract_enumerated_lists t), S_enum_list),
      (\<lambda>t. Inr (extract_enumerated_dash_separated_strings t), S_enum_dash),
      (\<lambda>t. Inr (extract_enumerated_dicts lib t), S_enum_dicts),
      (\<lambda>t. extract_enumerated_list_of_tuples lib t, S_enum_lot),
      (\<lambda>t. Inr (extract_enumerated_tuples t), S_enum_tuples),
      (\<lambda>t. Inr (extract_dash_separeted_tuples t), S_dash_tuples),
      (\<lambda>t. Inr (PStr S_none), S_none)]"

declare strategy_chain_def [eval_simps]

text \<open>The first strategy whose result is not its own sentinel wins; \<open>None\<close> is
  ``unrecoverable''.\<close>

fun chain :: "((string \<Rightarrow> pyval pyres) \<times> string) list \<Rightarrow> string \<Rightarrow> pyval option pyres" where
  "chain [] text = Inr None"
| "chain ((f, s) # fs) text =
     pbind (f text) (\<lambda>v. if v = PStr s then chain fs text else Inr (Some v))"

text \<open>No strategy's result is the sentinel sentence of a strategy after it.\<close>

fun clean :: "((string \<Rightarrow> pyval pyres) \<times> string) list \<Rightarrow> string \<Rightarrow> bool" where
  "clean [] text = True"
| "clean ((f, s) # fs) text =
     (case f text of
        Inl e \<Rightarrow> True
      | Inr v \<Rightarrow> if v = PStr s then clean fs text else list_all (\<lambda>s'. v \<noteq> PStr s') (map snd fs))"

text \<open>The sentinel tests the code performs are the chain's sentinels shifted by one: each
  test compares with the sentinel of the strategy before.\<close>

fun checks :: "string \<Rightarrow> ((string \<Rightarrow> pyval pyres) \<times> string) list \<Rightarrow> (string \<times> (string \<Rightarrow> pyval pyres)) list" where
  "checks s0 [] = []"
| "checks s0 ((f, s) # fs) = (s0, f) # checks s fs"

lemma run_checks_skip:
  "list_all (\<lambda>c. x \<noteq> PStr (fst c)) cs \<Longrightarrow> run_checks cs t x = Inr x"
  by (induction cs t x rule: run_checks.induct) auto

lemma checks_fst: "set (map fst (checks s0 fs)) \<subseteq> insert s0 (set (map snd fs))"
  by (induction s0 fs rule: checks.induct) auto

lemma run_checks_chain:
  "clean fs t \<Longrightarrow> last (s0 # map snd fs) = fin \<Longrightarrow>
   run_checks (checks s0 fs) t (PStr s0) =
     pbind (chain fs t) (\<lambda>r. Inr (case r of None \<Rightarrow> PStr fin | Some v \<Rightarrow> v))"
proof (induction fs arbitrary: s0)
  case Nil
  then show ?case by simp
next
  case (Cons fs0 fs)
  obtain f s where fs0: "fs0 = (f, s)" by fastforce
  have fin: "last (s # map snd fs) = fin"
    using Cons.prems(2) fs0 by simp
  show ?case
  proof (cases "f t")
    case (Inl e)
    with fs0 show ?thesis by simp
  next
    case (Inr v)
    show ?thesis
    proof (cases "v = PStr s")
      case True
      with Cons.prems fs0 Inr have "clean fs t" by simp
      from Cons.IH [OF this fin] True fs0 Inr show ?thesis by simp
    next
      case False
      with Cons.prems fs0 Inr have fresh: "list_all (\<lambda>s'. v \<noteq> PStr s') (map snd fs)" by simp
      have "list_all (\<lambda>c. v \<noteq> PStr (fst c)) (checks s fs)"
        using fresh False checks_fst [of s fs] by (auto simp: list_all_iff)
      with False fs0 Inr show ?thesis by (simp add: run_checks_skip)
    qed
  qed
qed

lemma cascade_checks_shift: "cascade_checks lib = checks S_regex (tl (strategy_chain lib))"
  by (simp add: cascade_checks_def strategy_chain_def)

lemma cascade_as_checks:
  "cascade lib t = run_checks (checks s0 (strategy_chain lib)) t (PStr s0)"
proof -
  have "strategy_chain lib = (\<lambda>t. Inr (load_structure lib t), S_regex) # tl (strategy_chain lib)"
    by (simp add: strategy_chain_def)
  then have "checks s0 (strategy_chain lib) =
             (s0, \<lambda>t. Inr (load_structure lib t)) # cascade_checks lib"
    by (metis cascade_checks_shift checks.simps(2))
  then show ?thesis by (simp add: cascade_def)
qed

lemma last_strategy_sentinel: "last (s0 # map snd (strategy_chain lib)) = S_none"
  by (simp add: strategy_chain_def)

text \<open>C1: when no strategy returns the ``not found'' sentence of a later strategy, the
  code's cascade of sentinel tests computes exactly the chain of responsibility of the
  specification: the first strategy that finds something gives the result, an exception
  of a strategy escapes, and when every strategy finds nothing the result is the final
  sentence \<open>"No structure found in the text."\<close>.\<close>

theorem cascade_refines_chain:
  "clean (strategy_chain lib) t \<Longrightarrow>
   cascade lib t =
     pbind (chain (strategy_chain lib) t) (\<lambda>r. Inr (case r of None \<Rightarrow> PStr S_none | Some v \<Rightarrow> v))"
  using run_checks_chain [OF _ last_strategy_sentinel] cascade_as_checks by metis

lemma no_sets_concat:
  "\<forall>xs. PSet xs \<notin> set items \<Longrightarrow>
   concat (map (\<lambda>v. case v of PSet xs \<Rightarrow> [PList xs] | _ \<Rightarrow> []) items) = []"
proof (induction items)
  case (Cons item items)
  then show ?case by (cases item) auto
qed simp

lemma set_loop_result:
  "set_loop items acc e =
     (if \<exists>xs. PSet xs \<in> set items
      then PList (acc @ concat (map (\<lambda>v. case v of PSet xs \<Rightarrow> [PList xs] | _ \<Rightarrow> []) items))
      else e)"
proof (induction items arbitrary: acc e)
  case Nil
  then show ?case by simp
next
  case (Cons item items)
  then show ?case by (cases item) (auto simp: no_sets_concat)
qed

text \<open>C7: the conversion of sets after the cascade keeps only the sets of a result list, each
  turned into a list, as soon as one item is a set: the other items are dropped.  A list
  without sets is unchanged.\<close>

theorem normalize_sets_result:
  "normalize_sets (PList items) =
     (if \<exists>xs. PSet xs \<in> set items
      then PList (concat (map (\<lambda>v. case v of PSet xs \<Rightarrow> [PList xs] | _ \<Rightarrow> []) items))
      else PList items)"
  by (simp add: normalize_sets_def set_loop_result)

end
