(* ===== verification/Json.thy ===== *)
theory Json
  imports Python
begin

text \<open>
  \<open>json.loads\<close> with Python's default decoder (the C scanner of \<open>_json\<close>): leading and
  trailing whitespace \<open>[ \t\n\r]*\<close>; objects (duplicate keys: the last value, at the
  position of the first key, as \<open>dict(pairs)\<close> does), arrays, strings with the escapes
  \<open>\" \\ \/ \b \f \n \r \t \uXXXX\<close> (surrogate pairs joined, code points written back as
  UTF-8) and no raw control characters, \<open>null\<close>, \<open>true\<close>, \<open>false\<close>, numbers
  (\<open>int\<close> without fraction and exponent, otherwise a float kept as its text),
  \<open>NaN\<close>, \<open>Infinity\<close>, \<open>-Infinity\<close>.  Any error is \<open>JSONDecodeError\<close>.
  The recursive descent carries fuel; \<open>json_loads\<close> starts with \<open>2 * length s + 1\<close>,
  and \<open>jvalue_enough_fuel\<close> shows that this never runs out, so the fuel error is never the
  result.  Python's recursion limit on very deep nesting is not modelled.
\<close>

datatype jerr = JDecode | JFuel

type_synonym 'a jres = "jerr + ('a \<times> string)"

definition is_jws :: "char \<Rightarrow> bool" where
  "is_jws c \<longleftrightarrow> c \<in> {CHR '' '', CHR 0x09, CHR 0x0A, CHR 0x0D}"

definition skip_ws :: "string \<Rightarrow> string" where
  "skip_ws s = dropWhile is_jws s"

definition is_digit :: "char \<Rightarrow> bool" where
  "is_digit c \<longleftrightarrow> 48 \<le> (of_char c :: nat) \<and> (of_char c :: nat) \<le> 57"

definition digit_val :: "char \<Rightarrow> nat" where
  "digit_val c = of_char c - 48"

definition digits_val :: "string \<Rightarrow> nat" where
  "digits_val ds = foldl (\<lambda>n d. 10 * n + digit_val d) 0 ds"

definition hex_val :: "char \<Rightarrow> nat option" where
  "hex_val c =
     (let n = (of_char c :: nat) in
      if 48 \<le> n \<and> n \<le> 57 then Some (n - 48)
      else if 65 \<le> n \<and> n \<le> 70 then Some (n - 55)
      else if 97 \<le> n \<and> n \<le> 102 then Some (n - 87)
      else None)"

text \<open>The four hex digits of a \<open>\uXXXX\<close> escape.\<close>

definition hex4 :: "string \<Rightarrow> nat option" where
  "hex4 s =
     (if length s = 4 then
        (case those (map hex_val s) of
           Some ds \<Rightarrow> Some (foldl (\<lambda>n d. 16 * n + d) 0 ds)
         | None \<Rightarrow> None)
      else None)"

definition utf8 :: "nat \<Rightarrow> string" where
  "utf8 u =
     (if u < 0x80 then [char_of u]
      else if u < 0x800 then [char_of (0xC0 + u div 64), char_of (0x80 + u mod 64)]
      else if u < 0x10000 then
        [char_of (0xE0 + u div 4096), char_of (0x80 + (u div 64) mod 64), char_of (0x80 + u mod 64)]
      else [char_of (0xF0 + u div 262144), char_of (0x80 + (u div 4096) mod 64),
            char_of (0x80 + (u div 64) mod 64), char_of (0x80 + u mod 64)])"

definition json_escape :: "char \<Rightarrow> char option" where
  "json_escape e =
     (if e = dq then Some dq else if e = bsl then Some bsl
      else if e = CHR ''/'' then Some (CHR ''/'')
      else if e = CHR ''b'' then Some (CHR 0x08)
      else if e = CHR ''f'' then Some (CHR 0x0C)
      else if e = CHR ''n'' then Some (CHR 0x0A)
      else if e = CHR ''r'' then Some (CHR 0x0D)
      else if e = CHR ''t'' then Some (CHR 0x09)
      else None)"

text \<open>\<open>scanstring\<close>: the body of a string after its opening quote, up to the closing quote;
  the accumulator is reversed.\<close>

function jstr :: "string \<Rightarrow> string \<Rightarrow> (string \<times> string) option" where
  "jstr acc [] = None"
| "jstr acc (c # s) =
     (if c = dq then Some (rev acc, s)
      else if c = bsl then
        (case s of
           [] \<Rightarrow> None
         | e # s' \<Rightarrow>
             if e = CHR ''u'' then
               (case hex4 (take 4 s') of
                  None \<Rightarrow> None
                | Some u \<Rightarrow>
                    (let r = drop 4 s' in
                     if 0xD800 \<le> u \<and> u \<le> 0xDBFF \<and> take 2 r = [bsl, CHR ''u''] then
                       (case hex4 (take 4 (drop 2 r)) of
                          Some u2 \<Rightarrow>
                            if 0xDC00 \<le> u2 \<and> u2 \<le> 0xDFFF
                            then jstr (rev (utf8 (0x10000 + (u - 0xD800) * 1024 + (u2 - 0xDC00))) @ acc)
                                      (drop 6 r)
                            else jstr (rev (utf8 u) @ acc) r
                        | None \<Rightarrow> jstr (rev (utf8 u) @ acc) r)
                     else jstr (rev (utf8 u) @ acc) r))
             else (case json_escape e of None \<Rightarrow> None | Some ch \<Rightarrow> jstr (ch # acc) s'))
      else if (of_char c :: nat) < 32 then None
      else jstr (c # acc) s)"
  by pat_completeness auto
termination
  by (relation "measure (\<lambda>(acc, s). length s)") auto

text \<open>\<open>NUMBER_RE = (-?(?:0|[1-9]\d*))(\.\d+)?([eE][-+]?\d+)?\<close>: the integer part.\<close>

definition int_part :: "string \<Rightarrow> (string \<times> string) option" where
  "int_part s =
     (case s of
        [] \<Rightarrow> None
      | d # r \<Rightarrow>
          if d = CHR ''0'' then Some ([d], r)
          else if is_digit d then Some (d # takeWhile is_digit r, dropWhile is_digit r)
          else None)"

definition frac_part :: "string \<Rightarrow> string \<times> string" where
  "frac_part s =
     (case s of
        p # r \<Rightarrow> if p = CHR ''.'' \<and> takeWhile is_digit r \<noteq> []
                 then (p # takeWhile is_digit r, dropWhile is_digit r) else ([], s)
      | [] \<Rightarrow> ([], s))"

definition exp_part :: "string \<Rightarrow> string \<times> string" where
  "exp_part s =
     (case s of
        e # r \<Rightarrow>
          if e = CHR ''e'' \<or> e = CHR ''E'' then
            (let (sg, r') = (case r of x # r'' \<Rightarrow> if x = CHR ''+'' \<or> x = CHR ''-'' then ([x], r'') else ([], r)
                                     | [] \<Rightarrow> ([], r))
             in if takeWhile is_digit r' \<noteq> [] then (e # sg @ takeWhile is_digit r', dropWhile is_digit r')
                else ([], s))
          else ([], s)
      | [] \<Rightarrow> ([], s))"

definition jnumber :: "string \<Rightarrow> pyval jres" where
  "jnumber s =
     (let (neg, s1) = (case s of x # r \<Rightarrow> if x = CHR ''-'' then (True, r) else (False, s) | [] \<Rightarrow> (False, s))
      in case int_part s1 of
           None \<Rightarrow> Inl JDecode
         | Some (ip, r1) \<Rightarrow>
             (let (fp, r2) = frac_part r1; (ep, r3) = exp_part r2 in
              if fp = [] \<and> ep = []
              then Inr (PInt (if neg then - int (digits_val ip) else int (digits_val ip)), r3)
              else Inr (PFloat ((if neg then ''-'' else []) @ ip @ fp @ ep), r3)))"

text \<open>The scanner's cases that are not containers or strings, in its order.\<close>

definition jatom :: "string \<Rightarrow> pyval jres" where
  "jatom s =
     (if startswith s ''null'' then Inr (PNone, drop 4 s)
      else if startswith s ''true'' then Inr (PBool True, drop 4 s)
      else if startswith s ''false'' then Inr (PBool False, drop 5 s)
      else (case jnumber s of
              Inr r \<Rightarrow> Inr r
            | Inl e \<Rightarrow>
                if startswith s ''NaN'' then Inr (PFloat ''nan'', drop 3 s)
                else if startswith s ''Infinity'' then Inr (PFloat ''inf'', drop 8 s)
                else if startswith s ''-Infinity'' then Inr (PFloat ''-inf'', drop 9 s)
                else Inl JDecode))"

fun jvalue :: "nat \<Rightarrow> string \<Rightarrow> pyval jres"
and jelems :: "nat \<Rightarrow> pyval list \<Rightarrow> string \<Rightarrow> pyval jres"
and jmembers :: "nat \<Rightarrow> (pyval, pyval) pydict \<Rightarrow> string \<Rightarrow> pyval jres" where
  "jvalue 0 s = Inl JFuel"
| "jvalue (Suc n) s =
     (case s of
        [] \<Rightarrow> Inl JDecode
      | c # t \<Rightarrow>
          if c = dq then (case jstr [] t of None \<Rightarrow> Inl JDecode | Some (str, r) \<Rightarrow> Inr (PStr str, r))
          else if c = CHR ''{'' then
            (case skip_ws t of
               [] \<Rightarrow> Inl JDecode
             | d # r \<Rightarrow> if d = CHR ''}'' then Inr (PDict [], r)
                       else if d = dq then jmembers n [] r else Inl JDecode)
          else if c = CHR ''['' then
            (case skip_ws t of
               [] \<Rightarrow> Inl JDecode
             | d # r \<Rightarrow> if d = CHR '']'' then Inr (PList [], r) else jelems n [] (d # r))
          else jatom s)"
| "jelems 0 acc s = Inl JFuel"
| "jelems (Suc n) acc s =
     (case jvalue n s of
        Inl e \<Rightarrow> Inl e
      | Inr (v, r) \<Rightarrow>
          (case skip_ws r of
             [] \<Rightarrow> Inl JDecode
           | d # r' \<Rightarrow> if d = CHR '']'' then Inr (PList (acc @ [v]), r')
                      else if d = CHR '','' then jelems n (acc @ [v]) (skip_ws r')
                      else Inl JDecode))"
| "jmembers 0 acc s = Inl JFuel"
| "jmembers (Suc n) acc s =
     (case jstr [] s of
        None \<Rightarrow> Inl JDecode
      | Some (k, r) \<Rightarrow>
          (case skip_ws r of
             [] \<Rightarrow> Inl JDecode
           | d # r1 \<Rightarrow>
               if d \<noteq> CHR '':'' then Inl JDecode
               else
                 (case jvalue n (skip_ws r1) of
                    Inl e \<Rightarrow> Inl e
                  | Inr (v, r2) \<Rightarrow>
                      (case skip_ws r2 of
                         [] \<Rightarrow> Inl JDecode
                       | e # r3 \<Rightarrow>
                           if e = CHR ''}'' then Inr (PDict (AList.update (PStr k) v acc), r3)
                           else if e = CHR '','' then
                             (case skip_ws r3 of
                                f # r4 \<Rightarrow> if f = dq then jmembers n (AList.update (PStr k) v acc) r4
                                         else Inl JDecode
                              | [] \<Rightarrow> Inl JDecode)
                           else Inl JDecode))))"

definition json_loads :: "string \<Rightarrow> pyval pyres" where
  "json_loads s =
     (case jvalue (Suc (2 * length s)) (skip_ws s) of
        Inr (v, r) \<Rightarrow> if skip_ws r = [] then Inr v else Inl JSONDecodeError
      | Inl e \<Rightarrow> Inl JSONDecodeError)"

lemmas jfuel_numeral [eval_simps] =
  jvalue.simps(2) [of "pred_numeral k" for k, folded numeral_eq_Suc]
  jelems.simps(2) [of "pred_numeral k" for k, folded numeral_eq_Suc]
  jmembers.simps(2) [of "pred_numeral k" for k, folded numeral_eq_Suc]
  jvalue.simps(2) [of 0, folded One_nat_def]
  jelems.simps(2) [of 0, folded One_nat_def]
  jmembers.simps(2) [of 0, folded One_nat_def]

lemmas json_eval [eval_simps] =
  is_jws_def skip_ws_def is_digit_def digit_val_def digits_val_def hex_val_def hex4_def
  utf8_def json_escape_def int_part_def frac_part_def exp_part_def jnumber_def jatom_def
  json_loads_def

subsection \<open>The decoder consumes input and never runs out of fuel\<close>

lemma skip_ws_le [simp]: "length (skip_ws s) \<le> length s"
  by (simp add: skip_ws_def length_dropWhile_le)

lemma skip_ws_Cons_shorter: "skip_ws q = d # q1 \<Longrightarrow> length q1 < length q"
  using skip_ws_le [of q] by simp

lemma jstr_shorter: "jstr acc s = Some (str, r) \<Longrightarrow> length r < length s"
proof (induction acc s rule: jstr.induct)
  case (1 acc)
  then show ?case by simp
next
  case (2 acc c s)
  then show ?case
    by (auto simp: Let_def split: if_splits list.splits option.splits) (fastforce+)
qed

lemma int_part_shorter: "int_part s = Some (ip, r) \<Longrightarrow> length r < length s"
  by (auto simp: int_part_def length_dropWhile_le le_imp_less_Suc split: list.splits if_splits)

lemma frac_part_le: "frac_part s = (fp, r) \<Longrightarrow> length r \<le> length s"
  by (auto simp: frac_part_def length_dropWhile_le le_SucI split: list.splits if_splits)

lemma exp_part_le: "exp_part s = (ep, r) \<Longrightarrow> length r \<le> length s"
  by (auto simp: exp_part_def length_dropWhile_le le_SucI split: list.splits if_splits prod.splits)

lemma jnumber_shorter: "jnumber s = Inr (v, r) \<Longrightarrow> length r < length s"
  unfolding jnumber_def
  by (auto split: list.splits if_splits option.splits prod.splits
           dest!: int_part_shorter frac_part_le exp_part_le)

lemma jatom_shorter: "jatom s = Inr (v, r) \<Longrightarrow> length r < length s"
  unfolding jatom_def
  by (auto simp: startswith_iff split: if_splits sum.splits dest: jnumber_shorter)

lemma jvalue_shorter_all:
  "(\<forall>s v r. jvalue n s = Inr (v, r) \<longrightarrow> length r < length s) \<and>
   (\<forall>acc s v r. jelems n acc s = Inr (v, r) \<longrightarrow> length r < length s) \<and>
   (\<forall>kvs s v r. jmembers n kvs s = Inr (v, r) \<longrightarrow> length r < length s)"
proof (induction n)
  case 0
  then show ?case by simp
next
  case (Suc n)
  then have IHv: "\<And>s v r. jvalue n s = Inr (v, r) \<Longrightarrow> length r < length s"
    and IHe: "\<And>acc s v r. jelems n acc s = Inr (v, r) \<Longrightarrow> length r < length s"
    and IHm: "\<And>kvs s v r. jmembers n kvs s = Inr (v, r) \<Longrightarrow> length r < length s"
    by blast+
  have V: "length r < length s" if h: "jvalue (Suc n) s = Inr (v, r)" for s v r
  proof (cases s)
    case Nil
    with h show ?thesis by simp
  next
    case (Cons c t)
    have lt: "length (skip_ws t) < length s"
      using Cons skip_ws_le [of t] by (simp add: le_imp_less_Suc)
    show ?thesis
    proof (cases "c = dq")
      case True
      with h Cons obtain str where "jstr [] t = Some (str, r)"
        by (auto split: option.splits)
      with Cons show ?thesis by (auto dest: jstr_shorter)
    next
      case c1: False
      show ?thesis
      proof (cases "c = CHR ''{''")
        case True
        with c1 h Cons obtain d q where sk: "skip_ws t = d # q"
          and rest: "(if d = CHR ''}'' then Inr (PDict [], q)
                      else if d = dq then jmembers n [] q else Inl JDecode) = Inr (v, r)"
          by (auto split: list.splits)
        from sk lt have "length q < length s" by simp
        with rest IHm [of "[]" q v r] show ?thesis by (auto split: if_splits)
      next
        case c2: False
        show ?thesis
        proof (cases "c = CHR ''[''")
          case True
          with c1 c2 h Cons obtain d q where sk: "skip_ws t = d # q"
            and rest: "(if d = CHR '']'' then Inr (PList [], q) else jelems n [] (d # q)) = Inr (v, r)"
            by (auto split: list.splits)
          from sk lt have "length (d # q) < length s" by simp
          with rest IHe [of "[]" "d # q" v r] show ?thesis by (auto split: if_splits)
        next
          case False
          with c1 c2 h Cons have "jatom s = Inr (v, r)" by simp
          then show ?thesis by (rule jatom_shorter)
        qed
      qed
    qed
  qed
  have E: "length r < length s" if h: "jelems (Suc n) acc s = Inr (v, r)" for acc s v r
  proof -
    from h obtain w q where jv: "jvalue n s = Inr (w, q)"
      and rest: "(case skip_ws q of
                    [] \<Rightarrow> Inl JDecode
                  | d # r' \<Rightarrow> if d = CHR '']'' then Inr (PList (acc @ [w]), r')
                             else if d = CHR '','' then jelems n (acc @ [w]) (skip_ws r')
                             else Inl JDecode) = Inr (v, r)"
      by (auto split: sum.splits prod.splits)
    from IHv [OF jv] have q: "length q < length s" .
    from rest obtain d r' where sk: "skip_ws q = d # r'"
      by (auto split: list.splits)
    have r': "length r' < length s" using skip_ws_Cons_shorter [OF sk] q by linarith
    have sr: "length (skip_ws r') < length s"
      using r' skip_ws_le [of r'] by linarith
    with r' rest sk IHe [of "acc @ [w]" "skip_ws r'" v r] show ?thesis
      by (auto split: if_splits)
  qed
  have M: "length r < length s" if h: "jmembers (Suc n) kvs s = Inr (v, r)" for kvs s v r
  proof -
    from h obtain k q where js: "jstr [] s = Some (k, q)"
      by (auto split: option.splits)
    from jstr_shorter [OF js] have q: "length q < length s" .
    from h js obtain d q1 where sk: "skip_ws q = d # q1" and d: "d = CHR '':''"
      by (auto split: list.splits if_splits)
    have q1: "length (skip_ws q1) < length s"
      using skip_ws_Cons_shorter [OF sk] q skip_ws_le [of q1] by linarith
    from h js sk d obtain w q2 where jv: "jvalue n (skip_ws q1) = Inr (w, q2)"
      by (auto split: sum.splits prod.splits)
    from IHv [OF jv] q1 have q2: "length q2 < length s" by simp
    from h js sk d jv obtain e q3 where sk2: "skip_ws q2 = e # q3"
      by (auto split: list.splits)
    have q3: "length q3 < length s" using skip_ws_Cons_shorter [OF sk2] q2 by linarith
    show ?thesis
    proof (cases "e = CHR ''}''")
      case True
      with h js sk d jv sk2 q3 show ?thesis by simp
    next
      case False
      with h js sk d jv sk2 obtain f q4 where sk3: "skip_ws q3 = f # q4" and f: "f = dq"
        and m: "jmembers n (AList.update (PStr k) w kvs) q4 = Inr (v, r)"
        by (auto split: list.splits if_splits)
      have "length q4 < length s" using skip_ws_Cons_shorter [OF sk3] q3 by linarith
      with IHm [OF m] show ?thesis by simp
    qed
  qed
  from V E M show ?case by blast
qed

lemma jvalue_shorter: "jvalue n s = Inr (v, r) \<Longrightarrow> length r < length s"
  using jvalue_shorter_all by blast

lemma jatom_no_fuel: "jatom s \<noteq> Inl JFuel"
  by (auto simp: jatom_def jnumber_def split: if_splits sum.splits option.splits prod.splits)

lemma jvalue_fuel_all:
  "(\<forall>s. 2 * length s < n \<longrightarrow> jvalue n s \<noteq> Inl JFuel) \<and>
   (\<forall>acc s. 2 * length s + 1 < n \<longrightarrow> jelems n acc s \<noteq> Inl JFuel) \<and>
   (\<forall>kvs s. 2 * length s + 1 < n \<longrightarrow> jmembers n kvs s \<noteq> Inl JFuel)"
proof (induction n)
  case 0
  then show ?case by simp
next
  case (Suc n)
  then have IHv: "\<And>s. 2 * length s < n \<Longrightarrow> jvalue n s \<noteq> Inl JFuel"
    and IHe: "\<And>acc s. 2 * length s + 1 < n \<Longrightarrow> jelems n acc s \<noteq> Inl JFuel"
    and IHm: "\<And>kvs s. 2 * length s + 1 < n \<Longrightarrow> jmembers n kvs s \<noteq> Inl JFuel"
    by blast+
  have V: "jvalue (Suc n) s \<noteq> Inl JFuel" if f: "2 * length s < Suc n" for s
  proof (cases s)
    case Nil
    then show ?thesis by simp
  next
    case (Cons c t)
    show ?thesis
    proof (cases "c = dq")
      case True
      with Cons show ?thesis by (simp split: option.splits)
    next
      case c1: False
      show ?thesis
      proof (cases "c = CHR ''{''")
        case True
        show ?thesis
        proof (cases "skip_ws t")
          case Nil
          with True c1 Cons show ?thesis by simp
        next
          case Cons2: (Cons d q)
          have "length q < length t"
            using skip_ws_Cons_shorter [OF Cons2] skip_ws_le [of t] by linarith
          with f Cons have "2 * length q + 1 < n" by simp
          with IHm [of q "[]"] True c1 Cons Cons2 show ?thesis by simp
        qed
      next
        case c2: False
        show ?thesis
        proof (cases "c = CHR ''[''")
          case True
          show ?thesis
          proof (cases "skip_ws t")
            case Nil
            with True c1 c2 Cons show ?thesis by simp
          next
            case Cons2: (Cons d q)
            have "Suc (length q) \<le> length t"
              using Cons2 skip_ws_le [of t] by simp
            with f Cons have "2 * length (d # q) + 1 < n" by simp
            with IHe [of "d # q" "[]"] True c1 c2 Cons Cons2 show ?thesis by simp
          qed
        next
          case False
          with c1 c2 Cons jatom_no_fuel [of s] show ?thesis by simp
        qed
      qed
    qed
  qed
  have E: "jelems (Suc n) acc s \<noteq> Inl JFuel" if f: "2 * length s + 1 < Suc n" for acc s
  proof (cases "jvalue n s")
    case (Inl e)
    with IHv [of s] f show ?thesis by simp
  next
    case (Inr wq)
    obtain w q where wq: "wq = (w, q)" by fastforce
    with Inr have q: "length q < length s" using jvalue_shorter by blast
    show ?thesis
    proof (cases "skip_ws q")
      case Nil
      with Inr wq show ?thesis by simp
    next
      case (Cons d r')
      have "2 * length (skip_ws r') + 1 < n"
        using skip_ws_Cons_shorter [OF Cons] skip_ws_le [of r'] q f by linarith
      with IHe [of "skip_ws r'" "acc @ [w]"] Inr wq Cons show ?thesis by simp
    qed
  qed
  have M: "jmembers (Suc n) kvs s \<noteq> Inl JFuel" if f: "2 * length s + 1 < Suc n" for kvs s
  proof (cases "jstr [] s")
    case None
    then show ?thesis by simp
  next
    case (Some kq)
    obtain k q where kq: "kq = (k, q)" by fastforce
    with Some have q: "length q < length s" using jstr_shorter by blast
    show ?thesis
    proof (cases "skip_ws q")
      case Nil
      with Some kq show ?thesis by simp
    next
      case (Cons d q1)
      have q1: "length (skip_ws q1) < length s"
        using skip_ws_Cons_shorter [OF Cons] skip_ws_le [of q1] q by linarith
      show ?thesis
      proof (cases "jvalue n (skip_ws q1)")
        case (Inl e)
        with IHv [of "skip_ws q1"] q1 f Some kq Cons show ?thesis by simp
      next
        case (Inr wq2)
        obtain w q2 where wq2: "wq2 = (w, q2)" by fastforce
        with Inr have q2: "length q2 < length s" using jvalue_shorter q1 by fastforce
        show ?thesis
        proof (cases "skip_ws q2")
          case Nil
          with Some kq Cons Inr wq2 show ?thesis by simp
        next
          case Cons2: (Cons e q3)
          have q3: "length q3 < length s" using skip_ws_Cons_shorter [OF Cons2] q2 by linarith
          show ?thesis
          proof (cases "skip_ws q3")
            case Nil
            with Some kq Cons Inr wq2 Cons2 show ?thesis by simp
          next
            case Cons3: (Cons g q4)
            have "2 * length q4 + 1 < n" using skip_ws_Cons_shorter [OF Cons3] q3 f by linarith
            with IHm [of q4] Some kq Cons Inr wq2 Cons2 Cons3 show ?thesis by simp
          qed
        qed
      qed
    qed
  qed
  from V E M show ?case by blast
qed

lemma jvalue_enough_fuel: "2 * length s < n \<Longrightarrow> jvalue n s \<noteq> Inl JFuel"
  using jvalue_fuel_all by blast

text \<open>C3: the fuel \<open>json_loads\<close> gives the recursive descent is enough: its fuel error branch
  is never taken, so \<open>json_loads\<close> decodes or rejects every input as \<open>json.loads\<close> does.\<close>

lemma json_loads_fuel_enough: "jvalue (Suc (2 * length s)) (skip_ws s) \<noteq> Inl JFuel"
proof -
  have "2 * length (skip_ws s) < Suc (2 * length s)"
    using skip_ws_le [of s] by linarith
  then show ?thesis by (rule jvalue_enough_fuel)
qed

end
