(* ===== verification/LiteralEval.thy ===== *)
theory LiteralEval
  imports Json
begin

text \<open>
  \<open>ast.literal_eval\<close> on a string, in the two phases Python runs: \<open>ast.parse(s.lstrip(" \t"),
  mode="eval")\<close>, whose failure is \<open>SyntaxError\<close>, then \<open>_convert\<close> on the tree, whose failure
  is \<open>ValueError\<close> (a node that is not a literal) or \<open>TypeError\<close> (an unhashable dictionary
  key or set element).  Parsing is a tokenizer (\<open>lex\<close>) and a shift-reduce machine over the
  tokens (\<open>parse_step\<close>, \<open>parse_run\<close>) whose stack holds the open brackets; both are total, so
  no fuel is needed.  The grammar is the literal part of Python's: strings with the prefixes
  \<open>r u R U\<close>, single or triple quoted, with escapes, adjacent strings concatenated; decimal,
  hexadecimal, octal and binary integers, floats (kept as their text, as in \<open>Json\<close>); \<open>True\<close>,
  \<open>False\<close>, \<open>None\<close>, other names; unary \<open>+\<close> and \<open>-\<close>; tuples with and without
  parentheses, lists, dicts, sets and calls.  Newlines and comments inside brackets are
  ignored, a newline at the top level ends the expression.  Not modelled, and rejected as
  \<open>SyntaxError\<close> where Python raises \<open>ValueError\<close> or accepts: binary operators (complex
  numbers \<open>1+2j\<close>), subscripts and attributes, byte strings and f-strings, \<open>\N{...}\<close>
  escapes, underscores in numbers; the indentation of a line after a blank first line is not
  checked.  A set keeps its first occurrences in order: Python orders it by hash.
\<close>

subsection \<open>Tokens\<close>

datatype tok = TConst pyval | TStr string | TName string | TOp char | TNL

definition is_name_start :: "char \<Rightarrow> bool" where
  "is_name_start c \<longleftrightarrow>
     c = CHR ''_'' \<or> (65 \<le> (of_char c :: nat) \<and> (of_char c :: nat) \<le> 90)
     \<or> (97 \<le> (of_char c :: nat) \<and> (of_char c :: nat) \<le> 122) \<or> 128 \<le> (of_char c :: nat)"

definition is_name_char :: "char \<Rightarrow> bool" where
  "is_name_char c \<longleftrightarrow> is_name_start c \<or> is_digit c"

definition radix_val :: "nat \<Rightarrow> string \<Rightarrow> nat option" where
  "radix_val b ds =
     (case those (map hex_val ds) of
        Some ns \<Rightarrow> if ds \<noteq> [] \<and> (\<forall>n\<in>set ns. n < b) then Some (foldl (\<lambda>a d. b * a + d) 0 ns) else None
      | None \<Rightarrow> None)"

text \<open>The escapes of a non-raw string literal, after the backslash: the characters written
  and the rest of the input.  An unknown escape keeps the backslash.\<close>

definition py_escape :: "char \<Rightarrow> string \<Rightarrow> (string \<times> string) option" where
  "py_escape e s =
     (if e = nl then Some ([], s)
      else if e = bsl \<or> e = sq \<or> e = dq then Some ([e], s)
      else if e = CHR ''a'' then Some ([CHR 0x07], s)
      else if e = CHR ''b'' then Some ([CHR 0x08], s)
      else if e = CHR ''f'' then Some ([CHR 0x0C], s)
      else if e = CHR ''n'' then Some ([CHR 0x0A], s)
      else if e = CHR ''r'' then Some ([CHR 0x0D], s)
      else if e = CHR ''t'' then Some ([CHR 0x09], s)
      else if e = CHR ''v'' then Some ([CHR 0x0B], s)
      else if 48 \<le> (of_char e :: nat) \<and> (of_char e :: nat) \<le> 55 then
        (let os = e # takeWhile (\<lambda>d. 48 \<le> (of_char d :: nat) \<and> (of_char d :: nat) \<le> 55) (take 2 s);
             r = drop (length os - 1) s
         in case radix_val 8 os of Some u \<Rightarrow> Some (utf8 u, r) | None \<Rightarrow> None)
      else if e = CHR ''x'' \<or> e = CHR ''u'' \<or> e = CHR ''U'' then
        (let n = (if e = CHR ''x'' then 2 else if e = CHR ''u'' then 4 else 8) in
         if length (take n s) = n then
           (case radix_val 16 (take n s) of
              Some u \<Rightarrow> if u \<le> 0x10FFFF then Some (utf8 u, drop n s) else None
            | None \<Rightarrow> None)
         else None)
      else if e = CHR ''N'' then None
      else Some ([bsl, e], s))"

lemma py_escape_le: "py_escape e s = Some (out, r) \<Longrightarrow> length r \<le> length s"
  unfolding py_escape_def Let_def
  by (simp split: if_split_asm option.split_asm) auto

text \<open>The body of a string literal after its opening quote \<open>q\<close> (tripled when \<open>tr\<close>): the
  characters up to the closing quote and the rest; the accumulator is reversed.  A raw
  string keeps its backslashes, but a backslash still protects the next character.\<close>

function str_body :: "bool \<Rightarrow> char \<Rightarrow> bool \<Rightarrow> string \<Rightarrow> string \<Rightarrow> (string \<times> string) option" where
  "str_body raw q tr acc [] = None"
| "str_body raw q tr acc (c # s) =
     (if c = q \<and> (\<not> tr \<or> take 2 s = [q, q]) then Some (rev acc, if tr then drop 2 s else s)
      else if c = nl \<and> \<not> tr then None
      else if c = bsl then
        (case s of
           [] \<Rightarrow> None
         | e # s' \<Rightarrow>
             if raw then str_body raw q tr (e # c # acc) s'
             else (case py_escape e s' of
                     None \<Rightarrow> None
                   | Some (out, s'') \<Rightarrow> str_body raw q tr (rev out @ acc) s''))
      else str_body raw q tr (c # acc) s)"
  by pat_completeness auto
termination
  by (relation "measure (\<lambda>(raw, q, tr, acc, s). length s)") (auto dest: py_escape_le)

definition lex_str :: "bool \<Rightarrow> string \<Rightarrow> (string \<times> string) option" where
  "lex_str raw s =
     (case s of
        [] \<Rightarrow> None
      | q # r \<Rightarrow>
          if take 2 r = [q, q] then str_body raw q True [] (drop 2 r) else str_body raw q False [] r)"

text \<open>The fraction of a float: the point and the digits after it, possibly none.\<close>

definition py_frac :: "string \<Rightarrow> string \<times> string" where
  "py_frac s =
     (case s of
        p # r \<Rightarrow> if p = CHR ''.'' then (p # takeWhile is_digit r, dropWhile is_digit r) else ([], s)
      | [] \<Rightarrow> ([], s))"

text \<open>A numeric literal: the value and the rest.  A letter or digit right after it is
  an error, as in Python's tokenizer; so is a decimal integer with a leading zero.\<close>

definition lex_num :: "string \<Rightarrow> (pyval \<times> string) option" where
  "lex_num s =
     (let ip = takeWhile is_digit s; r1 = dropWhile is_digit s in
      if ip = ''0'' \<and> r1 \<noteq> [] \<and> hd r1 \<in> set ''xXoObB'' then
        (let b = (if hd r1 \<in> set ''xX'' then 16 else if hd r1 \<in> set ''oO'' then 8 else 2);
             ds = takeWhile is_name_char (tl r1)
         in case radix_val b ds of
              Some n \<Rightarrow> Some (PInt (int n), dropWhile is_name_char (tl r1))
            | None \<Rightarrow> None)
      else
        (let (fp, r2) = py_frac r1; (ep, r3) = exp_part r2 in
         if ip = [] \<and> length fp < 2 then None
         else if r3 \<noteq> [] \<and> is_name_char (hd r3) then None
         else if fp = [] \<and> ep = [] then
           (if length ip > 1 \<and> hd ip = CHR ''0'' \<and> (\<exists>d\<in>set ip. d \<noteq> CHR ''0'') then None
            else Some (PInt (int (digits_val ip)), r3))
         else Some (PFloat (ip @ fp @ ep), r3)))"

definition name_tok :: "string \<Rightarrow> tok" where
  "name_tok n =
     (if n = ''True'' then TConst (PBool True) else if n = ''False'' then TConst (PBool False)
      else if n = ''None'' then TConst PNone else TName n)"

lemma str_body_shorter: "str_body raw q tr acc s = Some (b, r) \<Longrightarrow> length r < length s"
proof (induction raw q tr acc s rule: str_body.induct)
  case (2 raw q tr acc c s)
  show ?case
  proof (cases "c = q \<and> (\<not> tr \<or> take 2 s = [q, q])")
    case True
    with "2.prems" show ?thesis by (auto split: if_split_asm)
  next
    case nq: False
    show ?thesis
    proof (cases "c = bsl")
      case True
      show ?thesis
      proof (cases s)
        case Nil
        with "2.prems" nq True show ?thesis by (auto split: if_split_asm)
      next
        case (Cons e s')
        show ?thesis
        proof (cases raw)
          case True
          with "2.prems" "2.IH"(1) nq \<open>c = bsl\<close> Cons show ?thesis by (auto split: if_split_asm)
        next
          case False
          with "2.prems" nq \<open>c = bsl\<close> Cons obtain out s'' where
            esc: "py_escape e s' = Some (out, s'')" and rec: "str_body raw q tr (rev out @ acc) s'' = Some (b, r)"
            by (auto split: if_split_asm option.split_asm)
          have "\<not> (c = nl \<and> \<not> tr)" using \<open>c = bsl\<close> by auto
          with rec "2.IH"(2) [OF nq _ \<open>c = bsl\<close> Cons False esc] py_escape_le [OF esc] Cons
          show ?thesis by simp
        qed
      qed
    next
      case False
      with "2.prems" "2.IH"(3) nq show ?thesis by (auto split: if_split_asm)
    qed
  qed
qed simp

lemma lex_str_shorter: "lex_str raw s = Some (b, r) \<Longrightarrow> length r < length s"
  by (auto simp: lex_str_def split: list.splits if_splits dest!: str_body_shorter)

lemma py_frac_append: "py_frac s = (fp, r) \<Longrightarrow> s = fp @ r"
  by (auto simp: py_frac_def split: list.splits if_splits)

lemma exp_part_append: "exp_part s = (ep, r) \<Longrightarrow> s = ep @ r"
  by (auto simp: exp_part_def split: list.splits if_splits)

lemma lex_num_consumes:
  assumes "lex_num s = Some (v, r)"
  shows "\<exists>p. p \<noteq> [] \<and> s = p @ r"
proof (cases "takeWhile is_digit s = ''0'' \<and> dropWhile is_digit s \<noteq> [] \<and>
              hd (dropWhile is_digit s) \<in> set ''xXoObB''")
  case True
  then obtain x r1 where r1: "dropWhile is_digit s = x # r1" by (cases "dropWhile is_digit s") auto
  with True assms have "r = dropWhile is_name_char r1"
    by (auto simp: lex_num_def Let_def split: option.splits)
  moreover have "s = (''0'' @ x # takeWhile is_name_char r1) @ dropWhile is_name_char r1"
    using True r1 takeWhile_dropWhile_id [of is_digit s] by simp
  ultimately show ?thesis by blast
next
  case False
  obtain fp r2 where fr: "py_frac (dropWhile is_digit s) = (fp, r2)" by fastforce
  obtain ep r3 where er: "exp_part r2 = (ep, r3)" by fastforce
  from assms False fr er have r: "r = r3" and ne: "takeWhile is_digit s @ fp @ ep \<noteq> []"
    by (auto simp: lex_num_def Let_def split: if_splits)
  have "s = (takeWhile is_digit s @ fp @ ep) @ r3"
    using py_frac_append [OF fr] exp_part_append [OF er] takeWhile_dropWhile_id [of is_digit s] by simp
  with r ne show ?thesis by blast
qed

lemma lex_num_shorter: "lex_num s = Some (v, r) \<Longrightarrow> length r < length s"
  using lex_num_consumes by fastforce

lemma lex_str_dw:
  assumes "lex_str raw (dropWhile P s) = Some (b, r)"
  shows "length r < Suc (length s)"
  using lex_str_shorter [OF assms] length_dropWhile_le [of P s] by linarith

text \<open>The tokenizer.  The accumulator holds the tokens read so far, reversed; \<open>None\<close> is a
  \<open>SyntaxError\<close> of the tokenizer.\<close>

function lex :: "tok list \<Rightarrow> string \<Rightarrow> tok list option" where
  "lex acc [] = Some (rev acc)"
| "lex acc (c # s) =
     (if c = CHR '' '' \<or> c = CHR 0x09 \<or> c = CHR 0x0C then lex acc s
      else if c = nl \<or> c = CHR 0x0D then lex (TNL # acc) s
      else if c = CHR ''#'' then lex acc (dropWhile (\<lambda>d. d \<noteq> nl) s)
      else if c = sq \<or> c = dq then
        (case lex_str False (c # s) of None \<Rightarrow> None | Some (str, r) \<Rightarrow> lex (TStr str # acc) r)
      else if is_digit c \<or> (c = CHR ''.'' \<and> s \<noteq> [] \<and> is_digit (hd s)) then
        (case lex_num (c # s) of None \<Rightarrow> None | Some (v, r) \<Rightarrow> lex (TConst v # acc) r)
      else if is_name_start c then
        (let n = c # takeWhile is_name_char s; r = dropWhile is_name_char s in
         if r \<noteq> [] \<and> (hd r = sq \<or> hd r = dq) then
           (if n = ''r'' \<or> n = ''R'' \<or> n = ''u'' \<or> n = ''U'' then
              (case lex_str (n = ''r'' \<or> n = ''R'') r of
                 None \<Rightarrow> None
               | Some (str, r') \<Rightarrow> lex (TStr str # acc) r')
            else None)
         else lex (name_tok n # acc) r)
      else if c \<in> set ''()[]{},:+-'' then lex (TOp c # acc) s
      else None)"
  by pat_completeness auto
termination
  apply (relation "measure (\<lambda>(acc, s). length s)")
  apply (simp_all add: le_imp_less_Suc length_dropWhile_le)
    apply (metis lex_str_shorter length_Cons)
   apply (metis lex_num_shorter length_Cons)
  apply (metis lex_str_dw)
  done

subsection \<open>Syntax trees and the shift-reduce parser\<close>

text \<open>The nodes of \<open>ast\<close> that a literal can contain; \<open>EStr\<close> is a string constant, kept
  apart so that adjacent string literals can be joined.\<close>

datatype pexpr =
  EConst pyval | EStr string | EName string | EUnary char pexpr
| ETuple "pexpr list" | EList "pexpr list" | ESet "pexpr list" | EDict "(pexpr \<times> pexpr) list"
| ECall string "pexpr list"

datatype kind = KTop | KParen | KBrack | KBrace | KDict | KCall string

text \<open>The element being read in an open bracket: the unary signs before it (innermost
  first), and its expression once read.\<close>

datatype elem = Start "char list" | Val "char list" pexpr

record pframe =
  fr_kind :: kind
  fr_items :: "pexpr list"
  fr_pairs :: "(pexpr \<times> pexpr) list"
  fr_key :: "pexpr option"
  fr_comma :: bool
  fr_cur :: elem

definition new_frame :: "kind \<Rightarrow> pframe" where
  "new_frame k = \<lparr>fr_kind = k, fr_items = [], fr_pairs = [], fr_key = None, fr_comma = False,
                  fr_cur = Start []\<rparr>"

definition signed :: "char list \<Rightarrow> pexpr \<Rightarrow> pexpr" where
  "signed sg e = foldl (\<lambda>e c. EUnary c e) e sg"

fun elem_expr :: "elem \<Rightarrow> pexpr option" where
  "elem_expr (Start sg) = None"
| "elem_expr (Val sg e) = Some (signed sg e)"

text \<open>The elements of a bracket at its closing: a trailing comma leaves an empty element,
  a sign without an operand is an error.\<close>

definition close_items :: "pframe \<Rightarrow> pexpr list option" where
  "close_items f =
     (case elem_expr (fr_cur f) of
        Some e \<Rightarrow> Some (fr_items f @ [e])
      | None \<Rightarrow> if fr_cur f = Start [] then Some (fr_items f) else None)"

definition close_frame :: "char \<Rightarrow> pframe \<Rightarrow> pexpr option" where
  "close_frame c f =
     (case fr_kind f of
        KDict \<Rightarrow>
          if c \<noteq> CHR ''}'' then None
          else (case (fr_key f, elem_expr (fr_cur f)) of
                  (Some k, Some v) \<Rightarrow> Some (EDict (fr_pairs f @ [(k, v)]))
                | (None, None) \<Rightarrow> if fr_cur f = Start [] then Some (EDict (fr_pairs f)) else None
                | _ \<Rightarrow> None)
      | KParen \<Rightarrow>
          if c \<noteq> CHR '')'' then None
          else map_option (\<lambda>es. if \<not> fr_comma f \<and> length es = 1 then hd es else ETuple es) (close_items f)
      | KCall n \<Rightarrow> if c \<noteq> CHR '')'' then None else map_option (ECall n) (close_items f)
      | KBrack \<Rightarrow> if c \<noteq> CHR '']'' then None else map_option EList (close_items f)
      | KBrace \<Rightarrow>
          if c \<noteq> CHR ''}'' then None
          else map_option (\<lambda>es. if es = [] then EDict [] else ESet es) (close_items f)
      | KTop \<Rightarrow> None)"

definition comma_step :: "pframe \<Rightarrow> pframe option" where
  "comma_step f =
     (if fr_kind f = KDict then
        (case (fr_key f, elem_expr (fr_cur f)) of
           (Some k, Some v) \<Rightarrow> Some (f\<lparr>fr_pairs := fr_pairs f @ [(k, v)], fr_key := None, fr_cur := Start []\<rparr>)
         | _ \<Rightarrow> None)
      else
        (case elem_expr (fr_cur f) of
           Some e \<Rightarrow> Some (f\<lparr>fr_items := fr_items f @ [e], fr_comma := True, fr_cur := Start []\<rparr>)
         | None \<Rightarrow> None))"

definition colon_step :: "pframe \<Rightarrow> pframe option" where
  "colon_step f =
     (case (fr_kind f, fr_key f, elem_expr (fr_cur f)) of
        (KBrace, None, Some e) \<Rightarrow>
          if fr_items f = [] then Some (f\<lparr>fr_kind := KDict, fr_key := Some e, fr_cur := Start []\<rparr>) else None
      | (KDict, None, Some e) \<Rightarrow> Some (f\<lparr>fr_key := Some e, fr_cur := Start []\<rparr>)
      | _ \<Rightarrow> None)"

definition open_kind :: "char \<Rightarrow> kind" where
  "open_kind c = (if c = CHR ''('' then KParen else if c = CHR ''['' then KBrack else KBrace)"

text \<open>One token on the stack of open brackets (innermost first).\<close>

fun parse_step :: "pframe list \<Rightarrow> tok \<Rightarrow> pframe list option" where
  "parse_step [] t = None"
| "parse_step (f # fs) t =
     (case t of
        TNL \<Rightarrow> Some (f # fs)
      | TConst v \<Rightarrow>
          (case fr_cur f of Start sg \<Rightarrow> Some (f\<lparr>fr_cur := Val sg (EConst v)\<rparr> # fs) | _ \<Rightarrow> None)
      | TName n \<Rightarrow>
          (case fr_cur f of Start sg \<Rightarrow> Some (f\<lparr>fr_cur := Val sg (EName n)\<rparr> # fs) | _ \<Rightarrow> None)
      | TStr s \<Rightarrow>
          (case fr_cur f of
             Start sg \<Rightarrow> Some (f\<lparr>fr_cur := Val sg (EStr s)\<rparr> # fs)
           | Val sg (EStr s0) \<Rightarrow> Some (f\<lparr>fr_cur := Val sg (EStr (s0 @ s))\<rparr> # fs)
           | _ \<Rightarrow> None)
      | TOp c \<Rightarrow>
          if c = CHR ''+'' \<or> c = CHR ''-'' then
            (case fr_cur f of Start sg \<Rightarrow> Some (f\<lparr>fr_cur := Start (c # sg)\<rparr> # fs) | _ \<Rightarrow> None)
          else if c \<in> set ''([{'' then
            (case fr_cur f of
               Start sg \<Rightarrow> Some (new_frame (open_kind c) # f # fs)
             | Val sg (EName n) \<Rightarrow>
                 if c = CHR ''('' then Some (new_frame (KCall n) # f\<lparr>fr_cur := Start sg\<rparr> # fs) else None
             | _ \<Rightarrow> None)
          else if c = CHR '','' then map_option (\<lambda>f'. f' # fs) (comma_step f)
          else if c = CHR '':'' then map_option (\<lambda>f'. f' # fs) (colon_step f)
          else
            (case (fs, close_frame c f) of
               (p # ps, Some e) \<Rightarrow>
                 (case fr_cur p of Start sg \<Rightarrow> Some (p\<lparr>fr_cur := Val sg e\<rparr> # ps) | _ \<Rightarrow> None)
             | _ \<Rightarrow> None))"

text \<open>The tokens in order.  At the top level (one frame) a newline after the start of the
  expression ends it (\<open>done\<close>); any token but a newline after that is an error.\<close>

fun parse_run :: "bool \<Rightarrow> pframe list \<Rightarrow> tok list \<Rightarrow> pframe list option" where
  "parse_run done fs [] = Some fs"
| "parse_run done fs (t # ts) =
     (if t = TNL \<and> length fs = 1 then
        parse_run (done \<or> \<not> (fr_items (hd fs) = [] \<and> fr_cur (hd fs) = Start [])) fs ts
      else if done then None
      else (case parse_step fs t of None \<Rightarrow> None | Some fs' \<Rightarrow> parse_run done fs' ts))"

text \<open>The end of the input: every bracket closed, and a nonempty expression; several
  comma-separated expressions are a tuple.\<close>

definition parse_end :: "pframe list \<Rightarrow> pexpr option" where
  "parse_end fs =
     (case fs of
        [f] \<Rightarrow>
          (case close_items f of
             Some es \<Rightarrow> if es = [] then None
                        else Some (if \<not> fr_comma f \<and> length es = 1 then hd es else ETuple es)
           | None \<Rightarrow> None)
      | _ \<Rightarrow> None)"

definition py_parse :: "string \<Rightarrow> pexpr option" where
  "py_parse s =
     (case lex [] s of
        None \<Rightarrow> None
      | Some ts \<Rightarrow> (case parse_run False [new_frame KTop] ts of None \<Rightarrow> None | Some fs \<Rightarrow> parse_end fs))"

subsection \<open>\<open>_convert\<close>: from the tree to a value\<close>

text \<open>A value Python can hash: no list, dict or set, also inside a tuple.\<close>

fun hashable :: "pyval \<Rightarrow> bool" where
  "hashable (PList vs) = False"
| "hashable (PDict kvs) = False"
| "hashable (PSet vs) = False"
| "hashable (PTuple vs) = list_all hashable vs"
| "hashable v = True"

definition neg_float :: "string \<Rightarrow> string" where
  "neg_float t = (case t of c # r \<Rightarrow> if c = CHR ''-'' then r else CHR ''-'' # t | [] \<Rightarrow> t)"

text \<open>\<open>_convert_signed_num\<close>: a sign applies to a number constant (\<open>bool\<close> is an \<open>int\<close>).\<close>

definition signed_num :: "char \<Rightarrow> pyval \<Rightarrow> pyval pyres" where
  "signed_num c v =
     (case v of
        PInt i \<Rightarrow> Inr (PInt (if c = CHR ''-'' then - i else i))
      | PBool b \<Rightarrow> Inr (PInt (if c = CHR ''-'' then - of_bool b else of_bool b))
      | PFloat t \<Rightarrow> Inr (PFloat (if c = CHR ''-'' then neg_float t else t))
      | _ \<Rightarrow> Inl ValueError)"

definition set_insert :: "pyval list \<Rightarrow> pyval \<Rightarrow> pyval list pyres" where
  "set_insert vs v = (if hashable v then Inr (if v \<in> set vs then vs else vs @ [v]) else Inl TypeError)"

definition dict_insert :: "(pyval, pyval) pydict \<Rightarrow> pyval \<times> pyval \<Rightarrow> (pyval, pyval) pydict pyres" where
  "dict_insert kvs kv = (if hashable (fst kv) then Inr (AList.update (fst kv) (snd kv) kvs) else Inl TypeError)"

function lit_eval :: "pexpr \<Rightarrow> pyval pyres"
and lit_evals :: "pexpr list \<Rightarrow> pyval list pyres"
and lit_eval_pairs :: "(pexpr \<times> pexpr) list \<Rightarrow> (pyval \<times> pyval) list pyres" where
  "lit_eval (EConst v) = Inr v"
| "lit_eval (EStr s) = Inr (PStr s)"
| "lit_eval (EName n) = Inl ValueError"
| "lit_eval (EUnary c e) = (case e of EConst v \<Rightarrow> signed_num c v | _ \<Rightarrow> Inl ValueError)"
| "lit_eval (ETuple es) = map_sum id PTuple (lit_evals es)"
| "lit_eval (EList es) = map_sum id PList (lit_evals es)"
| "lit_eval (ESet es) = pbind (lit_evals es) (\<lambda>vs. map_sum id PSet (pfoldl set_insert [] vs))"
| "lit_eval (EDict kes) = pbind (lit_eval_pairs kes) (\<lambda>kvs. map_sum id PDict (pfoldl dict_insert [] kvs))"
| "lit_eval (ECall n es) = (if n = ''set'' \<and> es = [] then Inr (PSet []) else Inl ValueError)"
| "lit_evals [] = Inr []"
| "lit_evals (e # es) = pbind (lit_eval e) (\<lambda>v. pbind (lit_evals es) (\<lambda>vs. Inr (v # vs)))"
| "lit_eval_pairs [] = Inr []"
| "lit_eval_pairs ((k, v) # kes) =
     pbind (lit_eval k) (\<lambda>k'. pbind (lit_eval v) (\<lambda>v'. pbind (lit_eval_pairs kes) (\<lambda>kvs. Inr ((k', v') # kvs))))"
  by pat_completeness auto
termination
  by (relation "measure (case_sum size (case_sum (size_list size) (size_list (size_prod size size))))") auto

text \<open>\<open>ast.literal_eval(node_or_string)\<close> on a string.\<close>

definition py_literal_eval :: "string \<Rightarrow> pyval pyres" where
  "py_literal_eval s =
     (case py_parse (dropWhile (\<lambda>c. c = CHR '' '' \<or> c = CHR 0x09) s) of
        None \<Rightarrow> Inl SyntaxError
      | Some e \<Rightarrow> lit_eval e)"

lemmas literal_eval_eval [eval_simps] =
  is_name_start_def is_name_char_def radix_val_def py_escape_def lex_str_def py_frac_def lex_num_def
  name_tok_def new_frame_def signed_def close_items_def close_frame_def comma_step_def colon_step_def
  open_kind_def parse_end_def py_parse_def neg_float_def signed_num_def set_insert_def dict_insert_def
  py_literal_eval_def

end
