(* ===== verification/PostProcess.thy ===== *)
theory PostProcess
  imports Cascade LiteralEval
begin

text \<open>
  The post-processing script run with Python's own parsers: \<open>json.loads\<close> is
  \<open>Json.json_loads\<close> and \<open>ast.literal_eval\<close> is \<open>LiteralEval.py_literal_eval\<close>.  The theorems
  are the behaviour of the whole script (\<open>post_process\<close>, one item of the file) on the
  inputs the specification discusses, and on inputs that show where the code and the
  specification part.
\<close>

definition std_lib :: pylib where
  "std_lib = \<lparr>loads = json_loads, literal_eval = py_literal_eval\<rparr>"

declare std_lib_def [eval_simps]

text \<open>The text of the specification's end-to-end example (section 8, item 6).\<close>

definition fence_example :: string where
  "fence_example =
     ''Here is the result:'' @ [nl] @ ''```json'' @ [nl] @
     ''[[\"paris\", \"capital of\", \"france\"]]'' @ [nl] @ ''```''"

declare fence_example_def [eval_simps]

text \<open>C1, at a concrete input: the hypothesis holds for the specification's JSON example.\<close>

theorem cascade_refines_chain_witness:
  "clean (strategy_chain std_lib) ''[[\"a\",\"b\",\"c\"]]'' \<and>
   cascade std_lib ''[[\"a\",\"b\",\"c\"]]'' =
     pbind (chain (strategy_chain std_lib) ''[[\"a\",\"b\",\"c\"]]'')
       (\<lambda>r. Inr (case r of None \<Rightarrow> PStr S_none | Some v \<Rightarrow> v))"
proof -
  have c: "clean (strategy_chain std_lib) ''[[\"a\",\"b\",\"c\"]]''"
    by (simp add: eval_simps)
  from c Cascade.cascade_refines_chain [OF c] show ?thesis by simp
qed

text \<open>The specification's end-to-end example does not reach the fenced-block strategy:
  the list-of-lists strategy (4) finds the block \<open>[[...]]\<close>, its inner pattern wants single
  quotes and finds no triple, and its empty list ends the cascade.  The item's result is the
  empty list, not the triple the specification expects.\<close>

theorem post_process_fence_example:
  "post_process std_lib fence_example = Inr (PList [])"
  by (simp add: eval_simps)

text \<open>The labelled-field pattern needs a newline after the object, and the code strips the
  text first: a one-line \<open>Subject: a, Predicate: b, Object: c\<close> is not recognised, and no
  other strategy recognises it.\<close>

theorem post_process_single_line_fields:
  "post_process std_lib ''Subject: a, Predicate: b, Object: c'' = Inr (PList [])"
  by (simp add: eval_simps)

text \<open>C6, at a concrete input.\<close>

theorem enumerated_tuples_redundant_witness:
  "extract_enumerated_lists ''no list'' = PStr S_enum_list \<and>
   extract_enumerated_list_of_tuples std_lib ''no list'' = Inr (PStr S_enum_lot)"
proof -
  have h: "extract_enumerated_lists ''no list'' = PStr S_enum_list" by (simp add: eval_simps)
  from h Strategies.enumerated_tuples_redundant [OF h] show ?thesis by simp
qed

end
