(* ===== verification/Service.thy ===== *)
theory Service
  imports Python
begin

text \<open>
  The calls of \<open>src/general_evaluation_final.py\<close> to the Wikidata services (lines 60--156).
  The network is an oracle: \<open>net n r\<close> is the answer to the \<open>n\<close>-th request \<open>r\<close> of the
  run, a decoded JSON value or a \<open>RequestException\<close>, so that a service that fails, recovers
  or changes its answers over time is one value of \<open>net\<close>.  A computation of the evaluation
  is a state transformer over the record \<open>wstate\<close>: the requests issued so far, in order,
  and the seconds slept; it may raise (\<open>'a wm\<close>).  The \<open>@retry(tries, delay, max_delay)\<close>
  decorator of the \<open>retry\<close> package is \<open>retry\<close>: with its default \<open>backoff=1\<close> and
  \<open>delay \<le> max_delay\<close>, as at every call site, it sleeps \<open>delay\<close> seconds after each failed
  attempt but the last, and re-raises the last exception.  The SPARQL templates are kept
  abstract: a request names the template and the identifier substituted for \<open>$item\<close>.
\<close>

datatype squery = QInstanceOf pyval | QSubclassOf pyval | QDomain pyval | QRange pyval

datatype request =
    RSearch string pyval  \<comment> \<open>\<open>wbsearchentities\<close>, with \<open>type=property\<close> when the string is \<open>property\<close>\<close>
  | RSelect squery        \<comment> \<open>a SELECT query of \<open>execute_sparql_query\<close>\<close>
  | RAsk pyval pyval pyval \<comment> \<open>the ASK query of \<open>check_triple_exists\<close>\<close>
  | RLabels pyval         \<comment> \<open>\<open>wbgetentities\<close> for the labels and descriptions of an identifier\<close>
  | RSearchTop string pyval \<comment> \<open>\<open>wbsearchentities\<close> with \<open>limit=10\<close>, \<open>sort=relevance\<close>, \<open>type=item\<close> for \<open>entity\<close>\<close>
  | RPages pyval nat      \<comment> \<open>\<open>action=query, list=search\<close>: the \<open>srsearch\<close> term and \<open>srlimit\<close>\<close>

type_synonym net = "nat \<Rightarrow> request \<Rightarrow> pyval pyres"

record wstate =
  w_trace :: "request list"
  w_slept :: nat

type_synonym 'a wm = "wstate \<Rightarrow> 'a pyres \<times> wstate"

definition wret :: "'a \<Rightarrow> 'a wm" where
  "wret x = (\<lambda>s. (Inr x, s))"

definition wlift :: "'a pyres \<Rightarrow> 'a wm" where
  "wlift r = (\<lambda>s. (r, s))"

definition wbind :: "'a wm \<Rightarrow> ('a \<Rightarrow> 'b wm) \<Rightarrow> 'b wm" where
  "wbind m f = (\<lambda>s. case m s of (Inl e, s') \<Rightarrow> (Inl e, s') | (Inr x, s') \<Rightarrow> f x s')"

text \<open>\<open>try: ... except: x = d\<close>: the requests already issued stay issued.\<close>

definition wtry :: "'a wm \<Rightarrow> 'a \<Rightarrow> 'a wm" where
  "wtry m d = (\<lambda>s. case m s of (Inl e, s') \<Rightarrow> (Inr d, s') | (Inr x, s') \<Rightarrow> (Inr x, s'))"

text \<open>One request: its answer, a value or the exception \<open>requests\<close> raised, is returned
  as data; \<open>wrequest\<close> raises it.\<close>

definition wcall :: "net \<Rightarrow> request \<Rightarrow> pyval pyres wm" where
  "wcall net r = (\<lambda>s. (Inr (net (length (w_trace s)) r), s\<lparr>w_trace := w_trace s @ [r]\<rparr>))"

definition wrequest :: "net \<Rightarrow> request \<Rightarrow> pyval wm" where
  "wrequest net r = wbind (wcall net r) wlift"

definition wsleep :: "nat \<Rightarrow> unit wm" where
  "wsleep d = (\<lambda>s. (Inr (), s\<lparr>w_slept := w_slept s + d\<rparr>))"

text \<open>\<open>__retry_internal\<close> with \<open>Suc n\<close> tries left.\<close>

fun retry_loop :: "nat \<Rightarrow> nat \<Rightarrow> 'a wm \<Rightarrow> 'a wm" where
  "retry_loop 0 d f = f"
| "retry_loop (Suc n) d f =
     (\<lambda>s. case f s of (Inl e, s') \<Rightarrow> wbind (wsleep d) (\<lambda>_. retry_loop n d f) s' | r \<Rightarrow> r)"

definition retry :: "nat \<Rightarrow> nat \<Rightarrow> 'a wm \<Rightarrow> 'a wm" where
  "retry tries delay f = retry_loop (tries - 1) delay f"

definition no_wikiID :: pyval where
  "no_wikiID = PStr ''no-wikiID''"

text \<open>Lines 60--72: the first search result's \<open>id\<close>, or \<open>'no-wikiID'\<close> on any exception
  inside the \<open>try\<close>; a query type other than \<open>entity\<close> and \<open>property\<close> leaves \<open>url\<close>
  unbound before it.\<close>

definition get_wiki_ID :: "net \<Rightarrow> pyval \<Rightarrow> string \<Rightarrow> pyval wm" where
  "get_wiki_ID net query query_type =
     retry 3 2
       (if query_type \<noteq> ''entity'' \<and> query_type \<noteq> ''property'' then wlift (Inl NameError)
        else wtry
         (wbind (wrequest net (RSearch query_type query)) (\<lambda>data.
            wlift (pbind (py_getitem data (PStr ''search'')) (\<lambda>hits.
                   pbind (py_getitem hits (PInt 0)) (\<lambda>hit. py_getitem hit (PStr ''id''))))))
         no_wikiID)"

text \<open>Lines 74--83: \<open>data['boolean']\<close> of the ASK query; no \<open>try\<close>.\<close>

definition check_triple_exists :: "net \<Rightarrow> pyval list \<Rightarrow> pyval wm" where
  "check_triple_exists net triple =
     retry 3 2
       (wbind (wlift (pbind (py_index triple 0) (\<lambda>sb. pbind (py_index triple 1) (\<lambda>pr.
                      pbind (py_index triple 2) (\<lambda>ob. Inr (sb, pr, ob)))))) (\<lambda>(sb, pr, ob).
        wbind (wrequest net (RAsk sb pr ob)) (\<lambda>data. wlift (py_getitem data (PStr ''boolean'')))))"

text \<open>Lines 85--107: every exception of \<open>requests\<close> is caught and printed, and the function
  returns \<open>None\<close>.\<close>

definition execute_sparql_query :: "net \<Rightarrow> squery \<Rightarrow> pyval wm" where
  "execute_sparql_query net q =
     retry 3 2 (wbind (wcall net (RSelect q)) (\<lambda>r. wret (case r of Inl e \<Rightarrow> PNone | Inr data \<Rightarrow> data)))"

text \<open>Lines 109--156.  For one binding and one variable: if the variable is bound, the last
  segment of its URI under its label, \<open>d[i[var+'Label']['value']] = i[var]['value'].split('/')[-1]\<close>.\<close>

definition bind_var :: "string \<Rightarrow> pyval \<Rightarrow> (pyval, pyval) pydict \<Rightarrow> (pyval, pyval) pydict pyres" where
  "bind_var var i d =
     pbind (py_in (PStr var) i) (\<lambda>bound.
       if \<not> bound then Inr d
       else pbind (py_getitem i (PStr var)) (\<lambda>x. pbind (py_getitem x (PStr ''value'')) (\<lambda>v.
            case v of
              PStr uri \<Rightarrow> pbind (py_split ''/'' uri) (\<lambda>parts. pbind (py_index parts (-1)) (\<lambda>last.
                pbind (py_getitem i (PStr (var @ ''Label''))) (\<lambda>l. pbind (py_getitem l (PStr ''value'')) (\<lambda>label.
                Inr (AList.update label (PStr last) d)))))
            | _ \<Rightarrow> Inl AttributeError)))"

type_synonym hops = "(pyval, pyval) pydict \<times> (pyval, pyval) pydict \<times> (pyval, pyval) pydict \<times> (pyval, pyval) pydict"

definition hop_step :: "string \<Rightarrow> hops \<Rightarrow> pyval \<Rightarrow> hops pyres" where
  "hop_step query_type h i =
     (case h of (h0, h1, h2, h3) \<Rightarrow>
        pbind (bind_var query_type i h0) (\<lambda>h0.
        pbind (bind_var ''superClass'' i h1) (\<lambda>h1.
        pbind (bind_var ''superSuperClass'' i h2) (\<lambda>h2.
        pbind (bind_var ''superSuperSuperClass'' i h3) (\<lambda>h3. Inr (h0, h1, h2, h3))))))"

definition hop_names :: "pyval list" where
  "hop_names = [PStr ''zero_hop'', PStr ''one_hop'', PStr ''two_hop'', PStr ''three_hop'']"

definition bindings_result :: "string \<Rightarrow> pyval \<Rightarrow> pyval pyres" where
  "bindings_result query_type response =
     pbind (py_getitem response (PStr ''results'')) (\<lambda>r. pbind (py_getitem r (PStr ''bindings'')) (\<lambda>bs.
       case bs of
         PList bindings \<Rightarrow>
           if query_type = ''instanceOf'' \<or> query_type = ''subclassOf'' then
             pbind (pfoldl (hop_step query_type) ([], [], [], []) bindings) (\<lambda>(h0, h1, h2, h3).
               Inr (PDict (zip hop_names [PDict h0, PDict h1, PDict h2, PDict h3])))
           else if query_type = ''domain'' \<or> query_type = ''range'' then
             pbind (pfoldl (\<lambda>z i. bind_var query_type i z) [] bindings) (\<lambda>z. Inr (PDict z))
           else Inl NameError
       | _ \<Rightarrow> Inl TypeError))"

definition get_bindings_from_sparql_query :: "net \<Rightarrow> squery \<Rightarrow> string \<Rightarrow> pyval wm" where
  "get_bindings_from_sparql_query net q query_type =
     wbind (execute_sparql_query net q) (\<lambda>response. wlift (bindings_result query_type response))"

subsection \<open>Running the state transformers\<close>

lemma wret_apply [simp]: "wret x s = (Inr x, s)"
  by (simp add: wret_def)

lemma wlift_apply [simp]: "wlift r s = (r, s)"
  by (simp add: wlift_def)

lemma wbind_apply [simp]:
  "wbind m f s = (case m s of (Inl e, s') \<Rightarrow> (Inl e, s') | (Inr x, s') \<Rightarrow> f x s')"
  by (simp add: wbind_def)

lemma wtry_apply [simp]:
  "wtry m d s = (case m s of (Inl e, s') \<Rightarrow> (Inr d, s') | (Inr x, s') \<Rightarrow> (Inr x, s'))"
  by (simp add: wtry_def)

lemma wcall_apply [simp]:
  "wcall net r s = (Inr (net (length (w_trace s)) r), s\<lparr>w_trace := w_trace s @ [r]\<rparr>)"
  by (simp add: wcall_def)

lemma wrequest_apply [simp]:
  "wrequest net r s = (net (length (w_trace s)) r, s\<lparr>w_trace := w_trace s @ [r]\<rparr>)"
  by (simp add: wrequest_def)

lemma wsleep_apply [simp]: "wsleep d s = (Inr (), s\<lparr>w_slept := w_slept s + d\<rparr>)"
  by (simp add: wsleep_def)

lemma wbind_wlift_Inr [simp]: "wbind (wlift (Inr x)) f = f x"
  by (rule ext) (simp add: wbind_def wlift_def)

lemma wbind_wret [simp]: "wbind (wret x) f = f x"
  by (rule ext) (simp add: wbind_def wret_def)

lemma retry_loop_Suc_ok:
  "f s = (Inr x, s') \<Longrightarrow> retry_loop (Suc n) d f s = (Inr x, s')"
  by simp

lemma retry_3: "retry 3 d f = retry_loop 2 d f"
  by (simp add: retry_def)

lemmas service_eval [eval_simps] =
  retry_def no_wikiID_def get_wiki_ID_def check_triple_exists_def execute_sparql_query_def
  bind_var_def hop_step_def hop_names_def bindings_result_def get_bindings_from_sparql_query_def

subsection \<open>Requests and retries\<close>

text \<open>A computation that issues exactly the request \<open>r\<close> and does not sleep.\<close>

definition one_request :: "'a wm \<Rightarrow> request \<Rightarrow> bool" where
  "one_request f r \<longleftrightarrow> (\<forall>s. snd (f s) = s\<lparr>w_trace := w_trace s @ [r]\<rparr>)"

text \<open>A retried computation that issues one request per attempt makes between one and
  \<open>n + 1\<close> attempts, and sleeps \<open>d\<close> seconds between two of them.\<close>

lemma retry_loop_attempts:
  assumes "one_request f r"
  shows "\<exists>k. 1 \<le> k \<and> k \<le> Suc n \<and>
             snd (retry_loop n d f s) = s\<lparr>w_trace := w_trace s @ replicate k r, w_slept := w_slept s + d * (k - 1)\<rparr>"
proof (induction n arbitrary: s)
  case 0
  from assms have "snd (f s) = s\<lparr>w_trace := w_trace s @ [r]\<rparr>" by (simp add: one_request_def)
  then show ?case by (intro exI [of _ 1]) simp
next
  case (Suc n)
  obtain res s1 where f: "f s = (res, s1)" by fastforce
  from assms f have s1: "s1 = s\<lparr>w_trace := w_trace s @ [r]\<rparr>"
    by (metis one_request_def snd_conv)
  show ?case
  proof (cases res)
    case (Inr x)
    with f s1 show ?thesis by (intro exI [of _ 1]) simp
  next
    case (Inl e)
    let ?s2 = "s1\<lparr>w_slept := w_slept s1 + d\<rparr>"
    from Suc.IH [of ?s2] obtain k where k: "1 \<le> k" "k \<le> Suc n"
      and st: "snd (retry_loop n d f ?s2) = ?s2\<lparr>w_trace := w_trace ?s2 @ replicate k r,
                                                  w_slept := w_slept ?s2 + d * (k - 1)\<rparr>"
      by blast
    have "snd (retry_loop (Suc n) d f s) = snd (retry_loop n d f ?s2)"
      using f Inl by (simp split: prod.splits sum.splits)
    also have "\<dots> = s\<lparr>w_trace := w_trace s @ replicate (Suc k) r, w_slept := w_slept s + d * (Suc k - 1)\<rparr>"
    proof -
      have ar: "w_slept s + d + d * (k - 1) = w_slept s + d * (Suc k - 1)"
        using k(1) by (cases k) (auto simp: algebra_simps)
      show ?thesis using st s1 ar by (simp add: replicate_append_same [symmetric])
    qed
    finally show ?thesis using k by (intro exI [of _ "Suc k"]) simp
  qed
qed

lemma wtry_result: "wtry m d s = (Inr (py_try (fst (m s)) d), snd (m s))"
  by (cases "m s"; cases "fst (m s)") auto

lemma one_request_wrequest_bind:
  "(\<And>x. \<forall>s. f x s = (fst (f x s), s)) \<Longrightarrow> one_request (wbind (wrequest net r) f) r"
  unfolding one_request_def
  by (auto split: prod.splits sum.splits) (metis snd_conv)

text \<open>C8: \<open>get_wiki_ID\<close> issues exactly one search request per call and never sleeps or
  raises: its \<open>try/except\<close> turns every failure of the service into \<open>'no-wikiID'\<close>, so
  the \<open>@retry(tries=3)\<close> decorator never sees an exception and never retries.  The
  specification asks for up to three attempts with increasing delays before \<open>NotFound\<close>.\<close>

theorem get_wiki_ID_single_request:
  assumes "query_type = ''entity'' \<or> query_type = ''property''"
  shows "get_wiki_ID net q query_type s =
           (Inr (py_try (pbind (net (length (w_trace s)) (RSearch query_type q)) (\<lambda>data.
                   pbind (py_getitem data (PStr ''search'')) (\<lambda>hits.
                   pbind (py_getitem hits (PInt 0)) (\<lambda>hit. py_getitem hit (PStr ''id''))))) no_wikiID),
            s\<lparr>w_trace := w_trace s @ [RSearch query_type q]\<rparr>)"
proof -
  let ?f = "wtry (wbind (wrequest net (RSearch query_type q)) (\<lambda>data.
              wlift (pbind (py_getitem data (PStr ''search'')) (\<lambda>hits.
                     pbind (py_getitem hits (PInt 0)) (\<lambda>hit. py_getitem hit (PStr ''id''))))))
              no_wikiID"
  have f: "?f s = (Inr (py_try (pbind (net (length (w_trace s)) (RSearch query_type q)) (\<lambda>data.
                   pbind (py_getitem data (PStr ''search'')) (\<lambda>hits.
                   pbind (py_getitem hits (PInt 0)) (\<lambda>hit. py_getitem hit (PStr ''id''))))) no_wikiID),
            s\<lparr>w_trace := w_trace s @ [RSearch query_type q]\<rparr>)"
    unfolding wtry_result by (cases "net (length (w_trace s)) (RSearch query_type q)") simp_all
  have "get_wiki_ID net q query_type s = retry_loop (Suc (Suc 0)) 2 ?f s"
    using assms by (auto simp: get_wiki_ID_def retry_3 numeral_2_eq_2)
  with f show ?thesis by (simp only: retry_loop_Suc_ok)
qed

theorem get_wiki_ID_single_request_witness:
  "(''entity'' = ''entity'' \<or> ''entity'' = ''property'') \<and>
   get_wiki_ID (\<lambda>n r. Inr (PDict [(PStr ''search'', PList [PDict [(PStr ''id'', PStr ''Q42'')]])]))
     (PStr ''Douglas Adams'') ''entity'' \<lparr>w_trace = [], w_slept = 0\<rparr> =
   (Inr (PStr ''Q42''), \<lparr>w_trace = [RSearch ''entity'' (PStr ''Douglas Adams'')], w_slept = 0\<rparr>)"
  using get_wiki_ID_single_request [of "''entity''"
      "\<lambda>n r. Inr (PDict [(PStr ''search'', PList [PDict [(PStr ''id'', PStr ''Q42'')]])])"
      "PStr ''Douglas Adams''" "\<lparr>w_trace = [], w_slept = 0\<rparr>"]
  by (simp add: py_index_def)

lemma check_triple_exists_triple:
  "check_triple_exists net [a, b, c] =
     retry_loop 2 2 (wbind (wrequest net (RAsk a b c)) (\<lambda>data. wlift (py_getitem data (PStr ''boolean''))))"
  by (simp add: check_triple_exists_def retry_3 py_index_def del: wbind_apply wrequest_apply)

text \<open>C9: the retries of a statement check are bounded: whatever the service answers, one
  to three ASK requests, and two seconds of sleep between two of them.\<close>

theorem check_triple_exists_attempts:
  "\<exists>k. 1 \<le> k \<and> k \<le> 3 \<and>
       snd (check_triple_exists net [a, b, c] s) =
         s\<lparr>w_trace := w_trace s @ replicate k (RAsk a b c), w_slept := w_slept s + 2 * (k - 1)\<rparr>"
proof -
  note eq = check_triple_exists_triple [of net a b c]
  have "one_request (wbind (wrequest net (RAsk a b c)) (\<lambda>data. wlift (py_getitem data (PStr ''boolean'')))) (RAsk a b c)"
    by (rule one_request_wrequest_bind) simp
  from retry_loop_attempts [OF this, of 2 2 s] show ?thesis
    unfolding eq by (simp add: numeral_3_eq_3)
qed

text \<open>\<open>execute_sparql_query\<close> never raises and issues one request: a failure of the
  service becomes \<open>None\<close>.\<close>

lemma execute_sparql_query_result:
  "execute_sparql_query net q s =
     (Inr (case net (length (w_trace s)) (RSelect q) of Inl e \<Rightarrow> PNone | Inr data \<Rightarrow> data),
      s\<lparr>w_trace := w_trace s @ [RSelect q]\<rparr>)"
  by (simp add: execute_sparql_query_def retry_3 numeral_2_eq_2)

text \<open>When the SPARQL service fails, \<open>execute_sparql_query\<close> returns \<open>None\<close> and
  \<open>get_bindings_from_sparql_query\<close> raises \<open>TypeError\<close> on \<open>None['results']\<close>: a failed
  schema or hierarchy lookup aborts the run instead of degrading.\<close>

theorem get_bindings_network_failure:
  assumes "net (length (w_trace s)) (RSelect q) = Inl e"
  shows "get_bindings_from_sparql_query net q query_type s =
           (Inl TypeError, s\<lparr>w_trace := w_trace s @ [RSelect q]\<rparr>)"
  using assms
  by (simp add: get_bindings_from_sparql_query_def execute_sparql_query_result bindings_result_def)

theorem get_bindings_network_failure_witness:
  "(\<lambda>n r. Inl RequestException) (length (w_trace \<lparr>w_trace = [], w_slept = 0\<rparr>))
      (RSelect (QDomain (PStr ''P50''))) = (Inl RequestException :: pyval pyres) \<and>
   get_bindings_from_sparql_query (\<lambda>n r. Inl RequestException) (QDomain (PStr ''P50'')) ''domain''
      \<lparr>w_trace = [], w_slept = 0\<rparr> =
     (Inl TypeError, \<lparr>w_trace = [RSelect (QDomain (PStr ''P50''))], w_slept = 0\<rparr>)"
  using get_bindings_network_failure [of "\<lambda>n r. Inl RequestException" "\<lparr>w_trace = [], w_slept = 0\<rparr>"
      "QDomain (PStr ''P50'')" RequestException "''domain''"]
  by simp

subsection \<open>Reasoning about state transformers\<close>

text \<open>\<open>wp f Q\<close>: every value \<open>f\<close> returns, from any state, satisfies \<open>Q\<close> (an exception
  satisfies everything: it ends the run).  \<open>issues P f\<close>: \<open>f\<close> only appends requests, and
  every request it appends satisfies \<open>P\<close>.  The rules of \<open>wp_intros\<close> and \<open>issues_intros\<close>
  decompose a computation along its binds and tests.\<close>

definition wp :: "'a wm \<Rightarrow> ('a \<Rightarrow> bool) \<Rightarrow> bool" where
  "wp f Q \<longleftrightarrow> (\<forall>s. case fst (f s) of Inl e \<Rightarrow> True | Inr x \<Rightarrow> Q x)"

definition issues :: "(request \<Rightarrow> bool) \<Rightarrow> 'a wm \<Rightarrow> bool" where
  "issues P f \<longleftrightarrow> (\<forall>s. \<exists>new. w_trace (snd (f s)) = w_trace s @ new \<and> list_all P new)"

named_theorems wp_intros and issues_intros

lemma wp_wret [wp_intros]: "Q x \<Longrightarrow> wp (wret x) Q"
  by (simp add: wp_def)

lemma wp_wlift [wp_intros]: "(\<And>x. r = Inr x \<Longrightarrow> Q x) \<Longrightarrow> wp (wlift r) Q"
  by (auto simp: wp_def split: sum.splits)

lemma wbind_cases:
  obtains (exc) e s' where "m s = (Inl e, s')" "wbind m f s = (Inl e, s')"
  | (val) x s' where "m s = (Inr x, s')" "wbind m f s = f x s'"
proof -
  obtain r s' where ms: "m s = (r, s')" by fastforce
  show thesis
  proof (cases r)
    case (Inl e)
    with ms show thesis by (intro that(1) [of e s']) auto
  next
    case (Inr x)
    with ms show thesis by (intro that(2) [of x s']) auto
  qed
qed

lemma wp_wbind:
  assumes "\<And>x. wp (f x) Q"
  shows "wp (wbind m f) Q"
  unfolding wp_def
proof
  fix s
  show "case fst (wbind m f s) of Inl e \<Rightarrow> True | Inr x \<Rightarrow> Q x"
  proof (cases rule: wbind_cases [of m s f])
    case (val x s')
    with assms [of x] show ?thesis by (simp add: wp_def)
  qed simp
qed

lemma wp_wbind_post:
  assumes "wp m R" "\<And>x. R x \<Longrightarrow> wp (f x) Q"
  shows "wp (wbind m f) Q"
  unfolding wp_def
proof
  fix s
  show "case fst (wbind m f s) of Inl e \<Rightarrow> True | Inr x \<Rightarrow> Q x"
  proof (cases rule: wbind_cases [of m s f])
    case (val x s')
    from assms(1) val(1) have "R x" unfolding wp_def by (metis fst_conv sum.case(2))
    with assms(2) val(2) show ?thesis by (simp add: wp_def)
  qed simp
qed

lemma wbind_assoc: "wbind (wbind m f) g = wbind m (\<lambda>x. wbind (f x) g)"
  by (rule ext) (simp split: prod.splits sum.splits)

lemma wp_wbind_assoc [wp_intros]: "wp (wbind m (\<lambda>x. wbind (f x) g)) Q \<Longrightarrow> wp (wbind (wbind m f) g) Q"
  by (simp only: wbind_assoc)

text \<open>The services answer anything: a bind after a call holds for every answer.\<close>

lemma wp_wbind_services [wp_intros]:
  "(\<And>x. wp (f x) Q) \<Longrightarrow> wp (wbind (get_wiki_ID net q qt) f) Q"
  "(\<And>x. wp (f x) Q) \<Longrightarrow> wp (wbind (get_bindings_from_sparql_query net sqry qt) f) Q"
  "(\<And>x. wp (f x) Q) \<Longrightarrow> wp (wbind (check_triple_exists net t) f) Q"
  by (rule wp_wbind; simp)+

lemma wp_wbind_wlift [wp_intros]: "(\<And>x. r = Inr x \<Longrightarrow> wp (f x) Q) \<Longrightarrow> wp (wbind (wlift r) f) Q"
  by (cases r) (simp_all add: wp_def)

lemma wp_wbind_wret [wp_intros]: "wp (f x) Q \<Longrightarrow> wp (wbind (wret x) f) Q"
  by simp

lemma wp_wbind_if [wp_intros]:
  "(c \<Longrightarrow> wp (wbind m1 f) Q) \<Longrightarrow> (\<not> c \<Longrightarrow> wp (wbind m2 f) Q) \<Longrightarrow> wp (wbind (if c then m1 else m2) f) Q"
  by simp

lemma wp_if [wp_intros]: "(c \<Longrightarrow> wp f Q) \<Longrightarrow> (\<not> c \<Longrightarrow> wp g Q) \<Longrightarrow> wp (if c then f else g) Q"
  by simp

lemma wp_case_prod [wp_intros]: "(\<And>a b. p = (a, b) \<Longrightarrow> wp (f a b) Q) \<Longrightarrow> wp (case p of (a, b) \<Rightarrow> f a b) Q"
  by (cases p) simp

lemma wp_case_option [wp_intros]:
  "(x = None \<Longrightarrow> wp f Q) \<Longrightarrow> (\<And>y. x = Some y \<Longrightarrow> wp (g y) Q) \<Longrightarrow> wp (case x of None \<Rightarrow> f | Some y \<Rightarrow> g y) Q"
  by (cases x) simp_all

text \<open>An invariant of every step is one of their sequence.\<close>

lemma wp_wbind_inv: "wp m I \<Longrightarrow> (\<And>x. I x \<Longrightarrow> wp (f x) I) \<Longrightarrow> wp (wbind m f) I"
  by (rule wp_wbind_post)

lemma wp_retry_loop: "wp f Q \<Longrightarrow> wp (retry_loop n d f) Q"
proof (induction n)
  case (Suc n)
  show ?case unfolding wp_def
  proof
    fix s
    show "case fst (retry_loop (Suc n) d f s) of Inl e \<Rightarrow> True | Inr x \<Rightarrow> Q x"
    proof (cases "f s")
      case (Pair r s')
      have fs: "case r of Inl e \<Rightarrow> True | Inr x \<Rightarrow> Q x"
        using Suc.prems Pair unfolding wp_def by (metis fst_conv)
      have rl: "\<And>t. case fst (retry_loop n d f t) of Inl e \<Rightarrow> True | Inr x \<Rightarrow> Q x"
        using Suc.IH [OF Suc.prems] unfolding wp_def by blast
      show ?thesis using fs rl Pair by (cases r) auto
    qed
  qed
qed simp

lemma wp_retry [wp_intros]: "wp f Q \<Longrightarrow> wp (retry n d f) Q"
  unfolding retry_def by (rule wp_retry_loop)

lemma wp_foldl:
  "wp m I \<Longrightarrow> (\<And>x m'. wp m' I \<Longrightarrow> wp (F m' x) I) \<Longrightarrow> wp (foldl F m xs) I"
  by (induction xs arbitrary: m) simp_all

text \<open>A loop whose every step appends to an observed list appends the steps' parts in
  order.\<close>

lemma wp_foldl_append:
  assumes "wp m (\<lambda>st. f st = A)" "\<And>st x. wp (F st x) (\<lambda>st'. f st' = f st @ g x)"
  shows "wp (foldl (\<lambda>m x. wbind m (\<lambda>st. F st x)) m xs) (\<lambda>st. f st = A @ concat (map g xs))"
  using assms(1)
proof (induction xs arbitrary: m A)
  case (Cons x xs)
  have "wp (wbind m (\<lambda>st. F st x)) (\<lambda>st. f st = A @ g x)"
  proof (rule wp_wbind_post [OF Cons.prems])
    fix st assume "f st = A"
    with assms(2) [of st x] show "wp (F st x) (\<lambda>st'. f st' = A @ g x)" by simp
  qed
  from Cons.IH [OF this] show ?case by simp
qed simp

text \<open>An exception ends a loop of binds; a failed attempt of a retry sleeps and retries.\<close>

lemma foldl_wbind_exc:
  assumes "m s = (Inl e, s')"
  shows "foldl (\<lambda>m x. wbind m (g x)) m xs s = (Inl e, s')"
  using assms by (induction xs arbitrary: m) auto

lemma retry_loop_Suc_exc:
  "f s = (Inl e, s') \<Longrightarrow> retry_loop (Suc n) d f s = retry_loop n d f (s'\<lparr>w_slept := w_slept s' + d\<rparr>)"
  by simp

lemma issues_wret [issues_intros]: "issues P (wret x)"
  by (simp add: issues_def)

lemma issues_wlift [issues_intros]: "issues P (wlift r)"
  by (simp add: issues_def)

lemma issues_wsleep [issues_intros]: "issues P (wsleep d)"
  by (simp add: issues_def)

lemma issues_wcall [issues_intros]: "P r \<Longrightarrow> issues P (wcall net r)"
  by (simp add: issues_def)

lemma issues_wrequest [issues_intros]: "P r \<Longrightarrow> issues P (wrequest net r)"
  by (simp add: issues_def)

lemma issues_wbind [issues_intros]:
  assumes "issues P m" "\<And>x. issues P (f x)"
  shows "issues P (wbind m f)"
  unfolding issues_def
proof
  fix s
  from assms(1) obtain new where n: "w_trace (snd (m s)) = w_trace s @ new" "list_all P new"
    unfolding issues_def by blast
  show "\<exists>new. w_trace (snd (wbind m f s)) = w_trace s @ new \<and> list_all P new"
  proof (cases rule: wbind_cases [of m s f])
    case (exc e s')
    with n show ?thesis by auto
  next
    case (val x s')
    from assms(2) [of x] obtain new2 where "w_trace (snd (f x s')) = w_trace s' @ new2" "list_all P new2"
      unfolding issues_def by blast
    with val n show ?thesis by (intro exI [of _ "new @ new2"]) auto
  qed
qed

lemma issues_wtry [issues_intros]: "issues P m \<Longrightarrow> issues P (wtry m d)"
  unfolding issues_def by (simp add: wtry_result del: wtry_apply)

lemma issues_if [issues_intros]: "(c \<Longrightarrow> issues P f) \<Longrightarrow> (\<not> c \<Longrightarrow> issues P g) \<Longrightarrow> issues P (if c then f else g)"
  by simp

lemma issues_case_prod [issues_intros]: "(\<And>a b. p = (a, b) \<Longrightarrow> issues P (f a b)) \<Longrightarrow> issues P (case p of (a, b) \<Rightarrow> f a b)"
  by (cases p) simp

lemma issues_case_option [issues_intros]:
  "(x = None \<Longrightarrow> issues P f) \<Longrightarrow> (\<And>y. x = Some y \<Longrightarrow> issues P (g y)) \<Longrightarrow>
   issues P (case x of None \<Rightarrow> f | Some y \<Rightarrow> g y)"
  by (cases x) simp_all

lemma issues_retry_loop [issues_intros]: "issues P f \<Longrightarrow> issues P (retry_loop n d f)"
proof (induction n)
  case 0
  then show ?case by simp
next
  case (Suc n)
  show ?case
    unfolding issues_def
  proof
    fix s
    obtain r s1 where f: "f s = (r, s1)" by fastforce
    from Suc.prems f obtain new where n1: "w_trace s1 = w_trace s @ new" "list_all P new"
      unfolding issues_def by (metis snd_conv)
    show "\<exists>new. w_trace (snd (retry_loop (Suc n) d f s)) = w_trace s @ new \<and> list_all P new"
    proof (cases r)
      case (Inr x)
      with f n1 show ?thesis by auto
    next
      case (Inl e)
      from Suc.IH Suc.prems obtain new2 where
        n2: "w_trace (snd (retry_loop n d f (s1\<lparr>w_slept := w_slept s1 + d\<rparr>))) = w_trace s1 @ new2"
            "list_all P new2"
        unfolding issues_def by (metis wstate.select_convs(1) wstate.surjective wstate.update_convs(2))
      from f Inl n1 n2 show ?thesis by (intro exI [of _ "new @ new2"]) (auto split: prod.splits)
    qed
  qed
qed

lemma issues_retry [issues_intros]: "issues P f \<Longrightarrow> issues P (retry n d f)"
  unfolding retry_def by (rule issues_retry_loop)

lemma issues_foldl:
  "issues P m \<Longrightarrow> (\<And>x m'. issues P m' \<Longrightarrow> issues P (F m' x)) \<Longrightarrow> issues P (foldl F m xs)"
  by (induction xs arbitrary: m) simp_all

lemma issues_get_bindings:
  "P (RSelect q) \<Longrightarrow> issues P (get_bindings_from_sparql_query net q query_type)"
  unfolding get_bindings_from_sparql_query_def execute_sparql_query_def
  by (intro issues_intros)

end
