(* ===== verification/Hierarchy.thy ===== *)
theory Hierarchy
  imports Service
begin

text \<open>
  The type-hierarchy matching of \<open>src/general_evaluation_final.py\<close> (lines 158--196): the
  deep merge of the \<open>instanceOf\<close> and \<open>subclassOf\<close> hierarchies (\<open>merge_dicts\<close>), the scan
  for the first hop whose class is among the declared domain or range classes
  (\<open>find_matching_classes\<close>), and the hop name as a number
  (\<open>convert_match_level_to_integer\<close>).  A hierarchy is the dictionary
  \<open>get_bindings_from_sparql_query\<close> builds: hop name to a dictionary from class label to
  class identifier.  Its abstraction \<open>hier_abs\<close>, a map from hop and label to identifier, is
  the specification's \<open>TypeHierarchy\<close>; the merge refines the map update in which the
  \<open>subclassOf\<close> side wins.
\<close>

text \<open>Lines 189--196.  \<open>merged = dict1.copy()\<close>, then every item of \<open>dict2\<close> in order.\<close>

function merge_loop :: "(pyval, pyval) pydict \<Rightarrow> (pyval, pyval) pydict \<Rightarrow> (pyval, pyval) pydict" where
  "merge_loop merged [] = merged"
| "merge_loop merged ((key, value) # kvs) =
     merge_loop
       (case (map_of merged key, value) of
          (Some (PDict m), PDict v) \<Rightarrow> AList.update key (PDict (merge_loop m v)) merged
        | _ \<Rightarrow> AList.update key value merged)
       kvs"
  by pat_completeness auto
termination
  by (relation "measure (\<lambda>(m, d). size_list (size_prod size size) d)") auto

definition merge_dicts :: "(pyval, pyval) pydict \<Rightarrow> (pyval, pyval) pydict \<Rightarrow> (pyval, pyval) pydict" where
  "merge_dicts dict1 dict2 = merge_loop dict1 dict2"

text \<open>Lines 158--175.  The hops in the order of the dictionary, the classes of a hop in
  theirs; the first class whose identifier is among the values of \<open>relation_dict\<close> wins.
  \<open>classes.items()\<close> on a value that is not a dictionary raises \<open>AttributeError\<close>.\<close>

fun find_hop :: "(pyval, pyval) pydict \<Rightarrow> pyval list \<Rightarrow> (pyval \<times> pyval \<times> pyval) option pyres" where
  "find_hop [] ids = Inr None"
| "find_hop ((hop, classes) # hs) ids =
     (case classes of
        PDict cls \<Rightarrow>
          (case find (\<lambda>(label, wiki_id). wiki_id \<in> set ids) cls of
             Some (label, wiki_id) \<Rightarrow> Inr (Some (hop, wiki_id, label))
           | None \<Rightarrow> find_hop hs ids)
      | _ \<Rightarrow> Inl AttributeError)"

definition find_matching_classes :: "pyval \<Rightarrow> pyval \<Rightarrow> (bool \<times> pyval \<times> pyval \<times> pyval) pyres" where
  "find_matching_classes entity_dict relation_dict =
     (case (entity_dict, relation_dict) of
        (PDict hops, PDict rel) \<Rightarrow>
          pbind (find_hop hops (map snd rel)) (\<lambda>r.
            Inr (case r of
                   Some (hop, wiki_id, label) \<Rightarrow> (True, hop, wiki_id, label)
                 | None \<Rightarrow> (False, PNone, PNone, PNone)))
      | _ \<Rightarrow> Inl AttributeError)"

text \<open>Lines 178--187: four tests in sequence, each on the value the previous ones left.\<close>

definition convert_match_level_to_integer :: "pyval \<Rightarrow> pyval" where
  "convert_match_level_to_integer matching_level =
     (let l0 = (if matching_level = PStr ''zero_hop'' then PInt 0 else matching_level);
          l1 = (if l0 = PStr ''one_hop'' then PInt 1 else l0);
          l2 = (if l1 = PStr ''two_hop'' then PInt 2 else l1)
      in if l2 = PStr ''three_hop'' then PInt 3 else l2)"

lemmas hierarchy_eval [eval_simps] =
  merge_dicts_def find_matching_classes_def convert_match_level_to_integer_def

subsection \<open>The abstract hierarchy\<close>

text \<open>A hierarchy as the specification sees it: hop and label to class identifier.\<close>

definition hier_abs :: "(pyval, pyval) pydict \<Rightarrow> pyval \<Rightarrow> pyval \<Rightarrow> pyval option" where
  "hier_abs h hop label = (case map_of h hop of Some (PDict cls) \<Rightarrow> map_of cls label | _ \<Rightarrow> None)"

fun is_dict :: "pyval \<Rightarrow> bool" where
  "is_dict (PDict kvs) = True"
| "is_dict v = False"

text \<open>Well-formed: distinct hops, each a dictionary with distinct labels whose identifiers
  are not dictionaries (they are the strings cut from the URIs).\<close>

definition wf_hier :: "(pyval, pyval) pydict \<Rightarrow> bool" where
  "wf_hier h \<longleftrightarrow> distinct (map fst h) \<and>
     list_all (\<lambda>(hop, v). case v of PDict cls \<Rightarrow> distinct (map fst cls) \<and> list_all (\<lambda>(l, w). \<not> is_dict w) cls | _ \<Rightarrow> False) h"

text \<open>The classes of a hierarchy in scanning order: hop, identifier, label.\<close>

definition hier_list :: "(pyval, pyval) pydict \<Rightarrow> (pyval \<times> pyval \<times> pyval) list" where
  "hier_list h = concat (map (\<lambda>(hop, v). case v of PDict cls \<Rightarrow> map (\<lambda>(l, w). (hop, w, l)) cls | _ \<Rightarrow> []) h)"

subsection \<open>The merge\<close>

text \<open>One step of the merge: the value at the key, merged when both are dictionaries.\<close>

definition merge_val :: "pyval option \<Rightarrow> pyval \<Rightarrow> pyval" where
  "merge_val old v = (case (old, v) of (Some (PDict a), PDict b) \<Rightarrow> PDict (merge_loop a b) | _ \<Rightarrow> v)"

lemma merge_loop_Cons:
  "merge_loop m ((k, v) # kvs) = merge_loop (AList.update k (merge_val (map_of m k) v) m) kvs"
  by (auto simp: merge_val_def split: option.splits pyval.splits)

lemma merge_loop_map_of:
  "distinct (map fst d) \<Longrightarrow>
   map_of (merge_loop m d) k =
     (case map_of d k of None \<Rightarrow> map_of m k | Some v \<Rightarrow> Some (merge_val (map_of m k) v))"
proof (induction d arbitrary: m)
  case Nil
  then show ?case by simp
next
  case (Cons kv d)
  obtain ky vl where kv: "kv = (ky, vl)" by fastforce
  let ?m' = "AList.update ky (merge_val (map_of m ky) vl) m"
  from Cons.prems kv have d: "distinct (map fst d)" and nk: "map_of d ky = None"
    by (auto simp: map_of_eq_None_iff)
  have "map_of (merge_loop m (kv # d)) k = map_of (merge_loop ?m' d) k"
    by (simp only: kv merge_loop_Cons)
  also have "\<dots> = (case map_of d k of None \<Rightarrow> map_of ?m' k | Some v \<Rightarrow> Some (merge_val (map_of ?m' k) v))"
    using Cons.IH [OF d] .
  also have "\<dots> = (case map_of (kv # d) k of None \<Rightarrow> map_of m k | Some v \<Rightarrow> Some (merge_val (map_of m k) v))"
    using nk kv by (cases "k = ky"; cases "map_of d k") auto
  finally show ?case .
qed

lemma merge_case_flat: "\<not> is_dict v \<Longrightarrow> merge_val x v = v"
  by (cases v) (auto simp: merge_val_def split: option.splits pyval.splits)

lemma merge_loop_flat:
  assumes "distinct (map fst d)" "list_all (\<lambda>(l, w). \<not> is_dict w) d"
  shows "map_of (merge_loop m d) k = (case map_of d k of None \<Rightarrow> map_of m k | Some w \<Rightarrow> Some w)"
proof (cases "map_of d k")
  case None
  with assms show ?thesis by (simp add: merge_loop_map_of)
next
  case (Some w)
  with assms(2) have "\<not> is_dict w" by (auto simp: list_all_iff dest: map_of_SomeD)
  with Some assms(1) show ?thesis by (simp add: merge_loop_map_of merge_case_flat)
qed

text \<open>C11: merging the \<open>instanceOf\<close> and \<open>subclassOf\<close> hierarchies refines the update of
  the abstract hierarchy by the \<open>subclassOf\<close> one: at every hop and label the \<open>subclassOf\<close>
  identifier wins, and the \<open>instanceOf\<close> identifier is kept where the \<open>subclassOf\<close> side has
  none (the collision policy of the specification).\<close>

theorem merge_dicts_refines:
  assumes "wf_hier d2"
  shows "hier_abs (merge_dicts d1 d2) hop label =
           (case hier_abs d2 hop label of Some w \<Rightarrow> Some w | None \<Rightarrow> hier_abs d1 hop label)"
proof -
  from assms have d: "distinct (map fst d2)" by (simp add: wf_hier_def)
  show ?thesis
  proof (cases "map_of d2 hop")
    case None
    with d show ?thesis by (simp add: hier_abs_def merge_dicts_def merge_loop_map_of)
  next
    case (Some v)
    with assms obtain cls where v: "v = PDict cls" and dc: "distinct (map fst cls)"
      and fl: "list_all (\<lambda>(l, w). \<not> is_dict w) cls"
      by (auto simp: wf_hier_def list_all_iff dest!: map_of_SomeD split: pyval.splits)
    show ?thesis
    proof (cases "map_of d1 hop")
      case None
      with Some v d show ?thesis by (simp add: hier_abs_def merge_dicts_def merge_loop_map_of merge_val_def split: option.splits)
    next
      case (Some u)
      have m: "map_of (merge_dicts d1 d2) hop = Some (merge_val (Some u) (PDict cls))"
        using \<open>map_of d2 hop = Some v\<close> v d Some by (simp add: merge_dicts_def merge_loop_map_of)
      show ?thesis
      proof (cases "is_dict u")
        case True
        then obtain a where "u = PDict a" by (cases u) auto
        with m Some \<open>map_of d2 hop = Some v\<close> v show ?thesis
          by (cases "map_of cls label") (simp_all add: hier_abs_def merge_val_def merge_loop_flat [OF dc fl])
      next
        case False
        with m Some \<open>map_of d2 hop = Some v\<close> v show ?thesis
          by (cases u) (simp_all add: hier_abs_def merge_val_def split: option.splits)
      qed
    qed
  qed
qed

subsection \<open>The scan\<close>

theorem merge_dicts_refines_witness:
  "wf_hier [(PStr ''zero_hop'', PDict [(PStr ''dog'', PStr ''Q5'')])] \<and>
   hier_abs (merge_dicts [(PStr ''zero_hop'', PDict [(PStr ''dog'', PStr ''Q1'')]),
                          (PStr ''one_hop'', PDict [(PStr ''animal'', PStr ''Q2'')])]
               [(PStr ''zero_hop'', PDict [(PStr ''dog'', PStr ''Q5'')])])
     (PStr ''zero_hop'') (PStr ''dog'') = Some (PStr ''Q5'') \<and>
   hier_abs (merge_dicts [(PStr ''zero_hop'', PDict [(PStr ''dog'', PStr ''Q1'')]),
                          (PStr ''one_hop'', PDict [(PStr ''animal'', PStr ''Q2'')])]
               [(PStr ''zero_hop'', PDict [(PStr ''dog'', PStr ''Q5'')])])
     (PStr ''one_hop'') (PStr ''animal'') = Some (PStr ''Q2'')"
  using merge_dicts_refines [of "[(PStr ''zero_hop'', PDict [(PStr ''dog'', PStr ''Q5'')])]"
      "[(PStr ''zero_hop'', PDict [(PStr ''dog'', PStr ''Q1'')]), (PStr ''one_hop'', PDict [(PStr ''animal'', PStr ''Q2'')])]"]
  by (simp add: wf_hier_def hier_abs_def)

lemma find_append_eq: "find P (xs @ ys) = (case find P xs of None \<Rightarrow> find P ys | Some x \<Rightarrow> Some x)"
  by (induction xs) auto

lemma find_hop_hier_list:
  "list_all (\<lambda>(hop, v). is_dict v) hops \<Longrightarrow>
   find_hop hops ids = Inr (find (\<lambda>(hop, w, l). w \<in> set ids) (hier_list hops))"
proof (induction hops)
  case Nil
  then show ?case by (simp add: hier_list_def)
next
  case (Cons hc hops)
  obtain hop v where hc: "hc = (hop, v)" by fastforce
  with Cons.prems obtain cls where v: "v = PDict cls" by (cases v) auto
  have f: "find (\<lambda>(hop', w, l). w \<in> set ids) (map (\<lambda>(l, w). (hop, w, l)) cls) =
           map_option (\<lambda>(l, w). (hop, w, l)) (find (\<lambda>(l, w). w \<in> set ids) cls)"
    by (induction cls) auto
  from Cons hc v f show ?case
    by (auto simp: hier_list_def find_append_eq split: option.splits)
qed

text \<open>C12: \<open>find_matching_classes\<close> answers the first class, in the order of the hops and
  then of the classes of a hop, whose identifier is a declared domain (or range) class: its
  hop, identifier and label; and no match when there is none.\<close>

theorem find_matching_classes_first:
  assumes "list_all (\<lambda>(hop, v). is_dict v) hops"
  shows "find_matching_classes (PDict hops) (PDict rel) =
           Inr (case find (\<lambda>(hop, w, l). w \<in> set (map snd rel)) (hier_list hops) of
                  Some (hop, w, l) \<Rightarrow> (True, hop, w, l)
                | None \<Rightarrow> (False, PNone, PNone, PNone))"
  using assms by (simp add: find_matching_classes_def find_hop_hier_list)


text \<open>The example of the specification (section 8.4): \<open>dog\<close> at hop zero does not match the
  declared domain \<open>animal\<close>, \<open>animal\<close> at hop one does, at level 1.\<close>

theorem find_matching_classes_first_witness:
  "list_all (\<lambda>(hop, v). is_dict v)
     [(PStr ''zero_hop'', PDict [(PStr ''dog'', PStr ''Q1'')]), (PStr ''one_hop'', PDict [(PStr ''animal'', PStr ''Q2'')])] \<and>
   find_matching_classes
     (PDict [(PStr ''zero_hop'', PDict [(PStr ''dog'', PStr ''Q1'')]), (PStr ''one_hop'', PDict [(PStr ''animal'', PStr ''Q2'')])])
     (PDict [(PStr ''animal'', PStr ''Q2'')]) =
     Inr (True, PStr ''one_hop'', PStr ''Q2'', PStr ''animal'') \<and>
   convert_match_level_to_integer (PStr ''one_hop'') = PInt 1"
  using find_matching_classes_first
      [of "[(PStr ''zero_hop'', PDict [(PStr ''dog'', PStr ''Q1'')]), (PStr ''one_hop'', PDict [(PStr ''animal'', PStr ''Q2'')])]"
          "[(PStr ''animal'', PStr ''Q2'')]"]
  by (simp add: hier_list_def convert_match_level_to_integer_def)

end
