(* ===== verification/Triples.thy ===== *)
theory Triples
  imports Python
begin

text \<open>
  Reading the triples of one post-processed item, as both evaluation scripts do:
  \<open>read_triples\<close> of \<open>src/general_evaluation_final.py\<close> (lines 27--58) and of
  \<open>src/3_evaluation_module/evaluation_reference_to_annotations/evaluate.py\<close> (lines 20--56,
  here \<open>read_triples_ann\<close>).  The second also accepts capitalised keys; the two agree on
  every input without an item that has all three capitalised keys.
\<close>

definition has_keys :: "string list \<Rightarrow> pyval \<Rightarrow> bool" where
  "has_keys ks item = (case item of PDict kvs \<Rightarrow> list_all (\<lambda>k. PStr k \<in> set (map fst kvs)) ks | _ \<Rightarrow> False)"

definition get_keys :: "string list \<Rightarrow> pyval \<Rightarrow> pyval" where
  "get_keys ks item =
     (case item of PDict kvs \<Rightarrow> PList (map (\<lambda>k. case map_of kvs (PStr k) of Some v \<Rightarrow> v | None \<Rightarrow> PNone) ks)
                 | _ \<Rightarrow> PNone)"

fun is_list :: "pyval \<Rightarrow> bool" where
  "is_list (PList xs) = True"
| "is_list v = False"

definition spo :: "string list" where
  "spo = [''subject'', ''predicate'', ''object'']"

text \<open>The list under a key of a dictionary, when all its items have the three keys.\<close>

definition keyed_triples :: "string \<Rightarrow> (pyval, pyval) pydict \<Rightarrow> pyval list option" where
  "keyed_triples k kvs =
     (case map_of kvs (PStr k) of
        Some (PList items) \<Rightarrow> if list_all (has_keys spo) items then Some (map (get_keys spo) items) else None
      | _ \<Rightarrow> None)"

definition read_triples :: "pyval \<Rightarrow> pyval list option" where
  "read_triples data =
     (case data of
        PList items \<Rightarrow>
          if list_all is_list items then Some items
          else if list_all (has_keys spo) items then Some (map (get_keys spo) items)
          else if list_all (has_keys [''subject'', ''relation'', ''object'']) items
          then Some (map (get_keys [''subject'', ''relation'', ''object'']) items)
          else None
      | PDict kvs \<Rightarrow>
          (case keyed_triples ''Triples'' kvs of
             Some ts \<Rightarrow> Some ts
           | None \<Rightarrow> (case keyed_triples ''triples'' kvs of
                        Some ts \<Rightarrow> Some ts
                      | None \<Rightarrow> keyed_triples ''knowledge_triples'' kvs))
      | _ \<Rightarrow> None)"

text \<open>\<open>evaluate.py\<close>, lines 20--56: as above, with a third case for the keys
  \<open>Subject\<close>, \<open>Predicate\<close>, \<open>Object\<close> before the \<open>relation\<close> case.\<close>

definition spo_cap :: "string list" where
  "spo_cap = [''Subject'', ''Predicate'', ''Object'']"

definition read_triples_ann :: "pyval \<Rightarrow> pyval list option" where
  "read_triples_ann data =
     (case data of
        PList items \<Rightarrow>
          if list_all is_list items then Some items
          else if list_all (has_keys spo) items then Some (map (get_keys spo) items)
          else if list_all (has_keys spo_cap) items then Some (map (get_keys spo_cap) items)
          else if list_all (has_keys [''subject'', ''relation'', ''object'']) items
          then Some (map (get_keys [''subject'', ''relation'', ''object'']) items)
          else None
      | PDict kvs \<Rightarrow>
          (case keyed_triples ''Triples'' kvs of
             Some ts \<Rightarrow> Some ts
           | None \<Rightarrow> (case keyed_triples ''triples'' kvs of
                        Some ts \<Rightarrow> Some ts
                      | None \<Rightarrow> keyed_triples ''knowledge_triples'' kvs))
      | _ \<Rightarrow> None)"

lemmas triples_eval [eval_simps] =
  has_keys_def get_keys_def spo_def spo_cap_def keyed_triples_def read_triples_def read_triples_ann_def

text \<open>C20: the reader of the annotation evaluation agrees with the reader of the Wikidata
  evaluation except on a list of dictionaries that are neither lists nor have the
  lower-case keys but all have the keys \<open>Subject\<close>, \<open>Predicate\<close>, \<open>Object\<close>, which only
  the former reads: the two evaluations can see different triples in the same file.\<close>

theorem read_triples_ann_eq:
  "read_triples_ann data =
     (case data of
        PList items \<Rightarrow>
          if \<not> list_all is_list items \<and> \<not> list_all (has_keys spo) items \<and> list_all (has_keys spo_cap) items
          then Some (map (get_keys spo_cap) items)
          else read_triples data
      | _ \<Rightarrow> read_triples data)"
  by (cases data) (simp_all add: read_triples_ann_def read_triples_def)

end
