(* ===== verification/WikidataEval.thy ===== *)
theory WikidataEval
  imports Hierarchy Triples
begin

text \<open>
  The evaluation loop of \<open>evaluate()\<close> in \<open>src/general_evaluation_final.py\<close> (lines 27--58
  and 306--500): reading the triples of an item (\<open>read_triples\<close>), and for every triple the
  lookups of its three parts, the relation fallback, the domain and range lookups, the
  hierarchy matches of subject and object, the statement check, and the counters and audit
  record of the file.  The record \<open>estate\<close> holds the variables of one file's pass, with the
  code's names; \<open>eval_triple\<close> is one iteration of the inner loop, split into the blocks of
  the code (\<open>eval_lookup\<close>, \<open>eval_schema\<close>, \<open>eval_subject\<close>, \<open>eval_object\<close>,
  \<open>eval_statement\<close>).  Writing the JSON files at the end of a file is not modelled.
\<close>

subsection \<open>The variables of one file's pass\<close>

record estate =
  all_triples :: "pyval list"
  malformed_triples :: "pyval list"
  all_relations :: "(string \<times> pyval) list"
  all_entities :: "(string \<times> pyval) list"
  extraction_reading_problems :: "pyval list"
  triples_with_all_components_in_wikidata :: nat
  triple_dict :: "(string, (string, pyval) pydict) pydict"
  has_domain_range :: nat
  domain_range_matches :: nat
  zero_hop_matches :: nat
  one_hop_matches :: nat
  two_hop_matches :: nat
  three_hop_matches :: nat
  statement_matches :: nat
  both_statement_and_domain_range_matches :: nat
  has_domain_range_no_subject_no_object :: nat
  has_domain_range_only_subject_has_wikiId :: nat
  has_domain_range_only_subject_has_wikiId_and_match :: nat
  has_domain_range_only_object_has_wikiId :: nat
  has_domain_range_only_object_has_wikiId_and_match :: nat

definition estate0 :: estate where
  "estate0 = \<lparr>all_triples = [], malformed_triples = [], all_relations = [], all_entities = [],
              extraction_reading_problems = [], triples_with_all_components_in_wikidata = 0,
              triple_dict = [], has_domain_range = 0, domain_range_matches = 0,
              zero_hop_matches = 0, one_hop_matches = 0, two_hop_matches = 0, three_hop_matches = 0,
              statement_matches = 0, both_statement_and_domain_range_matches = 0,
              has_domain_range_no_subject_no_object = 0, has_domain_range_only_subject_has_wikiId = 0,
              has_domain_range_only_subject_has_wikiId_and_match = 0,
              has_domain_range_only_object_has_wikiId = 0,
              has_domain_range_only_object_has_wikiId_and_match = 0\<rparr>"

text \<open>\<open>triple_dict[key][field] = v\<close> and \<open>triple_dict[key][field]\<close>.\<close>

definition td_set :: "string \<Rightarrow> string \<Rightarrow> pyval \<Rightarrow> estate \<Rightarrow> estate" where
  "td_set key field v e =
     e\<lparr>triple_dict := AList.update key
                       (AList.update field v (case map_of (triple_dict e) key of Some r \<Rightarrow> r | None \<Rightarrow> []))
                       (triple_dict e)\<rparr>"

definition td_get :: "string \<Rightarrow> string \<Rightarrow> estate \<Rightarrow> pyval pyres" where
  "td_get key field e =
     (case map_of (triple_dict e) key of
        Some r \<Rightarrow> (case map_of r field of Some v \<Rightarrow> Inr v | None \<Rightarrow> Inl KeyError)
      | None \<Rightarrow> Inl KeyError)"

text \<open>\<open>x == True\<close>: \<open>True\<close> and \<open>1\<close> are equal in Python.\<close>

definition is_True :: "pyval \<Rightarrow> bool" where
  "is_True v \<longleftrightarrow> v = PBool True \<or> v = PInt 1"

definition td_true :: "string \<Rightarrow> string \<Rightarrow> estate \<Rightarrow> bool pyres" where
  "td_true key field e = map_sum id is_True (td_get key field e)"

definition complicated_relations :: "string list" where
  "complicated_relations =
     [''are '', ''can be '', ''at '', ''author '', ''became '', ''become '', ''becomes '', ''began '',
      ''can be '', ''can '', ''had '', ''had a '', ''has an '', ''has a '', ''has an '', ''has been '',
      ''in '', ''is '', ''is a '', ''is an '', ''main '', ''most '', ''must '', ''must be '', ''was '',
      ''was a '', ''was an '', ''will '', ''will be '']"

lemmas estate_eval [eval_simps] =
  estate0_def td_set_def
  td_get_def is_True_def td_true_def complicated_relations_def

subsection \<open>One triple\<close>

text \<open>Lines 363--371: the relation fallback.  For every listed prefix the relation starts
  with, in the list's order, the part after the last occurrence of the prefix is looked up,
  and the answer replaces the previous one; a relation that is not a string raises
  \<open>AttributeError\<close>, which the \<open>except\<close> turns into \<open>'no-wikiID'\<close>.\<close>

fun fallback_loop :: "net \<Rightarrow> string \<Rightarrow> string list \<Rightarrow> pyval \<Rightarrow> pyval wm" where
  "fallback_loop net r [] predicate = wret predicate"
| "fallback_loop net r (i # is) predicate =
     (if startswith r i then
        wbind (wlift (pbind (py_split i r) (\<lambda>parts. py_index parts (-1)))) (\<lambda>rest.
        wbind (get_wiki_ID net (PStr rest) ''property'') (\<lambda>predicate'.
        fallback_loop net r is predicate'))
      else fallback_loop net r is predicate)"

definition relation_fallback :: "net \<Rightarrow> pyval \<Rightarrow> pyval wm" where
  "relation_fallback net relation =
     wtry (case relation of
             PStr r \<Rightarrow> fallback_loop net r complicated_relations no_wikiID
           | _ \<Rightarrow> wlift (Inl AttributeError))
          no_wikiID"

text \<open>Lines 355--371: the three lookups, the sets of relations and entities, the fallback.\<close>

definition eval_lookup :: "net \<Rightarrow> pyval \<Rightarrow> pyval \<Rightarrow> pyval \<Rightarrow> estate \<Rightarrow> (pyval \<times> pyval \<times> pyval \<times> estate) wm" where
  "eval_lookup net t0 t1 t2 e =
     wbind (get_wiki_ID net t0 ''entity'') (\<lambda>subject.
     wbind (get_wiki_ID net t2 ''entity'') (\<lambda>object.
     wbind (get_wiki_ID net t1 ''property'') (\<lambda>predicate.
     (let e' = e\<lparr>all_relations := List.insert (py_str t1, predicate) (all_relations e),
                 all_entities := List.insert (py_str t2, object) (List.insert (py_str t0, subject) (all_entities e))\<rparr>
      in wbind (if predicate = no_wikiID then relation_fallback net t1 else wret predicate) (\<lambda>predicate'.
         wret (subject, predicate', object, e'))))))"

text \<open>Lines 383--409: domain and range of the relation.\<close>

definition eval_schema :: "net \<Rightarrow> string \<Rightarrow> pyval \<Rightarrow> estate \<Rightarrow> (pyval \<times> pyval \<times> estate) wm" where
  "eval_schema net key predicate e =
     wbind (get_bindings_from_sparql_query net (QDomain predicate) ''domain'') (\<lambda>domain_results.
     (let e1 = (if domain_results = PDict [] then td_set key ''has Domain'' (PBool False) e
                else td_set key ''Domain'' domain_results (td_set key ''has Domain'' (PBool True) e))
      in wbind (get_bindings_from_sparql_query net (QRange predicate) ''range'') (\<lambda>range_results.
     (let e2 = (if range_results = PDict [] then td_set key ''has Range'' (PBool False) e1
                else td_set key ''Range'' range_results (td_set key ''has Range'' (PBool True) e1))
      in wbind (wlift (td_true key ''has Domain'' e2)) (\<lambda>hd.
         wbind (wlift (td_true key ''has Range'' e2)) (\<lambda>hr.
         wret (domain_results, range_results,
               if hd \<and> hr then td_set key ''Predicate has Domain & Range'' (PBool True)
                                (e2\<lparr>has_domain_range := Suc (has_domain_range e2)\<rparr>)
               else td_set key ''Predicate has Domain & Range'' (PBool False) e2)))))))"

text \<open>\<open>merge_dicts\<close> on two values: \<open>dict1.copy()\<close> and \<open>dict2.items()\<close> need dictionaries.\<close>

definition merge_values :: "pyval \<Rightarrow> pyval \<Rightarrow> pyval pyres" where
  "merge_values d1 d2 =
     (case (d1, d2) of (PDict a, PDict b) \<Rightarrow> Inr (PDict (merge_dicts a b)) | _ \<Rightarrow> Inl AttributeError)"

text \<open>The hierarchy of an entity and its match against a schema side (lines 412--422 and
  439--449): the \<open>instanceOf\<close> and \<open>subclassOf\<close> queries, recorded under the given prefix,
  merged and scanned; the level converted to a number.\<close>

definition entity_match :: "net \<Rightarrow> string \<Rightarrow> string \<Rightarrow> pyval \<Rightarrow> pyval \<Rightarrow> estate \<Rightarrow>
                            ((bool \<times> pyval \<times> pyval \<times> pyval) \<times> estate) wm" where
  "entity_match net key prefix entity schema e =
     wbind (get_bindings_from_sparql_query net (QInstanceOf entity) ''instanceOf'') (\<lambda>insOf_results.
     wbind (get_bindings_from_sparql_query net (QSubclassOf entity) ''subclassOf'') (\<lambda>subclass_of_results.
     (let e' = td_set key (prefix @ '' subclassOf'') subclass_of_results
                 (td_set key (prefix @ '' instanceOf'') insOf_results e)
      in wbind (wlift (merge_values insOf_results subclass_of_results)) (\<lambda>types.
         wbind (wlift (find_matching_classes types schema)) (\<lambda>(m, level, wiki_id, label).
         wret ((m, convert_match_level_to_integer level, wiki_id, label), e'))))))"

text \<open>Lines 411--436 (\<open>side = ''Domain''\<close>, \<open>other = ''Object''\<close>) and 438--463
  (\<open>side = ''Range''\<close>, \<open>other = ''Subject''\<close>): the match of one side, and the counters of
  a relation with a schema whose other entity was not found.\<close>

definition eval_side :: "net \<Rightarrow> string \<Rightarrow> string \<Rightarrow> string \<Rightarrow> pyval \<Rightarrow> pyval \<Rightarrow> pyval \<Rightarrow> estate \<Rightarrow>
                         (pyval \<times> estate) wm" where
  "eval_side net key side prefix entity other_entity schema e =
     wbind (entity_match net key prefix entity schema e) (\<lambda>((m, level, wiki_id, label), e1).
     (let e2 = (if m then td_set key (side @ '' matched wikiID'') wiki_id
                            (td_set key (side @ '' matched label'') label
                              (td_set key (side @ '' matching level'') level
                                (td_set key (side @ '' match'') (PBool True) e1)))
                else td_set key (side @ '' match'') (PBool False) e1)
      in wbind (wlift (td_true key ''Predicate has Domain & Range'' e2)) (\<lambda>dr.
         if dr \<and> other_entity = no_wikiID then
           (let other = (if side = ''Domain'' then ''Object'' else ''Subject'');
                e3 = td_set key (other @ '' not found in Wikidata'') (PBool True)
                       (if side = ''Domain''
                        then e2\<lparr>has_domain_range_only_subject_has_wikiId := Suc (has_domain_range_only_subject_has_wikiId e2)\<rparr>
                        else e2\<lparr>has_domain_range_only_object_has_wikiId := Suc (has_domain_range_only_object_has_wikiId e2)\<rparr>)
            in wbind (wlift (td_true key (side @ '' match'') e3)) (\<lambda>sm.
               wret (level,
                     if \<not> sm then e3
                     else if side = ''Domain''
                     then e3\<lparr>has_domain_range_only_subject_has_wikiId_and_match :=
                               Suc (has_domain_range_only_subject_has_wikiId_and_match e3)\<rparr>
                     else e3\<lparr>has_domain_range_only_object_has_wikiId_and_match :=
                               Suc (has_domain_range_only_object_has_wikiId_and_match e3)\<rparr>)))
         else wret (level, e2))))"

text \<open>\<open>max\<close> of two levels, and the hop counter of a level.\<close>

definition py_max :: "pyval \<Rightarrow> pyval \<Rightarrow> pyval pyres" where
  "py_max a b = (case (a, b) of (PInt x, PInt y) \<Rightarrow> Inr (PInt (max x y)) | _ \<Rightarrow> Inl TypeError)"

definition count_hop :: "pyval \<Rightarrow> estate \<Rightarrow> estate" where
  "count_hop level e =
     (let e0 = (if level = PInt 0 then e\<lparr>zero_hop_matches := Suc (zero_hop_matches e)\<rparr> else e);
          e1 = (if level = PInt 1 then e0\<lparr>one_hop_matches := Suc (one_hop_matches e0)\<rparr> else e0);
          e2 = (if level = PInt 2 then e1\<lparr>two_hop_matches := Suc (two_hop_matches e1)\<rparr> else e1)
      in if level = PInt 3 then e2\<lparr>three_hop_matches := Suc (three_hop_matches e2)\<rparr> else e2)"

text \<open>Lines 480--497: when the predicate has a schema and both sides matched it, the
  triple counts as a match of domain and range at the higher of the two levels; then as a
  match of both the statement and the schema.  The tests \<open>a == True and b == True and
  c == True\<close> read the audit record lazily, as Python's \<open>and\<close> does.\<close>

definition dr_match :: "string \<Rightarrow> pyval \<Rightarrow> pyval \<Rightarrow> pyval \<Rightarrow> estate \<Rightarrow> estate wm" where
  "dr_match key statement_check domain_level range_level e =
     wbind (wlift (td_true key ''Predicate has Domain & Range'' e)) (\<lambda>dr.
     wbind (if dr then wlift (td_true key ''Domain match'' e) else wret False) (\<lambda>dm.
     wbind (if dr \<and> dm then wlift (td_true key ''Range match'' e) else wret False) (\<lambda>rm.
     wbind (if dr \<and> dm \<and> rm then
              wbind (wlift (py_max domain_level range_level)) (\<lambda>triple_level_match.
              wret (count_hop triple_level_match
                      (td_set key ''Triple matching level'' triple_level_match
                        (td_set key ''Domain&Range Match'' (PBool True)
                          (e\<lparr>domain_range_matches := Suc (domain_range_matches e)\<rparr>)))))
            else wret (td_set key ''Domain&Range Match'' (PBool False) e)) (\<lambda>e4.
     wbind (wlift (td_true key ''Domain&Range Match'' e4)) (\<lambda>drm.
     wret (if drm \<and> is_True statement_check
           then td_set key ''Both Statement and Domain&Range Match'' (PBool True)
                  (e4\<lparr>both_statement_and_domain_range_matches :=
                        Suc (both_statement_and_domain_range_matches e4)\<rparr>)
           else e4))))))"

text \<open>Lines 465--500: the counter of a schema without any found entity, and, when all three
  parts were found, the statement check and the match of domain and range.\<close>

definition eval_statement :: "net \<Rightarrow> string \<Rightarrow> pyval list \<Rightarrow> pyval \<Rightarrow> pyval \<Rightarrow> estate \<Rightarrow> estate wm" where
  "eval_statement net key wiki_triple domain_level range_level e =
     (let subject = wiki_triple ! 0; object = wiki_triple ! 2 in
      wbind (wlift (td_true key ''Predicate has Domain & Range'' e)) (\<lambda>dr.
      (let e1 = (if dr \<and> subject = no_wikiID \<and> object = no_wikiID
                 then td_set key ''Both subject and object not found in Wikidata'' (PBool True)
                        (e\<lparr>has_domain_range_no_subject_no_object := Suc (has_domain_range_no_subject_no_object e)\<rparr>)
                 else e)
       in if no_wikiID \<notin> set wiki_triple then
            (let e2 = td_set key ''All components in Wikidata'' (PBool True)
                        (e1\<lparr>triples_with_all_components_in_wikidata := Suc (triples_with_all_components_in_wikidata e1)\<rparr>)
             in wbind (check_triple_exists net wiki_triple) (\<lambda>statement_check.
                dr_match key statement_check domain_level range_level
                  (if is_True statement_check
                   then td_set key ''Triple statement in Wikidata'' (PBool True)
                          (e2\<lparr>statement_matches := Suc (statement_matches e2)\<rparr>)
                   else td_set key ''Triple statement in Wikidata'' (PBool False) e2)))
          else wret (td_set key ''All components in Wikidata'' (PBool False) e1))))"

text \<open>Lines 341--500: one iteration of the inner loop.  \<open>continue\<close> ends the iteration
  with the variables as they are.\<close>

definition eval_triple :: "net \<Rightarrow> pyval \<Rightarrow> pyval \<Rightarrow> estate \<Rightarrow> estate wm" where
  "eval_triple net input_text triple e =
     (let e = e\<lparr>all_triples := all_triples e @ [triple]\<rparr> in
      wbind (wlift (py_len triple)) (\<lambda>n.
      if n \<noteq> 3 then wret (e\<lparr>malformed_triples := malformed_triples e @ [triple]\<rparr>)
      else
        wbind (wlift (pbind (py_getitem triple (PInt 0)) (\<lambda>t0. pbind (py_getitem triple (PInt 1)) (\<lambda>t1.
                      pbind (py_getitem triple (PInt 2)) (\<lambda>t2. Inr (t0, t1, t2)))))) (\<lambda>(t0, t1, t2).
        (let key = py_str t0 @ '' && '' @ py_str t1 @ '' && '' @ py_str t2;
             e = e\<lparr>triple_dict := AList.update key [(''Extracted from'', input_text), (''String triple'', triple)]
                                    (triple_dict e)\<rparr>
         in wbind (eval_lookup net t0 t1 t2 e) (\<lambda>(subject, predicate, object, e).
            (let wiki_triple = [subject, predicate, object];
                 e = td_set key ''Wiki triple'' (PList wiki_triple) e
             in if predicate = no_wikiID then
                  wret (td_set key ''has Range'' (PBool False) (td_set key ''has Domain'' (PBool False)
                          (td_set key ''All components in Wikidata'' (PBool False) e)))
                else
                  wbind (eval_schema net key predicate e) (\<lambda>(domain_results, range_results, e).
                  wbind (if subject \<noteq> no_wikiID
                         then eval_side net key ''Domain'' ''Subject'' subject object domain_results e
                         else wret (PNone, e)) (\<lambda>(domain_level, e).
                  wbind (if object \<noteq> no_wikiID
                         then eval_side net key ''Range'' ''Object'' object subject range_results e
                         else wret (PNone, e)) (\<lambda>(range_level, e).
                  eval_statement net key wiki_triple domain_level range_level e)))))))))"

text \<open>Lines 333--339 and 341: one item of the extraction file, with its gold text.\<close>

definition eval_item :: "net \<Rightarrow> pyval \<Rightarrow> pyval \<Rightarrow> estate \<Rightarrow> estate wm" where
  "eval_item net input_text item e =
     wbind (wlift (py_getitem item (PStr ''postprocessed''))) (\<lambda>postprocessed.
     case read_triples postprocessed of
       None \<Rightarrow> wret (e\<lparr>extraction_reading_problems := extraction_reading_problems e @ [postprocessed]\<rparr>)
     | Some triples \<Rightarrow> foldl (\<lambda>m triple. wbind m (eval_triple net input_text triple)) (wret e) triples)"

text \<open>Lines 306--505: one extraction file against the gold data, item \<open>index\<close> with
  \<open>gold_data[index]['Text']\<close>.\<close>

definition eval_file :: "net \<Rightarrow> pyval list \<Rightarrow> pyval list \<Rightarrow> estate wm" where
  "eval_file net gold_data extractions =
     foldl (\<lambda>m (index, item). wbind m (\<lambda>e.
              wbind (wlift (pbind (py_index gold_data (int index)) (\<lambda>g. py_getitem g (PStr ''Text'')))) (\<lambda>input_text.
              eval_item net input_text item e)))
           (wret estate0) (enumerate 0 extractions)"

subsection \<open>The statement check is only made for resolved triples\<close>

definition ask_resolved :: "request \<Rightarrow> bool" where
  "ask_resolved r \<longleftrightarrow> (case r of RAsk a b c \<Rightarrow> a \<noteq> no_wikiID \<and> b \<noteq> no_wikiID \<and> c \<noteq> no_wikiID | _ \<Rightarrow> True)"

lemma get_wiki_ID_ask_resolved [issues_intros]: "issues ask_resolved (get_wiki_ID net q qt)"
  unfolding get_wiki_ID_def by (intro issues_intros) (simp_all add: ask_resolved_def)

lemma get_bindings_ask_resolved [issues_intros]:
  "issues ask_resolved (get_bindings_from_sparql_query net q qt)"
  unfolding get_bindings_from_sparql_query_def execute_sparql_query_def
  by (intro issues_intros) (simp add: ask_resolved_def)

lemma check_triple_exists_ask_resolved:
  "no_wikiID \<notin> set [a, b, c] \<Longrightarrow> issues ask_resolved (check_triple_exists net [a, b, c])"
  unfolding check_triple_exists_triple by (intro issues_intros) (auto simp: ask_resolved_def)

lemma fallback_loop_ask_resolved [issues_intros]: "issues ask_resolved (fallback_loop net r pfx p)"
  by (induction pfx arbitrary: p) (auto intro!: issues_intros)

lemma relation_fallback_ask_resolved [issues_intros]: "issues ask_resolved (relation_fallback net t)"
  unfolding relation_fallback_def by (intro issues_intros) (auto split: pyval.splits intro!: issues_intros)

lemma eval_lookup_ask_resolved [issues_intros]: "issues ask_resolved (eval_lookup net t0 t1 t2 e)"
  unfolding eval_lookup_def Let_def by (intro issues_intros)

lemma eval_schema_ask_resolved [issues_intros]: "issues ask_resolved (eval_schema net key p e)"
  unfolding eval_schema_def Let_def by (intro issues_intros)

lemma entity_match_ask_resolved [issues_intros]: "issues ask_resolved (entity_match net key prefix x sch e)"
  unfolding entity_match_def Let_def case_prod_unfold by (intro issues_intros)

lemma eval_side_ask_resolved [issues_intros]: "issues ask_resolved (eval_side net key side prefix x y sch e)"
  unfolding eval_side_def Let_def case_prod_unfold by (intro issues_intros)

lemma dr_match_issues [issues_intros]: "issues P (dr_match key sc dl rl e)"
  unfolding dr_match_def by (intro issues_intros)

lemma eval_statement_ask_resolved:
  "issues ask_resolved (eval_statement net key [a, b, c] dl rl e)"
  unfolding eval_statement_def Let_def
  by (intro issues_intros) (auto intro!: issues_intros check_triple_exists_ask_resolved)

lemma eval_triple_asks_resolved: "issues ask_resolved (eval_triple net input_text triple e)"
  unfolding eval_triple_def Let_def case_prod_unfold
  by (intro issues_intros) (auto intro!: issues_intros eval_statement_ask_resolved)

lemma eval_item_ask_resolved: "issues ask_resolved (eval_item net input_text item e)"
  unfolding eval_item_def
  by (intro issues_intros issues_foldl eval_triple_asks_resolved) simp

text \<open>C13: the evaluation of a file issues a statement (ASK) query only for a triple whose
  subject, relation and object were all resolved to Wikidata identifiers: a part that is
  \<open>'no-wikiID'\<close> skips the check (specification, section 8, item 5).\<close>

theorem eval_file_ask_resolved: "issues ask_resolved (eval_file net gold_data extractions)"
  unfolding eval_file_def case_prod_unfold
  by (intro issues_foldl issues_intros eval_item_ask_resolved)

subsection \<open>The counters\<close>

text \<open>The counters that the statement block and the loop maintain, and the ones the side
  blocks maintain.\<close>

definition core_counts :: "estate \<Rightarrow> nat list" where
  "core_counts e =
     [length (all_triples e), length (malformed_triples e), triples_with_all_components_in_wikidata e,
      domain_range_matches e, zero_hop_matches e, one_hop_matches e, two_hop_matches e,
      three_hop_matches e, statement_matches e, both_statement_and_domain_range_matches e]"

definition sides_ok :: "estate \<Rightarrow> bool" where
  "sides_ok e \<longleftrightarrow>
     has_domain_range_only_subject_has_wikiId_and_match e \<le> has_domain_range_only_subject_has_wikiId e \<and>
     has_domain_range_only_object_has_wikiId_and_match e \<le> has_domain_range_only_object_has_wikiId e"

definition counters_ok :: "estate \<Rightarrow> bool" where
  "counters_ok e \<longleftrightarrow>
     zero_hop_matches e + one_hop_matches e + two_hop_matches e + three_hop_matches e \<le> domain_range_matches e \<and>
     both_statement_and_domain_range_matches e \<le> statement_matches e \<and>
     both_statement_and_domain_range_matches e \<le> domain_range_matches e \<and>
     statement_matches e \<le> triples_with_all_components_in_wikidata e \<and>
     domain_range_matches e \<le> triples_with_all_components_in_wikidata e \<and>
     triples_with_all_components_in_wikidata e + length (malformed_triples e) \<le> length (all_triples e) \<and>
     sides_ok e"

lemma td_set_fields [simp]:
  "all_triples (td_set key fld v e) = all_triples e"
  "malformed_triples (td_set key fld v e) = malformed_triples e"
  "all_relations (td_set key fld v e) = all_relations e"
  "all_entities (td_set key fld v e) = all_entities e"
  "extraction_reading_problems (td_set key fld v e) = extraction_reading_problems e"
  "triples_with_all_components_in_wikidata (td_set key fld v e) = triples_with_all_components_in_wikidata e"
  "has_domain_range (td_set key fld v e) = has_domain_range e"
  "domain_range_matches (td_set key fld v e) = domain_range_matches e"
  "zero_hop_matches (td_set key fld v e) = zero_hop_matches e"
  "one_hop_matches (td_set key fld v e) = one_hop_matches e"
  "two_hop_matches (td_set key fld v e) = two_hop_matches e"
  "three_hop_matches (td_set key fld v e) = three_hop_matches e"
  "statement_matches (td_set key fld v e) = statement_matches e"
  "both_statement_and_domain_range_matches (td_set key fld v e) = both_statement_and_domain_range_matches e"
  "has_domain_range_no_subject_no_object (td_set key fld v e) = has_domain_range_no_subject_no_object e"
  "has_domain_range_only_subject_has_wikiId (td_set key fld v e) = has_domain_range_only_subject_has_wikiId e"
  "has_domain_range_only_subject_has_wikiId_and_match (td_set key fld v e) = has_domain_range_only_subject_has_wikiId_and_match e"
  "has_domain_range_only_object_has_wikiId (td_set key fld v e) = has_domain_range_only_object_has_wikiId e"
  "has_domain_range_only_object_has_wikiId_and_match (td_set key fld v e) = has_domain_range_only_object_has_wikiId_and_match e"
  by (simp_all add: td_set_def)

lemma td_set_counts [simp]:
  "core_counts (td_set key f v e) = core_counts e" "sides_ok (td_set key f v e) = sides_ok e"
  by (simp_all add: td_set_def core_counts_def sides_ok_def)

lemma wp_wbind_relation_fallback [wp_intros]:
  "(\<And>x. wp (f x) Q) \<Longrightarrow> wp (wbind (relation_fallback net p) f) Q"
  by (rule wp_wbind)

lemma eval_lookup_counts:
  "wp (eval_lookup net t0 t1 t2 e) (\<lambda>(sb, pr, ob, e'). core_counts e' = core_counts e \<and> sides_ok e' = sides_ok e)"
  unfolding eval_lookup_def Let_def
  by (intro wp_intros) (simp_all add: core_counts_def sides_ok_def td_set_def)

lemma eval_schema_counts:
  "wp (eval_schema net key p e) (\<lambda>(d, r, e'). core_counts e' = core_counts e \<and> sides_ok e' = sides_ok e)"
  unfolding eval_schema_def Let_def
  by (intro wp_intros) (simp_all add: core_counts_def sides_ok_def td_set_def)

lemma entity_match_counts:
  "wp (entity_match net key prefix x sch e) (\<lambda>(r, e'). core_counts e' = core_counts e \<and> sides_ok e' = sides_ok e)"
  unfolding entity_match_def Let_def case_prod_unfold
  by (intro wp_intros) simp_all

lemma eval_side_counts:
  "sides_ok e \<Longrightarrow> wp (eval_side net key side prefix x y sch e) (\<lambda>(l, e'). core_counts e' = core_counts e \<and> sides_ok e')"
  unfolding eval_side_def Let_def
  apply (rule wp_wbind_post [OF entity_match_counts])
  apply (unfold case_prod_unfold)
  apply (intro wp_intros)
  apply (auto simp: core_counts_def sides_ok_def td_set_def)
  done

lemma count_hop_fields [simp]:
  "triple_dict (count_hop l e) = triple_dict e"
  "all_triples (count_hop l e) = all_triples e"
  "malformed_triples (count_hop l e) = malformed_triples e"
  "triples_with_all_components_in_wikidata (count_hop l e) = triples_with_all_components_in_wikidata e"
  "domain_range_matches (count_hop l e) = domain_range_matches e"
  "statement_matches (count_hop l e) = statement_matches e"
  "both_statement_and_domain_range_matches (count_hop l e) = both_statement_and_domain_range_matches e"
  "sides_ok (count_hop l e) = sides_ok e"
  by (simp_all add: count_hop_def Let_def sides_ok_def)

lemma count_hop_sum:
  "zero_hop_matches (count_hop l e) + one_hop_matches (count_hop l e) + two_hop_matches (count_hop l e)
     + three_hop_matches (count_hop l e)
   \<le> Suc (zero_hop_matches e + one_hop_matches e + two_hop_matches e + three_hop_matches e)"
  by (simp add: count_hop_def Let_def)

lemma td_true_td_set [simp]:
  "td_true key f (td_set key' f' v e) = (if key = key' \<and> f = f' then Inr (is_True v) else td_true key f e)"
  by (cases "key = key'"; cases "f = f'") (auto simp: td_true_def td_get_def td_set_def split: option.splits)


lemma td_true_counters [simp]:
  "td_true k f (count_hop l e) = td_true k f e"
  "td_true k f (e\<lparr>domain_range_matches := n\<rparr>) = td_true k f e"
  "td_true k f (e\<lparr>both_statement_and_domain_range_matches := n\<rparr>) = td_true k f e"
  by (simp_all add: td_true_def td_get_def)

lemma count_hop_commute [simp]:
  "count_hop l (td_set k f v e) = td_set k f v (count_hop l e)"
  "count_hop l (e\<lparr>domain_range_matches := n\<rparr>) = (count_hop l e)\<lparr>domain_range_matches := n\<rparr>"
  by (simp_all add: count_hop_def td_set_def Let_def)

lemma sides_ok_upd [simp]:
  "sides_ok (e\<lparr>domain_range_matches := n\<rparr>) = sides_ok e"
  "sides_ok (e\<lparr>both_statement_and_domain_range_matches := n\<rparr>) = sides_ok e"
  "sides_ok (e\<lparr>statement_matches := n\<rparr>) = sides_ok e"
  "sides_ok (e\<lparr>triples_with_all_components_in_wikidata := n\<rparr>) = sides_ok e"
  "sides_ok (e\<lparr>has_domain_range_no_subject_no_object := n\<rparr>) = sides_ok e"
  by (simp_all add: sides_ok_def)

lemma counters_ok_td_set [simp]: "counters_ok (td_set key f v e) = counters_ok e"
  by (simp add: counters_ok_def)

text \<open>The match block keeps the counters consistent when it starts with a triple counted
  as found but not yet as a match, and with a successful statement check counted.\<close>

lemma dr_match_counts:
  assumes "counters_ok e" and "domain_range_matches e < triples_with_all_components_in_wikidata e"
    and "is_True sc \<Longrightarrow> both_statement_and_domain_range_matches e < statement_matches e"
  shows "wp (dr_match key sc dl rl e) counters_ok"
  using assms unfolding dr_match_def
  by (intro wp_intros) (auto simp: counters_ok_def is_True_def intro: le_trans [OF count_hop_sum])


text \<open>The statement block keeps the counters consistent for a triple that is counted in
  \<open>all_triples\<close> and not yet among the found or the malformed ones.\<close>

lemma eval_statement_counts:
  assumes "counters_ok e"
    and "triples_with_all_components_in_wikidata e + length (malformed_triples e) < length (all_triples e)"
  shows "wp (eval_statement net key wt dl rl e) counters_ok"
  using assms unfolding eval_statement_def Let_def
  by (intro wp_intros dr_match_counts) (auto simp: counters_ok_def is_True_def)


lemma wp_wbind_eval_lookup [wp_intros]:
  "(\<And>sb pr ob e'. core_counts e' = core_counts e \<Longrightarrow> sides_ok e' = sides_ok e \<Longrightarrow> wp (f sb pr ob e') Q)
     \<Longrightarrow> wp (wbind (eval_lookup net t0 t1 t2 e) (\<lambda>(sb, pr, ob, e'). f sb pr ob e')) Q"
  by (rule wp_wbind_post [OF eval_lookup_counts]) auto

lemma wp_wbind_eval_schema [wp_intros]:
  "(\<And>d r e'. core_counts e' = core_counts e \<Longrightarrow> sides_ok e' = sides_ok e \<Longrightarrow> wp (f d r e') Q)
     \<Longrightarrow> wp (wbind (eval_schema net key p e) (\<lambda>(d, r, e'). f d r e')) Q"
  by (rule wp_wbind_post [OF eval_schema_counts]) auto

lemma wp_wbind_eval_side [wp_intros]:
  "sides_ok e \<Longrightarrow> (\<And>l e'. core_counts e' = core_counts e \<Longrightarrow> sides_ok e' \<Longrightarrow> wp (g l e') Q)
     \<Longrightarrow> wp (wbind (eval_side net key side prefix x y sch e) (\<lambda>(l, e'). g l e')) Q"
  by (rule wp_wbind_post [OF eval_side_counts]) auto

text \<open>One iteration of the inner loop keeps the counters consistent.\<close>

lemma eval_triple_counts:
  "counters_ok e \<Longrightarrow> wp (eval_triple net input_text triple e) counters_ok"
  unfolding eval_triple_def Let_def
  by (intro wp_intros eval_statement_counts) (auto simp: counters_ok_def core_counts_def sides_ok_def)


lemma eval_item_counts:
  "counters_ok e \<Longrightarrow> wp (eval_item net input_text item e) counters_ok"
  unfolding eval_item_def
  by (intro wp_intros wp_foldl wp_wbind_inv eval_triple_counts) (auto simp: counters_ok_def sides_ok_def)

text \<open>C14: whatever the services answer, the counters of a file evaluation are consistent:
  the hop levels of the domain and range matches add up to at most their number; a triple
  matching both statement and schema is counted in each; the statement and schema matches are
  among the triples whose three parts were found; and the found and the malformed triples are
  among all the triples read.\<close>

theorem eval_file_counters_ok:
  "wp (eval_file net gold_data extractions) counters_ok"
  unfolding eval_file_def case_prod_unfold
  by (intro wp_foldl wp_intros wp_wbind_inv eval_item_counts)
     (auto simp: counters_ok_def sides_ok_def estate0_def)

end
