(* ===== verification/AnnotEval.thy ===== *)
theory AnnotEval
  imports Complex_Main Triples
begin

text \<open>
  The evaluation against the gold annotations,
  \<open>src/3_evaluation_module/evaluation_reference_to_annotations/evaluate.py\<close> (lines 87--162):
  for every item of an extraction file, the gold triples of the item with the same index and
  the extracted triples, both lower-cased, are compared as lists of strings; the item's
  precision and recall are \<open>tp / (tp + fp)\<close> and \<open>tp / (tp + fn)\<close>; the file's precision
  and recall are the averages over the items, and its F1 the harmonic mean of the two
  averages.  Python's float division is modelled by exact rational division: the code
  never compares the quotients, it only writes them out.
\<close>

subsection \<open>One item\<close>

text \<open>Lines 92--96: the gold triples, every part lower-cased; a part that is not a string
  has no \<open>lower()\<close> and raises.\<close>

definition gold_triples :: "pyval \<Rightarrow> string list list pyres" where
  "gold_triples gold_item =
     pbind (py_getitem gold_item (PStr ''Triples'')) (\<lambda>gold.
     pbind (py_iter gold) (pmap (\<lambda>triple. pbind (py_iter triple) (pmap py_lower_val))))"

text \<open>Lines 120--123: the parts of an extracted triple whose type is \<open>str\<close>, lower-cased;
  the other parts are left out.\<close>

definition lower_triple :: "pyval \<Rightarrow> string list pyres" where
  "lower_triple triple =
     pbind (py_iter triple) (\<lambda>parts.
       Inr (concat (map (\<lambda>x. case x of PStr s \<Rightarrow> [py_lower s] | _ \<Rightarrow> []) parts)))"

text \<open>Lines 113--124: the triples of length three, lower-cased; \<open>len()\<close> of a value without
  a length raises.  The test \<open>type(triple) == None\<close> is never true.\<close>

definition extracted_triples :: "pyval list \<Rightarrow> string list list pyres" where
  "extracted_triples triples =
     pfoldl (\<lambda>acc triple. pbind (py_len triple) (\<lambda>n.
               if n \<noteq> 3 then Inr acc else pbind (lower_triple triple) (\<lambda>l. Inr (acc @ [l]))))
       [] triples"

text \<open>Lines 131--144: true and false positives, with every extracted triple counted, and
  false negatives.\<close>

definition tp_fp :: "string list list \<Rightarrow> string list list \<Rightarrow> nat \<times> nat" where
  "tp_fp extracted gold =
     foldl (\<lambda>(tp, fp) t. if t \<in> set gold then (Suc tp, fp) else (tp, Suc fp)) (0, 0) extracted"

definition fn_count :: "string list list \<Rightarrow> string list list \<Rightarrow> nat" where
  "fn_count extracted gold = foldl (\<lambda>fn t. if t \<notin> set extracted then Suc fn else fn) 0 gold"

text \<open>\<open>0 if b == 0 else a / b\<close> (lines 146--154).\<close>

definition ratio :: "nat \<Rightarrow> nat \<Rightarrow> rat" where
  "ratio a b = (if b = 0 then 0 else of_nat a / of_nat b)"

text \<open>Lines 126--154: precision, recall and true positives of an item's triples.\<close>

definition item_scores :: "string list list \<Rightarrow> string list list \<Rightarrow> rat \<times> rat \<times> nat" where
  "item_scores extracted gold =
     (if extracted = [] then (0, 0, 0)
      else (case tp_fp extracted gold of
              (tp, fp) \<Rightarrow> (let fn = fn_count extracted gold in (ratio tp (tp + fp), ratio tp (tp + fn), tp))))"

text \<open>Lines 91--154: one item against its gold item.  Unreadable triples score zero.\<close>

definition eval_item_ann :: "pyval \<Rightarrow> pyval \<Rightarrow> (rat \<times> rat \<times> nat) pyres" where
  "eval_item_ann gold_item item =
     pbind (gold_triples gold_item) (\<lambda>gold.
     pbind (py_getitem item (PStr ''postprocessed'')) (\<lambda>pp.
     case read_triples_ann pp of
       None \<Rightarrow> Inr (0, 0, 0)
     | Some triples \<Rightarrow> pbind (extracted_triples triples) (\<lambda>extracted. Inr (item_scores extracted gold))))"

subsection \<open>One file\<close>

text \<open>Lines 156--162: the averages and their harmonic mean; an empty file divides by zero.\<close>

definition averages :: "rat list \<Rightarrow> rat list \<Rightarrow> (rat \<times> rat \<times> rat) pyres" where
  "averages ps rs =
     (if ps = [] \<or> rs = [] then Inl ZeroDivisionError
      else (let precision = sum_list ps / of_nat (length ps);
                recall = sum_list rs / of_nat (length rs)
            in Inr (precision, recall,
                    if precision + recall = 0 then 0 else 2 * (precision * recall) / (precision + recall))))"

text \<open>Lines 87--162: the items with the gold item of the same index.\<close>

definition eval_file_ann :: "pyval list \<Rightarrow> pyval list \<Rightarrow> (rat \<times> rat \<times> rat \<times> nat) pyres" where
  "eval_file_ann gold_data extractions =
     pbind (pfoldl (\<lambda>(ps, rs, n) (index, item).
              pbind (py_index gold_data (int index)) (\<lambda>g.
              pbind (eval_item_ann g item) (\<lambda>(p, r, tp). Inr (ps @ [p], rs @ [r], n + tp))))
            ([], [], 0) (enumerate 0 extractions)) (\<lambda>(ps, rs, n).
     pbind (averages ps rs) (\<lambda>(precision, recall, f1). Inr (precision, recall, f1, n)))"

lemmas annot_eval [eval_simps] =
  gold_triples_def lower_triple_def extracted_triples_def tp_fp_def fn_count_def ratio_def
  item_scores_def eval_item_ann_def averages_def eval_file_ann_def

subsection \<open>Counting\<close>

lemma tp_fp_acc:
  "foldl (\<lambda>(tp, fp) t. if t \<in> set gold then (Suc tp, fp) else (tp, Suc fp)) (a, b) xs =
     (a + length (filter (\<lambda>t. t \<in> set gold) xs), b + length (filter (\<lambda>t. t \<notin> set gold) xs))"
  by (induction xs arbitrary: a b) simp_all

lemma tp_fp_filter:
  "tp_fp extracted gold =
     (length (filter (\<lambda>t. t \<in> set gold) extracted), length (filter (\<lambda>t. t \<notin> set gold) extracted))"
  unfolding tp_fp_def by (simp add: tp_fp_acc)

lemma fn_count_acc:
  "foldl (\<lambda>fn t. if t \<notin> set extracted then Suc fn else fn) a xs = a + length (filter (\<lambda>t. t \<notin> set extracted) xs)"
  by (induction xs arbitrary: a) simp_all

lemma fn_count_filter: "fn_count extracted gold = length (filter (\<lambda>t. t \<notin> set extracted) gold)"
  unfolding fn_count_def by (simp add: fn_count_acc)

lemma ratio_nonneg [simp]: "0 \<le> ratio a b"
  by (simp add: ratio_def)

lemma ratio_le_1: "a \<le> b \<Longrightarrow> ratio a b \<le> 1"
  by (simp add: ratio_def)

lemma ratio_add_le_1 [simp]: "ratio a (a + b) \<le> 1"
  by (simp add: ratio_le_1)

lemma item_scores_bounds:
  "item_scores extracted gold = (p, r, tp) \<Longrightarrow> 0 \<le> p \<and> p \<le> 1 \<and> 0 \<le> r \<and> r \<le> 1"
  by (auto simp: item_scores_def Let_def split: if_splits prod.splits)

lemma eval_item_ann_bounds:
  "eval_item_ann g item = Inr (p, r, tp) \<Longrightarrow> 0 \<le> p \<and> p \<le> 1 \<and> 0 \<le> r \<and> r \<le> 1"
  by (auto simp: eval_item_ann_def pbind_Inr_iff dest: item_scores_bounds split: option.splits)

lemma sum_list_unit:
  "\<forall>x\<in>set xs. 0 \<le> x \<and> x \<le> (1::rat) \<Longrightarrow> 0 \<le> sum_list xs \<and> sum_list xs \<le> of_nat (length xs)"
  by (induction xs) auto

lemma average_unit:
  "\<forall>x\<in>set xs. 0 \<le> x \<and> x \<le> (1::rat) \<Longrightarrow> xs \<noteq> [] \<Longrightarrow>
   0 \<le> sum_list xs / of_nat (length xs) \<and> sum_list xs / of_nat (length xs) \<le> 1"
  using sum_list_unit [of xs] by simp

lemma harmonic_unit:
  assumes "0 \<le> p" "p \<le> (1::rat)" "0 \<le> r" "r \<le> 1"
  shows "0 \<le> (if p + r = 0 then 0 else 2 * (p * r) / (p + r)) \<and>
         (if p + r = 0 then 0 else 2 * (p * r) / (p + r)) \<le> 1"
proof (cases "p + r = 0")
  case False
  with assms have pos: "0 < p + r" by simp
  from assms have "p * r \<le> p" "p * r \<le> r" by (simp_all add: mult_left_le mult_left_le_one_le)
  with pos assms show ?thesis by (simp add: divide_le_eq_1)
qed simp

lemma averages_bounds:
  assumes "\<forall>x\<in>set ps. 0 \<le> x \<and> x \<le> 1" "\<forall>x\<in>set rs. 0 \<le> x \<and> x \<le> 1"
    and "averages ps rs = Inr (precision, recall, f1)"
  shows "0 \<le> precision \<and> precision \<le> 1 \<and> 0 \<le> recall \<and> recall \<le> 1 \<and> 0 \<le> f1 \<and> f1 \<le> 1"
proof -
  from assms(3) have ne: "ps \<noteq> []" "rs \<noteq> []" by (auto simp: averages_def split: if_splits)
  from assms(3) ne have p: "precision = sum_list ps / of_nat (length ps)"
    and r: "recall = sum_list rs / of_nat (length rs)"
    and f: "f1 = (if precision + recall = 0 then 0 else 2 * (precision * recall) / (precision + recall))"
    by (auto simp: averages_def Let_def)
  from average_unit [OF assms(1) ne(1)] average_unit [OF assms(2) ne(2)] p r
  have "0 \<le> precision" "precision \<le> 1" "0 \<le> recall" "recall \<le> 1" by simp_all
  with harmonic_unit [OF this] f show ?thesis by simp
qed

subsection \<open>The file's scores\<close>

text \<open>C16: the precision, recall and F1 an annotation evaluation reports for a file are
  between 0 and 1.\<close>

theorem eval_file_ann_bounds:
  assumes "eval_file_ann gold_data extractions = Inr (precision, recall, f1, n)"
  shows "0 \<le> precision \<and> precision \<le> 1 \<and> 0 \<le> recall \<and> recall \<le> 1 \<and> 0 \<le> f1 \<and> f1 \<le> 1"
proof -
  let ?I = "\<lambda>(ps, rs, n :: nat). (\<forall>x\<in>set ps. 0 \<le> x \<and> x \<le> (1::rat)) \<and> (\<forall>x\<in>set rs. 0 \<le> x \<and> x \<le> (1::rat))"
  from assms obtain ps rs m where
    loop: "pfoldl (\<lambda>(ps, rs, n) (index, item).
              pbind (py_index gold_data (int index)) (\<lambda>g.
              pbind (eval_item_ann g item) (\<lambda>(p, r, tp). Inr (ps @ [p], rs @ [r], n + tp))))
            ([], [], 0) (enumerate 0 extractions) = Inr (ps, rs, m)"
    and avg: "averages ps rs = Inr (precision, recall, f1)"
    by (auto simp: eval_file_ann_def pbind_Inr_iff split: prod.splits)
  have "?I (ps, rs, m)"
  proof (rule pfoldl_inv [OF loop])
    fix acc x acc'
    assume "?I acc" and step: "(case acc of (ps, rs, n) \<Rightarrow> \<lambda>(index, item).
              pbind (py_index gold_data (int index)) (\<lambda>g.
              pbind (eval_item_ann g item) (\<lambda>(p, r, tp). Inr (ps @ [p], rs @ [r], n + tp)))) x = Inr acc'"
    then show "?I acc'"
      by (auto simp: pbind_Inr_iff dest!: eval_item_ann_bounds split: prod.splits)
  qed simp
  then have "\<forall>x\<in>set ps. 0 \<le> x \<and> x \<le> 1" "\<forall>x\<in>set rs. 0 \<le> x \<and> x \<le> 1" by simp_all
  from averages_bounds [OF this avg] show ?thesis .
qed

theorem eval_file_ann_bounds_witness:
  "eval_file_ann [PDict [(PStr ''Triples'', PList [PList [PStr ''Paris'', PStr ''capital of'', PStr ''France'']])]]
     [PDict [(PStr ''postprocessed'', PList [PList [PStr ''paris'', PStr ''Capital of'', PStr ''france''],
                                             PList [PStr ''Paris'', PStr ''located in'', PStr ''Europe'']])]] =
     Inr (1 / 2, 1, 2 / 3, 1) \<and>
   0 \<le> (1 / 2 :: rat) \<and> (1 / 2 :: rat) \<le> 1 \<and> 0 \<le> (2 / 3 :: rat) \<and> (2 / 3 :: rat) \<le> 1"
  using eval_file_ann_bounds
    [of "[PDict [(PStr ''Triples'', PList [PList [PStr ''Paris'', PStr ''capital of'', PStr ''France'']])]]"
        "[PDict [(PStr ''postprocessed'', PList [PList [PStr ''paris'', PStr ''Capital of'', PStr ''france''],
                                                 PList [PStr ''Paris'', PStr ''located in'', PStr ''Europe'']])]]"
        "1 / 2" 1 "2 / 3" 1]
  by (simp add: eval_simps py_index_def)

text \<open>An extraction file without items makes the evaluation divide by zero.\<close>

theorem eval_file_ann_empty: "eval_file_ann gold_data [] = Inl ZeroDivisionError"
  by (simp add: eval_file_ann_def averages_def)

subsection \<open>The scores as set measures\<close>

lemma length_filter_distinct:
  "distinct xs \<Longrightarrow> length (filter P xs) = card {x \<in> set xs. P x}"
  by (metis distinct_card distinct_filter set_filter)

lemma common_card:
  "distinct e \<Longrightarrow> length (filter (\<lambda>t. t \<in> set g) e) = card (set e \<inter> set g)"
  by (simp add: length_filter_distinct Int_def)

text \<open>C18: when neither the extracted nor the gold triples of an item repeat, the item's
  scores are the set measures of information retrieval: precision
  \<open>|E \<inter> G| / |E|\<close>, recall \<open>|E \<inter> G| / |G|\<close> (0 for no gold triple), and
  \<open>|E \<inter> G|\<close> gold matches.\<close>

theorem item_scores_sets:
  assumes "distinct extracted" "distinct gold" "extracted \<noteq> []"
  shows "item_scores extracted gold =
           (ratio (card (set extracted \<inter> set gold)) (card (set extracted)),
            ratio (card (set extracted \<inter> set gold)) (card (set gold)),
            card (set extracted \<inter> set gold))"
proof -
  let ?tp = "length (filter (\<lambda>t. t \<in> set gold) extracted)"
  have tp: "?tp = card (set extracted \<inter> set gold)" using assms(1) by (rule common_card)
  have tp': "length (filter (\<lambda>t. t \<in> set extracted) gold) = card (set extracted \<inter> set gold)"
    using common_card [OF assms(2)] by (simp add: Int_commute)
  have "?tp + length (filter (\<lambda>t. t \<notin> set gold) extracted) = card (set extracted)"
    using sum_length_filter_compl [of _ extracted] distinct_card [OF assms(1)] by metis
  moreover have "?tp + length (filter (\<lambda>t. t \<notin> set extracted) gold) = card (set gold)"
    using sum_length_filter_compl [of _ gold] distinct_card [OF assms(2)] tp tp' by metis
  ultimately show ?thesis
    using assms(3) tp by (simp add: item_scores_def tp_fp_filter fn_count_filter)
qed

theorem item_scores_sets_witness:
  "distinct [[''paris'', ''capital of'', ''france''], [''paris'', ''located in'', ''europe'']] \<and>
   distinct [[''paris'', ''capital of'', ''france'']] \<and>
   item_scores [[''paris'', ''capital of'', ''france''], [''paris'', ''located in'', ''europe'']]
               [[''paris'', ''capital of'', ''france'']] = (1 / 2, 1, 1)"
  using item_scores_sets [of "[[''paris'', ''capital of'', ''france''], [''paris'', ''located in'', ''europe'']]"
                             "[[''paris'', ''capital of'', ''france'']]"]
  by (simp add: ratio_def)

text \<open>An extracted triple that is repeated counts as a true positive every time: an
  item whose two extracted triples are the same correct triple, against two gold triples,
  has recall 2/3 (the set measure is 1/2) and two gold matches for one matched gold
  triple.\<close>

theorem item_scores_duplicates:
  "item_scores [[''paris'', ''capital of'', ''france''], [''paris'', ''capital of'', ''france'']]
               [[''paris'', ''capital of'', ''france''], [''berlin'', ''capital of'', ''germany'']] =
   (1, 2 / 3, 2)"
  by (simp add: item_scores_def tp_fp_def fn_count_def ratio_def)

end
