(* ===== verification/ConvertREDFM.thy ===== *)
theory ConvertREDFM
  imports Python
begin

text \<open>
  The conversion of the RED-FM dataset into the records the prompt compilers read,
  \<open>convert_data\<close> of \<open>src/convert_REDFM.py\<close> (lines 12--142).  For every instance: the
  distinct entity surface forms, a type sentence and a Wikidata-ID sentence for each; the
  distinct relation labels and their ID sentences; the distinct string and identifier
  triples; two random triples that are not gold triples (\<open>random.choice\<close> picks the index
  the generator gives, \<open>random.shuffle\<close> is any reordering, both parameters of the model);
  the ``corrupted'' triples and their explanations.  The variable \<open>string_triple\<close> of
  line 89 outlives the instance that bound it, so it is threaded through the instances.
  Strings are ASCII for \<open>isupper\<close>, \<open>capitalize\<close> and \<open>lower\<close>.
\<close>

subsection \<open>Lookups\<close>

text \<open>Lines 12--21: the value of the last key equal to the type; when there is none,
  \<open>ent_type\<close> is unbound and \<open>return\<close> raises \<open>UnboundLocalError\<close>, a \<open>NameError\<close>.\<close>

definition lookup_entity_type :: "pyval \<Rightarrow> pyval \<Rightarrow> pyval pyres" where
  "lookup_entity_type entity_types type_string =
     (case entity_types of
        PDict kvs \<Rightarrow>
          (case foldl (\<lambda>acc (key, value). if key = type_string then Some value else acc) None kvs of
             Some ent_type \<Rightarrow> Inr ent_type
           | None \<Rightarrow> Inl NameError)
      | _ \<Rightarrow> Inl AttributeError)"

text \<open>Lines 24--31: the field of the first relation with the predicate number, \<open>None\<close>
  when there is none.\<close>

fun lookup_loop :: "pyval list \<Rightarrow> pyval \<Rightarrow> pyval \<Rightarrow> pyval pyres" where
  "lookup_loop [] search_value search_key = Inr PNone"
| "lookup_loop (relation # rs) search_value search_key =
     pbind (py_getitem relation (PStr ''Predicate number'')) (\<lambda>n.
       if n = search_value then py_getitem relation search_key
       else lookup_loop rs search_value search_key)"

definition lookup_relations :: "pyval \<Rightarrow> pyval \<Rightarrow> pyval \<Rightarrow> pyval pyres" where
  "lookup_relations relations search_value search_key =
     pbind (py_iter relations) (\<lambda>rs. lookup_loop rs search_value search_key)"

subsection \<open>Entities\<close>

record entity_acc =
  extracted_entities :: "pyval list"
  types :: "string list"
  entity_wiki_ids :: "string list"

text \<open>Lines 49--66: one entity.  A new surface form is recorded; the sentences are made
  only for a non-empty one whose first character is not upper case (\<open>continue\<close>
  otherwise), from the capitalised form.\<close>

definition entity_step :: "pyval \<Rightarrow> entity_acc \<Rightarrow> pyval \<Rightarrow> entity_acc pyres" where
  "entity_step entity_types acc entity =
     pbind (py_getitem entity (PStr ''surfaceform'')) (\<lambda>ent_string.
     pbind (py_getitem entity (PStr ''uri'')) (\<lambda>ent_wiki_id.
     pbind (py_getitem entity (PStr ''type'')) (\<lambda>type_string.
     pbind (lookup_entity_type entity_types type_string) (\<lambda>ent_type.
     if ent_string \<in> set (extracted_entities acc) then Inr acc
     else
       (let acc1 = acc\<lparr>extracted_entities := extracted_entities acc @ [ent_string]\<rparr> in
        if ent_string = PStr [] then Inr acc1
        else
          pbind (py_getitem ent_string (PInt 0)) (\<lambda>first.
          pbind (py_isupper_val first) (\<lambda>up.
          if up then Inr acc1
          else
            pbind (py_capitalize_val ent_string) (\<lambda>ent_string'.
            pbind (py_lower_val ent_type) (\<lambda>t.
            Inr (acc1\<lparr>types := types acc1 @ [py_str ent_string' @ '' is a/an '' @ t @ ''.''],
                      entity_wiki_ids := entity_wiki_ids acc1 @
                        [py_str ent_string' @ '' has a Wikidata ID of '' @ py_str ent_wiki_id @ ''.'']\<rparr>))))))))))"

definition entity_acc0 :: entity_acc where
  "entity_acc0 = \<lparr>extracted_entities = [], types = [], entity_wiki_ids = []\<rparr>"

subsection \<open>Relations and triples\<close>

record relation_acc =
  relations :: "pyval list"
  relations_wiki_ids :: "string list"
  string_triples :: "pyval list"
  wiki_triples :: "pyval list"
  string_triple :: "pyval option"

text \<open>Lines 74--84: a new relation label is recorded; when its first character is upper
  case the iteration ends there (\<open>continue\<close>), otherwise the label is capitalised for the
  ID sentence and for the rest of the iteration.  \<open>Inl\<close> is the state after a
  \<open>continue\<close>, \<open>Inr\<close> the label and state to go on with.\<close>

definition relation_label :: "pyval \<Rightarrow> pyval \<Rightarrow> relation_acc \<Rightarrow> pyval \<Rightarrow>
                              (relation_acc + pyval \<times> relation_acc) pyres" where
  "relation_label relations_json pnum acc predicate =
     (if predicate \<in> set (relations acc) then Inr (Inr (predicate, acc))
      else
        (let acc1 = acc\<lparr>relations := relations acc @ [predicate]\<rparr> in
         pbind (lookup_relations relations_json pnum (PStr ''Wikidata ID'')) (\<lambda>predicate_wiki_id.
         pbind (py_getitem predicate (PInt 0)) (\<lambda>first.
         pbind (py_isupper_val first) (\<lambda>up.
         if up then Inr (Inl acc1)
         else
           pbind (py_capitalize_val predicate) (\<lambda>predicate'.
           Inr (Inr (predicate', acc1\<lparr>relations_wiki_ids := relations_wiki_ids acc1 @
                        [py_str predicate' @ '' has the Wikidata ID of '' @ py_str predicate_wiki_id @ ''.'']\<rparr>))))))))"

text \<open>Lines 86--96: the string triple and the identifier triple, each kept once.\<close>

definition relation_triples :: "pyval \<Rightarrow> pyval \<Rightarrow> pyval \<Rightarrow> pyval \<Rightarrow> relation_acc \<Rightarrow> relation_acc pyres" where
  "relation_triples relations_json pnum triple predicate acc =
     pbind (lookup_relations relations_json pnum (PStr ''Wikidata ID'')) (\<lambda>predicate_wiki_id.
     pbind (py_getitem triple (PStr ''subject'')) (\<lambda>subj. pbind (py_getitem subj (PStr ''surfaceform'')) (\<lambda>ss.
     pbind (py_getitem triple (PStr ''object'')) (\<lambda>obj. pbind (py_getitem obj (PStr ''surfaceform'')) (\<lambda>os.
     (let st = PTuple [ss, predicate, os];
          acc1 = acc\<lparr>string_triple := Some st,
                     string_triples := (if st \<in> set (string_triples acc) then string_triples acc
                                        else string_triples acc @ [st])\<rparr>
      in pbind (py_getitem triple (PStr ''subject'')) (\<lambda>subj'. pbind (py_getitem subj' (PStr ''uri'')) (\<lambda>su.
         pbind (py_getitem triple (PStr ''object'')) (\<lambda>obj'. pbind (py_getitem obj' (PStr ''uri'')) (\<lambda>ou.
         (let wt = PTuple [su, predicate_wiki_id, ou] in
          Inr (acc1\<lparr>wiki_triples := (if wt \<in> set (wiki_triples acc1) then wiki_triples acc1
                                      else wiki_triples acc1 @ [wt])\<rparr>))))))))))))"

text \<open>Lines 74--96: one gold triple of the instance.\<close>

definition relation_step :: "pyval \<Rightarrow> relation_acc \<Rightarrow> pyval \<Rightarrow> relation_acc pyres" where
  "relation_step relations_json acc triple =
     pbind (py_getitem triple (PStr ''predicate'')) (\<lambda>pnum.
     pbind (lookup_relations relations_json pnum (PStr ''Relation'')) (\<lambda>predicate.
     pbind (relation_label relations_json pnum acc predicate) (\<lambda>r.
     case r of
       Inl acc' \<Rightarrow> Inr acc'
     | Inr (predicate', acc') \<Rightarrow> relation_triples relations_json pnum triple predicate' acc')))"

subsection \<open>Made-up triples and explanations\<close>

text \<open>\<open>random.choice(xs)\<close>: the element at the index the generator gives; an empty list
  raises \<open>IndexError\<close>.\<close>

definition py_choice :: "nat \<Rightarrow> pyval list \<Rightarrow> pyval pyres" where
  "py_choice k xs = (if xs = [] then Inl IndexError else Inr (xs ! (k mod length xs)))"

text \<open>Lines 101--107: one random triple, kept when it is not a gold string triple.\<close>

definition made_up_step :: "pyval list \<Rightarrow> pyval list \<Rightarrow> pyval list \<Rightarrow> pyval list \<Rightarrow> nat \<times> nat \<times> nat \<Rightarrow> pyval list pyres" where
  "made_up_step ents rels sts made picks =
     (case picks of (k1, k2, k3) \<Rightarrow>
        pbind (py_choice k1 ents) (\<lambda>entity1. pbind (py_choice k2 rels) (\<lambda>relation.
        pbind (py_choice k3 ents) (\<lambda>entity2.
        (let triple = PTuple [entity1, relation, entity2] in
         Inr (if triple \<in> set sts then made else made @ [triple]))))))"

text \<open>Line 113: the made-up triples \<open>x\<close> with \<open>x not in string_triple\<close>; the test runs
  only when the list is not empty, and raises \<open>NameError\<close> when \<open>string_triple\<close> was never
  bound.\<close>

definition difference_triples :: "pyval option \<Rightarrow> pyval list \<Rightarrow> pyval list pyres" where
  "difference_triples bound_triple made_up_triples =
     pfilter (\<lambda>x. case bound_triple of
                    None \<Rightarrow> Inl NameError
                  | Some st \<Rightarrow> map_sum id Not (py_in x st)) made_up_triples"

text \<open>Lines 118--123: one explanation sentence per corrupted triple, kept once.\<close>

definition explanation_step :: "string list \<Rightarrow> pyval \<Rightarrow> string list pyres" where
  "explanation_step explanations i =
     (if i = PList [] then Inr explanations
      else pbind (py_getitem i (PInt 1)) (\<lambda>r. pbind (py_getitem i (PInt 0)) (\<lambda>a.
           pbind (py_getitem i (PInt 2)) (\<lambda>b.
           (let explanation = ''The relation - '' @ py_str r @ '' - does not hold between '' @ py_str a @
                              '' and '' @ py_str b @ ''.''
            in Inr (if explanation \<in> set explanations then explanations else explanations @ [explanation]))))))"

subsection \<open>Instances\<close>

definition relation_acc0 :: "pyval option \<Rightarrow> relation_acc" where
  "relation_acc0 st =
     \<lparr>relations = [], relations_wiki_ids = [], string_triples = [], wiki_triples = [], string_triple = st\<rparr>"

text \<open>Lines 39--139: one instance, with the generator's picks for the two random triples
  and its reordering of the mixed triples.\<close>

definition convert_instance :: "pyval \<Rightarrow> pyval \<Rightarrow> (nat \<Rightarrow> nat \<times> nat \<times> nat) \<Rightarrow> (pyval list \<Rightarrow> pyval list) \<Rightarrow>
                                pyval option \<Rightarrow> pyval \<Rightarrow> (pyval \<times> pyval option) pyres" where
  "convert_instance entity_types relations_json pick shuffle st instance =
     pbind (py_getitem instance (PStr ''text'')) (\<lambda>given_text.
     pbind (py_getitem instance (PStr ''entities'')) (\<lambda>entities.
     pbind (py_iter entities) (\<lambda>es.
     pbind (pfoldl (entity_step entity_types) entity_acc0 es) (\<lambda>ea.
     pbind (py_getitem instance (PStr ''relations'')) (\<lambda>triples.
     pbind (py_iter triples) (\<lambda>ts.
     pbind (pfoldl (relation_step relations_json) (relation_acc0 st) ts) (\<lambda>ra.
     pbind (pfoldl (made_up_step (extracted_entities ea) (relations ra) (string_triples ra)) []
              (map pick [0..<2])) (\<lambda>made_up_triples.
     (let mixed_triples = shuffle (string_triples ra @ made_up_triples) in
      pbind (difference_triples (string_triple ra) made_up_triples) (\<lambda>diff.
      pbind (pfoldl explanation_step [] diff) (\<lambda>explanations.
      Inr (PDict [(PStr ''Text'', given_text),
                  (PStr ''Entities'', PList (extracted_entities ea)),
                  (PStr ''Entity Types'', PList (map PStr (types ea))),
                  (PStr ''Entity wiki ids'', PList (map PStr (entity_wiki_ids ea))),
                  (PStr ''Relations'', PList (relations ra)),
                  (PStr ''Relation wiki ids'', PList (map PStr (relations_wiki_ids ra))),
                  (PStr ''Triples'', PList (string_triples ra)),
                  (PStr ''Wiki Triples'', PList (wiki_triples ra)),
                  (PStr ''Mixed Triples'', PList mixed_triples),
                  (PStr ''Corrupted Triples'', PList diff),
                  (PStr ''Explanations'', PList (map PStr explanations))],
           string_triple ra))))))))))))"

text \<open>Lines 34--142: every instance in order, the \<open>i\<close>-th with the generator's draws for
  it.\<close>

definition convert_data :: "pyval \<Rightarrow> pyval \<Rightarrow> (nat \<Rightarrow> nat \<Rightarrow> nat \<times> nat \<times> nat) \<Rightarrow>
                            (nat \<Rightarrow> pyval list \<Rightarrow> pyval list) \<Rightarrow> pyval list \<Rightarrow> pyval list pyres" where
  "convert_data entity_types relations_json pick shuffle data =
     pbind (pfoldl (\<lambda>(converted, st) (i, instance).
              pbind (convert_instance entity_types relations_json (pick i) (shuffle i) st instance) (\<lambda>(d, st').
              Inr (converted @ [d], st')))
            ([], None) (enumerate 0 data)) (\<lambda>(converted, st). Inr converted)"

lemmas convert_eval [eval_simps] =
  lookup_entity_type_def lookup_relations_def entity_step_def entity_acc0_def relation_label_def
  relation_triples_def relation_step_def py_choice_def made_up_step_def difference_triples_def
  explanation_step_def relation_acc0_def convert_instance_def convert_data_def

subsection \<open>Lookups\<close>

text \<open>\<open>lookup_entity_type\<close> answers the value of the type in the dictionary of entity
  types, and raises \<open>NameError\<close> (the unbound \<open>ent_type\<close>) for a type that is not a key.\<close>

lemma foldl_last_match:
  "foldl (\<lambda>acc (key, value). if key = t then Some value else acc) a kvs =
     (case map_of (rev kvs) t of Some v \<Rightarrow> Some v | None \<Rightarrow> a)"
  by (induction kvs arbitrary: a) (auto simp: map_of_append split: option.splits)

theorem lookup_entity_type_result:
  "lookup_entity_type (PDict kvs) t = (case map_of (rev kvs) t of Some v \<Rightarrow> Inr v | None \<Rightarrow> Inl NameError)"
  by (simp add: lookup_entity_type_def foldl_last_match split: option.splits)

subsection \<open>The entity loop\<close>

text \<open>The sentences of the entities come in pairs, one of each kind per recorded entity
  at most, and the recorded surface forms are distinct.\<close>

definition entity_inv :: "entity_acc \<Rightarrow> bool" where
  "entity_inv acc \<longleftrightarrow>
     length (types acc) = length (entity_wiki_ids acc) \<and>
     length (types acc) \<le> length (extracted_entities acc) \<and> distinct (extracted_entities acc)"

lemma entity_step_inv: "entity_inv acc \<Longrightarrow> entity_step et acc e = Inr acc' \<Longrightarrow> entity_inv acc'"
  by (auto simp: entity_step_def entity_inv_def Let_def pbind_Inr_iff split: if_splits)

text \<open>C25: after the entity loop of an instance, there are as many type sentences as
  Wikidata-ID sentences, no more than the distinct surface forms recorded.\<close>

theorem entity_loop_inv:
  assumes "pfoldl (entity_step entity_types) entity_acc0 es = Inr acc"
  shows "length (types acc) = length (entity_wiki_ids acc) \<and>
         length (types acc) \<le> length (extracted_entities acc) \<and> distinct (extracted_entities acc)"
proof -
  have "entity_inv acc"
  proof (rule pfoldl_inv [OF assms])
    show "entity_inv entity_acc0" by (simp add: entity_inv_def entity_acc0_def)
  qed (rule entity_step_inv)
  then show ?thesis by (simp add: entity_inv_def)
qed

text \<open>A new entity whose surface form starts with an upper-case letter is recorded but
  gets neither a type sentence nor a Wikidata-ID sentence: the test of line 61 skips the
  entities that are already capitalised, where it means to capitalise the others.\<close>

theorem entity_step_upper:
  assumes "py_getitem entity (PStr ''surfaceform'') = Inr (PStr (c # s))" and "is_upper_char c"
    and "entity_step entity_types acc entity = Inr acc'"
  shows "types acc' = types acc \<and> entity_wiki_ids acc' = entity_wiki_ids acc"
  using assms
  by (auto simp: entity_step_def Let_def pbind_Inr_iff py_index_def is_upper_char_def is_lower_char_def
           split: if_splits)

subsection \<open>The relation loop\<close>

text \<open>C23: the first gold triple of a relation whose label starts with an upper-case
  letter is lost: the label is recorded, and the \<open>continue\<close> of line 81 skips the
  triple, which enters neither the string triples nor the identifier triples.\<close>

theorem relation_step_upper_drops:
  assumes "py_getitem triple (PStr ''predicate'') = Inr pnum"
    and "lookup_relations relations_json pnum (PStr ''Relation'') = Inr (PStr (c # s))"
    and "lookup_relations relations_json pnum (PStr ''Wikidata ID'') = Inr pid"
    and "is_upper_char c" and "PStr (c # s) \<notin> set (relations acc)"
  shows "relation_step relations_json acc triple = Inr (acc\<lparr>relations := relations acc @ [PStr (c # s)]\<rparr>)"
  using assms
  by (simp add: relation_step_def relation_label_def py_index_def is_upper_char_def is_lower_char_def)

text \<open>C24: the filter of line 113 tests membership in \<open>string_triple\<close>, the last gold triple,
  not in \<open>string_triples\<close>: a made-up triple is never one of the strings of that tuple, so
  every made-up triple is listed as corrupted, also when it is a gold triple.\<close>

theorem difference_triples_all:
  assumes "\<forall>t\<in>set made. \<exists>xs. t = PTuple xs" and "\<forall>y\<in>set ys. \<forall>xs. y \<noteq> PTuple xs"
  shows "difference_triples (Some (PTuple ys)) made = Inr made"
  using assms by (induction made) (auto simp: difference_triples_def)

subsection \<open>Examples\<close>

theorem entity_step_upper_witness:
  "py_getitem (PDict [(PStr ''surfaceform'', PStr ''Paris''), (PStr ''uri'', PStr ''Q90''), (PStr ''type'', PStr ''LOC'')]) (PStr ''surfaceform'') = Inr (PStr (CHR ''P'' # ''aris'')) \<and> is_upper_char (CHR ''P'') \<and>
   entity_step (PDict [(PStr ''LOC'', PStr ''Location'')]) entity_acc0 (PDict [(PStr ''surfaceform'', PStr ''Paris''), (PStr ''uri'', PStr ''Q90''), (PStr ''type'', PStr ''LOC'')]) = Inr \<lparr>extracted_entities = [PStr ''Paris''], types = [], entity_wiki_ids = []\<rparr> \<and>
   types \<lparr>extracted_entities = [PStr ''Paris''], types = [], entity_wiki_ids = []\<rparr> = types entity_acc0"
  using entity_step_upper [of "PDict [(PStr ''surfaceform'', PStr ''Paris''), (PStr ''uri'', PStr ''Q90''), (PStr ''type'', PStr ''LOC'')]" "CHR ''P''" "''aris''" "PDict [(PStr ''LOC'', PStr ''Location'')]" entity_acc0
      "\<lparr>extracted_entities = [PStr ''Paris''], types = [], entity_wiki_ids = []\<rparr>"]
  by (simp add: eval_simps py_index_def)

theorem entity_loop_inv_witness:
  "pfoldl (entity_step (PDict [(PStr ''LOC'', PStr ''Location'')])) entity_acc0 [PDict [(PStr ''surfaceform'', PStr ''Paris''), (PStr ''uri'', PStr ''Q90''), (PStr ''type'', PStr ''LOC'')], PDict [(PStr ''surfaceform'', PStr ''france''), (PStr ''uri'', PStr ''Q142''), (PStr ''type'', PStr ''LOC'')]] =
     Inr \<lparr>extracted_entities = [PStr ''Paris'', PStr ''france''], types = [''France is a/an location.''],
          entity_wiki_ids = [''France has a Wikidata ID of Q142.'']\<rparr> \<and>
   length [''France is a/an location.''] = length [''France has a Wikidata ID of Q142.'']"
  using entity_loop_inv [of "PDict [(PStr ''LOC'', PStr ''Location'')]" "[PDict [(PStr ''surfaceform'', PStr ''Paris''), (PStr ''uri'', PStr ''Q90''), (PStr ''type'', PStr ''LOC'')], PDict [(PStr ''surfaceform'', PStr ''france''), (PStr ''uri'', PStr ''Q142''), (PStr ''type'', PStr ''LOC'')]]"
      "\<lparr>extracted_entities = [PStr ''Paris'', PStr ''france''], types = [''France is a/an location.''],
        entity_wiki_ids = [''France has a Wikidata ID of Q142.'']\<rparr>"]
  by (simp add: eval_simps py_index_def)

theorem relation_step_upper_drops_witness:
  "py_getitem (PDict [(PStr ''predicate'', PInt 17), (PStr ''subject'', PDict [(PStr ''surfaceform'', PStr ''Paris''), (PStr ''uri'', PStr ''Q90''), (PStr ''type'', PStr ''LOC'')]), (PStr ''object'', PDict [(PStr ''surfaceform'', PStr ''france''), (PStr ''uri'', PStr ''Q142''), (PStr ''type'', PStr ''LOC'')])]) (PStr ''predicate'') = Inr (PInt 17) \<and>
   lookup_relations (PList [PDict [(PStr ''Predicate number'', PInt 17), (PStr ''Relation'', PStr ''Country''), (PStr ''Wikidata ID'', PStr ''P17'')]]) (PInt 17) (PStr ''Relation'') = Inr (PStr (CHR ''C'' # ''ountry'')) \<and>
   lookup_relations (PList [PDict [(PStr ''Predicate number'', PInt 17), (PStr ''Relation'', PStr ''Country''), (PStr ''Wikidata ID'', PStr ''P17'')]]) (PInt 17) (PStr ''Wikidata ID'') = Inr (PStr ''P17'') \<and>
   is_upper_char (CHR ''C'') \<and> PStr (CHR ''C'' # ''ountry'') \<notin> set (relations (relation_acc0 None)) \<and>
   relation_step (PList [PDict [(PStr ''Predicate number'', PInt 17), (PStr ''Relation'', PStr ''Country''), (PStr ''Wikidata ID'', PStr ''P17'')]]) (relation_acc0 None) (PDict [(PStr ''predicate'', PInt 17), (PStr ''subject'', PDict [(PStr ''surfaceform'', PStr ''Paris''), (PStr ''uri'', PStr ''Q90''), (PStr ''type'', PStr ''LOC'')]), (PStr ''object'', PDict [(PStr ''surfaceform'', PStr ''france''), (PStr ''uri'', PStr ''Q142''), (PStr ''type'', PStr ''LOC'')])]) =
     Inr ((relation_acc0 None)\<lparr>relations := [PStr ''Country'']\<rparr>)"
  using relation_step_upper_drops [of "PDict [(PStr ''predicate'', PInt 17), (PStr ''subject'', PDict [(PStr ''surfaceform'', PStr ''Paris''), (PStr ''uri'', PStr ''Q90''), (PStr ''type'', PStr ''LOC'')]), (PStr ''object'', PDict [(PStr ''surfaceform'', PStr ''france''), (PStr ''uri'', PStr ''Q142''), (PStr ''type'', PStr ''LOC'')])]" "PInt 17" "PList [PDict [(PStr ''Predicate number'', PInt 17), (PStr ''Relation'', PStr ''Country''), (PStr ''Wikidata ID'', PStr ''P17'')]]" "CHR ''C''" "''ountry''" "PStr ''P17''"
      "relation_acc0 None"]
  by (simp add: eval_simps)

theorem difference_triples_all_witness:
  "difference_triples (Some (PTuple [PStr ''Lyon'', PStr ''country'', PStr ''france'']))
     [PTuple [PStr ''Paris'', PStr ''country'', PStr ''france'']] =
     Inr [PTuple [PStr ''Paris'', PStr ''country'', PStr ''france'']]"
  using difference_triples_all [of "[PTuple [PStr ''Paris'', PStr ''country'', PStr ''france'']]"
      "[PStr ''Lyon'', PStr ''country'', PStr ''france'']"]
  by simp

text \<open>On an instance about Paris and Lyon in France, with the relation \<open>country\<close> and
  the generator's picks (Paris, country, France): Paris gets no type sentence; the gold
  triples read \<open>Country\<close> for Paris and \<open>country\<close> for Lyon; the picked triple, a gold
  fact up to the capital letter, is kept as a made-up triple, listed as corrupted, and
  explained as a relation that does not hold.\<close>

theorem convert_instance_example:
  "convert_instance (PDict [(PStr ''LOC'', PStr ''Location'')]) (PList [PDict [(PStr ''Predicate number'', PInt 17), (PStr ''Relation'', PStr ''country''), (PStr ''Wikidata ID'', PStr ''P17'')]]) (\<lambda>i. (0, 0, 1)) id None
     (PDict [(PStr ''text'', PStr ''Paris and Lyon are in France.''), (PStr ''entities'', PList [PDict [(PStr ''surfaceform'', PStr ''Paris''), (PStr ''uri'', PStr ''Q90''), (PStr ''type'', PStr ''LOC'')], PDict [(PStr ''surfaceform'', PStr ''france''), (PStr ''uri'', PStr ''Q142''), (PStr ''type'', PStr ''LOC'')]]),
             (PStr ''relations'', PList [PDict [(PStr ''predicate'', PInt 17), (PStr ''subject'', PDict [(PStr ''surfaceform'', PStr ''Paris''), (PStr ''uri'', PStr ''Q90''), (PStr ''type'', PStr ''LOC'')]), (PStr ''object'', PDict [(PStr ''surfaceform'', PStr ''france''), (PStr ''uri'', PStr ''Q142''), (PStr ''type'', PStr ''LOC'')])], PDict [(PStr ''predicate'', PInt 17), (PStr ''subject'', PDict [(PStr ''surfaceform'', PStr ''Lyon''), (PStr ''uri'', PStr ''Q456''), (PStr ''type'', PStr ''LOC'')]), (PStr ''object'', PDict [(PStr ''surfaceform'', PStr ''france''), (PStr ''uri'', PStr ''Q142''), (PStr ''type'', PStr ''LOC'')])]])]) =
   Inr (PDict
         [(PStr ''Text'', PStr ''Paris and Lyon are in France.''),
          (PStr ''Entities'', PList [PStr ''Paris'', PStr ''france'']),
          (PStr ''Entity Types'', PList [PStr ''France is a/an location.'']),
          (PStr ''Entity wiki ids'', PList [PStr ''France has a Wikidata ID of Q142.'']),
          (PStr ''Relations'', PList [PStr ''country'']),
          (PStr ''Relation wiki ids'', PList [PStr ''Country has the Wikidata ID of P17.'']),
          (PStr ''Triples'', PList [PTuple [PStr ''Paris'', PStr ''Country'', PStr ''france''],
                                   PTuple [PStr ''Lyon'', PStr ''country'', PStr ''france'']]),
          (PStr ''Wiki Triples'', PList [PTuple [PStr ''Q90'', PStr ''P17'', PStr ''Q142''],
                                        PTuple [PStr ''Q456'', PStr ''P17'', PStr ''Q142'']]),
          (PStr ''Mixed Triples'', PList [PTuple [PStr ''Paris'', PStr ''Country'', PStr ''france''],
                                         PTuple [PStr ''Lyon'', PStr ''country'', PStr ''france''],
                                         PTuple [PStr ''Paris'', PStr ''country'', PStr ''france''],
                                         PTuple [PStr ''Paris'', PStr ''country'', PStr ''france'']]),
          (PStr ''Corrupted Triples'', PList [PTuple [PStr ''Paris'', PStr ''country'', PStr ''france''],
                                             PTuple [PStr ''Paris'', PStr ''country'', PStr ''france'']]),
          (PStr ''Explanations'', PList [PStr ''The relation - country - does not hold between Paris and france.''])],
        Some (PTuple [PStr ''Lyon'', PStr ''country'', PStr ''france'']))"
  by (simp add: eval_simps py_index_def)

end
