(* ===== verification/LinkStats.thy ===== *)
theory LinkStats
  imports Service "HOL-Library.List_Lexorder" "HOL-Library.Char_ord"
begin

text \<open>
  Two scripts over the lists of (surface form, identifier) pairs that the Wikidata
  evaluation writes: \<open>count_linked_items.py\<close> (lines 21--47) counts the linked and the
  unlinked pairs of every file, and \<open>get_domain_range_info.py\<close> (lines 127--166) asks the
  SPARQL service for the domain and range of every linked relation.  Both sort their
  statistics by file name, with Python's string order (code points, a prefix first), which
  is the lexicographic order of \<open>List_Lexorder\<close> on byte strings, as UTF-8 keeps the order
  of code points.  The second script's query functions (lines 15--86) are the same code as
  those of \<open>general_evaluation_final.py\<close> and are modelled once, in \<open>Service\<close>.
\<close>

subsection \<open>Linked items\<close>

text \<open>Lines 28--31: one pair, \<open>i[1] == "no-wikiID"\<close>.\<close>

definition link_step :: "nat \<times> nat \<Rightarrow> pyval \<Rightarrow> (nat \<times> nat) pyres" where
  "link_step acc i =
     (case acc of (linked, not_linked) \<Rightarrow>
        pbind (py_getitem i (PInt 1)) (\<lambda>v.
          Inr (if v = no_wikiID then (linked, Suc not_linked) else (Suc linked, not_linked))))"

text \<open>Lines 25--31: both counters start at zero, then every pair of the file.\<close>

definition link_counts :: "pyval list \<Rightarrow> (nat \<times> nat) pyres" where
  "link_counts data = pfoldl link_step (0, 0) data"

text \<open>Lines 22--45: the statistics of one file, by the prefix of its name.\<close>

definition link_stats_file :: "string \<Rightarrow> pyval \<Rightarrow> (string \<times> pyval) list pyres" where
  "link_stats_file file data =
     pbind (py_iter data) (\<lambda>items.
     pbind (link_counts items) (\<lambda>(linked, not_linked).
     pbind (py_len data) (\<lambda>n.
     Inr ((if startswith file ''entities'' then
             [(file, PDict [(PStr ''file'', PStr file), (PStr ''all entities'', PInt (int n)),
                            (PStr ''linked entities'', PInt (int linked)),
                            (PStr ''not linked entities'', PInt (int not_linked))])]
           else []) @
          (if startswith file ''relations'' then
             [(file, PDict [(PStr ''file'', PStr file), (PStr ''all relations'', PInt (int n)),
                            (PStr ''linked relations'', PInt (int linked)),
                            (PStr ''not linked relations'', PInt (int not_linked))])]
           else [])))))"

text \<open>Lines 21--47: all files in the order of the directory listing, then sorted by name
  (\<open>sorted\<close> is stable).\<close>

definition link_stats :: "(string \<times> pyval) list \<Rightarrow> pyval list pyres" where
  "link_stats files =
     pbind (pfoldl (\<lambda>all_stats (file, data). pbind (link_stats_file file data) (\<lambda>s. Inr (all_stats @ s)))
              [] files) (\<lambda>all_stats.
     Inr (map snd (sort_key fst all_stats)))"

subsection \<open>Domain and range of the linked relations\<close>

text \<open>Lines 135--160: one relation; an unlinked one is skipped, a linked one costs a domain
  and a range query.\<close>

definition domain_range_step :: "net \<Rightarrow> nat \<times> nat \<times> nat \<Rightarrow> pyval \<Rightarrow> (nat \<times> nat \<times> nat) wm" where
  "domain_range_step net counts i =
     (case counts of (has_domain, has_range, has_domain_and_range) \<Rightarrow>
        wbind (wlift (py_getitem i (PInt 1))) (\<lambda>relation.
        if relation = no_wikiID then wret (has_domain, has_range, has_domain_and_range)
        else
          wbind (get_bindings_from_sparql_query net (QDomain relation) ''domain'') (\<lambda>domain_results.
          (let domain_info = (domain_results \<noteq> PDict []) in
           wbind (get_bindings_from_sparql_query net (QRange relation) ''range'') (\<lambda>range_results.
           (let range_info = (range_results \<noteq> PDict []) in
            wret (if domain_info then Suc has_domain else has_domain,
                  if range_info then Suc has_range else has_range,
                  if domain_info \<and> range_info then Suc has_domain_and_range else has_domain_and_range)))))))"

definition domain_range_loop :: "net \<Rightarrow> pyval list \<Rightarrow> (nat \<times> nat \<times> nat) wm" where
  "domain_range_loop net items = foldl (\<lambda>m i. wbind m (\<lambda>c. domain_range_step net c i)) (wret (0, 0, 0)) items"

text \<open>Lines 128--164: the statistics of a file of relations; other files are skipped.\<close>

definition domain_range_file :: "net \<Rightarrow> string \<Rightarrow> pyval \<Rightarrow> (string \<times> pyval) list wm" where
  "domain_range_file net file data =
     (if startswith file ''relations'' then
        wbind (wlift (py_iter data)) (\<lambda>items.
        wbind (domain_range_loop net items) (\<lambda>(has_domain, has_range, has_domain_and_range).
        wret [(file, PDict [(PStr ''file'', PStr file),
                            (PStr ''relations with domain'', PInt (int has_domain)),
                            (PStr ''relations with range'', PInt (int has_range)),
                            (PStr ''relations with domain and range'', PInt (int has_domain_and_range))])]))
      else wret [])"

text \<open>Lines 127--166.\<close>

definition domain_range_stats :: "net \<Rightarrow> (string \<times> pyval) list \<Rightarrow> pyval list wm" where
  "domain_range_stats net files =
     wbind (foldl (\<lambda>m (file, data). wbind m (\<lambda>all_stats.
                     wbind (domain_range_file net file data) (\<lambda>s. wret (all_stats @ s))))
              (wret []) files) (\<lambda>all_stats.
     wret (map snd (sort_key fst all_stats)))"

lemmas link_stats_eval [eval_simps] =
  link_step_def link_counts_def link_stats_file_def link_stats_def domain_range_step_def domain_range_loop_def
  domain_range_file_def domain_range_stats_def

subsection \<open>Properties\<close>

text \<open>A pair the evaluation could not link: its identifier, item 1, is \<open>'no-wikiID'\<close>.\<close>

definition unlinked_pair :: "pyval \<Rightarrow> bool" where
  "unlinked_pair i \<longleftrightarrow> py_getitem i (PInt 1) = Inr no_wikiID"

lemma link_counts_acc:
  "pfoldl link_step (a, b) data = Inr (l, u) \<Longrightarrow>
   u = b + length (filter unlinked_pair data) \<and> l = a + length (filter (\<lambda>i. \<not> unlinked_pair i) data)"
proof (induction data arbitrary: a b)
  case (Cons x data)
  from Cons.prems obtain acc where step: "link_step (a, b) x = Inr acc"
    and rest: "pfoldl link_step acc data = Inr (l, u)"
    by (auto simp: pbind_Inr_iff)
  from step obtain v where v: "py_getitem x (PInt 1) = Inr v"
    and acc: "acc = (if v = no_wikiID then (a, Suc b) else (Suc a, b))"
    by (auto simp: link_step_def pbind_Inr_iff)
  show ?case
  proof (cases "v = no_wikiID")
    case True
    with acc rest Cons.IH [of a "Suc b"] v show ?thesis by (simp add: unlinked_pair_def)
  next
    case False
    with acc rest Cons.IH [of "Suc a" b] v show ?thesis by (simp add: unlinked_pair_def)
  qed
qed simp

text \<open>C27: the counts of a file are exact: the unlinked pairs are those whose identifier
  is \<open>'no-wikiID'\<close>, the linked pairs all the others, so that, as the comment of line 35
  says, the two add up to all the pairs.\<close>

theorem link_counts_total:
  "link_counts items = Inr (linked, not_linked) \<Longrightarrow>
   not_linked = length (filter unlinked_pair items) \<and>
   linked = length (filter (\<lambda>i. \<not> unlinked_pair i) items) \<and>
   linked + not_linked = length items"
  unfolding link_counts_def
  using sum_length_filter_compl [of unlinked_pair items] by (auto dest: link_counts_acc)

theorem link_counts_total_witness:
  "link_counts [PList [PStr ''capital of'', PStr ''P36''], PList [PStr ''is in'', no_wikiID]] = Inr (1, 1) \<and>
   (1::nat) = length (filter unlinked_pair [PList [PStr ''capital of'', PStr ''P36''], PList [PStr ''is in'', no_wikiID]]) \<and>
   (1::nat) = length (filter (\<lambda>i. \<not> unlinked_pair i) [PList [PStr ''capital of'', PStr ''P36''], PList [PStr ''is in'', no_wikiID]]) \<and>
   (1::nat) + 1 = length [PList [PStr ''capital of'', PStr ''P36''], PList [PStr ''is in'', no_wikiID]]"
  using link_counts_total [of "[PList [PStr ''capital of'', PStr ''P36''], PList [PStr ''is in'', no_wikiID]]" 1 1]
  by (simp add: eval_simps py_index_def no_wikiID_def unlinked_pair_def)

text \<open>C28: whatever the service answers, a file's count of relations with both a domain
  and a range is at most its count with a domain and its count with a range.\<close>

theorem domain_range_loop_counts:
  "wp (domain_range_loop net items) (\<lambda>(has_domain, has_range, has_domain_and_range).
         has_domain_and_range \<le> has_domain \<and> has_domain_and_range \<le> has_range)"
  unfolding domain_range_loop_def
  by (intro wp_foldl wp_wbind_inv)
     (auto simp: domain_range_step_def Let_def intro!: wp_intros split: prod.splits)

text \<open>A request for the domain or the range of a linked relation.\<close>

definition linked_schema_query :: "request \<Rightarrow> bool" where
  "linked_schema_query r \<longleftrightarrow>
     (case r of RSelect (QDomain rel) \<Rightarrow> rel \<noteq> no_wikiID | RSelect (QRange rel) \<Rightarrow> rel \<noteq> no_wikiID | _ \<Rightarrow> False)"

lemma domain_range_step_linked: "issues linked_schema_query (domain_range_step net c i)"
  unfolding domain_range_step_def Let_def
  by (intro issues_intros issues_get_bindings) (simp_all add: linked_schema_query_def split: prod.splits)

text \<open>C29: the domain and range script only asks for the domain and the range of linked
  relations: a pair whose identifier is \<open>'no-wikiID'\<close> costs no request.\<close>

theorem domain_range_stats_linked: "issues linked_schema_query (domain_range_stats net files)"
  unfolding domain_range_stats_def domain_range_file_def domain_range_loop_def case_prod_unfold
  by (intro issues_intros issues_foldl domain_range_step_linked) simp_all

end
