(* ===== verification/JsonDump.thy ===== *)
theory JsonDump
  imports Json
begin

text \<open>
  \<open>json.dumps\<close> with its default arguments (\<open>ensure_ascii=True\<close>, \<open>allow_nan=True\<close>, the
  separators \<open>', '\<close> and \<open>': '\<close>, keys in insertion order), written from the
  documentation of the \<open>json\<close> module: strings are decoded from UTF-8 and every code
  point outside the printable ASCII range is written as \<open>\uXXXX\<close> (a surrogate pair above
  \<open>U+FFFF\<close>); tuples are written as arrays; keys that are \<open>int\<close>, \<open>float\<close>, \<open>bool\<close> or
  \<open>None\<close> are written as strings, other keys and sets raise \<open>TypeError\<close>.  Floats are kept
  as their text (Python writes their \<open>repr\<close>).  The round trip through \<open>json_loads\<close> is
  proved below for values whose strings are ASCII and which hold no floats.
\<close>

definition hexd :: "nat \<Rightarrow> char" where
  "hexd d = (if d < 10 then char_of (48 + d) else char_of (87 + d))"

definition u_escape :: "nat \<Rightarrow> string" where
  "u_escape u = [bsl, CHR ''u'', hexd (u div 4096 mod 16), hexd (u div 256 mod 16), hexd (u div 16 mod 16),
                 hexd (u mod 16)]"

text \<open>\<open>ESCAPE_ASCII\<close> and \<open>ESCAPE_DCT\<close> of \<open>json.encoder\<close>: one code point.\<close>

definition esc_code :: "nat \<Rightarrow> string" where
  "esc_code u =
     (if u = 34 then [bsl, dq] else if u = 92 then [bsl, bsl]
      else if u = 10 then [bsl, CHR ''n''] else if u = 13 then [bsl, CHR ''r'']
      else if u = 9 then [bsl, CHR ''t''] else if u = 8 then [bsl, CHR ''b'']
      else if u = 12 then [bsl, CHR ''f'']
      else if 32 \<le> u \<and> u \<le> 126 then [char_of u]
      else if u < 0x10000 then u_escape u
      else u_escape (0xD800 + (u - 0x10000) div 1024) @ u_escape (0xDC00 + (u - 0x10000) mod 1024))"

definition is_cont :: "char \<Rightarrow> bool" where
  "is_cont c \<longleftrightarrow> 0x80 \<le> (of_char c :: nat) \<and> (of_char c :: nat) \<le> 0xBF"

definition cont_val :: "char \<Rightarrow> nat" where
  "cont_val c = of_char c - 0x80"

text \<open>The code points of a string held as UTF-8 (surrogates as \<open>json_loads\<close> writes
  them back included).\<close>

fun utf8_decode :: "string \<Rightarrow> nat list option" where
  "utf8_decode [] = Some []"
| "utf8_decode (c # s) =
     (let b = (of_char c :: nat) in
      if b < 0x80 then map_option (Cons b) (utf8_decode s)
      else if 0xC2 \<le> b \<and> b \<le> 0xDF then
        (case s of
           c1 # s1 \<Rightarrow> if is_cont c1 then map_option (Cons ((b - 0xC0) * 64 + cont_val c1)) (utf8_decode s1)
                     else None
         | [] \<Rightarrow> None)
      else if 0xE0 \<le> b \<and> b \<le> 0xEF then
        (case s of
           c1 # c2 # s2 \<Rightarrow>
             (let u = (b - 0xE0) * 4096 + cont_val c1 * 64 + cont_val c2 in
              if is_cont c1 \<and> is_cont c2 \<and> 0x800 \<le> u then map_option (Cons u) (utf8_decode s2) else None)
         | _ \<Rightarrow> None)
      else if 0xF0 \<le> b \<and> b \<le> 0xF4 then
        (case s of
           c1 # c2 # c3 # s3 \<Rightarrow>
             (let u = (b - 0xF0) * 262144 + cont_val c1 * 4096 + cont_val c2 * 64 + cont_val c3 in
              if is_cont c1 \<and> is_cont c2 \<and> is_cont c3 \<and> 0x10000 \<le> u \<and> u \<le> 0x10FFFF
              then map_option (Cons u) (utf8_decode s3) else None)
         | _ \<Rightarrow> None)
      else None)"

text \<open>A string as a JSON string; bytes that are not UTF-8 cannot come from a Python
  string, and raise \<open>UnicodeDecodeError\<close>, a \<open>ValueError\<close>.\<close>

definition dump_str :: "string \<Rightarrow> string pyres" where
  "dump_str s =
     (case utf8_decode s of Some us \<Rightarrow> Inr (dq # concat (map esc_code us) @ [dq]) | None \<Rightarrow> Inl ValueError)"

text \<open>\<open>float.__repr__\<close> of the special values, other floats as their text.\<close>

definition float_dump :: "string \<Rightarrow> string" where
  "float_dump t =
     (if t = ''nan'' then ''NaN'' else if t = ''inf'' then ''Infinity'' else if t = ''-inf'' then ''-Infinity'' else t)"

definition dump_key :: "pyval \<Rightarrow> string pyres" where
  "dump_key k =
     (case k of
        PStr s \<Rightarrow> Inr s
      | PFloat t \<Rightarrow> Inr (float_dump t)
      | PBool b \<Rightarrow> Inr (if b then ''true'' else ''false'')
      | PNone \<Rightarrow> Inr ''null''
      | PInt i \<Rightarrow> Inr (int_str i)
      | _ \<Rightarrow> Inl TypeError)"

fun json_dumps :: "pyval \<Rightarrow> string pyres"
and dump_items :: "pyval list \<Rightarrow> string list pyres"
and dump_members :: "(pyval \<times> pyval) list \<Rightarrow> string list pyres" where
  "json_dumps PNone = Inr ''null''"
| "json_dumps (PBool b) = Inr (if b then ''true'' else ''false'')"
| "json_dumps (PInt i) = Inr (int_str i)"
| "json_dumps (PFloat t) = Inr (float_dump t)"
| "json_dumps (PStr s) = dump_str s"
| "json_dumps (PList xs) = pbind (dump_items xs) (\<lambda>ds. Inr (''['' @ py_join '', '' ds @ '']''))"
| "json_dumps (PTuple xs) = pbind (dump_items xs) (\<lambda>ds. Inr (''['' @ py_join '', '' ds @ '']''))"
| "json_dumps (PDict kvs) = pbind (dump_members kvs) (\<lambda>ds. Inr (''{'' @ py_join '', '' ds @ ''}''))"
| "json_dumps (PSet xs) = Inl TypeError"
| "dump_items [] = Inr []"
| "dump_items (x # xs) = pbind (json_dumps x) (\<lambda>d. pbind (dump_items xs) (\<lambda>ds. Inr (d # ds)))"
| "dump_members [] = Inr []"
| "dump_members ((k, v) # kvs) =
     pbind (dump_key k) (\<lambda>ks. pbind (dump_str ks) (\<lambda>kd. pbind (json_dumps v) (\<lambda>vd.
     pbind (dump_members kvs) (\<lambda>ds. Inr ((kd @ '': '' @ vd) # ds)))))"

text \<open>What \<open>json.loads(json.dumps(v))\<close> is meant to give: tuples become lists and keys
  become strings (a later key equal to an earlier one after the conversion overwrites its
  value).\<close>

definition key_text :: "pyval \<Rightarrow> string" where
  "key_text k = (case dump_key k of Inr t \<Rightarrow> t | Inl e \<Rightarrow> [])"

fun jnorm :: "pyval \<Rightarrow> pyval" where
  "jnorm (PList xs) = PList (map jnorm xs)"
| "jnorm (PTuple xs) = PList (map jnorm xs)"
| "jnorm (PDict kvs) = PDict (foldl (\<lambda>acc kv. AList.update (PStr (key_text (fst kv))) (jnorm (snd kv)) acc) [] kvs)"
| "jnorm v = v"


text \<open>The values the round trip is proved for: ASCII strings, no floats, no sets, keys that
  are ASCII strings, integers, booleans or \<open>None\<close>.\<close>

definition ascii :: "char \<Rightarrow> bool" where
  "ascii c \<longleftrightarrow> (of_char c :: nat) < 128"

definition key_ok :: "pyval \<Rightarrow> bool" where
  "key_ok k = (case k of PStr s \<Rightarrow> list_all ascii s | PInt i \<Rightarrow> True | PBool b \<Rightarrow> True | PNone \<Rightarrow> True | _ \<Rightarrow> False)"

fun json_ok :: "pyval \<Rightarrow> bool" where
  "json_ok (PStr s) = list_all ascii s"
| "json_ok (PFloat t) = False"
| "json_ok (PSet xs) = False"
| "json_ok (PList xs) = (\<forall>x\<in>set xs. json_ok x)"
| "json_ok (PTuple xs) = (\<forall>x\<in>set xs. json_ok x)"
| "json_ok (PDict kvs) = (\<forall>kv\<in>set kvs. key_ok (fst kv) \<and> json_ok (snd kv))"
| "json_ok v = True"

text \<open>The dictionary update \<open>json.loads\<close> performs for one member of the normalised value.\<close>

abbreviation jupd :: "(pyval \<times> pyval) list \<Rightarrow> pyval \<times> pyval \<Rightarrow> (pyval \<times> pyval) list" where
  "jupd acc kv \<equiv> AList.update (PStr (key_text (fst kv))) (jnorm (snd kv)) acc"

text \<open>What may follow a value in the text \<open>json.dumps\<close> writes: the end, or the separator or
  bracket of the enclosing container.\<close>

definition jstop :: "string \<Rightarrow> bool" where
  "jstop rest \<longleftrightarrow> (case rest of [] \<Rightarrow> True | c # r \<Rightarrow> c \<in> {CHR '','', CHR '']'', CHR ''}''})"

text \<open>The first characters of the text of a value.\<close>

definition dump_start :: "char \<Rightarrow> bool" where
  "dump_start c \<longleftrightarrow> c \<in> {CHR ''n'', CHR ''t'', CHR ''f'', CHR ''-'', dq, CHR ''['', CHR ''{''} \<or> is_digit c"

lemmas json_dump_eval [eval_simps] =
  hexd_def u_escape_def esc_code_def is_cont_def cont_val_def dump_str_def float_dump_def dump_key_def
  key_text_def ascii_def key_ok_def

subsection \<open>Escaping and numbers\<close>

declare nat_str.simps [simp del]

lemma hex_val_hexd: "d < 16 \<Longrightarrow> hex_val (hexd d) = Some d"
  by (auto simp: hex_val_def hexd_def Let_def)

lemma hex_digits_value:
  "4096 * ((u::nat) div 4096) + 256 * (u div 256 mod 16) + 16 * (u div 16 mod 16) + u mod 16 = u"
proof -
  have b: "16 * (u div 4096) + u div 256 mod 16 = u div 256"
    using div_mult_mod_eq [of "u div 256" 16] by (simp add: div_mult2_eq [symmetric] mult.commute)
  have c: "16 * (u div 256) + u div 16 mod 16 = u div 16"
    using div_mult_mod_eq [of "u div 16" 16] by (simp add: div_mult2_eq [symmetric] mult.commute)
  have d: "16 * (u div 16) + u mod 16 = u"
    using div_mult_mod_eq [of u 16] by (simp add: mult.commute)
  from b c d show ?thesis by linarith
qed

lemma hex4_hexd_byte:
  "u < 256 \<Longrightarrow> hex4 [hexd 0, hexd 0, hexd (u div 16), hexd (u mod 16)] = Some u"
  by (simp add: hex4_def hex_val_hexd)

lemma jstr_u_escape:
  assumes "u < 128"
  shows "jstr acc (u_escape u @ s) = jstr (char_of u # acc) s"
proof -
  have "u div 4096 = 0" "u div 256 = 0" "u div 16 mod 16 = u div 16" using assms by simp_all
  with assms show ?thesis by (simp add: u_escape_def hex4_hexd_byte utf8_def)
qed

lemma char_of_ne:
  assumes "(u::nat) < 256" "(v::nat) < 256" "u \<noteq> v"
  shows "char_of u \<noteq> (char_of v :: char)"
proof
  assume "char_of u = (char_of v :: char)"
  then have "(of_char (char_of u :: char) :: nat) = of_char (char_of v :: char)" by simp
  with assms show False by (simp add: of_char_of)
qed

lemma jstr_esc_code:
  assumes "u < 128"
  shows "jstr acc (esc_code u @ s) = jstr (char_of u # acc) s"
proof -
  consider "u \<in> {34, 92, 10, 13, 9, 8, 12}" | "32 \<le> u \<and> u \<le> 126 \<and> u \<notin> {34, 92}"
    | "\<not> (32 \<le> u \<and> u \<le> 126) \<and> u \<notin> {10, 13, 9, 8, 12}" by force
  then show ?thesis
  proof cases
    case 1
    have named: "jstr acc (esc_code 34 @ s) = jstr (char_of (34::nat) # acc) s"
      "jstr acc (esc_code 92 @ s) = jstr (char_of (92::nat) # acc) s"
      "jstr acc (esc_code 10 @ s) = jstr (char_of (10::nat) # acc) s"
      "jstr acc (esc_code 13 @ s) = jstr (char_of (13::nat) # acc) s"
      "jstr acc (esc_code 9 @ s) = jstr (char_of (9::nat) # acc) s"
      "jstr acc (esc_code 8 @ s) = jstr (char_of (8::nat) # acc) s"
      "jstr acc (esc_code 12 @ s) = jstr (char_of (12::nat) # acc) s"
      by (simp_all add: esc_code_def json_escape_def char_of_def bit_Suc_0_iff)
    from 1 show ?thesis by (elim insertE emptyE) (simp_all only: named)
  next
    case 2
    have q: "dq = char_of (34::nat)" "bsl = char_of (92::nat)" by (simp_all add: char_of_def bit_Suc_0_iff)
    from 2 assms have "char_of u \<noteq> dq" "char_of u \<noteq> bsl" "\<not> (of_char (char_of u :: char) :: nat) < 32"
      by (simp_all only: q) (simp_all add: char_of_ne of_char_of)
    with 2 show ?thesis by (simp add: esc_code_def)
  next
    case 3
    with assms jstr_u_escape [OF assms, of acc s] show ?thesis by (auto simp: esc_code_def)
  qed
qed

lemma jstr_esc_char:
  "(of_char c :: nat) < 128 \<Longrightarrow> jstr acc (esc_code (of_char c) @ s) = jstr (c # acc) s"
  using jstr_esc_code [of "of_char c" acc s] by simp


lemma jstr_escaped:
  "list_all ascii s \<Longrightarrow>
   jstr acc (concat (map (\<lambda>c. esc_code (of_char c)) s) @ dq # rest) = Some (rev acc @ s, rest)"
proof (induction s arbitrary: acc)
  case (Cons c s)
  then have c: "ascii c" and s: "list_all ascii s" by simp_all
  have "jstr (c # acc) (concat (map (\<lambda>c. esc_code (of_char c)) s) @ dq # rest) = Some (rev (c # acc) @ s, rest)"
    using Cons.IH [OF s] .
  with c show ?case by (simp add: jstr_esc_char ascii_def)
qed simp

lemma utf8_decode_ascii: "list_all ascii s \<Longrightarrow> utf8_decode s = Some (map of_char s)"
  by (induction s) (simp_all add: ascii_def)

lemma dump_str_ascii:
  "list_all ascii s \<Longrightarrow> dump_str s = Inr (dq # concat (map (\<lambda>c. esc_code (of_char c)) s) @ [dq])"
  by (simp add: dump_str_def utf8_decode_ascii comp_def)



lemma nat_str_digits: "\<forall>c\<in>set (nat_str n). is_digit c"
proof (induction n rule: nat_str.induct)
  case (1 n)
  then show ?case by (subst nat_str.simps) (auto simp: is_digit_def simp del: nat_str.simps)
qed

lemma nat_str_not_Nil [simp]: "nat_str n \<noteq> []"
  by (subst nat_str.simps) (simp del: nat_str.simps)

lemma digits_val_snoc: "digits_val (ds @ [d]) = 10 * digits_val ds + digit_val d"
  by (simp add: digits_val_def)

lemma digits_val_nat_str: "digits_val (nat_str n) = n"
proof (induction n rule: nat_str.induct)
  case (1 n)
  show ?case
  proof (cases "n < 10")
    case True
    then show ?thesis by (subst nat_str.simps) (simp add: digits_val_def digit_val_def del: nat_str.simps)
  next
    case False
    with 1 have "digits_val (nat_str (n div 10)) = n div 10" by simp
    with False show ?thesis
      by (subst nat_str.simps) (simp add: digits_val_snoc digit_val_def del: nat_str.simps)
  qed
qed

lemma char_of_digit_zero: "(n::nat) < 10 \<Longrightarrow> char_of (48 + n) = CHR ''0'' \<Longrightarrow> n = 0"
proof -
  assume n: "(n::nat) < 10" and c: "char_of (48 + n) = CHR ''0''"
  then have "(of_char (char_of (48 + n) :: char) :: nat) = of_char (CHR ''0'')" by simp
  with n show "n = 0" by (simp add: of_char_of)
qed

lemma nat_str_hd: "hd (nat_str n) = CHR ''0'' \<Longrightarrow> n = 0"
proof (induction n rule: nat_str.induct)
  case (1 n)
  show ?case
  proof (cases "n < 10")
    case True
    with "1.prems" show ?thesis
      by (subst (asm) nat_str.simps) (simp add: char_of_digit_zero del: nat_str.simps)
  next
    case False
    with "1.prems" have "hd (nat_str (n div 10)) = CHR ''0''"
      by (subst (asm) nat_str.simps) (simp del: nat_str.simps)
    with "1.IH" [OF False] False show ?thesis by simp
  qed
qed

lemma nat_str_zero: "nat_str 0 = ''0''"
  by (subst nat_str.simps) (simp add: char_of_def bit_Suc_0_iff)


lemma jstop_parts:
  assumes "jstop rest"
  shows "takeWhile is_digit rest = []" "dropWhile is_digit rest = rest"
    "frac_part rest = ([], rest)" "exp_part rest = ([], rest)"
  using assms by (auto simp: jstop_def is_digit_def frac_part_def exp_part_def split: list.splits)

lemma int_part_nat_str:
  assumes "jstop rest"
  shows "int_part (nat_str n @ rest) = Some (nat_str n, rest)"
proof -
  obtain d r where dr: "nat_str n = d # r" by (cases "nat_str n") auto
  have digits: "\<forall>c\<in>set (d # r). is_digit c" using nat_str_digits [of n] dr by simp
  show ?thesis
  proof (cases "d = CHR ''0''")
    case True
    with dr nat_str_hd [of n] nat_str_zero have "r = []" by simp
    with dr True show ?thesis by (simp add: int_part_def)
  next
    case False
    from digits have "takeWhile is_digit (r @ rest) = r" "dropWhile is_digit (r @ rest) = rest"
      using jstop_parts [OF assms] by (simp_all add: takeWhile_append2 dropWhile_append2)
    with dr False digits show ?thesis by (simp add: int_part_def)
  qed
qed

lemma jnumber_nat_str:
  assumes "jstop rest"
  shows "jnumber (nat_str n @ rest) = Inr (PInt (int n), rest)"
proof -
  obtain d r where dr: "nat_str n = d # r" by (cases "nat_str n") auto
  have "is_digit d" using nat_str_digits [of n] dr by simp
  then have "d \<noteq> CHR ''-''" by (auto simp: is_digit_def)
  with dr show ?thesis
    using int_part_nat_str [OF assms, of n] jstop_parts [OF assms] digits_val_nat_str [of n]
    by (simp add: jnumber_def)
qed

lemma jnumber_neg_nat_str:
  assumes "jstop rest"
  shows "jnumber (CHR ''-'' # nat_str n @ rest) = Inr (PInt (- int n), rest)"
  using int_part_nat_str [OF assms, of n] jstop_parts [OF assms] digits_val_nat_str [of n]
  by (simp add: jnumber_def)

lemma jnumber_int_str: "jstop rest \<Longrightarrow> jnumber (int_str i @ rest) = Inr (PInt i, rest)"
  by (simp add: int_str_def jnumber_nat_str jnumber_neg_nat_str)

lemma int_str_chars: "\<forall>c\<in>set (int_str i). c = CHR ''-'' \<or> is_digit c"
  using nat_str_digits by (auto simp: int_str_def)

lemma ascii_minus: "ascii (CHR ''-'')"
  by (simp add: ascii_def)

lemma ascii_digit: "is_digit c \<Longrightarrow> ascii c"
  by (simp add: ascii_def is_digit_def)

lemma int_str_ascii: "list_all ascii (int_str i)"
  unfolding list_all_iff
proof
  fix c assume "c \<in> set (int_str i)"
  with int_str_chars [of i] have "c = CHR ''-'' \<or> is_digit c" by blast
  then show "ascii c" using ascii_minus ascii_digit by blast
qed

lemma int_str_hd: "\<exists>c r. int_str i = c # r \<and> (c = CHR ''-'' \<or> is_digit c)"
proof -
  have "int_str i \<noteq> []" by (simp add: int_str_def)
  then obtain c r where cr: "int_str i = c # r" by (cases "int_str i") auto
  have "c \<in> set (int_str i)" by (simp add: cr)
  with int_str_chars [of i] have "c = CHR ''-'' \<or> is_digit c" by blast
  with cr show ?thesis by blast
qed


lemma key_ok_ascii: "key_ok k \<Longrightarrow> dump_key k = Inr ks \<Longrightarrow> list_all ascii ks"
proof (cases k)
  case (PInt i)
  then show "dump_key k = Inr ks \<Longrightarrow> list_all ascii ks" using int_str_ascii [of i] by (simp add: dump_key_def)
next
  case (PBool b)
  then show "dump_key k = Inr ks \<Longrightarrow> list_all ascii ks" by (cases b) (auto simp: dump_key_def ascii_def)
qed (auto simp: key_ok_def dump_key_def ascii_def)

lemma jvalue_int_str:
  assumes "jstop rest"
  shows "jvalue (Suc m) (int_str i @ rest) = Inr (PInt i, rest)"
proof -
  obtain c r where cr: "int_str i = c # r" and c: "c = CHR ''-'' \<or> is_digit c" using int_str_hd by blast
  from c have "c \<noteq> dq" "c \<noteq> CHR ''{''" "c \<noteq> CHR ''[''" "c \<noteq> CHR ''n''" "c \<noteq> CHR ''t''" "c \<noteq> CHR ''f''"
    by (auto simp: is_digit_def)
  with cr jnumber_int_str [OF assms, of i] show ?thesis by (simp add: jatom_def)
qed

lemma skip_ws_Cons: "\<not> is_jws c \<Longrightarrow> skip_ws (c # r) = c # r"
  by (simp add: skip_ws_def)

lemma key_text_dump: "dump_key k = Inr ks \<Longrightarrow> key_text k = ks"
  by (simp add: key_text_def)


lemma dump_start_not_ws: "dump_start c \<Longrightarrow> \<not> is_jws c \<and> c \<noteq> CHR '']''"
  by (auto simp: dump_start_def is_digit_def is_jws_def)

lemma dump_str_hd: "dump_str s = Inr kd \<Longrightarrow> \<exists>r. kd = dq # r"
  by (auto simp: dump_str_def split: option.splits)

lemma dumps_hd:
  assumes "json_ok v" "json_dumps v = Inr d"
  shows "\<exists>c r. d = c # r \<and> dump_start c"
proof (cases v)
  case PNone with assms show ?thesis by (auto simp: dump_start_def)
next
  case (PBool b) with assms show ?thesis by (cases b) (auto simp: dump_start_def)
next
  case (PInt i)
  obtain c r where "int_str i = c # r" "c = CHR ''-'' \<or> is_digit c" using int_str_hd by blast
  with PInt assms show ?thesis by (auto simp: dump_start_def)
next
  case (PFloat t) with assms show ?thesis by simp
next
  case (PStr s) with assms dump_str_hd [of s d] show ?thesis by (auto simp: dump_start_def)
next
  case (PList xs) with assms show ?thesis by (auto simp: dump_start_def pbind_Inr_iff)
next
  case (PTuple xs) with assms show ?thesis by (auto simp: dump_start_def pbind_Inr_iff)
next
  case (PDict kvs) with assms show ?thesis by (auto simp: dump_start_def pbind_Inr_iff)
next
  case (PSet xs) with assms show ?thesis by simp
qed
lemma jvalue_null: "jvalue (Suc m) (''null'' @ rest) = Inr (PNone, rest)"
  by (simp add: jatom_def)

lemma jvalue_true: "jvalue (Suc m) (''true'' @ rest) = Inr (PBool True, rest)"
  by (simp add: jatom_def)

lemma jvalue_false: "jvalue (Suc m) (''false'' @ rest) = Inr (PBool False, rest)"
  by (simp add: jatom_def)

lemma jvalue_str:
  "list_all ascii s \<Longrightarrow>
   jvalue (Suc m) (dq # concat (map (\<lambda>c. esc_code (of_char c)) s) @ dq # rest) = Inr (PStr s, rest)"
  using jstr_escaped [of s "[]" rest] by simp

lemma py_join_Cons: "py_join sep (d # ds) = (if ds = [] then d else d @ sep @ py_join sep ds)"
  by (cases ds) simp_all

lemma dump_items_length: "dump_items xs = Inr ds \<Longrightarrow> length ds = length xs"
  by (induction xs arbitrary: ds) (auto simp: pbind_Inr_iff)

lemma dump_members_length: "dump_members kvs = Inr ds \<Longrightarrow> length ds = length kvs"
proof (induction kvs arbitrary: ds)
  case (Cons kv kvs)
  obtain k v where "kv = (k, v)" by fastforce
  with Cons show ?case by (auto simp: pbind_Inr_iff simp del: dump_str_def)
qed simp

lemma dump_items_Cons:
  "dump_items (x # xs) = Inr ds \<Longrightarrow> \<exists>d ds'. json_dumps x = Inr d \<and> dump_items xs = Inr ds' \<and> ds = d # ds'"
  by (auto simp: pbind_Inr_iff)

lemma dump_members_Cons:
  "dump_members ((k, v) # kvs) = Inr ds \<Longrightarrow>
   \<exists>ks kd vd ds'. dump_key k = Inr ks \<and> dump_str ks = Inr kd \<and> json_dumps v = Inr vd \<and>
     dump_members kvs = Inr ds' \<and> ds = (kd @ '': '' @ vd) # ds'"
  by (auto simp: pbind_Inr_iff simp del: dump_str_def)
lemma dumps_first:
  assumes "json_ok x" "json_dumps x = Inr d"
  shows "skip_ws (d @ r) = d @ r" "\<exists>c r'. d @ r = c # r' \<and> c \<noteq> CHR '']''"
proof -
  obtain c r' where "d = c # r'" "dump_start c" using dumps_hd [OF assms] by blast
  with dump_start_not_ws [of c] show "skip_ws (d @ r) = d @ r" "\<exists>c r'. d @ r = c # r' \<and> c \<noteq> CHR '']''"
    by (simp_all add: skip_ws_Cons)
qed

lemma skip_ws_stop:
  "skip_ws (CHR '']'' # r) = CHR '']'' # r" "skip_ws (CHR '','' # r) = CHR '','' # r"
  "skip_ws (CHR ''}'' # r) = CHR ''}'' # r" "skip_ws (CHR '':'' # r) = CHR '':'' # r"
  "skip_ws (dq # r) = dq # r"
  by (simp_all add: skip_ws_def is_jws_def)

lemma skip_ws_space: "skip_ws (CHR '' '' # r) = skip_ws r"
  by (simp add: skip_ws_def is_jws_def)

lemma jstop_sep: "jstop ('', '' @ r)" "jstop ('']'' @ r)" "jstop (''}'' @ r)"
  by (simp_all add: jstop_def)

lemma jelems_cons_step:
  assumes x: "json_dumps x = Inr d" and ok: "\<forall>y\<in>set xs. json_ok y"
    and ds: "dump_items xs = Inr ds"
    and Vx: "\<And>n r. length d < n \<Longrightarrow> jstop r \<Longrightarrow> jvalue n (d @ r) = Inr (jnorm x, r)"
    and Q: "xs \<noteq> [] \<Longrightarrow> Suc (length (py_join '', '' ds)) < n \<Longrightarrow>
            jelems n (acc @ [jnorm x]) (py_join '', '' ds @ '']'' @ rest) = Inr (PList (acc @ [jnorm x] @ map jnorm xs), rest)"
    and fuel: "Suc (length (py_join '', '' (d # ds))) < Suc n"
  shows "jelems (Suc n) acc (py_join '', '' (d # ds) @ '']'' @ rest) = Inr (PList (acc @ jnorm x # map jnorm xs), rest)"
proof (cases "xs = []")
  case True
  with ds have "ds = []" using dump_items_length [OF ds] by simp
  with fuel have "jvalue n (d @ '']'' @ rest) = Inr (jnorm x, '']'' @ rest)"
    using Vx jstop_sep by simp
  with True \<open>ds = []\<close> show ?thesis by (simp add: skip_ws_stop)
next
  case False
  then obtain y ys where xs: "xs = y # ys" by (cases xs) auto
  with ds obtain e es where e: "json_dumps y = Inr e" and dse: "ds = e # es"
    using dump_items_Cons by blast
  have oky: "json_ok y" using ok xs by simp
  have sk: "skip_ws ('' '' @ py_join '', '' ds @ '']'' @ rest) = py_join '', '' ds @ '']'' @ rest"
    by (simp add: dse py_join_Cons skip_ws_space dumps_first(1) [OF oky e])
  have jv: "jvalue n (d @ '', '' @ py_join '', '' ds @ '']'' @ rest) = Inr (jnorm x, '', '' @ py_join '', '' ds @ '']'' @ rest)"
    using Vx jstop_sep fuel dse by (simp add: py_join_Cons)
  have "jelems n (acc @ [jnorm x]) (py_join '', '' ds @ '']'' @ rest) = Inr (PList (acc @ [jnorm x] @ map jnorm xs), rest)"
    using Q False fuel dse by (simp add: py_join_Cons)
  with jv sk dse show ?thesis by (simp add: py_join_Cons skip_ws_stop)
qed

lemma members_join_hd:
  assumes "dump_members kvs = Inr ds" "ds \<noteq> []"
  shows "py_join '', '' ds = dq # tl (py_join '', '' ds)"
proof -
  obtain k v kvs' where kvs: "kvs = (k, v) # kvs'"
    using assms dump_members_length [OF assms(1)] by (cases kvs) auto
  with assms(1) obtain ks kd vd ds' where kd: "dump_str ks = Inr kd" and ds: "ds = (kd @ '': '' @ vd) # ds'"
    using dump_members_Cons by blast
  from dump_str_hd [OF kd] obtain r where "kd = dq # r" by blast
  with ds show ?thesis by (simp add: py_join_Cons)
qed

lemma key_dump_ascii:
  assumes "key_ok k" "dump_key k = Inr ks" "dump_str ks = Inr kd"
  shows "\<exists>E. kd = dq # E @ [dq] \<and> (\<forall>r. jstr [] (E @ dq # r) = Some (ks, r))"
proof -
  have a: "list_all ascii ks" using key_ok_ascii assms(1,2) .
  with assms(3) have "kd = dq # concat (map (\<lambda>c. esc_code (of_char c)) ks) @ [dq]"
    by (simp add: dump_str_ascii)
  with jstr_escaped [OF a, of "[]"] show ?thesis by auto
qed
lemma jmembers_cons_step:
  assumes k: "key_ok k" "dump_key k = Inr ks" "dump_str ks = Inr kd"
    and v: "json_ok v" "json_dumps v = Inr vd"
    and ds: "dump_members kvs = Inr ds"
    and Vv: "\<And>n r. length vd < n \<Longrightarrow> jstop r \<Longrightarrow> jvalue n (vd @ r) = Inr (jnorm v, r)"
    and R: "kvs \<noteq> [] \<Longrightarrow> Suc (length (py_join '', '' ds)) < n \<Longrightarrow>
            jmembers n (jupd acc (k, v)) (tl (py_join '', '' ds) @ ''}'' @ rest) =
            Inr (PDict (foldl jupd (jupd acc (k, v)) kvs), rest)"
    and fuel: "Suc (length (py_join '', '' ((kd @ '': '' @ vd) # ds))) < Suc n"
  shows "jmembers (Suc n) acc (tl (py_join '', '' ((kd @ '': '' @ vd) # ds)) @ ''}'' @ rest) =
         Inr (PDict (foldl jupd (jupd acc (k, v)) kvs), rest)"
proof -
  obtain E where kd: "kd = dq # E @ [dq]" and js: "\<And>r. jstr [] (E @ dq # r) = Some (ks, r)"
    using key_dump_ascii [OF k] by blast
  have kt: "key_text k = ks" using key_text_dump [OF k(2)] .
  define T where "T = (if ds = [] then [] else '', '' @ py_join '', '' ds)"
  have tl: "tl (py_join '', '' ((kd @ '': '' @ vd) # ds)) @ ''}'' @ rest = E @ dq # CHR '':'' # CHR '' '' # vd @ T @ ''}'' @ rest"
    by (simp add: kd T_def py_join_Cons)
  have jst: "jstop (T @ ''}'' @ rest)" by (simp add: T_def jstop_def)
  have lvd: "length vd < n" using fuel by (simp add: kd py_join_Cons split: if_splits)
  have jv: "jvalue n (skip_ws (CHR '' '' # vd @ T @ ''}'' @ rest)) = Inr (jnorm v, T @ ''}'' @ rest)"
    using Vv [OF lvd jst] by (simp add: skip_ws_space dumps_first(1) [OF v])
  show ?thesis
  proof (cases "ds = []")
    case True
    then have "kvs = []" using dump_members_length [OF ds] by simp
    with True jv show ?thesis unfolding tl by (simp add: js skip_ws_stop T_def kt)
  next
    case False
    then have "kvs \<noteq> []" using dump_members_length [OF ds] by auto
    moreover have "Suc (length (py_join '', '' ds)) < n" using fuel False by (simp add: py_join_Cons)
    ultimately have r: "jmembers n (jupd acc (k, v)) (tl (py_join '', '' ds) @ ''}'' @ rest) =
        Inr (PDict (foldl jupd (jupd acc (k, v)) kvs), rest)" by (rule R)
    have hd: "py_join '', '' ds = dq # tl (py_join '', '' ds)" using members_join_hd [OF ds False] .
    have "skip_ws (CHR '' '' # py_join '', '' ds @ ''}'' @ rest) = dq # tl (py_join '', '' ds) @ ''}'' @ rest"
      by (subst hd) (simp add: skip_ws_space skip_ws_stop)
    with False jv r show ?thesis unfolding tl by (simp add: js skip_ws_stop T_def kt)
  qed
qed
lemma jvalue_list_step:
  assumes ok: "\<forall>x\<in>set xs. json_ok x" and ds: "dump_items xs = Inr ds"
    and Q: "xs \<noteq> [] \<Longrightarrow> Suc (length (py_join '', '' ds)) < n \<Longrightarrow>
            jelems n [] (py_join '', '' ds @ '']'' @ rest) = Inr (PList ([] @ map jnorm xs), rest)"
    and fuel: "length (''['' @ py_join '', '' ds @ '']'') < Suc n"
  shows "jvalue (Suc n) ((''['' @ py_join '', '' ds @ '']'') @ rest) = Inr (PList (map jnorm xs), rest)"
proof (cases "xs = []")
  case True
  then have "ds = []" using dump_items_length [OF ds] by simp
  with True show ?thesis by (simp add: skip_ws_stop)
next
  case False
  then obtain y ys where xs: "xs = y # ys" by (cases xs) auto
  with ds obtain e es where e: "json_dumps y = Inr e" and dse: "ds = e # es"
    using dump_items_Cons by blast
  have oky: "json_ok y" using ok xs by simp
  define R where "R = (if es = [] then [] else '', '' @ py_join '', '' es) @ '']'' @ rest"
  have pj: "py_join '', '' ds @ '']'' @ rest = e @ R" by (simp add: dse R_def py_join_Cons)
  obtain c r' where cr: "e @ R = c # r'" and c: "c \<noteq> CHR '']''" using dumps_first(2) [OF oky e] by blast
  have sk: "skip_ws (e @ R) = e @ R" using dumps_first(1) [OF oky e] .
  have "jelems n [] (py_join '', '' ds @ '']'' @ rest) = Inr (PList ([] @ map jnorm xs), rest)"
    using Q False fuel by simp
  with pj sk cr c show ?thesis by simp
qed

lemma jvalue_dict_step:
  assumes ds: "dump_members kvs = Inr ds"
    and R: "kvs \<noteq> [] \<Longrightarrow> Suc (length (py_join '', '' ds)) < n \<Longrightarrow>
            jmembers n [] (tl (py_join '', '' ds) @ ''}'' @ rest) = Inr (PDict (foldl jupd [] kvs), rest)"
    and fuel: "length (''{'' @ py_join '', '' ds @ ''}'') < Suc n"
  shows "jvalue (Suc n) ((''{'' @ py_join '', '' ds @ ''}'') @ rest) = Inr (PDict (foldl jupd [] kvs), rest)"
proof (cases "kvs = []")
  case True
  then have "ds = []" using dump_members_length [OF ds] by simp
  with True show ?thesis by (simp add: skip_ws_stop)
next
  case False
  then have ne: "ds \<noteq> []" using dump_members_length [OF ds] by auto
  have hd: "py_join '', '' ds = dq # tl (py_join '', '' ds)" using members_join_hd [OF ds ne] .
  have "jmembers n [] (tl (py_join '', '' ds) @ ''}'' @ rest) = Inr (PDict (foldl jupd [] kvs), rest)"
    using R False fuel by simp
  then show ?thesis by (subst hd) (simp add: skip_ws_stop)
qed
subsection \<open>The round trip\<close>

lemma dumps_parse:
  shows "\<forall>d n rest. json_ok v \<longrightarrow> json_dumps v = Inr d \<longrightarrow> length d < n \<longrightarrow> jstop rest \<longrightarrow>
           jvalue n (d @ rest) = Inr (jnorm v, rest)"
    and "\<forall>ds n acc rest. (\<forall>x\<in>set xs. json_ok x) \<longrightarrow> dump_items xs = Inr ds \<longrightarrow> xs \<noteq> [] \<longrightarrow>
           Suc (length (py_join '', '' ds)) < n \<longrightarrow>
           jelems n acc (py_join '', '' ds @ '']'' @ rest) = Inr (PList (acc @ map jnorm xs), rest)"
    and "\<forall>ds n acc rest. (\<forall>kv\<in>set kvs. key_ok (fst kv) \<and> json_ok (snd kv)) \<longrightarrow> dump_members kvs = Inr ds \<longrightarrow>
           kvs \<noteq> [] \<longrightarrow> Suc (length (py_join '', '' ds)) < n \<longrightarrow>
           jmembers n acc (tl (py_join '', '' ds) @ ''}'' @ rest) = Inr (PDict (foldl jupd acc kvs), rest)"
proof (induction v and xs and kvs rule: json_dumps_dump_items_dump_members.induct)
  case 1
  show ?case
  proof (intro allI impI)
    fix d n rest assume "json_dumps PNone = Inr d" "length d < n"
    then obtain m where "n = Suc m" "d = ''null''" by (cases n) auto
    then show "jvalue n (d @ rest) = Inr (jnorm PNone, rest)" using jvalue_null [of m rest] by simp
  qed
next
  case (2 b)
  show ?case
  proof (intro allI impI)
    fix d n rest assume "json_dumps (PBool b) = Inr d" "length d < n"
    then obtain m where "n = Suc m" "d = (if b then ''true'' else ''false'')" by (cases n) auto
    then show "jvalue n (d @ rest) = Inr (jnorm (PBool b), rest)"
      using jvalue_true [of m rest] jvalue_false [of m rest] by simp
  qed
next
  case (3 i)
  show ?case
  proof (intro allI impI)
    fix d n rest assume "json_dumps (PInt i) = Inr d" "length d < n" "jstop rest"
    then obtain m where "n = Suc m" "d = int_str i" by (cases n) auto
    with \<open>jstop rest\<close> show "jvalue n (d @ rest) = Inr (jnorm (PInt i), rest)"
      by (simp add: jvalue_int_str del: jvalue.simps)
  qed
next
  case (5 s)
  show ?case
  proof (intro allI impI)
    fix d n rest assume ok: "json_ok (PStr s)" and d: "json_dumps (PStr s) = Inr d" and "length d < n"
    then obtain m where "n = Suc m" by (cases n) auto
    moreover have "list_all ascii s" using ok by simp
    moreover from this d have "d = dq # concat (map (\<lambda>c. esc_code (of_char c)) s) @ [dq]"
      by (simp add: dump_str_ascii)
    ultimately show "jvalue n (d @ rest) = Inr (jnorm (PStr s), rest)" by (simp add: jvalue_str del: jvalue.simps)
  qed
next
  case (6 xs)
  show ?case
  proof (intro allI impI)
    fix d n rest assume ok: "json_ok (PList xs)" and d: "json_dumps (PList xs) = Inr d" and l: "length d < n"
    then obtain ds where ds: "dump_items xs = Inr ds" and dd: "d = ''['' @ py_join '', '' ds @ '']''"
      by (auto simp: pbind_Inr_iff)
    from l obtain m where m: "n = Suc m" by (cases n) auto
    have "jvalue (Suc m) ((''['' @ py_join '', '' ds @ '']'') @ rest) = Inr (PList (map jnorm xs), rest)"
      using jvalue_list_step [OF _ ds] ok 6 l dd m ds by simp
    with dd m show "jvalue n (d @ rest) = Inr (jnorm (PList xs), rest)" by simp
  qed
next
  case (7 xs)
  show ?case
  proof (intro allI impI)
    fix d n rest assume ok: "json_ok (PTuple xs)" and d: "json_dumps (PTuple xs) = Inr d" and l: "length d < n"
    then obtain ds where ds: "dump_items xs = Inr ds" and dd: "d = ''['' @ py_join '', '' ds @ '']''"
      by (auto simp: pbind_Inr_iff)
    from l obtain m where m: "n = Suc m" by (cases n) auto
    have "jvalue (Suc m) ((''['' @ py_join '', '' ds @ '']'') @ rest) = Inr (PList (map jnorm xs), rest)"
      using jvalue_list_step [OF _ ds] ok 7 l dd m ds by simp
    with dd m show "jvalue n (d @ rest) = Inr (jnorm (PTuple xs), rest)" by simp
  qed
next
  case (8 kvs)
  show ?case
  proof (intro allI impI)
    fix d n rest assume ok: "json_ok (PDict kvs)" and d: "json_dumps (PDict kvs) = Inr d" and l: "length d < n"
    then obtain ds where ds: "dump_members kvs = Inr ds" and dd: "d = ''{'' @ py_join '', '' ds @ ''}''"
      by (auto simp: pbind_Inr_iff)
    from l obtain m where m: "n = Suc m" by (cases n) auto
    have "jvalue (Suc m) ((''{'' @ py_join '', '' ds @ ''}'') @ rest) = Inr (PDict (foldl jupd [] kvs), rest)"
      using jvalue_dict_step [OF ds] ok 8 l dd m ds by simp
    with dd m show "jvalue n (d @ rest) = Inr (jnorm (PDict kvs), rest)" by simp
  qed
next
  case (11 x xs)
  show ?case
  proof (intro allI impI)
    fix ds n acc rest
    assume ok: "\<forall>y\<in>set (x # xs). json_ok y" and ds: "dump_items (x # xs) = Inr ds"
      and fuel: "Suc (length (py_join '', '' ds)) < n"
    from ds obtain d ds' where d: "json_dumps x = Inr d" and ds': "dump_items xs = Inr ds'" and dse: "ds = d # ds'"
      using dump_items_Cons by blast
    from fuel obtain m where m: "n = Suc m" by (cases n) auto
    have "jelems (Suc m) acc (py_join '', '' (d # ds') @ '']'' @ rest) = Inr (PList (acc @ jnorm x # map jnorm xs), rest)"
    proof (rule jelems_cons_step [OF d _ ds'])
      show "\<forall>y\<in>set xs. json_ok y" using ok by simp
      show "\<And>n r. length d < n \<Longrightarrow> jstop r \<Longrightarrow> jvalue n (d @ r) = Inr (jnorm x, r)"
        using "11.IH"(1) ok d by simp
      show "xs \<noteq> [] \<Longrightarrow> Suc (length (py_join '', '' ds')) < m \<Longrightarrow>
            jelems m (acc @ [jnorm x]) (py_join '', '' ds' @ '']'' @ rest) = Inr (PList (acc @ [jnorm x] @ map jnorm xs), rest)"
        using "11.IH"(2) ok ds' by simp
      show "Suc (length (py_join '', '' (d # ds'))) < Suc m" using fuel m dse by simp
    qed
    with m dse show "jelems n acc (py_join '', '' ds @ '']'' @ rest) = Inr (PList (acc @ map jnorm (x # xs)), rest)"
      by simp
  qed
next
  case (13 k v kvs)
  show ?case
  proof (intro allI impI)
    fix ds n acc rest
    assume ok: "\<forall>kv\<in>set ((k, v) # kvs). key_ok (fst kv) \<and> json_ok (snd kv)"
      and ds: "dump_members ((k, v) # kvs) = Inr ds" and fuel: "Suc (length (py_join '', '' ds)) < n"
    from ds obtain ks kd vd ds' where k: "dump_key k = Inr ks" "dump_str ks = Inr kd"
      and vd: "json_dumps v = Inr vd" and ds': "dump_members kvs = Inr ds'" and dse: "ds = (kd @ '': '' @ vd) # ds'"
      using dump_members_Cons by blast
    from fuel obtain m where m: "n = Suc m" by (cases n) auto
    have okv: "key_ok k" "json_ok v" using ok by simp_all
    have "jmembers (Suc m) acc (tl (py_join '', '' ((kd @ '': '' @ vd) # ds')) @ ''}'' @ rest) =
          Inr (PDict (foldl jupd (jupd acc (k, v)) kvs), rest)"
    proof (rule jmembers_cons_step [OF okv(1) k okv(2) vd ds'])
      show "\<And>n r. length vd < n \<Longrightarrow> jstop r \<Longrightarrow> jvalue n (vd @ r) = Inr (jnorm v, r)"
        using "13.IH"(1) okv vd by simp
      show "kvs \<noteq> [] \<Longrightarrow> Suc (length (py_join '', '' ds')) < m \<Longrightarrow>
            jmembers m (jupd acc (k, v)) (tl (py_join '', '' ds') @ ''}'' @ rest) =
            Inr (PDict (foldl jupd (jupd acc (k, v)) kvs), rest)"
        using "13.IH"(2) ok ds' by simp
      show "Suc (length (py_join '', '' ((kd @ '': '' @ vd) # ds'))) < Suc m" using fuel m dse by simp
    qed
    with m dse show "jmembers n acc (tl (py_join '', '' ds) @ ''}'' @ rest) = Inr (PDict (foldl jupd acc ((k, v) # kvs)), rest)"
      by simp
  qed
qed simp_all
lemma dumps_total:
  shows "json_ok v \<longrightarrow> (\<exists>d. json_dumps v = Inr d)"
    and "(\<forall>x\<in>set xs. json_ok x) \<longrightarrow> (\<exists>ds. dump_items xs = Inr ds)"
    and "(\<forall>kv\<in>set kvs. key_ok (fst kv) \<and> json_ok (snd kv)) \<longrightarrow> (\<exists>ds. dump_members kvs = Inr ds)"
proof (induction v and xs and kvs rule: json_dumps_dump_items_dump_members.induct)
  case (5 s)
  then show ?case by (simp add: dump_str_ascii)
next
  case (13 k v kvs)
  show ?case
  proof
    assume ok: "\<forall>kv\<in>set ((k, v) # kvs). key_ok (fst kv) \<and> json_ok (snd kv)"
    then have k: "key_ok k" and vk: "json_ok v" by simp_all
    from k obtain ks where ks: "dump_key k = Inr ks" by (cases k) (auto simp: key_ok_def dump_key_def)
    with k have "list_all ascii ks" by (rule key_ok_ascii)
    then obtain kd where kd: "dump_str ks = Inr kd" by (simp add: dump_str_ascii)
    from "13.IH"(1) vk obtain vd where vd: "json_dumps v = Inr vd" by blast
    from "13.IH"(2) ok obtain ds where "dump_members kvs = Inr ds" by auto
    with ks kd vd show "\<exists>ds. dump_members ((k, v) # kvs) = Inr ds" by simp
  qed
qed (auto simp: pbind_Inr_iff)

text \<open>The text \<open>json.dumps\<close> writes for a value is read back by \<open>json.loads\<close> as the
  normalised value: the fuel \<open>json_loads\<close> gives the scanner, one more than twice the
  length of the text, is more than the length the induction needs.\<close>

lemma loads_dumps:
  assumes "json_ok v" "json_dumps v = Inr s"
  shows "json_loads s = Inr (jnorm v)"
proof -
  have sk: "skip_ws s = s" using dumps_first(1) [OF assms, of "[]"] by simp
  have "jvalue (Suc (2 * length s)) (s @ []) = Inr (jnorm v, [])"
    by (rule dumps_parse(1) [rule_format, OF assms]) (simp_all add: jstop_def)
  moreover have "skip_ws [] = []" by (simp add: skip_ws_def)
  ultimately show ?thesis using sk by (simp add: json_loads_def del: jvalue.simps)
qed

text \<open>The round trip: for every value without floats or sets whose strings and keys are
  ASCII text, \<open>json.dumps\<close> succeeds, and \<open>json.loads\<close> of its text gives the value back
  with tuples turned into lists and keys into strings (\<open>jnorm\<close>).\<close>

theorem json_loads_dumps:
  assumes "json_ok v"
  shows "\<exists>s. json_dumps v = Inr s \<and> json_loads s = Inr (jnorm v)"
proof -
  obtain s where s: "json_dumps v = Inr s" using dumps_total(1) assms by blast
  with loads_dumps [OF assms s] show ?thesis by blast
qed

declare nat_str.simps [simp]

end
