(* ===== verification/TripleExtraction.thy ===== *)
theory TripleExtraction
  imports JsonDump Regex LiteralEval
begin

text \<open>
  \<open>src/post_processing.py\<close>: the post-processing of the answers of GPT-4 into triples,
  one definition per Python function, in the order of the file, and the per-item and
  per-file loop of \<open>main()\<close>.  Python's \<open>eval\<close> is a parameter \<open>ev\<close> of the
  definitions that call it: it may return any value or raise any exception.  The
  witnesses instantiate it with \<open>py_literal_eval\<close>, which agrees with \<open>eval\<close> on the
  literal displays the answers hold.  \<open>json.loads(json.dumps(x))\<close> is the composition of
  \<open>json_dumps\<close> (theory \<open>JsonDump\<close>) and \<open>json_loads\<close> (theory \<open>Json\<close>).  Functions
  called on a value that is not a string raise \<open>AttributeError\<close> at their first string
  method, as Python does.
\<close>

subsection \<open>The sentinel sentences and the file names\<close>

definition S_no_triples :: string where
  "S_no_triples = ''No triples found.''"

definition S_no_json :: string where
  "S_no_json = ''No JSON object found in the input string.''"

definition file_CoT :: string where
  "file_CoT = ''zero_shot_CoT_prompts_test.json''"

definition file_ReAct :: string where
  "file_ReAct = ''zero_shot_ReAct_prompts_test.json''"

subsection \<open>\<open>extract_last_list_of_lists\<close>\<close>

text \<open>\<open>r"\[\[(.*?)\]\]"\<close>.\<close>

definition pat_last_lol :: rx where
  "pat_last_lol = seqs [lit ''[['', Grp 1 (Lazy (Atom CDot)), lit '']]'']"

text \<open>\<open>.replace("\n", '').replace('\"', '').replace("\\", '').replace("'", '').strip()\<close>\<close>

definition clean_quotes :: "string \<Rightarrow> string" where
  "clean_quotes s = py_strip (py_replace [sq] [] (py_replace [bsl] [] (py_replace [dq] [] (py_replace [nl] [] s))))"

fun extract_last_list_of_lists :: "pyval \<Rightarrow> pyval pyres" where
  "extract_last_list_of_lists (PStr s) =
     (let nested_lists = map (\<lambda>c. c 1) (re_findall pat_last_lol (clean_quotes s)) in
      Inr (if nested_lists = [] then PStr S_no_triples else PList (map PStr nested_lists)))"
| "extract_last_list_of_lists v = Inl AttributeError"

subsection \<open>\<open>extract_zero_shot_CoT\<close>\<close>

text \<open>\<open>r"\(([^,]+),\s*([^,]+),\s*([^)]+)\)"\<close>; a negated set also matches a newline.\<close>

definition pat_cot :: rx where
  "pat_cot = seqs [lit ''('', Grp 1 (plus (Atom (CNot '',''))), lit '','', Star (Atom CSpace),
                   Grp 2 (plus (Atom (CNot '',''))), lit '','', Star (Atom CSpace),
                   Grp 3 (plus (Atom (CNot '')''))), lit '')'']"

definition extract_zero_shot_CoT :: "string \<Rightarrow> pyval" where
  "extract_zero_shot_CoT s =
     (let triples = map (\<lambda>m. PTuple [PStr (py_strip (m 1)), PStr (py_strip (m 2)), PStr (py_strip (m 3))])
                        (re_findall pat_cot s) in
      if triples = [] then PStr S_no_triples else PList triples)"

subsection \<open>\<open>get_extracted_triples\<close>\<close>

text \<open>The body of the loop over the candidates: the candidate cleaned, split into its
  triples at \<open>'], '\<close>, each triple split at \<open>', '\<close> into lower-case stripped items.\<close>

definition process_candidate :: "pyval \<Rightarrow> pyval pyres" where
  "process_candidate c =
     (case c of
        PStr s \<Rightarrow>
          pbind (py_split ''], '' (py_strip (py_replace [nl] [] (py_replace [sq] [] (py_replace ''['' [] s)))))
            (\<lambda>ts. pbind (pmap (\<lambda>t. pbind (py_split '', '' t)
                                       (\<lambda>items. Inr (PList (map (\<lambda>i. PStr (py_strip (py_lower i))) items)))) ts)
                    (\<lambda>new_c. Inr (PList new_c)))
      | _ \<Rightarrow> Inl AttributeError)"

definition get_extracted_triples :: "pyval \<Rightarrow> pyval pyres" where
  "get_extracted_triples v =
     pbind (extract_last_list_of_lists v) (\<lambda>canditates.
     pbind (py_iter canditates) (\<lambda>cs.
     pbind (pmap process_candidate cs) (\<lambda>processed. py_index processed (-1))))"

subsection \<open>\<open>extract_json_object_from_string\<close>\<close>

text \<open>\<open>r'```json\n(.*?)```'\<close> under \<open>re.DOTALL\<close>.\<close>

definition pat_json_fence :: rx where
  "pat_json_fence = seqs [lit ''```json'', lit [nl], Grp 1 (Lazy (Atom CAll)), lit ''```'']"

definition extract_json_object_from_string :: "string \<Rightarrow> pyval pyres" where
  "extract_json_object_from_string s =
     (case re_search pat_json_fence s of
        Some m \<Rightarrow> json_loads (m 1)
      | None \<Rightarrow> Inr (PStr S_no_json))"

subsection \<open>\<open>extract_and_load_json\<close>\<close>

text \<open>The \<open>try\<close> covers the whole body and catches \<open>ValueError\<close> and
  \<open>JSONDecodeError\<close> only; \<open>json.loads\<close> of a value that is not a string raises
  \<open>TypeError\<close>, and \<open>find\<close> on a value that is not a string \<open>AttributeError\<close>.\<close>

definition extract_and_load_json :: "(string \<Rightarrow> pyval pyres) \<Rightarrow> pyval \<Rightarrow> pyval pyres" where
  "extract_and_load_json ev v =
     (case v of
        PStr s \<Rightarrow>
          (let start_index = py_find s (CHR ''{'');
               end_index = py_rfind s (CHR ''}'') + 1;
               json_string = py_slice s start_index end_index
           in case pbind (ev json_string)
                     (\<lambda>x. case x of PStr j \<Rightarrow> json_loads j | _ \<Rightarrow> Inl TypeError) of
                Inr json_data \<Rightarrow> Inr json_data
              | Inl e \<Rightarrow> if e = ValueError \<or> e = JSONDecodeError then Inr PNone else Inl e)
      | _ \<Rightarrow> Inl AttributeError)"

subsection \<open>The loop of \<open>main()\<close>\<close>

text \<open>\<open>json.loads(json.dumps(x))\<close>.\<close>

definition json_copy :: "pyval \<Rightarrow> pyval pyres" where
  "json_copy x = pbind (json_dumps x) json_loads"

text \<open>Lines 130-141, on the lower-cased stripped answer \<open>s\<close>.  When \<open>eval\<close> succeeds,
  \<open>input_string\<close> is rebound to its value before \<open>json.dumps\<close> runs, so the handlers
  that follow see that value and not the text.\<close>

definition react_triples :: "(string \<Rightarrow> pyval pyres) \<Rightarrow> string \<Rightarrow> pyval pyres" where
  "react_triples ev s =
     (case extract_json_object_from_string s of
        Inl e \<Rightarrow> get_extracted_triples (PStr s)
      | Inr triples \<Rightarrow>
          if triples \<noteq> PStr S_no_json then Inr triples
          else (case ev s of
                  Inl e \<Rightarrow>
                    (case extract_and_load_json ev (PStr s) of
                       Inr t \<Rightarrow> Inr t
                     | Inl e' \<Rightarrow> get_extracted_triples (PStr s))
                | Inr input_string \<Rightarrow>
                    (case json_copy input_string of
                       Inr t \<Rightarrow> Inr t
                     | Inl e \<Rightarrow>
                         (case extract_and_load_json ev input_string of
                            Inr t \<Rightarrow> Inr t
                          | Inl e' \<Rightarrow> get_extracted_triples input_string))))"

text \<open>Lines 144-150, the other files.\<close>

definition default_triples :: "(string \<Rightarrow> pyval pyres) \<Rightarrow> string \<Rightarrow> pyval pyres" where
  "default_triples ev s =
     (case ev s of
        Inl e \<Rightarrow> get_extracted_triples (PStr s)
      | Inr input_string \<Rightarrow>
          (case json_copy input_string of
             Inr t \<Rightarrow> Inr t
           | Inl e \<Rightarrow> get_extracted_triples input_string))"

text \<open>Lines 121-156: one item of the file \<open>file\<close>; an exception no handler catches ends
  the program, and is the value \<open>Inl\<close>.\<close>

definition postprocess_item :: "(string \<Rightarrow> pyval pyres) \<Rightarrow> string \<Rightarrow> pyval \<Rightarrow> pyval pyres" where
  "postprocess_item ev file d =
     pbind (py_getitem d (PStr ''extraction'')) (\<lambda>input_string.
     pbind (py_lower_val input_string) (\<lambda>lowered.
       (let s = py_strip lowered in
        pbind (if file = file_CoT then Inr (extract_zero_shot_CoT s)
               else if file = file_ReAct then react_triples ev s
               else default_triples ev s)
          (\<lambda>triples. py_setitem d (PStr ''postprocessed'') triples))))"

text \<open>Lines 114-156 without the reading and writing of the files: every file, given by
  its name and its parsed content, gives the name of its output file and the list of
  post-processed items.\<close>

definition postprocess_file :: "(string \<Rightarrow> pyval pyres) \<Rightarrow> string \<Rightarrow> pyval \<Rightarrow> pyval pyres" where
  "postprocess_file ev file data =
     pbind (py_iter data) (\<lambda>items. pbind (pmap (postprocess_item ev file) items) (\<lambda>ds. Inr (PList ds)))"

definition postprocess_folder :: "(string \<Rightarrow> pyval pyres) \<Rightarrow> (string \<times> pyval) list \<Rightarrow> (string \<times> pyval) list pyres" where
  "postprocess_folder ev files =
     pmap (\<lambda>(file, data). pbind (postprocess_file ev file data) (\<lambda>out. Inr (''post_processed_'' @ file, out))) files"

lemmas triple_extraction_eval [eval_simps] =
  S_no_triples_def S_no_json_def file_CoT_def file_ReAct_def pat_last_lol_def clean_quotes_def pat_cot_def
  extract_zero_shot_CoT_def process_candidate_def get_extracted_triples_def pat_json_fence_def
  extract_json_object_from_string_def extract_and_load_json_def json_copy_def react_triples_def
  default_triples_def postprocess_item_def postprocess_file_def postprocess_folder_def

subsection \<open>Answers without a list of lists\<close>

lemma set_clean_quotes: "set (clean_quotes s) \<subseteq> set s"
proof -
  have r: "\<And>c t. set (py_replace [c] [] t) \<subseteq> set t" by (rule set_py_replace_Nil) simp
  show ?thesis unfolding clean_quotes_def by (intro subset_trans [OF set_py_strip] subset_trans [OF r]) simp
qed

lemma findall_last_lol_no_bracket: "CHR ''['' \<notin> set s \<Longrightarrow> re_findall pat_last_lol s = []"
proof (induction s)
  case Nil
  then show ?case by (simp add: re_findall.simps match_here_def pat_last_lol_def)
next
  case (Cons x s)
  then have "x \<noteq> CHR ''[''" "re_findall pat_last_lol s = []" by auto
  then show ?case by (subst re_findall.simps) (simp add: match_here_def pat_last_lol_def)
qed

text \<open>C31: on an answer without a bracket, \<open>extract_last_list_of_lists\<close> returns its
  sentence \<open>"No triples found."\<close>, and \<open>get_extracted_triples\<close> iterates over the
  characters of that sentence: it returns the list holding the list of its last
  character, \<open>[['.']]\<close>, instead of reporting that there are no triples.\<close>

theorem get_extracted_triples_no_list:
  assumes "CHR ''['' \<notin> set s"
  shows "get_extracted_triples (PStr s) = Inr (PList [PList [PStr ''.'']])"
proof -
  have "CHR ''['' \<notin> set (clean_quotes s)" using assms set_clean_quotes by blast
  then have "re_findall pat_last_lol (clean_quotes s) = []" by (rule findall_last_lol_no_bracket)
  then have "extract_last_list_of_lists (PStr s) = Inr (PStr S_no_triples)" by simp
  then show ?thesis by (simp add: get_extracted_triples_def eval_simps)
qed

theorem get_extracted_triples_no_list_witness:
  "get_extracted_triples (PStr ''the text has no triples.'') = Inr (PList [PList [PStr ''.'']])"
  using get_extracted_triples_no_list [of "''the text has no triples.''"] by simp

subsection \<open>The shape of the triples\<close>

lemma process_candidate_norm:
  assumes "process_candidate c = Inr x"
  shows "\<exists>ts. x = PList ts \<and> (\<forall>t\<in>set ts. \<exists>items. t = PList items \<and>
           (\<forall>i\<in>set items. \<exists>s. i = PStr s \<and> py_strip s = s \<and> py_lower s = s))"
proof -
  obtain s ts new_c where c: "c = PStr s" and ts: "py_split ''], '' (py_strip (py_replace [nl] [] (py_replace [sq] [] (py_replace ''['' [] s)))) = Inr ts"
    and nc: "pmap (\<lambda>t. pbind (py_split '', '' t) (\<lambda>items. Inr (PList (map (\<lambda>i. PStr (py_strip (py_lower i))) items)))) ts = Inr new_c"
    and x: "x = PList new_c"
    using assms by (auto simp: process_candidate_def pbind_Inr_iff split: pyval.splits)
  have "\<exists>items. t = PList items \<and> (\<forall>i\<in>set items. \<exists>s. i = PStr s \<and> py_strip s = s \<and> py_lower s = s)"
    if "t \<in> set new_c" for t
  proof -
    from pmap_Inr_set [OF nc that] obtain t0 items0 where "t = PList (map (\<lambda>i. PStr (py_strip (py_lower i))) items0)"
      by (auto simp: pbind_Inr_iff)
    then show ?thesis by (auto simp: py_lower_strip)
  qed
  with x show ?thesis by blast
qed

text \<open>C32: whatever it is given, when \<open>get_extracted_triples\<close> returns, its result is a
  list of lists of strings, each in lower case and without surrounding white space.\<close>

theorem get_extracted_triples_norm:
  assumes "get_extracted_triples v = Inr r"
  shows "\<exists>ts. r = PList ts \<and> (\<forall>t\<in>set ts. \<exists>items. t = PList items \<and>
           (\<forall>i\<in>set items. \<exists>s. i = PStr s \<and> py_strip s = s \<and> py_lower s = s))"
proof -
  obtain cands cs processed where p: "pmap process_candidate cs = Inr processed"
    and i: "py_index processed (-1) = Inr r"
    using assms unfolding get_extracted_triples_def pbind_Inr_iff by blast
  obtain c where "process_candidate c = Inr r"
    using pmap_Inr_set [OF p py_index_set [OF i]] by blast
  then show ?thesis by (rule process_candidate_norm)
qed

theorem get_extracted_triples_norm_witness:
  "get_extracted_triples (PStr ''[[paris, capital of, France], [lyon, in, france]]'') =
     Inr (PList [PList [PStr ''paris'', PStr ''capital of'', PStr ''france''], PList [PStr ''lyon'', PStr ''in'', PStr ''france'']])"
  using get_extracted_triples_norm [of "PStr ''[[paris, capital of, France], [lyon, in, france]]''"
      "PList [PList [PStr ''paris'', PStr ''capital of'', PStr ''france''], PList [PStr ''lyon'', PStr ''in'', PStr ''france'']]"]
  by (simp add: eval_simps)

subsection \<open>The loop of \<open>main()\<close>\<close>

lemma json_copy_ok: "json_ok v \<Longrightarrow> json_copy v = Inr (jnorm v)"
  using dumps_total(1) loads_dumps by (fastforce simp: json_copy_def)

text \<open>C30: \<open>json.loads(json.dumps(x))\<close>, as \<open>main()\<close> computes it, gives back every value
  without floats or sets whose strings and keys are ASCII text, with tuples turned into
  lists and keys into strings: \<open>json.dumps\<close> writes a text and \<open>json.loads\<close> reads that
  value from it.\<close>

theorem json_copy_roundtrip:
  assumes "json_ok v"
  shows "\<exists>s. json_dumps v = Inr s \<and> json_loads s = Inr (jnorm v) \<and> json_copy v = Inr (jnorm v)"
proof -
  obtain s where s: "json_dumps v = Inr s" using dumps_total(1) assms by blast
  with loads_dumps [OF assms s] show ?thesis by (simp add: json_copy_def)
qed

theorem json_copy_roundtrip_witness:
  "json_dumps (PDict [(PStr ''a'', PTuple [PInt 1, PBool True]), (PInt 2, PNone)]) =
     Inr ''{\"a\": [1, true], \"2\": null}'' \<and>
   json_copy (PDict [(PStr ''a'', PTuple [PInt 1, PBool True]), (PInt 2, PNone)]) =
     Inr (PDict [(PStr ''a'', PList [PInt 1, PBool True]), (PStr ''2'', PNone)])"
  using json_copy_roundtrip [of "PDict [(PStr ''a'', PTuple [PInt 1, PBool True]), (PInt 2, PNone)]"]
  by (simp add: eval_simps)

lemma postprocess_item_dict:
  assumes "map_of kvs (PStr ''extraction'') = Some (PStr s)" "file \<noteq> file_CoT"
  shows "postprocess_item ev file (PDict kvs) =
           pbind (if file = file_ReAct then react_triples ev (py_strip (py_lower s)) else default_triples ev (py_strip (py_lower s)))
             (\<lambda>t. Inr (PDict (AList.update (PStr ''postprocessed'') t kvs)))"
  using assms by (simp add: postprocess_item_def)

lemma triples_after_eval:
  assumes "re_search pat_json_fence s = None" "ev s = Inr v"
  shows "(if file = file_ReAct then react_triples ev s else default_triples ev s) =
           (case json_copy v of
              Inr t \<Rightarrow> Inr t
            | Inl e \<Rightarrow> if file = file_ReAct
                       then (case extract_and_load_json ev v of Inr t \<Rightarrow> Inr t | Inl e' \<Rightarrow> get_extracted_triples v)
                       else get_extracted_triples v)"
  using assms by (simp add: react_triples_def default_triples_def extract_json_object_from_string_def split: sum.split)

text \<open>C33: in every file but the chain-of-thought one, an answer without a fenced JSON block
  that \<open>eval\<close> turns into a value of the class \<open>json_ok\<close> -- built from ASCII strings, ints,
  booleans and \<open>None\<close> by lists, tuples and dicts whose keys are ASCII strings, ints,
  booleans or \<open>None\<close> -- is post-processed into that value with tuples turned into lists and
  keys into strings, stored under \<open>'postprocessed'\<close> beside the item's other fields.  Outside
  the class: a set makes \<open>json.dumps\<close> raise (C34), a float is written by \<open>repr\<close>, which
  the model does not spell out, and non-ASCII text is escaped.\<close>

theorem postprocess_item_literal:
  assumes "file \<noteq> file_CoT" "map_of kvs (PStr ''extraction'') = Some (PStr s)"
    and "re_search pat_json_fence (py_strip (py_lower s)) = None"
    and "ev (py_strip (py_lower s)) = Inr v" "json_ok v"
  shows "postprocess_item ev file (PDict kvs) = Inr (PDict (AList.update (PStr ''postprocessed'') (jnorm v) kvs))"
  using postprocess_item_dict [OF assms(2,1)] triples_after_eval [of "py_strip (py_lower s)" ev _ "file", OF assms(3,4)] json_copy_ok [OF assms(5)]
  by simp

theorem postprocess_item_literal_witness:
  "postprocess_item py_literal_eval ''GPT4_few_shot.json''
     (PDict [(PStr ''extraction'', PStr (''[('' @ [sq] @ ''Paris'' @ [sq] @ '', '' @ [sq] @ ''country'' @ [sq] @ '', '' @ [sq] @ ''France'' @ [sq] @ '')]''))]) =
   Inr (PDict [(PStr ''extraction'', PStr (''[('' @ [sq] @ ''Paris'' @ [sq] @ '', '' @ [sq] @ ''country'' @ [sq] @ '', '' @ [sq] @ ''France'' @ [sq] @ '')]'')),
               (PStr ''postprocessed'', PList [PList [PStr ''paris'', PStr ''country'', PStr ''france'']])])"
  using postprocess_item_literal [of "''GPT4_few_shot.json''"
      "[(PStr ''extraction'', PStr (''[('' @ [sq] @ ''Paris'' @ [sq] @ '', '' @ [sq] @ ''country'' @ [sq] @ '', '' @ [sq] @ ''France'' @ [sq] @ '')]''))]"
      "''[('' @ [sq] @ ''Paris'' @ [sq] @ '', '' @ [sq] @ ''country'' @ [sq] @ '', '' @ [sq] @ ''France'' @ [sq] @ '')]''"
      py_literal_eval "PList [PTuple [PStr ''paris'', PStr ''country'', PStr ''france'']]"]
  by (simp add: eval_simps)

text \<open>C34: in every file but the chain-of-thought one, an answer without a fenced JSON block
  that \<open>eval\<close> turns into a set ends the program with \<open>AttributeError\<close>: \<open>json.dumps\<close>
  rejects the set, \<open>input_string\<close> is already the set, and the fallbacks call string
  methods on it.\<close>

theorem postprocess_item_set_crash:
  assumes "file \<noteq> file_CoT" "map_of kvs (PStr ''extraction'') = Some (PStr s)"
    and "re_search pat_json_fence (py_strip (py_lower s)) = None"
    and "ev (py_strip (py_lower s)) = Inr (PSet xs)"
  shows "postprocess_item ev file (PDict kvs) = Inl AttributeError"
  using postprocess_item_dict [OF assms(2,1)] triples_after_eval [of "py_strip (py_lower s)" ev _ "file", OF assms(3,4)]
  by (simp add: json_copy_def extract_and_load_json_def get_extracted_triples_def)

theorem postprocess_item_set_crash_witness:
  "postprocess_item py_literal_eval ''GPT4_few_shot.json''
     (PDict [(PStr ''extraction'', PStr (''{'' @ [sq] @ ''Paris'' @ [sq] @ '', '' @ [sq] @ ''Lyon'' @ [sq] @ ''}''))]) =
   Inl AttributeError"
  using postprocess_item_set_crash [of "''GPT4_few_shot.json''"
      "[(PStr ''extraction'', PStr (''{'' @ [sq] @ ''Paris'' @ [sq] @ '', '' @ [sq] @ ''Lyon'' @ [sq] @ ''}''))]"
      "''{'' @ [sq] @ ''Paris'' @ [sq] @ '', '' @ [sq] @ ''Lyon'' @ [sq] @ ''}''"
      py_literal_eval "[PStr ''paris'', PStr ''lyon'']"]
  by (simp add: eval_simps)

text \<open>C35: when \<open>eval\<close> reads the braced part of an answer as a dictionary (as it does for
  a JSON object), \<open>extract_and_load_json\<close> raises \<open>TypeError\<close> from \<open>json.loads\<close> of a
  dictionary instead of returning the object.\<close>

theorem extract_and_load_json_dict:
  assumes "ev (py_slice s (py_find s (CHR ''{'')) (py_rfind s (CHR ''}'') + 1)) = Inr (PDict kvs)"
  shows "extract_and_load_json ev (PStr s) = Inl TypeError"
  using assms by (simp add: extract_and_load_json_def)

theorem extract_and_load_json_dict_witness:
  "extract_and_load_json py_literal_eval (PStr ''result: {\"a\": 1}'') = Inl TypeError"
  using extract_and_load_json_dict [of py_literal_eval "''result: {\"a\": 1}''" "[(PStr ''a'', PInt 1)]"]
  by (simp add: eval_simps)

lemma postprocess_item_shape:
  "postprocess_item ev file d = Inr r \<Longrightarrow>
   \<exists>kvs t. d = PDict kvs \<and> r = PDict (AList.update (PStr ''postprocessed'') t kvs)"
  by (cases d) (auto simp: postprocess_item_def pbind_Inr_iff Let_def)

text \<open>C36: when the post-processing of a file's list of items completes, its output has one
  item per input item, each the input dictionary with the key \<open>'postprocessed'\<close> set and
  its other fields, in their order, kept.\<close>

theorem postprocess_file_items:
  assumes "postprocess_file ev file (PList ds) = Inr out"
  shows "\<exists>rs. out = PList rs \<and>
           list_all2 (\<lambda>d r. \<exists>kvs t. d = PDict kvs \<and> r = PDict (AList.update (PStr ''postprocessed'') t kvs)) ds rs"
proof -
  obtain rs where rs: "pmap (postprocess_item ev file) ds = Inr rs" and out: "out = PList rs"
    using assms by (auto simp: postprocess_file_def pbind_Inr_iff)
  from rs have "list_all2 (\<lambda>d r. postprocess_item ev file d = Inr r) ds rs" by (simp add: pmap_Inr_iff)
  then have "list_all2 (\<lambda>d r. \<exists>kvs t. d = PDict kvs \<and> r = PDict (AList.update (PStr ''postprocessed'') t kvs)) ds rs"
    by (rule list_all2_mono) (rule postprocess_item_shape)
  with out show ?thesis by blast
qed

theorem postprocess_file_items_witness:
  "postprocess_file py_literal_eval file_CoT (PList [PDict [(PStr ''extraction'', PStr ''(Paris, capital of, France)'')]]) =
     Inr (PList [PDict [(PStr ''extraction'', PStr ''(Paris, capital of, France)''),
                        (PStr ''postprocessed'', PList [PTuple [PStr ''paris'', PStr ''capital of'', PStr ''france'']])]])"
  using postprocess_file_items [of py_literal_eval file_CoT "[PDict [(PStr ''extraction'', PStr ''(Paris, capital of, France)'')]]"
      "PList [PDict [(PStr ''extraction'', PStr ''(Paris, capital of, France)''),
                        (PStr ''postprocessed'', PList [PTuple [PStr ''paris'', PStr ''capital of'', PStr ''france'']])]]"]
  by (simp add: eval_simps)

end
