(* ===== verification/ELData.thy ===== *)
theory ELData
  imports Complex_Main ConvertREDFM Service Json "HOL-Library.Multiset"
begin

text \<open>
  The data preparation of the entity-linking experiments, \<open>src/Entity_Linking/data\<close>.
  \<open>preprocess_data.py\<close> converts RED-FM instances into records of typed triples and looks
  up the label and description of every subject, object and property on Wikidata;
  \<open>make_subset_4_demostration_selection.py\<close> shuffles the converted validation set and
  splits it into the demonstrations and the rest.  The lookups \<open>lookup_entity_type\<close> and
  \<open>lookup_relations\<close> of \<open>preprocess_data.py\<close> (lines 19--38) are the same code as in
  \<open>convert_REDFM.py\<close> and are modelled once, in \<open>ConvertREDFM\<close>.  The Wikidata call is a
  request \<open>RLabels\<close> of the service model of \<open>Service\<close>, under the \<open>retry\<close> decorator
  (\<open>tries=3, delay=2, max_delay=25\<close>: the delay never reaches the cap), so the lemmas hold
  whatever the service answers; \<open>random.shuffle\<close> is a parameter.
\<close>

subsection \<open>\<open>get_wikidata_label_and_description\<close>\<close>

text \<open>Lines 55--61 on the decoded answer \<open>data\<close>: the \<open>and\<close> short-circuits, and
  \<open>.get\<close> with a default on the nested dictionaries.\<close>

definition label_record :: "pyval \<Rightarrow> pyval \<Rightarrow> pyval pyres" where
  "label_record wikidata_id data =
     pbind (py_in (PStr ''entities'') data) (\<lambda>has_entities.
     if \<not> has_entities then Inr PNone else
     pbind (py_getitem data (PStr ''entities'')) (\<lambda>entities.
     pbind (py_in wikidata_id entities) (\<lambda>has_id.
     if \<not> has_id then Inr PNone else
     pbind (py_getitem entities wikidata_id) (\<lambda>entity.
     pbind (py_getitem entity (PStr ''labels'')) (\<lambda>labels.
     pbind (py_get labels (PStr ''en'') (PDict [])) (\<lambda>en_label.
     pbind (py_get en_label (PStr ''value'') (PStr ''No label available'')) (\<lambda>label.
     pbind (py_getitem entity (PStr ''descriptions'')) (\<lambda>descriptions.
     pbind (py_get descriptions (PStr ''en'') (PDict [])) (\<lambda>en_description.
     pbind (py_get en_description (PStr ''value'') (PStr ''No description available'')) (\<lambda>description.
       Inr (PDict [(PStr ''id'', wikidata_id), (PStr ''label'', label), (PStr ''description'', description)])))))))))))"

text \<open>Lines 41--61.\<close>

definition get_wikidata_label_and_description :: "net \<Rightarrow> pyval \<Rightarrow> pyval wm" where
  "get_wikidata_label_and_description net wikidata_id =
     retry 3 2 (wbind (wrequest net (RLabels wikidata_id)) (\<lambda>data. wlift (label_record wikidata_id data)))"

subsection \<open>\<open>convert_data\<close>\<close>

record el_acc =
  new_triples :: "pyval list"
  wiki_triples :: "pyval list"
  entities :: "(pyval, pyval) pydict"
  properties :: "(pyval, pyval) pydict"

definition el_acc0 :: el_acc where
  "el_acc0 = \<lparr>new_triples = [], wiki_triples = [], entities = [], properties = []\<rparr>"

text \<open>\<open>d[k1][k2]\<close>.\<close>

definition getitem2 :: "pyval \<Rightarrow> string \<Rightarrow> string \<Rightarrow> pyval pyres" where
  "getitem2 d k1 k2 = pbind (py_getitem d (PStr k1)) (\<lambda>x. py_getitem x (PStr k2))"

text \<open>Lines 76--81: the dictionary \<open>nt\<close>, its values computed from left to right.\<close>

definition new_triple :: "pyval \<Rightarrow> pyval \<Rightarrow> pyval \<Rightarrow> pyval pyres" where
  "new_triple entity_types relations_json t =
     pbind (getitem2 t ''subject'' ''surfaceform'') (\<lambda>subject.
     pbind (pbind (getitem2 t ''subject'' ''type'') (lookup_entity_type entity_types)) (\<lambda>subject_type.
     pbind (pbind (py_getitem t (PStr ''predicate'')) (\<lambda>p. lookup_relations relations_json p (PStr ''Relation''))) (\<lambda>predicate.
     pbind (getitem2 t ''object'' ''surfaceform'') (\<lambda>object.
     pbind (pbind (getitem2 t ''object'' ''type'') (lookup_entity_type entity_types)) (\<lambda>object_type.
       Inr (PDict [(PStr ''subject'', subject), (PStr ''subject_type'', subject_type),
                   (PStr ''predicate'', predicate), (PStr ''object'', object),
                   (PStr ''object_type'', object_type)]))))))"

text \<open>Lines 82--90: the dictionary \<open>wt\<close>.\<close>

definition wiki_triple :: "pyval \<Rightarrow> pyval \<Rightarrow> pyval \<Rightarrow> pyval pyres" where
  "wiki_triple entity_types relations_json t =
     pbind (getitem2 t ''subject'' ''surfaceform'') (\<lambda>subject.
     pbind (pbind (getitem2 t ''subject'' ''type'') (lookup_entity_type entity_types)) (\<lambda>subject_type.
     pbind (getitem2 t ''subject'' ''uri'') (\<lambda>subject_wikiID.
     pbind (pbind (py_getitem t (PStr ''predicate'')) (\<lambda>p. lookup_relations relations_json p (PStr ''Relation''))) (\<lambda>predicate.
     pbind (pbind (py_getitem t (PStr ''predicate'')) (\<lambda>p. lookup_relations relations_json p (PStr ''Wikidata ID''))) (\<lambda>predicate_wikiID.
     pbind (getitem2 t ''object'' ''surfaceform'') (\<lambda>object.
     pbind (pbind (getitem2 t ''object'' ''type'') (lookup_entity_type entity_types)) (\<lambda>object_type.
     pbind (getitem2 t ''object'' ''uri'') (\<lambda>object_wikiID.
       Inr (PDict [(PStr ''subject'', subject), (PStr ''subject_type'', subject_type),
                   (PStr ''subject_wikiID'', subject_wikiID), (PStr ''predicate'', predicate),
                   (PStr ''predicate_wikiID'', predicate_wikiID), (PStr ''object'', object),
                   (PStr ''object_type'', object_type), (PStr ''object_wikiID'', object_wikiID)])))))))))"

text \<open>\<open>if x is not None: d[k] = x\<close>.\<close>

definition set_if_found :: "pyval \<Rightarrow> pyval \<Rightarrow> (pyval, pyval) pydict \<Rightarrow> (pyval, pyval) pydict" where
  "set_if_found k x d = (if x = PNone then d else AList.update k x d)"

text \<open>Lines 74--104: one relation of an instance.\<close>

definition el_triple_step :: "net \<Rightarrow> pyval \<Rightarrow> pyval \<Rightarrow> pyval \<Rightarrow> el_acc \<Rightarrow> el_acc wm" where
  "el_triple_step net entity_types relations_json t acc =
     wbind (wlift (new_triple entity_types relations_json t)) (\<lambda>nt.
     wbind (wlift (wiki_triple entity_types relations_json t)) (\<lambda>wt.
     wbind (wlift (getitem2 t ''subject'' ''uri'')) (\<lambda>subject_uri.
     wbind (get_wikidata_label_and_description net subject_uri) (\<lambda>ent1.
     (let acc1 = acc\<lparr>entities := set_if_found subject_uri ent1 (entities acc)\<rparr> in
     wbind (wlift (pbind (py_getitem t (PStr ''predicate'')) (\<lambda>p. lookup_relations relations_json p (PStr ''Wikidata ID'')))) (\<lambda>pid.
     wbind (get_wikidata_label_and_description net pid) (\<lambda>prop.
     wbind (if prop = PNone then wret acc1
            else wbind (wlift (pbind (py_getitem t (PStr ''predicate'')) (\<lambda>p. lookup_relations relations_json p (PStr ''Wikidata ID'')))) (\<lambda>pid'.
                 wret (acc1\<lparr>properties := AList.update pid' prop (properties acc1)\<rparr>))) (\<lambda>acc2.
     wbind (wlift (getitem2 t ''object'' ''uri'')) (\<lambda>object_uri.
     wbind (get_wikidata_label_and_description net object_uri) (\<lambda>ent2.
       wret (acc2\<lparr>entities := set_if_found object_uri ent2 (entities acc2),
                  new_triples := new_triples acc2 @ [nt],
                  wiki_triples := wiki_triples acc2 @ [wt]\<rparr>)))))))))))"

text \<open>Lines 66--110: one instance, giving the record the script writes.\<close>

definition el_convert_instance :: "net \<Rightarrow> pyval \<Rightarrow> pyval \<Rightarrow> pyval \<Rightarrow> pyval wm" where
  "el_convert_instance net entity_types relations_json i =
     wbind (wlift (py_getitem i (PStr ''text''))) (\<lambda>input_text.
     wbind (wlift (pbind (py_getitem i (PStr ''relations'')) py_iter)) (\<lambda>triples.
     wbind (foldl (\<lambda>m t. wbind m (el_triple_step net entity_types relations_json t)) (wret el_acc0) triples) (\<lambda>acc.
       wret (PDict [(PStr ''text'', input_text), (PStr ''triples'', PList (new_triples acc)),
                    (PStr ''wiki_triples'', PList (wiki_triples acc)), (PStr ''entities'', PDict (entities acc)),
                    (PStr ''properties'', PDict (properties acc))]))))"

text \<open>Lines 64--112: \<open>len(data)\<close> for the progress bar, then every instance in order.\<close>

definition el_convert_data :: "net \<Rightarrow> pyval \<Rightarrow> pyval \<Rightarrow> pyval \<Rightarrow> pyval list wm" where
  "el_convert_data net entity_types relations_json data =
     wbind (wlift (py_len data)) (\<lambda>n.
     wbind (wlift (py_iter data)) (\<lambda>instances.
       foldl (\<lambda>m i. wbind m (\<lambda>converted. wbind (el_convert_instance net entity_types relations_json i)
                                            (\<lambda>c. wret (converted @ [c]))))
             (wret []) instances))"

subsection \<open>\<open>shuffle_and_split_jsonl\<close>\<close>

text \<open>\<open>int(x)\<close> of a number: truncation towards zero.\<close>

definition py_int_trunc :: "rat \<Rightarrow> int" where
  "py_int_trunc x = (if 0 \<le> x then \<lfloor>x\<rfloor> else \<lceil>x\<rceil>)"

text \<open>Lines 14--31 without the reading and writing: the lines parsed, shuffled by the
  parameter \<open>shuffle\<close>, and split at \<open>int(len(data) * split_ratio)\<close>; the ratio is a
  rational number, as the float \<open>0.5\<close> is exactly.\<close>

definition shuffle_and_split :: "(pyval list \<Rightarrow> pyval list) \<Rightarrow> rat \<Rightarrow> string list \<Rightarrow> (pyval list \<times> pyval list) pyres" where
  "shuffle_and_split shuffle split_ratio lines =
     pbind (pmap json_loads lines) (\<lambda>parsed.
       (let data = shuffle parsed;
            split_index = py_int_trunc (of_nat (length data) * split_ratio)
        in Inr (py_slice data 0 split_index, py_slice data split_index (int (length data)))))"

subsection \<open>The properties of the converted records\<close>

text \<open>A record of \<open>get_wikidata_label_and_description\<close> for the identifier \<open>k\<close>; a
  dictionary of such records, each under its own identifier; the accumulators of the
  relation loop and a converted instance with such dictionaries and as many typed triples
  as identifier triples.\<close>

definition is_label_of :: "pyval \<Rightarrow> pyval \<Rightarrow> bool" where
  "is_label_of k v \<longleftrightarrow>
     (case v of
        PDict kvs \<Rightarrow> map fst kvs = [PStr ''id'', PStr ''label'', PStr ''description''] \<and> map_of kvs (PStr ''id'') = Some k
      | _ \<Rightarrow> False)"

definition labels_ok :: "(pyval, pyval) pydict \<Rightarrow> bool" where
  "labels_ok d \<longleftrightarrow> list_all (\<lambda>(k, v). is_label_of k v) d"

definition el_acc_ok :: "el_acc \<Rightarrow> bool" where
  "el_acc_ok acc \<longleftrightarrow> labels_ok (entities acc) \<and> labels_ok (properties acc) \<and>
                      length (new_triples acc) = length (wiki_triples acc)"

definition el_record_ok :: "pyval \<Rightarrow> bool" where
  "el_record_ok c \<longleftrightarrow>
     (case c of
        PDict kvs \<Rightarrow>
          map fst kvs = [PStr ''text'', PStr ''triples'', PStr ''wiki_triples'', PStr ''entities'', PStr ''properties''] \<and>
          (case (map_of kvs (PStr ''triples''), map_of kvs (PStr ''wiki_triples''),
                 map_of kvs (PStr ''entities''), map_of kvs (PStr ''properties'')) of
             (Some (PList ts), Some (PList ws), Some (PDict es), Some (PDict ps)) \<Rightarrow>
               labels_ok es \<and> labels_ok ps \<and> length ts = length ws
           | _ \<Rightarrow> False)
      | _ \<Rightarrow> False)"

lemmas el_data_eval [eval_simps] =
  label_record_def get_wikidata_label_and_description_def el_acc0_def getitem2_def new_triple_def
  wiki_triple_def set_if_found_def el_triple_step_def el_convert_instance_def el_convert_data_def
  py_int_trunc_def shuffle_and_split_def is_label_of_def labels_ok_def el_acc_ok_def el_record_ok_def

subsection \<open>The Wikidata records\<close>

lemma label_record_shape:
  "label_record wid data = Inr r \<Longrightarrow> r = PNone \<or> is_label_of wid r"
  by (auto simp: label_record_def pbind_Inr_iff is_label_of_def split: if_splits)

lemma wp_label:
  "wp (get_wikidata_label_and_description net wid) (\<lambda>r. r = PNone \<or> is_label_of wid r)"
  unfolding get_wikidata_label_and_description_def
  by (intro wp_retry wp_wbind wp_wlift) (rule label_record_shape)

lemma wp_wbind_label [wp_intros]:
  "(\<And>r. r = PNone \<or> is_label_of wid r \<Longrightarrow> wp (f r) Q) \<Longrightarrow> wp (wbind (get_wikidata_label_and_description net wid) f) Q"
  by (rule wp_wbind_post [OF wp_label])

lemma set_update_subset: "set (AList.update k v d) \<subseteq> insert (k, v) (set d)"
  by (induction d) auto

lemma labels_ok_update: "labels_ok d \<Longrightarrow> is_label_of k v \<Longrightarrow> labels_ok (AList.update k v d)"
  using set_update_subset [of k v d] by (auto simp: labels_ok_def list_all_iff)

lemma labels_ok_set_if_found:
  "labels_ok d \<Longrightarrow> x = PNone \<or> is_label_of k x \<Longrightarrow> labels_ok (set_if_found k x d)"
  by (auto simp: set_if_found_def labels_ok_update)

subsection \<open>The conversion\<close>

lemma el_triple_step_ok:
  "el_acc_ok acc \<Longrightarrow> wp (el_triple_step net entity_types relations_json t acc) el_acc_ok"
  unfolding el_triple_step_def Let_def
  by (intro wp_intros) (auto simp: el_acc_ok_def labels_ok_set_if_found labels_ok_update)

lemma el_convert_instance_ok:
  "wp (el_convert_instance net entity_types relations_json i) el_record_ok"
  unfolding el_convert_instance_def
proof (intro wp_intros)
  fix triples
  show "wp (wbind (foldl (\<lambda>m t. wbind m (el_triple_step net entity_types relations_json t)) (wret el_acc0) triples)
          (\<lambda>acc. wret (PDict [(PStr ''text'', input_text), (PStr ''triples'', PList (new_triples acc)),
                    (PStr ''wiki_triples'', PList (wiki_triples acc)), (PStr ''entities'', PDict (entities acc)),
                    (PStr ''properties'', PDict (properties acc))]))) el_record_ok" for input_text
  proof (rule wp_wbind_post)
    show "wp (foldl (\<lambda>m t. wbind m (el_triple_step net entity_types relations_json t)) (wret el_acc0) triples) el_acc_ok"
      by (intro wp_foldl wp_wbind_inv el_triple_step_ok) (simp_all add: wp_wret el_acc_ok_def el_acc0_def labels_ok_def)
  qed (auto simp: el_acc_ok_def el_record_ok_def intro!: wp_wret)
qed

text \<open>C37: whatever Wikidata answers, every record \<open>preprocess_data.py\<close> converts has the
  fields text, triples, wiki_triples, entities and properties, as many typed triples as
  identifier triples, and under every identifier of its entities and properties a record
  of that same identifier, with a label and a description.\<close>

theorem el_convert_data_ok:
  "wp (el_convert_data net entity_types relations_json data) (list_all el_record_ok)"
  unfolding el_convert_data_def
proof (intro wp_intros)
  fix instances
  show "wp (foldl (\<lambda>m i. wbind m (\<lambda>converted. wbind (el_convert_instance net entity_types relations_json i)
                                            (\<lambda>c. wret (converted @ [c])))) (wret []) instances) (list_all el_record_ok)"
  proof (intro wp_foldl wp_wbind_inv)
    fix converted i
    assume "list_all el_record_ok converted"
    then show "wp (wbind (el_convert_instance net entity_types relations_json i) (\<lambda>c. wret (converted @ [c])))
                  (list_all el_record_ok)"
      by (intro wp_wbind_post [OF el_convert_instance_ok] wp_wret) simp
  qed (simp add: wp_wret)
qed

theorem el_convert_data_ok_witness:
  "el_convert_data
     (\<lambda>n r. case r of RLabels i \<Rightarrow> Inr (PDict [(PStr ''entities'', PDict [(i, PDict [(PStr ''labels'', PDict []), (PStr ''descriptions'', PDict [])])])])
                  | _ \<Rightarrow> Inl RequestException)
     (PDict [(PStr ''LOC'', PStr ''Location'')])
     (PList [PDict [(PStr ''Predicate number'', PInt 17), (PStr ''Relation'', PStr ''country''), (PStr ''Wikidata ID'', PStr ''P17'')]])
     (PList [PDict [(PStr ''text'', PStr ''Paris is in France.''), (PStr ''relations'', PList [PDict [(PStr ''subject'', PDict [(PStr ''surfaceform'', PStr ''Paris''), (PStr ''uri'', PStr ''Q90''), (PStr ''type'', PStr ''LOC'')]), (PStr ''predicate'', PInt 17), (PStr ''object'', PDict [(PStr ''surfaceform'', PStr ''France''), (PStr ''uri'', PStr ''Q142''), (PStr ''type'', PStr ''LOC'')])]])]])
     \<lparr>w_trace = [], w_slept = 0\<rparr> =
   (Inr [PDict [(PStr ''text'', PStr ''Paris is in France.''),
                (PStr ''triples'', PList [PDict [(PStr ''subject'', PStr ''Paris''), (PStr ''subject_type'', PStr ''Location''),
                   (PStr ''predicate'', PStr ''country''), (PStr ''object'', PStr ''France''), (PStr ''object_type'', PStr ''Location'')]]),
                (PStr ''wiki_triples'', PList [PDict [(PStr ''subject'', PStr ''Paris''), (PStr ''subject_type'', PStr ''Location''),
                   (PStr ''subject_wikiID'', PStr ''Q90''), (PStr ''predicate'', PStr ''country''), (PStr ''predicate_wikiID'', PStr ''P17''),
                   (PStr ''object'', PStr ''France''), (PStr ''object_type'', PStr ''Location''), (PStr ''object_wikiID'', PStr ''Q142'')]]),
                (PStr ''entities'', PDict [(PStr ''Q90'', PDict [(PStr ''id'', PStr ''Q90''), (PStr ''label'', PStr ''No label available''), (PStr ''description'', PStr ''No description available'')]),
                                          (PStr ''Q142'', PDict [(PStr ''id'', PStr ''Q142''), (PStr ''label'', PStr ''No label available''), (PStr ''description'', PStr ''No description available'')])]),
                (PStr ''properties'', PDict [(PStr ''P17'', PDict [(PStr ''id'', PStr ''P17''), (PStr ''label'', PStr ''No label available''), (PStr ''description'', PStr ''No description available'')])])]],
    \<lparr>w_trace = [RLabels (PStr ''Q90''), RLabels (PStr ''P17''), RLabels (PStr ''Q142'')], w_slept = 0\<rparr>)"
  using el_convert_data_ok [of "\<lambda>n r. case r of RLabels i \<Rightarrow> Inr (PDict [(PStr ''entities'', PDict [(i, PDict [(PStr ''labels'', PDict []), (PStr ''descriptions'', PDict [])])])])
                  | _ \<Rightarrow> Inl RequestException"]
  by (simp add: eval_simps numeral_2_eq_2)

subsection \<open>The split of the demonstrations\<close>

text \<open>The two parts are the shuffled list cut in two; with a shuffle that permutes, they
  hold the parsed lines between them, and with the ratio \<open>0.5\<close> the first has half of
  them, rounded down.\<close>

lemma shuffle_and_split_parts:
  assumes "shuffle_and_split shuffle split_ratio lines = Inr (d1, d2)"
  shows "\<exists>parsed. pmap json_loads lines = Inr parsed \<and> d1 @ d2 = shuffle parsed \<and>
           d1 = py_slice (shuffle parsed) 0 (py_int_trunc (of_nat (length (shuffle parsed)) * split_ratio))"
  using assms by (auto simp: shuffle_and_split_def pbind_Inr_iff Let_def py_slice_split)

lemma shuffle_and_split_partition:
  assumes "shuffle_and_split shuffle split_ratio lines = Inr (d1, d2)"
    and "\<And>xs. mset (shuffle xs) = mset xs"
  shows "\<exists>parsed. pmap json_loads lines = Inr parsed \<and> mset d1 + mset d2 = mset parsed"
proof -
  obtain parsed where p: "pmap json_loads lines = Inr parsed" and d: "d1 @ d2 = shuffle parsed"
    using shuffle_and_split_parts [OF assms(1)] by blast
  have "mset d1 + mset d2 = mset (shuffle parsed)" by (simp flip: d)
  with p assms(2) show ?thesis by auto
qed

lemma shuffle_and_split_half:
  assumes "shuffle_and_split shuffle (1/2) lines = Inr (d1, d2)"
    and "\<And>xs. length (shuffle xs) = length xs"
  shows "length d1 = length lines div 2"
proof -
  obtain parsed where p: "pmap json_loads lines = Inr parsed"
    and d1: "d1 = py_slice (shuffle parsed) 0 (py_int_trunc (of_nat (length (shuffle parsed)) * (1/2)))"
    using shuffle_and_split_parts [OF assms(1)] by blast
  have l: "length (shuffle parsed) = length lines" using assms(2) pmap_length [OF p] by simp
  have "rat_of_nat (length lines) * (1/2) = of_nat (length lines) / of_nat 2" by simp
  then have "py_int_trunc (of_nat (length lines) * (1/2)) = int (length lines div 2)"
    by (simp only: py_int_trunc_def floor_divide_of_nat_eq) simp
  with d1 l show ?thesis by (simp add: py_slice_prefix)
qed

end
