(* ===== verification/ELPrompts.thy ===== *)
theory ELPrompts
  imports Service JsonDump LiteralEval
begin

text \<open>
  The prompt compilers of the entity-linking experiments, \<open>src/Entity_Linking/prompts\<close>:
  \<open>retrieval_augmented_EL_prompt_compiler.py\<close> (few-shot prompts with demonstrations),
  \<open>no_retrieval_EL_prompt_compiler.py\<close> (zero-shot prompts) and
  \<open>make_EL_prompts_after_KE.py\<close> (zero-shot prompts for the entities and relations an LLM
  extracted).  For each entity and relation they ask Wikidata for candidates and format a
  prompt.  The Wikidata calls are requests of the service model of \<open>Service\<close>:
  \<open>RSearchTop\<close> for the \<open>wbsearchentities\<close> search with ten results, \<open>RPages\<close> for the
  full-text page search, \<open>RLabels\<close> for \<open>wbgetentities\<close>.  The first two scripts define the
  same three Wikidata functions; they are modelled once, from the retrieval-augmented script.
  The LangChain template (with the example selector of the few-shot template) is the
  parameter \<open>fmt\<close>: the prompt for the keyword arguments \<open>text\<close>, \<open>extracted_component\<close>
  and \<open>candidates\<close>, or the exception it raises.  The order of \<open>list(set(xs))\<close>, which
  depends on string hashing, is the parameter \<open>set_order\<close>.
\<close>

type_synonym prompt_format = "pyval \<Rightarrow> pyval \<Rightarrow> pyval \<Rightarrow> pyval pyres"

subsection \<open>Python helpers\<close>

text \<open>\<open>d.items()\<close> and \<open>x.strip()\<close>: only dictionaries, and only strings, have the method.\<close>

fun py_items :: "pyval \<Rightarrow> (pyval \<times> pyval) list pyres" where
  "py_items (PDict kvs) = Inr kvs"
| "py_items v = Inl AttributeError"

fun py_strip_val :: "pyval \<Rightarrow> string pyres" where
  "py_strip_val (PStr s) = Inr (py_strip s)"
| "py_strip_val v = Inl AttributeError"

text \<open>\<open>del d[k]\<close>.\<close>

fun py_delitem :: "pyval \<Rightarrow> pyval \<Rightarrow> pyval pyres" where
  "py_delitem (PDict kvs) k =
     (if k \<in> set (map fst kvs) then Inr (PDict (AList.delete k kvs)) else Inl KeyError)"
| "py_delitem v k = Inl TypeError"

text \<open>\<open>json.dumps(x)\<close> as a Python string.\<close>

definition dumps_val :: "pyval \<Rightarrow> pyval pyres" where
  "dumps_val v = pbind (json_dumps v) (\<lambda>s. Inr (PStr s))"

text \<open>A local variable that may still be unbound: reading it raises \<open>UnboundLocalError\<close>,
  a \<open>NameError\<close>.\<close>

definition read_local :: "pyval option \<Rightarrow> pyval pyres" where
  "read_local x = (case x of None \<Rightarrow> Inl NameError | Some v \<Rightarrow> Inr v)"

subsection \<open>Reading the data and the demonstrations\<close>

text \<open>\<open>read_data\<close>, lines 32--42 of \<open>retrieval_augmented_EL_prompt_compiler.py\<close>, on the
  lines of the file.\<close>

definition read_data :: "string list \<Rightarrow> pyval list pyres" where
  "read_data lines = pmap json_loads lines"

text \<open>\<open>read_examples\<close>, lines 44--58: one demonstration, its \<open>index\<close> deleted and its text,
  component and candidates replaced by their JSON text.\<close>

definition read_example :: "string \<Rightarrow> pyval pyres" where
  "read_example line =
     pbind (json_loads line) (\<lambda>d0.
     pbind (py_delitem d0 (PStr ''index'')) (\<lambda>d1.
     pbind (pbind (py_getitem d1 (PStr ''text'')) (\<lambda>t. pbind (py_strip_val t) (\<lambda>s. dumps_val (PStr s)))) (\<lambda>text.
     pbind (py_setitem d1 (PStr ''text'') text) (\<lambda>d2.
     pbind (pbind (py_getitem d2 (PStr ''extracted_component'')) (\<lambda>t. pbind (py_strip_val t) (\<lambda>s. dumps_val (PStr s)))) (\<lambda>component.
     pbind (py_setitem d2 (PStr ''extracted_component'') component) (\<lambda>d3.
     pbind (pbind (py_getitem d3 (PStr ''candidates'')) dumps_val) (\<lambda>candidates.
       py_setitem d3 (PStr ''candidates'') candidates)))))))"

definition read_examples :: "string list \<Rightarrow> pyval list pyres" where
  "read_examples lines = pmap read_example lines"

subsection \<open>The Wikidata functions\<close>

text \<open>The f-string \<open>f"{wikidata_id} ({label}): {description}"\<close>.\<close>

definition candidate_line :: "pyval \<Rightarrow> pyval \<Rightarrow> pyval \<Rightarrow> pyval" where
  "candidate_line wikidata_id label description =
     PStr (py_str wikidata_id @ '' ('' @ py_str label @ ''): '' @ py_str description)"

text \<open>Lines 101--111 of \<open>wikidata_string_search\<close>, on the decoded answer: the \<open>and\<close>
  short-circuits; \<open>None\<close> when there is no result.\<close>

definition search_result_line :: "pyval \<Rightarrow> pyval pyres" where
  "search_result_line result =
     pbind (py_getitem result (PStr ''id'')) (\<lambda>wikidata_id.
     pbind (py_getitem result (PStr ''label'')) (\<lambda>label.
     pbind (py_get result (PStr ''description'') (PStr ''No description available'')) (\<lambda>description.
       Inr (candidate_line wikidata_id label description))))"

definition string_search_results :: "pyval \<Rightarrow> pyval pyres" where
  "string_search_results data =
     pbind (py_in (PStr ''search'') data) (\<lambda>has_search.
     if \<not> has_search then Inr PNone else
     pbind (py_getitem data (PStr ''search'')) (\<lambda>search.
     pbind (py_len search) (\<lambda>n.
     if n = 0 then Inr PNone else
     pbind (py_iter search) (\<lambda>results.
     pbind (pmap search_result_line results) (\<lambda>lines. Inr (PList lines))))))"

text \<open>Lines 70--111.  A query type other than \<open>entity\<close> and \<open>property\<close> leaves \<open>params\<close>
  unbound.\<close>

definition wikidata_string_search :: "net \<Rightarrow> pyval \<Rightarrow> string \<Rightarrow> pyval wm" where
  "wikidata_string_search net query_string query_type =
     retry 3 2
       (if query_type = ''entity'' \<or> query_type = ''property''
        then wbind (wrequest net (RSearchTop query_type query_string)) (\<lambda>data. wlift (string_search_results data))
        else wlift (Inl NameError))"

text \<open>Lines 136--144 of \<open>get_label_and_description_for_id\<close>: \<open>.get\<close> with a default at
  every level.\<close>

definition label_line :: "pyval \<Rightarrow> pyval \<Rightarrow> pyval pyres" where
  "label_line wikidata_id data =
     pbind (py_get data (PStr ''entities'') (PDict [])) (\<lambda>entities.
     pbind (py_get entities wikidata_id (PDict [])) (\<lambda>entity_data.
     pbind (py_get entity_data (PStr ''labels'') (PDict [])) (\<lambda>labels.
     pbind (py_get labels (PStr ''en'') (PDict [])) (\<lambda>en_label.
     pbind (py_get en_label (PStr ''value'') (PStr ''No label available'')) (\<lambda>label.
     pbind (py_get entity_data (PStr ''descriptions'') (PDict [])) (\<lambda>descriptions.
     pbind (py_get descriptions (PStr ''en'') (PDict [])) (\<lambda>en_description.
     pbind (py_get en_description (PStr ''value'') (PStr ''No description available'')) (\<lambda>description.
       Inr (candidate_line wikidata_id label description)))))))))"

text \<open>Lines 114--144.\<close>

definition get_label_and_description_for_id :: "net \<Rightarrow> pyval \<Rightarrow> pyval wm" where
  "get_label_and_description_for_id net wikidata_id =
     retry 3 2 (wbind (wrequest net (RLabels wikidata_id)) (\<lambda>data. wlift (label_line wikidata_id data)))"

text \<open>Line 178: the results of a page search, \<open>data.get('query', {}).get('search', [])\<close>.\<close>

definition page_results :: "pyval \<Rightarrow> pyval list pyres" where
  "page_results data =
     pbind (py_get data (PStr ''query'') (PDict [])) (\<lambda>query.
     pbind (py_get query (PStr ''search'') (PList [])) py_iter)"

text \<open>Lines 147--182: one label lookup, itself retried, per page found; a lookup that fails
  three times makes the whole search fail and start again.\<close>

definition search_wikidata_pages :: "net \<Rightarrow> pyval \<Rightarrow> pyval wm" where
  "search_wikidata_pages net search_term =
     retry 3 2
       (wbind (wrequest net (RPages search_term 10)) (\<lambda>data.
        wbind (wlift (page_results data)) (\<lambda>results.
        wbind (foldl (\<lambda>m result. wbind m (\<lambda>pages.
                 wbind (wlift (py_getitem result (PStr ''title''))) (\<lambda>title.
                 wbind (get_label_and_description_for_id net title) (\<lambda>candidate.
                 wret (pages @ [candidate])))))
               (wret []) results) (\<lambda>pages.
        wret (PList pages)))))"

subsection \<open>The retrieval-augmented compiler\<close>

text \<open>Lines 271--275 of \<open>retrieval_augmented_EL_prompt_compiler.py\<close>: the candidates of an
  entity by the strategy of \<open>--candidate_strategy\<close>.  With neither strategy the local
  variable keeps the value it had (\<open>cur\<close>, \<open>None\<close> when still unbound).\<close>

definition entity_candidates :: "net \<Rightarrow> string \<Rightarrow> pyval \<Rightarrow> pyval option \<Rightarrow> pyval option wm" where
  "entity_candidates net strategy extracted_component cur =
     (if strategy = ''string_search''
      then wbind (wikidata_string_search net extracted_component ''entity'') (\<lambda>c. wret (Some c))
      else if strategy = ''page_search''
      then wbind (search_wikidata_pages net extracted_component) (\<lambda>c. wret (Some c))
      else wret cur)"

text \<open>The state of \<open>main\<close>: the prompts so far and the local \<open>candidates\<close>, which keeps its
  value from one entity or relation to the next.\<close>

record ra_state =
  ra_prompts :: "pyval list"
  ra_candidates :: "pyval option"

definition ra_state0 :: ra_state where
  "ra_state0 = \<lparr>ra_prompts = [], ra_candidates = None\<rparr>"

definition ra_prompt :: "nat \<Rightarrow> pyval \<Rightarrow> pyval \<Rightarrow> pyval \<Rightarrow> pyval" where
  "ra_prompt index extracted_component answer prompt =
     PDict [(PStr ''index'', PInt (int index)), (PStr ''entity to disambiguate'', extracted_component),
            (PStr ''correct answer'', answer), (PStr ''prompt'', prompt)]"

text \<open>Lines 269--281: one entity of an instance.\<close>

definition ra_entity_step :: "net \<Rightarrow> prompt_format \<Rightarrow> string \<Rightarrow> nat \<Rightarrow> pyval \<Rightarrow> ra_state \<Rightarrow> pyval \<times> pyval \<Rightarrow> ra_state wm" where
  "ra_entity_step net fmt strategy index text st ev =
     (case ev of (e, v) \<Rightarrow>
      wbind (wlift (py_getitem v (PStr ''label''))) (\<lambda>extracted_component.
      wbind (entity_candidates net strategy extracted_component (ra_candidates st)) (\<lambda>c.
      wbind (wlift (pbind (read_local c) dumps_val)) (\<lambda>candidates.
      wbind (wlift (fmt text extracted_component candidates)) (\<lambda>prompt.
      wret \<lparr>ra_prompts = ra_prompts st @ [ra_prompt index extracted_component e prompt],
            ra_candidates = Some candidates\<rparr>)))))"

text \<open>Lines 283--290: one relation; the property search is issued twice.\<close>

definition ra_relation_step :: "net \<Rightarrow> prompt_format \<Rightarrow> nat \<Rightarrow> pyval \<Rightarrow> ra_state \<Rightarrow> pyval \<times> pyval \<Rightarrow> ra_state wm" where
  "ra_relation_step net fmt index text st rv =
     (case rv of (r, v) \<Rightarrow>
      wbind (wlift (py_getitem v (PStr ''label''))) (\<lambda>extracted_component.
      wbind (wikidata_string_search net extracted_component ''property'') (\<lambda>_.
      wbind (wikidata_string_search net extracted_component ''property'') (\<lambda>c.
      wbind (wlift (dumps_val c)) (\<lambda>candidates.
      wbind (wlift (fmt text extracted_component candidates)) (\<lambda>prompt.
      wret \<lparr>ra_prompts = ra_prompts st @ [ra_prompt index extracted_component r prompt],
            ra_candidates = Some candidates\<rparr>))))))"

text \<open>Lines 264--290: one instance, with its position in the data.\<close>

definition ra_instance :: "net \<Rightarrow> prompt_format \<Rightarrow> string \<Rightarrow> ra_state \<Rightarrow> nat \<times> pyval \<Rightarrow> ra_state wm" where
  "ra_instance net fmt strategy st iv =
     (case iv of (index, instance) \<Rightarrow>
      wbind (wlift (pbind (pbind (py_getitem instance (PStr ''text'')) py_strip_val) (\<lambda>t. dumps_val (PStr t)))) (\<lambda>text.
      wbind (wlift (py_getitem instance (PStr ''entities''))) (\<lambda>entities.
      wbind (wlift (py_getitem instance (PStr ''properties''))) (\<lambda>relations.
      wbind (wlift (py_items entities)) (\<lambda>es.
      wbind (foldl (\<lambda>m ev. wbind m (\<lambda>st'. ra_entity_step net fmt strategy index text st' ev)) (wret st) es) (\<lambda>st1.
      wbind (wlift (py_items relations)) (\<lambda>rs.
      foldl (\<lambda>m rv. wbind m (\<lambda>st'. ra_relation_step net fmt index text st' rv)) (wret st1) rs)))))))"

text \<open>The loop of \<open>main\<close>, lines 263--290: the prompts written to the output file.\<close>

definition ra_compile_prompts :: "net \<Rightarrow> prompt_format \<Rightarrow> string \<Rightarrow> pyval list \<Rightarrow> pyval list wm" where
  "ra_compile_prompts net fmt strategy data =
     wbind (foldl (\<lambda>m iv. wbind m (\<lambda>st. ra_instance net fmt strategy st iv)) (wret ra_state0) (enumerate 0 data))
       (\<lambda>st. wret (ra_prompts st))"

subsection \<open>The zero-shot compiler\<close>

text \<open>The state of \<open>main\<close> of \<open>no_retrieval_EL_prompt_compiler.py\<close>: the prompts, the
  components without candidates, and the local \<open>canditates\<close>.\<close>

record nr_state =
  nr_prompts :: "pyval list"
  nr_no_candidates :: "pyval list"
  nr_canditates :: "pyval option"

definition nr_state0 :: nr_state where
  "nr_state0 = \<lparr>nr_prompts = [], nr_no_candidates = [], nr_canditates = None\<rparr>"

text \<open>\<open>if canditates is None: no_candidates.append(...)\<close>.\<close>

definition note_missing :: "pyval \<Rightarrow> pyval \<Rightarrow> pyval list \<Rightarrow> pyval list" where
  "note_missing c entry nc = (if c = PNone then nc @ [entry] else nc)"

text \<open>Lines 183--194: one entity; the text is dumped inside the loop.\<close>

definition nr_entity_step :: "net \<Rightarrow> prompt_format \<Rightarrow> string \<Rightarrow> pyval \<Rightarrow> nr_state \<Rightarrow> pyval \<times> pyval \<Rightarrow> nr_state wm" where
  "nr_entity_step net fmt strategy i st ev =
     (case ev of (e, v) \<Rightarrow>
      wbind (wlift (pbind (pbind (py_getitem i (PStr ''text'')) py_strip_val) (\<lambda>t. dumps_val (PStr t)))) (\<lambda>text.
      wbind (wlift (py_getitem v (PStr ''label''))) (\<lambda>extracted_component.
      wbind (entity_candidates net strategy extracted_component (nr_canditates st)) (\<lambda>c.
      wbind (wlift (read_local c)) (\<lambda>canditates.
      wbind (wlift (fmt text extracted_component canditates)) (\<lambda>prompt.
      wret \<lparr>nr_prompts = nr_prompts st @
              [PDict [(PStr ''entity to disambiguate'', extracted_component), (PStr ''correct answer'', e),
                      (PStr ''prompt'', prompt)]],
            nr_no_candidates = note_missing canditates (PTuple [e, extracted_component, PStr ''entity'']) (nr_no_candidates st),
            nr_canditates = Some canditates\<rparr>))))))"

text \<open>Lines 196--203: one relation.\<close>

definition nr_relation_step :: "net \<Rightarrow> prompt_format \<Rightarrow> pyval \<Rightarrow> nr_state \<Rightarrow> pyval \<times> pyval \<Rightarrow> nr_state wm" where
  "nr_relation_step net fmt i st rv =
     (case rv of (r, v) \<Rightarrow>
      wbind (wlift (pbind (pbind (py_getitem i (PStr ''text'')) py_strip_val) (\<lambda>t. dumps_val (PStr t)))) (\<lambda>text.
      wbind (wlift (py_getitem v (PStr ''label''))) (\<lambda>extracted_component.
      wbind (wikidata_string_search net extracted_component ''property'') (\<lambda>canditates.
      wbind (wlift (fmt text extracted_component canditates)) (\<lambda>prompt.
      wret \<lparr>nr_prompts = nr_prompts st @
              [PDict [(PStr ''relation to disambiguate'', extracted_component), (PStr ''correct answer'', r),
                      (PStr ''prompt'', prompt)]],
            nr_no_candidates = note_missing canditates (PTuple [r, extracted_component, PStr ''relation'']) (nr_no_candidates st),
            nr_canditates = Some canditates\<rparr>)))))"

text \<open>Lines 180--203: one instance; the loop of \<open>main\<close> gives the prompts and the list
  written to \<open>no_candidates_found_<strategy>.json\<close>.\<close>

definition nr_instance :: "net \<Rightarrow> prompt_format \<Rightarrow> string \<Rightarrow> nr_state \<Rightarrow> pyval \<Rightarrow> nr_state wm" where
  "nr_instance net fmt strategy st i =
     wbind (wlift (py_getitem i (PStr ''entities''))) (\<lambda>entities.
     wbind (wlift (py_getitem i (PStr ''properties''))) (\<lambda>relations.
     wbind (wlift (py_items entities)) (\<lambda>es.
     wbind (foldl (\<lambda>m ev. wbind m (\<lambda>st'. nr_entity_step net fmt strategy i st' ev)) (wret st) es) (\<lambda>st1.
     wbind (wlift (py_items relations)) (\<lambda>rs.
     foldl (\<lambda>m rv. wbind m (\<lambda>st'. nr_relation_step net fmt i st' rv)) (wret st1) rs)))))"

definition nr_compile_prompts :: "net \<Rightarrow> prompt_format \<Rightarrow> string \<Rightarrow> pyval list \<Rightarrow> (pyval list \<times> pyval list) wm" where
  "nr_compile_prompts net fmt strategy data =
     wbind (foldl (\<lambda>m i. wbind m (\<lambda>st. nr_instance net fmt strategy st i)) (wret nr_state0) data)
       (\<lambda>st. wret (nr_prompts st, nr_no_candidates st))"

subsection \<open>Prompts for the extracted entities and relations\<close>

text \<open>\<open>get_wikidata_candidates\<close>, lines 42--79 of \<open>make_EL_prompts_after_KE.py\<close>: no
  retry.  For an entity the parameters are a page search for the fixed term
  \<open>"paradox"\<close>; the answer is then read like an answer of \<open>wbsearchentities\<close>.\<close>

definition get_wikidata_candidates :: "net \<Rightarrow> pyval \<Rightarrow> string \<Rightarrow> pyval wm" where
  "get_wikidata_candidates net query_string quert_type =
     (if quert_type = ''entity'' then
        wbind (wrequest net (RPages (PStr ''paradox'') 10)) (\<lambda>data. wlift (string_search_results data))
      else if quert_type = ''property'' then
        wbind (wrequest net (RSearchTop ''property'' query_string)) (\<lambda>data. wlift (string_search_results data))
      else wlift (Inl NameError))"

text \<open>\<open>list(set(xs))\<close>: \<open>TypeError\<close> for an unhashable item, else the distinct items in the
  order \<open>set_order\<close> of the set's iteration.\<close>

definition list_of_set :: "(pyval list \<Rightarrow> pyval list) \<Rightarrow> pyval list \<Rightarrow> pyval list pyres" where
  "list_of_set set_order xs = (if list_all hashable xs then Inr (set_order (remdups xs)) else Inl TypeError)"

text \<open>Lines 156--165: the distinct subjects and objects, and the distinct predicates, of the
  triples the LLM generated, read from the generation with its code fence removed.\<close>

definition extracted_components :: "(pyval list \<Rightarrow> pyval list) \<Rightarrow> pyval \<Rightarrow> (pyval list \<times> pyval list) pyres" where
  "extracted_components set_order e =
     pbind (pbind (py_getitem e (PStr ''extraction'')) py_strip_val) (\<lambda>t.
     pbind (json_loads (py_replace ''```'' [] (py_replace ''```json'' [] (py_replace [nl] [] t)))) (\<lambda>extracted_triples.
     pbind (py_iter extracted_triples) (\<lambda>ts.
     pbind (pfoldl (\<lambda>(ents, rels) triple.
              pbind (py_getitem triple (PStr ''subject'')) (\<lambda>subj.
              pbind (py_getitem triple (PStr ''object'')) (\<lambda>obj.
              pbind (py_getitem triple (PStr ''predicate'')) (\<lambda>pred.
                Inr (ents @ [subj, obj], rels @ [pred]))))) ([], []) ts) (\<lambda>(ents, rels).
     pbind (list_of_set set_order ents) (\<lambda>ents'.
     pbind (list_of_set set_order rels) (\<lambda>rels'. Inr (ents', rels')))))))"

text \<open>The prompts and the components without candidates, as \<open>main\<close> collects them.\<close>

type_synonym ke_state = "pyval list \<times> pyval list"

text \<open>Lines 167--175: one entity of item \<open>i\<close>.\<close>

definition ke_entity_step :: "net \<Rightarrow> prompt_format \<Rightarrow> nat \<Rightarrow> pyval \<Rightarrow> ke_state \<Rightarrow> pyval \<Rightarrow> ke_state wm" where
  "ke_entity_step net fmt i r st entity =
     (case st of (prompts, no_candidates) \<Rightarrow>
      wbind (wlift (py_getitem r (PStr ''text''))) (\<lambda>text.
      wbind (get_wikidata_candidates net entity ''entity'') (\<lambda>canditates.
      wbind (wlift (fmt text entity canditates)) (\<lambda>prompt.
      wret (prompts @ [PDict [(PStr ''index'', PInt (int i)), (PStr ''entity to disambiguate'', entity),
                              (PStr ''prompt'', prompt)]],
            note_missing canditates (PTuple [entity, PStr ''entity'']) no_candidates)))))"

text \<open>Lines 177--184: one relation of item \<open>i\<close>.\<close>

definition ke_relation_step :: "net \<Rightarrow> prompt_format \<Rightarrow> nat \<Rightarrow> pyval \<Rightarrow> ke_state \<Rightarrow> pyval \<Rightarrow> ke_state wm" where
  "ke_relation_step net fmt i r st relation =
     (case st of (prompts, no_candidates) \<Rightarrow>
      wbind (wlift (py_getitem r (PStr ''text''))) (\<lambda>text.
      wbind (get_wikidata_candidates net relation ''property'') (\<lambda>canditates.
      wbind (wlift (fmt text relation canditates)) (\<lambda>prompt.
      wret (prompts @ [PDict [(PStr ''index'', PInt (int i)), (PStr ''relation to disambiguate'', relation),
                              (PStr ''prompt'', prompt)]],
            note_missing canditates (PTuple [relation, PStr ''relation'']) no_candidates)))))"

text \<open>Lines 152--184: the generations paired with the gold instances by \<open>zip\<close>.\<close>

definition ke_item :: "net \<Rightarrow> prompt_format \<Rightarrow> (pyval list \<Rightarrow> pyval list) \<Rightarrow> ke_state \<Rightarrow> nat \<times> pyval \<times> pyval \<Rightarrow> ke_state wm" where
  "ke_item net fmt set_order st ier =
     (case ier of (i, e, r) \<Rightarrow>
      wbind (wlift (extracted_components set_order e)) (\<lambda>(ents, rels).
      wbind (foldl (\<lambda>m entity. wbind m (\<lambda>st'. ke_entity_step net fmt i r st' entity)) (wret st) ents) (\<lambda>st1.
      foldl (\<lambda>m relation. wbind m (\<lambda>st'. ke_relation_step net fmt i r st' relation)) (wret st1) rels)))"

definition ke_compile_prompts :: "net \<Rightarrow> prompt_format \<Rightarrow> (pyval list \<Rightarrow> pyval list) \<Rightarrow> pyval list \<Rightarrow> pyval list \<Rightarrow> ke_state wm" where
  "ke_compile_prompts net fmt set_order extraction gold =
     foldl (\<lambda>m ier. wbind m (\<lambda>st. ke_item net fmt set_order st ier)) (wret ([], [])) (enumerate 0 (zip extraction gold))"


subsection \<open>What the lemmas are about\<close>

text \<open>The targets of an instance, in the order the compilers visit them: the identifiers of
  its entities, then of its relations.\<close>

definition el_targets :: "pyval \<Rightarrow> pyval list" where
  "el_targets i =
     (case (py_getitem i (PStr ''entities''), py_getitem i (PStr ''properties'')) of
        (Inr (PDict es), Inr (PDict rs)) \<Rightarrow> map fst es @ map fst rs
      | _ \<Rightarrow> [])"

text \<open>The index and the correct answer a prompt record carries.\<close>

definition prompt_key :: "pyval \<Rightarrow> pyval pyres \<times> pyval pyres" where
  "prompt_key p = (py_getitem p (PStr ''index''), py_getitem p (PStr ''correct answer''))"

definition ra_expected :: "pyval list \<Rightarrow> (pyval pyres \<times> pyval pyres) list" where
  "ra_expected data = concat (map (\<lambda>(k, i). map (\<lambda>t. (Inr (PInt (int k)), Inr t)) (el_targets i)) (enumerate 0 data))"

text \<open>An entry of \<open>no_candidates\<close> made for a relation.\<close>

definition is_relation_entry :: "pyval \<Rightarrow> bool" where
  "is_relation_entry x = (case x of PTuple [r, c, k] \<Rightarrow> k = PStr ''relation'' | _ \<Rightarrow> False)"

text \<open>Every prompt for an entity has its entity among the components without candidates.\<close>

definition entity_prompt_missing :: "pyval list \<Rightarrow> pyval \<Rightarrow> bool" where
  "entity_prompt_missing nc p =
     (case py_getitem p (PStr ''entity to disambiguate'') of
        Inr x \<Rightarrow> PTuple [x, PStr ''entity''] \<in> set nc
      | Inl e \<Rightarrow> True)"

definition ke_missing_ok :: "ke_state \<Rightarrow> bool" where
  "ke_missing_ok st = (case st of (prompts, nc) \<Rightarrow> list_all (entity_prompt_missing nc) prompts)"

text \<open>The answers of the page search have the shape of the MediaWiki query API: a dictionary
  whose results are under \<open>query\<close>, with no top-level key \<open>search\<close>.\<close>

definition mediawiki_answers :: "net \<Rightarrow> bool" where
  "mediawiki_answers net =
     (\<forall>n. \<exists>kvs. net n (RPages (PStr ''paradox'') 10) = Inr (PDict kvs) \<and> PStr ''search'' \<notin> fst ` set kvs)"

subsection \<open>The Wikidata functions\<close>

lemma wp_search_wikidata_pages: "wp (search_wikidata_pages net q) (\<lambda>v. \<exists>xs. v = PList xs)"
  unfolding search_wikidata_pages_def
  by (intro wp_intros wp_wbind) simp

text \<open>A label lookup on a service whose \<open>wbgetentities\<close> always fails: three requests and
  two sleeps of two seconds, then the exception.\<close>

lemma label_lookup_fails:
  assumes "\<forall>n x. net n (RLabels x) = Inl RequestException"
  shows "get_label_and_description_for_id net t s =
           (Inl RequestException, s\<lparr>w_trace := w_trace s @ replicate 3 (RLabels t), w_slept := w_slept s + 4\<rparr>)"
  using assms by (simp add: get_label_and_description_for_id_def retry_3 numeral_2_eq_2) (simp add: eval_nat_numeral)

text \<open>One attempt of the page search when the first page's label lookup fails: the later
  pages are not looked up.\<close>

lemma page_attempt_fails:
  assumes "\<forall>n. net n (RPages q 10) = Inr (PDict [(PStr ''query'', PDict [(PStr ''search'', PList (PDict [(PStr ''title'', t)] # rest))])])"
      and "\<forall>n x. net n (RLabels x) = Inl RequestException"
  shows "wbind (wrequest net (RPages q 10)) (\<lambda>data.
        wbind (wlift (page_results data)) (\<lambda>results.
        wbind (foldl (\<lambda>m result. wbind m (\<lambda>pages.
                 wbind (wlift (py_getitem result (PStr ''title''))) (\<lambda>title.
                 wbind (get_label_and_description_for_id net title) (\<lambda>candidate.
                 wret (pages @ [candidate])))))
               (wret []) results) (\<lambda>pages.
        wret (PList pages)))) s =
     (Inl RequestException, s\<lparr>w_trace := w_trace s @ RPages q 10 # replicate 3 (RLabels t), w_slept := w_slept s + 4\<rparr>)"
  using assms
  by (simp add: page_results_def label_lookup_fails foldl_wbind_exc)

text \<open>The nested retries multiply: when the page search finds a page and every label lookup
  fails, \<open>search_wikidata_pages\<close> tries three times, each time with three label requests, and
  raises after twelve requests and sixteen seconds of sleep.\<close>

theorem search_pages_label_failure:
  assumes "\<forall>n. net n (RPages q 10) = Inr (PDict [(PStr ''query'', PDict [(PStr ''search'', PList (PDict [(PStr ''title'', t)] # rest))])])"
      and "\<forall>n x. net n (RLabels x) = Inl RequestException"
  shows "search_wikidata_pages net q s =
           (Inl RequestException, s\<lparr>w_trace := w_trace s @ concat (replicate 3 (RPages q 10 # replicate 3 (RLabels t))),
                                    w_slept := w_slept s + 16\<rparr>)"
  using page_attempt_fails [OF assms]
  by (simp add: search_wikidata_pages_def retry_3 numeral_2_eq_2 retry_loop_Suc_exc del: wbind_apply retry_loop.simps(2))
     (simp add: eval_nat_numeral)

subsection \<open>The retrieval-augmented compiler\<close>

lemma prompt_key_ra_prompt [simp]: "prompt_key (ra_prompt k c a p) = (Inr (PInt (int k)), Inr a)"
  by (simp add: prompt_key_def ra_prompt_def)

lemma ra_entity_step_key:
  "wp (ra_entity_step net fmt strategy k text st ev)
      (\<lambda>st'. map prompt_key (ra_prompts st') = map prompt_key (ra_prompts st) @ [(Inr (PInt (int k)), Inr (fst ev))])"
  unfolding ra_entity_step_def by (cases ev) (auto intro!: wp_intros wp_wbind)

lemma ra_relation_step_key:
  "wp (ra_relation_step net fmt k text st rv)
      (\<lambda>st'. map prompt_key (ra_prompts st') = map prompt_key (ra_prompts st) @ [(Inr (PInt (int k)), Inr (fst rv))])"
  unfolding ra_relation_step_def by (cases rv) (auto intro!: wp_intros wp_wbind)

lemma ra_instance_key:
  "wp (ra_instance net fmt strategy st (k, i))
      (\<lambda>st'. map prompt_key (ra_prompts st') = map prompt_key (ra_prompts st) @ map (\<lambda>t. (Inr (PInt (int k)), Inr t)) (el_targets i))"
proof -
  have "wp (wbind (foldl (\<lambda>m ev. wbind m (\<lambda>st'. ra_entity_step net fmt strategy k tx st' ev)) (wret st) es) (\<lambda>st1.
          wbind (wlift (py_items relations)) (\<lambda>rs.
          foldl (\<lambda>m rv. wbind m (\<lambda>st'. ra_relation_step net fmt k tx st' rv)) (wret st1) rs)))
          (\<lambda>st'. map prompt_key (ra_prompts st') = map prompt_key (ra_prompts st) @ map (\<lambda>t. (Inr (PInt (int k)), Inr t)) (el_targets i))"
    if "py_getitem i (PStr ''entities'') = Inr entities" "py_getitem i (PStr ''properties'') = Inr relations"
       "py_items entities = Inr es" for tx entities relations es
  proof (rule wp_wbind_post [OF wp_foldl_append [OF wp_wret ra_entity_step_key]])
    fix st1 :: ra_state assume st1: "map prompt_key (ra_prompts st1) = map prompt_key (ra_prompts st) @ concat (map (\<lambda>ev. [(Inr (PInt (int k)), Inr (fst ev))]) es)"
    show "wp (wbind (wlift (py_items relations)) (\<lambda>rs. foldl (\<lambda>m rv. wbind m (\<lambda>st'. ra_relation_step net fmt k tx st' rv)) (wret st1) rs))
          (\<lambda>st'. map prompt_key (ra_prompts st') = map prompt_key (ra_prompts st) @ map (\<lambda>t. (Inr (PInt (int k)), Inr t)) (el_targets i))"
    proof (rule wp_wbind_wlift)
      fix rs assume rs: "py_items relations = Inr rs"
      from that rs have et: "el_targets i = map fst es @ map fst rs"
        by (cases entities; cases relations) (auto simp: el_targets_def)
      have "wp (foldl (\<lambda>m rv. wbind m (\<lambda>st'. ra_relation_step net fmt k tx st' rv)) (wret st1) rs)
          (\<lambda>st'. map prompt_key (ra_prompts st') = map prompt_key (ra_prompts st1) @ concat (map (\<lambda>rv. [(Inr (PInt (int k)), Inr (fst rv))]) rs))"
        by (rule wp_foldl_append) (auto intro: wp_wret ra_relation_step_key)
      with st1 et show "wp (foldl (\<lambda>m rv. wbind m (\<lambda>st'. ra_relation_step net fmt k tx st' rv)) (wret st1) rs)
          (\<lambda>st'. map prompt_key (ra_prompts st') = map prompt_key (ra_prompts st) @ map (\<lambda>t. (Inr (PInt (int k)), Inr t)) (el_targets i))"
        by (simp add: concat_map_singleton comp_def)
    qed
  qed simp
  then show ?thesis unfolding ra_instance_def by (auto intro!: wp_intros)
qed

text \<open>C21: whatever Wikidata answers, the prompts the retrieval-augmented compiler writes
  are one per entity and then one per relation of each instance, in the order of the data:
  their indices and correct answers are the instance's position and the identifiers of its
  entities and relations.\<close>

theorem ra_compile_prompts_keys:
  "wp (ra_compile_prompts net fmt strategy data) (\<lambda>prompts. map prompt_key prompts = ra_expected data)"
  unfolding ra_compile_prompts_def ra_expected_def
  by (rule wp_wbind_post [OF wp_foldl_append [where f = "\<lambda>st. map prompt_key (ra_prompts st)"]])
     (auto intro: wp_wret ra_instance_key [where k = "fst iv" and i = "snd iv" for iv, simplified] simp: ra_state0_def split_def)

text \<open>Every relation costs two identical property searches: the first answer is discarded.\<close>

theorem ra_relation_double_search:
  assumes "py_getitem v (PStr ''label'') = Inr ec"
      and "\<forall>n. net n (RSearchTop ''property'' ec) = Inr data"
      and "string_search_results data = Inr c" "dumps_val c = Inr cs" "fmt text ec cs = Inr p"
  shows "ra_relation_step net fmt k text st (r, v) s =
           (Inr \<lparr>ra_prompts = ra_prompts st @ [ra_prompt k ec r p], ra_candidates = Some cs\<rparr>,
            s\<lparr>w_trace := w_trace s @ [RSearchTop ''property'' ec, RSearchTop ''property'' ec]\<rparr>)"
  using assms
  by (simp add: ra_relation_step_def wikidata_string_search_def retry_3 numeral_2_eq_2)

subsection \<open>The zero-shot compiler\<close>

lemma wp_entity_candidates_page:
  "wp (entity_candidates net ''page_search'' ec cur) (\<lambda>c. \<exists>v. c = Some v \<and> v \<noteq> PNone)"
  unfolding entity_candidates_def
  by (auto intro!: wp_wbind_post [OF wp_search_wikidata_pages] wp_intros)

lemma nr_entity_step_page:
  "list_all is_relation_entry (nr_no_candidates st) \<Longrightarrow>
   wp (nr_entity_step net fmt ''page_search'' i st ev) (\<lambda>st'. list_all is_relation_entry (nr_no_candidates st'))"
  unfolding nr_entity_step_def
  by (auto intro!: wp_intros wp_wbind_post [OF wp_entity_candidates_page] simp: read_local_def note_missing_def)

lemma nr_relation_step_inv:
  "list_all is_relation_entry (nr_no_candidates st) \<Longrightarrow>
   wp (nr_relation_step net fmt i st rv) (\<lambda>st'. list_all is_relation_entry (nr_no_candidates st'))"
  unfolding nr_relation_step_def
  by (auto intro!: wp_intros wp_wbind simp: note_missing_def is_relation_entry_def)

lemma nr_instance_page:
  "list_all is_relation_entry (nr_no_candidates st) \<Longrightarrow>
   wp (nr_instance net fmt ''page_search'' st i) (\<lambda>st'. list_all is_relation_entry (nr_no_candidates st'))"
  unfolding nr_instance_def
  by (intro wp_intros wp_wbind_inv wp_foldl nr_entity_step_page nr_relation_step_inv) auto

text \<open>C19: with the page-search strategy (the default) no entity is ever listed in
  \<open>no_candidates_found_page_search.json\<close>: \<open>search_wikidata_pages\<close> returns a list, empty
  when nothing is found, never \<open>None\<close>, so only relations, searched by string, are listed.\<close>

theorem nr_page_search_no_entity_missing:
  "wp (nr_compile_prompts net fmt ''page_search'' data) (\<lambda>(prompts, no_candidates). list_all is_relation_entry no_candidates)"
  unfolding nr_compile_prompts_def
  by (rule wp_wbind_post [OF wp_foldl [where I = "\<lambda>st. list_all is_relation_entry (nr_no_candidates st)"]])
     (auto intro: wp_wbind_inv nr_instance_page wp_intros simp: nr_state0_def)

subsection \<open>Prompts for the extracted components\<close>

text \<open>C2: the entity search of \<open>make_EL_prompts_after_KE.py\<close> never sends the entity: the
  result and the requests of \<open>get_wikidata_candidates\<close> for an entity are the same for every
  entity.\<close>

theorem get_wikidata_candidates_ignores_entity:
  "get_wikidata_candidates net q ''entity'' = get_wikidata_candidates net q' ''entity''"
  by (simp add: get_wikidata_candidates_def)

lemma entity_prompt_missing_mono:
  "entity_prompt_missing nc p \<Longrightarrow> entity_prompt_missing (nc @ ys) p"
  by (auto simp: entity_prompt_missing_def split: sum.splits)

lemma wp_entity_candidates_none:
  assumes "mediawiki_answers net"
  shows "wp (get_wikidata_candidates net q ''entity'') (\<lambda>c. c = PNone)"
  unfolding wp_def
proof
  fix s :: wstate
  from assms obtain kvs where "net (length (w_trace s)) (RPages (PStr ''paradox'') 10) = Inr (PDict kvs)"
    and "PStr ''search'' \<notin> fst ` set kvs"
    unfolding mediawiki_answers_def by blast
  then show "case fst (get_wikidata_candidates net q ''entity'' s) of Inl e \<Rightarrow> True | Inr c \<Rightarrow> c = PNone"
    by (simp add: get_wikidata_candidates_def string_search_results_def)
qed

lemma ke_entity_step_ok:
  "mediawiki_answers net \<Longrightarrow> ke_missing_ok st \<Longrightarrow> wp (ke_entity_step net fmt i r st entity) ke_missing_ok"
  unfolding ke_entity_step_def
  by (cases st)
     (auto intro!: wp_intros wp_wbind_post [OF wp_entity_candidates_none]
           simp: ke_missing_ok_def note_missing_def list_all_iff entity_prompt_missing_mono
                 entity_prompt_missing_def split: sum.splits)

lemma ke_relation_step_ok:
  "ke_missing_ok st \<Longrightarrow> wp (ke_relation_step net fmt i r st relation) ke_missing_ok"
  unfolding ke_relation_step_def
  by (cases st)
     (auto intro!: wp_intros wp_wbind
           simp: ke_missing_ok_def note_missing_def list_all_iff entity_prompt_missing_mono
                 entity_prompt_missing_def split: sum.splits)

lemma ke_item_ok:
  "mediawiki_answers net \<Longrightarrow> ke_missing_ok st \<Longrightarrow> wp (ke_item net fmt set_order st ier) ke_missing_ok"
  unfolding ke_item_def
  by (intro wp_intros wp_wbind_inv wp_foldl ke_entity_step_ok ke_relation_step_ok) auto

text \<open>C4: when the page search answers in the shape of the MediaWiki query API, the
  results under \<open>query\<close>, \<open>get_wikidata_candidates\<close> looks for them under \<open>search\<close> and
  finds none: every entity prompt of \<open>make_EL_prompts_after_KE.py\<close> has its entity listed
  in \<open>no_candidates\<close>.\<close>

theorem ke_entities_without_candidates:
  "mediawiki_answers net \<Longrightarrow>
   wp (ke_compile_prompts net fmt set_order extraction gold) ke_missing_ok"
  unfolding ke_compile_prompts_def
  by (intro wp_foldl wp_wbind_inv ke_item_ok wp_intros) (auto simp: ke_missing_ok_def)

theorem ke_entities_without_candidates_witness:
  "wp (ke_compile_prompts (\<lambda>n r. Inr (PDict [(PStr ''batchcomplete'', PStr ''''),
                                              (PStr ''query'', PDict [(PStr ''search'', PList [])])]))
         (\<lambda>text c cands. Inr (PStr ''prompt'')) id
         [PDict [(PStr ''extraction'', PStr ''[{\"subject\": \"Paris\", \"predicate\": \"capital of\", \"object\": \"France\"}]'')]]
         [PDict [(PStr ''text'', PStr ''Paris is the capital of France.'')]])
      ke_missing_ok"
  using ke_entities_without_candidates [of "\<lambda>n r. Inr (PDict [(PStr ''batchcomplete'', PStr ''''),
                                              (PStr ''query'', PDict [(PStr ''search'', PList [])])])"]
  by (simp add: mediawiki_answers_def)

text \<open>The whole script on one generation: the relation search, whose answer has no results
  either, lists the relation too.\<close>

theorem ke_compile_example: "fst (ke_compile_prompts (\<lambda>n r. Inr (PDict [(PStr ''batchcomplete'', PStr ''''),
                                              (PStr ''query'', PDict [(PStr ''search'', PList [])])]))
         (\<lambda>text c cands. Inr (PStr ''prompt'')) id
         [PDict [(PStr ''extraction'', PStr ''[{\"subject\": \"Paris\", \"predicate\": \"capital of\", \"object\": \"France\"}]'')]]
         [PDict [(PStr ''text'', PStr ''Paris is the capital of France.'')]] \<lparr>w_trace = [], w_slept = 0\<rparr>) =
   Inr ([PDict [(PStr ''index'', PInt 0), (PStr ''entity to disambiguate'', PStr ''Paris''), (PStr ''prompt'', PStr ''prompt'')],
         PDict [(PStr ''index'', PInt 0), (PStr ''entity to disambiguate'', PStr ''France''), (PStr ''prompt'', PStr ''prompt'')],
         PDict [(PStr ''index'', PInt 0), (PStr ''relation to disambiguate'', PStr ''capital of''), (PStr ''prompt'', PStr ''prompt'')]],
        [PTuple [PStr ''Paris'', PStr ''entity''], PTuple [PStr ''France'', PStr ''entity''],
         PTuple [PStr ''capital of'', PStr ''relation'']])"
  by (simp add: eval_simps ke_compile_prompts_def ke_item_def extracted_components_def ke_entity_step_def ke_relation_step_def get_wikidata_candidates_def string_search_results_def list_of_set_def note_missing_def)

end
