(* ===== verification/PromptTemplates.thy ===== *)
theory PromptTemplates
  imports ELPrompts "HOL-Library.Multiset"
begin

text \<open>
  The prompt templates and the knowledge-extraction prompt compilers.  The template creators
  (\<open>src/template_creator.py\<close>, \<open>src/Entity_Linking/prompts/template_creator.py\<close>) write the
  components of a LangChain template: a prefix, the \<open>formatter\<close> of one demonstration with
  its \<open>example variables\<close>, and a suffix with the \<open>input variables\<close>.  LangChain fills them
  with Python's \<open>str.format\<close> (its \<open>f-string\<close> template format), modelled here from the
  documentation of \<open>string.Formatter\<close>: \<open>fmt_parse\<close> splits a template into literal
  characters and replacement fields, \<open>{{\<close> and \<open>}}\<close> standing for a brace, and
  \<open>str_format\<close> substitutes the keyword arguments.  \<open>FewShotPromptTemplate.format\<close> formats
  each selected demonstration with the formatter, joins prefix, demonstrations and suffix
  with the example separator into one template and formats that again with the keyword
  arguments (\<open>fewshot_format\<close>): the text of a demonstration is read a second time as a
  template.  Which demonstrations the example selector (embeddings and a vector store) picks
  is a parameter.  Fields with a conversion or a format specification (\<open>{x!r}\<close>,
  \<open>{x:>10}\<close>) or with attribute or index access, which no template of the repository has,
  are not modelled: the whole text between the braces is the field name.
\<close>

subsection \<open>\<open>str.format\<close> with keyword arguments\<close>

datatype fpiece = FLit char | FField string

text \<open>\<open>string.Formatter.parse\<close>: a single \<open>}\<close>, a \<open>{\<close> without its \<open>}\<close>, and a \<open>{\<close> inside
  a field name raise \<open>ValueError\<close>.\<close>

function fmt_parse :: "string \<Rightarrow> fpiece list pyres" where
  "fmt_parse [] = Inr []"
| "fmt_parse (c # cs) =
     (if c = CHR ''{'' \<and> cs \<noteq> [] \<and> hd cs = CHR ''{'' then pbind (fmt_parse (tl cs)) (\<lambda>ps. Inr (FLit c # ps))
      else if c = CHR ''}'' \<and> cs \<noteq> [] \<and> hd cs = CHR ''}'' then pbind (fmt_parse (tl cs)) (\<lambda>ps. Inr (FLit c # ps))
      else if c = CHR ''}'' then Inl ValueError
      else if c = CHR ''{'' then
        (let name = takeWhile (\<lambda>d. d \<noteq> CHR ''}'') cs in
         if length name = length cs \<or> CHR ''{'' \<in> set name then Inl ValueError
         else pbind (fmt_parse (drop (Suc (length name)) cs)) (\<lambda>ps. Inr (FField name # ps)))
      else pbind (fmt_parse cs) (\<lambda>ps. Inr (FLit c # ps)))"
  by pat_completeness auto
termination
  by (relation "measure length") (auto simp: length_takeWhile_le le_imp_less_Suc)

text \<open>A field: an empty or numeric name is a positional argument, of which there are none
  (\<open>IndexError\<close>); a name that is not a keyword raises \<open>KeyError\<close>; a value is written
  as \<open>str\<close> writes it.\<close>

definition fmt_field :: "(string \<times> pyval) list \<Rightarrow> string \<Rightarrow> string pyres" where
  "fmt_field kwargs name =
     (if name = [] \<or> list_all is_digit name then Inl IndexError
      else case map_of kwargs name of None \<Rightarrow> Inl KeyError | Some v \<Rightarrow> Inr (py_str v))"

definition str_format :: "string \<Rightarrow> (string \<times> pyval) list \<Rightarrow> string pyres" where
  "str_format template kwargs =
     pbind (fmt_parse template) (\<lambda>ps.
     pbind (pmap (\<lambda>p. case p of FLit c \<Rightarrow> Inr [c] | FField n \<Rightarrow> fmt_field kwargs n) ps) (\<lambda>ss.
       Inr (concat ss)))"

text \<open>The variables of a template, as LangChain's \<open>get_template_variables\<close> finds them.\<close>

definition template_fields :: "string \<Rightarrow> string list pyres" where
  "template_fields template = pbind (fmt_parse template) (\<lambda>ps. Inr (remdups [n. FField n \<leftarrow> ps]))"

text \<open>\<open>FewShotPromptTemplate.format\<close> with the separator \<open>"\n"\<close>: each selected demonstration
  restricted to the example variables (\<open>KeyError\<close> for a missing one) and formatted, the
  non-empty pieces joined, the result formatted with the keyword arguments.\<close>

definition example_kwargs :: "string list \<Rightarrow> pyval \<Rightarrow> (string \<times> pyval) list pyres" where
  "example_kwargs example_variables e =
     pmap (\<lambda>k. pbind (py_getitem e (PStr k)) (\<lambda>v. Inr (k, v))) example_variables"

definition fewshot_format ::
  "string \<Rightarrow> string list \<Rightarrow> string \<Rightarrow> string \<Rightarrow> pyval list \<Rightarrow> (string \<times> pyval) list \<Rightarrow> string pyres" where
  "fewshot_format prefix example_variables formatter suffix examples kwargs =
     pbind (pmap (example_kwargs example_variables) examples) (\<lambda>exs.
     pbind (pmap (str_format formatter) exs) (\<lambda>example_strings.
       str_format (py_join [nl] (filter (\<lambda>p. p \<noteq> []) ([prefix] @ example_strings @ [suffix]))) kwargs))"

text \<open>\<open>s.replace('{', '{{').replace('}', '}}')\<close>.\<close>

definition escape_braces :: "string \<Rightarrow> string" where
  "escape_braces s = py_replace ''}'' ''}}'' (py_replace ''{'' ''{{'' s)"

subsection \<open>The template creators\<close>

text \<open>\<open>prompt_component_creator\<close> of \<open>src/template_creator.py\<close> (lines 10--46): the
  one-shot ReAct template of the knowledge-extraction experiments, one definition per local
  variable.  The triple-quoted strings keep their line breaks and the indentation of their
  continuation lines.\<close>

definition ke_prefix :: string where
  "ke_prefix =
     py_join [nl]
       [''Your task is extracting knowledge triples from text. A knowledge triple consists of three elements: subject - predicate - object. '',
        ''    Subjects and objects are entities and the predicate is the relation between them. Let's use an example:'']"

definition ke_formatter :: string where
  "ke_formatter =
     py_join [nl]
       [''Text: {Text} Thought 1: I need to determine the entities. Act 1: Named entity extraction. Observation 1: {Entities} '',
        ''    Thought 2: What type of entities do I have?'',
        ''    Act 2: Named entity tagging'',
        ''    Observation 2: {Entity Types}'',
        ''    Thought 3: What are the potential relations between these entities? '',
        ''    Act3: List the potential relations'',
        ''    Observation3: {Relations}'',
        ''    Thought 4: What are the triples?'',
        ''    Act4: Form the triples'',
        ''    Observation4: {Triples}'',
        ''    Thought5: I have extracted knowledge triples from the input text. '',
        ''    Act5: Finish'',
        ''    Observation5: Task is completed.'',
        ''    '']"

definition ke_suffix :: string where
  "ke_suffix =
     ''Before answering the query, think and decide your act. Extract the knowledge triples from the following text. Text: {Text} Your answer: ''"

definition ke_prompt_components :: pyval where
  "ke_prompt_components =
     PDict [(PStr ''prefix'', PStr ke_prefix), (PStr ''formatter'', PStr ke_formatter),
            (PStr ''example variables'', PList (map PStr [''Text'', ''Entities'', ''Relations'', ''Entity Types'', ''Triples''])),
            (PStr ''input variables'', PList [PStr ''Text'']),
            (PStr ''suffix'', PStr ke_suffix)]"

text \<open>\<open>prompt_component_creator\<close> of \<open>src/Entity_Linking/prompts/template_creator.py\<close>
  (lines 10--41): the one-demonstration entity-linking template.\<close>

definition el_prefix :: string where
  "el_prefix =
     py_join [nl]
       [''Entity linking is the process of determining the true identity of an entity or a property extracted from text by linking it to the correct entry in a knowledge base. Given a piece of input text with an extracted component (entity or property) from it and a list of candidates from Wikidata, your goal is to select the candidate that most accurately represents the extracted component based on the contextual information provided in the text. '',
        ''    '']"

definition el_formatter :: string where
  "el_formatter =
     py_join [nl]
       [''Here is an example:'',
        ''        Input text: {text}, '',
        ''        Extracted component: {extracted_component},'',
        ''        Candidates: {candidates},'',
        ''        Correct answer: {correct_answer}'',
        ''    '']"

definition el_suffix :: string where
  "el_suffix =
     py_join [nl]
       [''Now it is time to perform entity linking with the following inputs:'',
        ''        Input text: {text}'',
        ''        Extracted component: {extracted_component}'',
        ''        Candidates: {candidates}'',
        ''        Answer only with the candidate number (wikidata_id) that you think is the correct answer. If none of the candidates match, you can select the option 'None'. Please do not include any additional information or explanation in your answer.'']"

definition el_prompt_components :: pyval where
  "el_prompt_components =
     PDict [(PStr ''prefix'', PStr el_prefix), (PStr ''formatter'', PStr el_formatter),
            (PStr ''example variables'', PList (map PStr [''text'', ''extracted_component'', ''candidates'', ''correct_answer''])),
            (PStr ''input variables'', PList (map PStr [''text'', ''extracted_component'', ''candidates''])),
            (PStr ''suffix'', PStr el_suffix)]"

text \<open>The components \<open>main\<close> reads from the template file (\<open>prompt_dict[...]\<close>): prefix,
  example variables, formatter, input variables and suffix.\<close>

definition pc_string :: "pyval \<Rightarrow> string \<Rightarrow> string pyres" where
  "pc_string d k = pbind (py_getitem d (PStr k)) (\<lambda>v. case v of PStr s \<Rightarrow> Inr s | _ \<Rightarrow> Inl TypeError)"

definition pc_names :: "pyval \<Rightarrow> string \<Rightarrow> string list pyres" where
  "pc_names d k =
     pbind (py_getitem d (PStr k)) (\<lambda>v. pbind (py_iter v) (pmap (\<lambda>x. case x of PStr s \<Rightarrow> Inr s | _ \<Rightarrow> Inl TypeError)))"

text \<open>The few-shot template built from the components, as the retrieval-augmented
  compilers build it: the prompt for the keyword arguments, with the demonstrations the
  selector picks for them.\<close>

definition components_format :: "pyval \<Rightarrow> ((string \<times> pyval) list \<Rightarrow> pyval list) \<Rightarrow> (string \<times> pyval) list \<Rightarrow> string pyres" where
  "components_format prompt_dict select kwargs =
     pbind (pc_string prompt_dict ''prefix'') (\<lambda>prefix.
     pbind (pc_names prompt_dict ''example variables'') (\<lambda>example_variables.
     pbind (pc_string prompt_dict ''formatter'') (\<lambda>formatter.
     pbind (pc_string prompt_dict ''suffix'') (\<lambda>suffix.
       fewshot_format prefix example_variables formatter suffix (select kwargs) kwargs))))"

text \<open>The entity-linking compilers' \<open>few_shot_template.format(text=..., extracted_component=...,
  candidates=...)\<close> with these components, as a prompt format of \<open>ELPrompts\<close>.\<close>

definition el_fewshot :: "pyval \<Rightarrow> ((string \<times> pyval) list \<Rightarrow> pyval list) \<Rightarrow> prompt_format" where
  "el_fewshot prompt_dict select text extracted_component candidates =
     pbind (components_format prompt_dict select
              [(''text'', text), (''extracted_component'', extracted_component), (''candidates'', candidates)])
       (\<lambda>p. Inr (PStr p))"

subsection \<open>The knowledge-extraction prompt compilers\<close>

text \<open>\<open>str(example[k])\<close> stored back under \<open>k\<close>.\<close>

definition str_item :: "pyval \<Rightarrow> string \<Rightarrow> pyval pyres" where
  "str_item d k = pbind (py_getitem d (PStr k)) (\<lambda>v. py_setitem d (PStr k) (PStr (py_str v)))"

text \<open>\<open>x[:2]\<close> on a string, list or tuple.\<close>

fun py_prefix2 :: "pyval \<Rightarrow> pyval pyres" where
  "py_prefix2 (PStr s) = Inr (PStr (py_slice s 0 2))"
| "py_prefix2 (PList xs) = Inr (PList (py_slice xs 0 2))"
| "py_prefix2 (PTuple xs) = Inr (PTuple (py_slice xs 0 2))"
| "py_prefix2 v = Inl TypeError"

text \<open>\<open>get_examples\<close> of \<open>src/1_data_module/2_creating_prompts/no_retrieval_prompt_compiler.py\<close>
  (lines 13--29), one line: the hint (the first two items of each entity), then the
  entities, relations and triples as the text \<open>str\<close> gives.\<close>

definition nr_example :: "string \<Rightarrow> pyval pyres" where
  "nr_example line =
     pbind (json_loads line) (\<lambda>example.
     pbind (py_getitem example (PStr ''Entities'')) (\<lambda>entities.
     pbind (py_iter entities) (\<lambda>es.
     pbind (pmap py_prefix2 es) (\<lambda>hint.
     pbind (py_setitem example (PStr ''Hint'') (PList hint)) (\<lambda>example.
       pfoldl str_item example [''Entities'', ''Relations'', ''Triples'', ''Wiki Triples''])))))"

definition nr_get_examples :: "string list \<Rightarrow> pyval list pyres" where
  "nr_get_examples lines = pmap nr_example lines"

text \<open>\<open>get_examples\<close> of \<open>retrieval_augmented_prompt_compiler.py\<close> (lines 52--73), one line.\<close>

definition ra_example :: "string \<Rightarrow> pyval pyres" where
  "ra_example line =
     pbind (json_loads line) (\<lambda>example.
       pfoldl str_item example [''Entities'', ''Entity Types'', ''Entity wiki ids'', ''Relations'',
         ''Relation wiki ids'', ''Triples'', ''Wiki Triples'', ''Mixed Triples'', ''Corrupted Triples'', ''Explanations''])"

definition ra_get_examples :: "string list \<Rightarrow> pyval list pyres" where
  "ra_get_examples lines = pmap ra_example lines"

text \<open>\<open>sample_examples\<close> (lines 27--49): \<open>random.sample\<close> is the parameter \<open>sample\<close>; a
  sample larger than the population raises \<open>ValueError\<close>.  The result is the pair of files
  written: the remaining examples and the sample.\<close>

definition sample_examples :: "(pyval list \<Rightarrow> nat \<Rightarrow> pyval list) \<Rightarrow> string list \<Rightarrow> nat \<Rightarrow> (pyval list \<times> pyval list) pyres" where
  "sample_examples sample lines sample_size =
     pbind (pmap json_loads lines) (\<lambda>all_examples.
       if length all_examples < sample_size then Inl ValueError
       else (let selected_items = sample all_examples sample_size in
             Inr ([item \<leftarrow> all_examples. item \<notin> set selected_items], selected_items)))"

text \<open>\<open>--sample_exists\<close> is declared with \<open>type=bool\<close>: argparse applies \<open>bool\<close> to the text of
  the argument, true for every non-empty text; the default is \<open>True\<close> (lines 89, 100--102).\<close>

definition sample_exists_arg :: "string option \<Rightarrow> bool" where
  "sample_exists_arg arg = (case arg of None \<Rightarrow> True | Some s \<Rightarrow> s \<noteq> [])"

text \<open>The loop of \<open>main\<close> of both compilers (lines 78--86 of the zero-shot one, 163--169 of the retrieval-augmented one): the prompt of each
  instance's text, \<open>fmt\<close> being the zero-shot or the few-shot template.\<close>

definition ke_prompts :: "((string \<times> pyval) list \<Rightarrow> string pyres) \<Rightarrow> pyval list \<Rightarrow> string list pyres" where
  "ke_prompts fmt data = pmap (\<lambda>instance. pbind (py_getitem instance (PStr ''Text'')) (\<lambda>text. fmt [(''Text'', text)])) data"

text \<open>\<open>read_data\<close> of \<open>src/Entity_Linking/prompts/retrieval_augmented_KE_prompt_compiler.py\<close>
  (lines 26--39), one line: the JSON text of the triples, its braces doubled so that the
  second formatting of the few-shot template gives them back.\<close>

definition escaped_dump :: "pyval \<Rightarrow> string \<Rightarrow> pyval pyres" where
  "escaped_dump d k =
     pbind (py_getitem d (PStr k)) (\<lambda>v. pbind (json_dumps v) (\<lambda>s. py_setitem d (PStr k) (PStr (escape_braces s))))"

definition kd_example :: "string \<Rightarrow> pyval pyres" where
  "kd_example line =
     pbind (json_loads line) (\<lambda>d. pbind (escaped_dump d ''triples'') (\<lambda>d. escaped_dump d ''wiki_triples''))"

definition kd_read_data :: "string list \<Rightarrow> pyval list pyres" where
  "kd_read_data lines = pmap kd_example lines"

text \<open>Its \<open>main\<close> loop (lines 128--137): the prompt of
  each instance's \<open>text\<close>.\<close>

definition kd_prompts :: "((string \<times> pyval) list \<Rightarrow> string pyres) \<Rightarrow> pyval list \<Rightarrow> string list pyres" where
  "kd_prompts fmt data = pmap (\<lambda>instance. pbind (py_getitem instance (PStr ''text'')) (\<lambda>text. fmt [(''text'', text)])) data"


subsection \<open>What the lemmas are about\<close>

text \<open>A text without braces, which \<open>str.format\<close> copies as it is; a demonstration whose
  example variables are present and written without braces.\<close>

definition brace_free :: "string \<Rightarrow> bool" where
  "brace_free s \<longleftrightarrow> CHR ''{'' \<notin> set s \<and> CHR ''}'' \<notin> set s"

definition demo_ok :: "string list \<Rightarrow> pyval \<Rightarrow> bool" where
  "demo_ok example_variables e =
     list_all (\<lambda>k. case py_getitem e (PStr k) of Inr v \<Rightarrow> brace_free (py_str v) | Inl _ \<Rightarrow> False) example_variables"

text \<open>The escape of one character by \<open>escape_braces\<close>.\<close>

definition esc_char :: "char \<Rightarrow> string" where
  "esc_char c = (if c = CHR ''{'' \<or> c = CHR ''}'' then [c, c] else [c])"

text \<open>The variables a component dictionary declares are those its templates use: the
  formatter's are the example variables, the prefix's and the suffix's the input variables,
  as LangChain's template validation requires.\<close>

definition components_ok :: "pyval \<Rightarrow> bool" where
  "components_ok d =
     (case (pc_string d ''prefix'', pc_string d ''formatter'', pc_string d ''suffix'',
            pc_names d ''example variables'', pc_names d ''input variables'') of
        (Inr prefix, Inr formatter, Inr suffix, Inr evs, Inr ivs) \<Rightarrow>
          (case (template_fields formatter, template_fields (prefix @ suffix)) of
             (Inr fs, Inr gs) \<Rightarrow> set fs = set evs \<and> set gs = set ivs
           | _ \<Rightarrow> False)
      | _ \<Rightarrow> False)"

subsection \<open>Escaping braces\<close>

lemma replace_acc_char: "replace_acc [c] new s = concat (map (\<lambda>x. if x = c then new else [x]) s)"
  by (induction s) simp_all

lemma escape_braces_concat: "escape_braces s = concat (map esc_char s)"
proof -
  have "concat (map (\<lambda>x. if x = CHR ''}'' then ''}}'' else [x]) (concat (map (\<lambda>x. if x = CHR ''{'' then ''{{'' else [x]) s)))
        = concat (map esc_char s)"
    by (induction s) (auto simp: esc_char_def)
  then show ?thesis by (simp add: escape_braces_def py_replace_def replace_acc_char)
qed

lemma fmt_parse_escape: "fmt_parse (escape_braces s) = Inr (map FLit s)"
  unfolding escape_braces_concat
  by (induction s) (auto simp: esc_char_def pbind_def)

text \<open>A text whose braces are doubled is formatted back to itself.\<close>

lemma str_format_escape: "str_format (escape_braces s) kwargs = Inr s"
proof -
  have "pmap (\<lambda>p. case p of FLit c \<Rightarrow> Inr [c] | FField n \<Rightarrow> fmt_field kwargs n) (map FLit s) = Inr (map (\<lambda>c. [c]) s)"
    by (induction s) (simp_all add: pbind_def)
  then show ?thesis by (simp add: str_format_def fmt_parse_escape pbind_def)
qed

text \<open>C22: \<open>read_data\<close> of the retrieval-augmented KE compiler doubles every brace of the JSON
  text of a demonstration's triples, so that the second formatting of the few-shot template
  gives back exactly \<open>json.dumps\<close> of the triples, whatever the keyword arguments.\<close>

theorem kd_example_roundtrip:
  assumes "json_loads line = Inr d0" "py_getitem d0 (PStr ''triples'') = Inr t"
      and "kd_example line = Inr d"
  shows "\<exists>s. json_dumps t = Inr s \<and> pbind (py_getitem d (PStr ''triples'')) (\<lambda>v. str_format (py_str v) kw) = Inr s"
proof -
  obtain kvs where d0: "d0 = PDict kvs" using assms(2) by (cases d0) (auto split: pyval.splits)
  obtain s where s: "json_dumps t = Inr s"
    using assms d0 by (cases "json_dumps t") (auto simp: kd_example_def escaped_dump_def pbind_def)
  from assms d0 s have "py_getitem d (PStr ''triples'') = Inr (PStr (escape_braces s))"
    by (auto simp: kd_example_def escaped_dump_def pbind_def update_conv' split: sum.splits option.splits)
  then show ?thesis using s by (simp add: pbind_def str_format_escape py_str_def)
qed

theorem kd_example_roundtrip_witness:
  "\<exists>s. json_dumps (PList [PDict [(PStr ''subject'', PStr ''Paris'')]]) = Inr s \<and>
       pbind (py_getitem (PDict [(PStr ''text'', PStr ''Paris.''),
                                 (PStr ''triples'', PStr ''[{{\"subject\": \"Paris\"}}]''),
                                 (PStr ''wiki_triples'', PStr ''[]'')]) (PStr ''triples''))
             (\<lambda>v. str_format (py_str v) []) = Inr s"
  using kd_example_roundtrip [of "''{\"text\": \"Paris.\", \"triples\": [{\"subject\": \"Paris\"}], \"wiki_triples\": []}''"
          "PDict [(PStr ''text'', PStr ''Paris.''), (PStr ''triples'', PList [PDict [(PStr ''subject'', PStr ''Paris'')]]),
                  (PStr ''wiki_triples'', PList [])]"
          "PList [PDict [(PStr ''subject'', PStr ''Paris'')]]"
          "PDict [(PStr ''text'', PStr ''Paris.''), (PStr ''triples'', PStr ''[{{\"subject\": \"Paris\"}}]''),
                  (PStr ''wiki_triples'', PStr ''[]'')]" "[]"]
  by (simp add: eval_simps kd_example_def escaped_dump_def json_dump_eval escape_braces_def)

subsection \<open>The entity-linking few-shot template\<close>

lemma fmt_parse_append:
  "brace_free xs \<Longrightarrow> fmt_parse (xs @ ys) = pbind (fmt_parse ys) (\<lambda>ps. Inr (map FLit xs @ ps))"
  by (induction xs) (auto simp: brace_free_def pbind_def split: sum.splits)

lemma pmap_append: "pmap f (xs @ ys) = pbind (pmap f xs) (\<lambda>as. pbind (pmap f ys) (\<lambda>bs. Inr (as @ bs)))"
  by (induction xs) (auto simp: pbind_def split: sum.splits)

lemma str_format_append:
  "brace_free xs \<Longrightarrow> str_format (xs @ ys) kw = pbind (str_format ys kw) (\<lambda>r. Inr (xs @ r))"
proof -
  have lit: "pmap (\<lambda>p. case p of FLit c \<Rightarrow> Inr [c] | FField n \<Rightarrow> fmt_field kw n) (map FLit xs) = Inr (map (\<lambda>c. [c]) xs)"
    for xs :: string by (induction xs) (simp_all add: pbind_def)
  assume "brace_free xs"
  then show ?thesis
    by (auto simp: str_format_def fmt_parse_append pmap_append lit pbind_def split: sum.splits)
qed

lemma brace_free_append [simp]: "brace_free (xs @ ys) \<longleftrightarrow> brace_free xs \<and> brace_free ys"
  by (auto simp: brace_free_def)

lemma brace_free_Nil [simp]: "brace_free []"
  by (simp add: brace_free_def)

lemma brace_free_join: "brace_free sep \<Longrightarrow> list_all brace_free xs \<Longrightarrow> brace_free (py_join sep xs)"
  by (induction sep xs rule: py_join.induct) auto

lemma py_join_snoc: "xs \<noteq> [] \<Longrightarrow> py_join sep (xs @ [y]) = py_join sep xs @ sep @ y"
  by (induction sep xs rule: py_join.induct) auto

lemma pmap_all:
  "list_all (\<lambda>x. \<exists>r. f x = Inr r \<and> P r) xs \<Longrightarrow> \<exists>rs. pmap f xs = Inr rs \<and> list_all P rs"
  by (induction xs) (auto simp: pbind_def)

lemma el_demo_string:
  assumes "demo_ok [''text'', ''extracted_component'', ''candidates'', ''correct_answer''] e"
  shows "\<exists>kw. example_kwargs [''text'', ''extracted_component'', ''candidates'', ''correct_answer''] e = Inr kw \<and>
           (\<exists>r. str_format el_formatter kw = Inr r \<and> brace_free r)"
proof -
  from assms obtain v1 v2 v3 v4 where
    "py_getitem e (PStr ''text'') = Inr v1" "py_getitem e (PStr ''extracted_component'') = Inr v2"
    "py_getitem e (PStr ''candidates'') = Inr v3" "py_getitem e (PStr ''correct_answer'') = Inr v4"
    "brace_free (py_str v1)" "brace_free (py_str v2)" "brace_free (py_str v3)" "brace_free (py_str v4)"
    by (auto simp: demo_ok_def split: sum.splits)
  then show ?thesis
    by (simp add: example_kwargs_def pbind_def str_format_def el_formatter_def fmt_field_def is_digit_def brace_free_def)
qed

text \<open>C17: the few-shot entity-linking prompt, built from the components of the entity-linking
  template creator as \<open>FewShotPromptTemplate.format\<close> builds it, is formatted without an
  exception whenever the selected demonstrations have the four example variables and no
  value, of theirs or of the keyword arguments, holds a brace.\<close>

theorem el_fewshot_ok:
  assumes "list_all (demo_ok [''text'', ''extracted_component'', ''candidates'', ''correct_answer''])
             (select [(''text'', text), (''extracted_component'', ec), (''candidates'', cands)])"
      and "brace_free (py_str text)" "brace_free (py_str ec)" "brace_free (py_str cands)"
  shows "\<exists>p. el_fewshot el_prompt_components select text ec cands = Inr (PStr p)"
proof -
  let ?kw = "[(''text'', text), (''extracted_component'', ec), (''candidates'', cands)]"
  let ?vars = "[''text'', ''extracted_component'', ''candidates'', ''correct_answer'']"
  from assms(1) have "list_all (\<lambda>e. \<exists>kw. example_kwargs ?vars e = Inr kw \<and>
                         (\<exists>r. str_format el_formatter kw = Inr r \<and> brace_free r)) (select ?kw)"
    by (simp add: list_all_iff el_demo_string)
  from pmap_all [OF this] obtain exs where exs: "pmap (example_kwargs ?vars) (select ?kw) = Inr exs"
    and exs_ok: "list_all (\<lambda>kw. \<exists>r. str_format el_formatter kw = Inr r \<and> brace_free r) exs"
    by blast
  from pmap_all [OF exs_ok] obtain ss where ss: "pmap (str_format el_formatter) exs = Inr ss" "list_all brace_free ss"
    by blast
  have pre: "brace_free el_prefix" "el_prefix \<noteq> []" "el_suffix \<noteq> []"
    by (simp_all add: el_prefix_def el_suffix_def brace_free_def)
  have nl: "brace_free [nl]" by (simp add: brace_free_def)
  have join: "py_join [nl] (filter (\<lambda>p. p \<noteq> []) ([el_prefix] @ ss @ [el_suffix])) =
              py_join [nl] (el_prefix # filter (\<lambda>p. p \<noteq> []) ss) @ [nl] @ el_suffix"
    using pre py_join_snoc [of "el_prefix # filter (\<lambda>p. p \<noteq> []) ss" "[nl]" el_suffix] by simp
  have bf: "brace_free (py_join [nl] (el_prefix # filter (\<lambda>p. p \<noteq> []) ss) @ [nl])"
    using pre ss(2) nl by (auto intro!: brace_free_join simp: list_all_iff)
  have "\<exists>r. str_format el_suffix ?kw = Inr r"
    by (simp add: str_format_def el_suffix_def fmt_field_def is_digit_def pbind_def)
  then show ?thesis
    using exs ss(1) join str_format_append [OF bf, of el_suffix ?kw]
    by (auto simp: el_fewshot_def components_format_def fewshot_format_def pc_string_def pc_names_def
                   el_prompt_components_def pbind_def)
qed

theorem el_fewshot_ok_witness:
  "\<exists>p. el_fewshot el_prompt_components
         (\<lambda>kw. [PDict [(PStr ''text'', PStr ''Paris is in France.''), (PStr ''extracted_component'', PStr ''Paris''),
                       (PStr ''candidates'', PStr ''[\"Q90 (Paris): capital of France\"]''), (PStr ''correct_answer'', PStr ''Q90'')]])
         (PStr ''Lyon is in France.'') (PStr ''Lyon'') (PStr ''[\"Q456 (Lyon): city in France\"]'') = Inr (PStr p)"
  using el_fewshot_ok [of "\<lambda>kw. [PDict [(PStr ''text'', PStr ''Paris is in France.''), (PStr ''extracted_component'', PStr ''Paris''),
                       (PStr ''candidates'', PStr ''[\"Q90 (Paris): capital of France\"]''), (PStr ''correct_answer'', PStr ''Q90'')]]"
                          "PStr ''Lyon is in France.''" "PStr ''Lyon''" "PStr ''[\"Q456 (Lyon): city in France\"]''"]
  by (simp add: demo_ok_def brace_free_def py_str_def)

text \<open>The demonstrations of the entity-linking compilers are not escaped: a brace in a
  demonstration's candidates, e.g. in a Wikidata description, is read as a field in the second
  formatting and the prompt raises \<open>KeyError\<close>.\<close>

theorem el_fewshot_brace_demo:
  "el_fewshot el_prompt_components
     (\<lambda>kw. [PDict [(PStr ''text'', PStr ''Paris is in France.''), (PStr ''extracted_component'', PStr ''Paris''),
                   (PStr ''candidates'', PStr ''[\"Q90 (Paris): capital of France {city}\"]''), (PStr ''correct_answer'', PStr ''Q90'')]])
     (PStr ''Lyon is in France.'') (PStr ''Lyon'') (PStr ''[\"Q456 (Lyon): city in France\"]'') = Inl KeyError"
  by code_simp

text \<open>The two template creators declare exactly the variables their templates use.\<close>

theorem template_creators_consistent: "components_ok ke_prompt_components \<and> components_ok el_prompt_components"
  by code_simp

subsection \<open>Sampling the demonstrations\<close>

lemma mset_filter_notin_sub:
  assumes "mset ys \<subseteq># mset xs" "distinct xs"
  shows "mset [x \<leftarrow> xs. x \<notin> set ys] + mset ys = mset xs"
proof -
  have le: "count (mset ys) a \<le> 1" for a
  proof -
    have "count (mset ys) a \<le> count (mset xs) a" using assms(1) by (rule mset_subset_eq_count)
    moreover have "count (mset xs) a \<le> 1" using assms(2) by (simp add: distinct_count_atmost_1)
    ultimately show ?thesis by linarith
  qed
  have dy: "distinct ys"
    unfolding distinct_count_atmost_1
  proof
    fix a
    show "count (mset ys) a = (if a \<in> set ys then 1 else 0)"
    proof (cases "a \<in> set ys")
      case True
      then have "0 < count (mset ys) a" by simp
      with le [of a] have "count (mset ys) a = 1" by linarith
      with True show ?thesis by simp
    next
      case False
      then show ?thesis by (simp add: count_mset_0_iff)
    qed
  qed
  have sub: "set ys \<subseteq> set xs" using assms(1) by (metis mset_subset_eqD set_mset_mset subsetI)
  have "mset ys = mset_set (set ys)" using dy by (simp add: mset_set_set)
  also have "\<dots> = filter_mset (\<lambda>x. x \<in> set ys) (mset_set (set xs))"
    using sub by (simp add: filter_mset_mset_set) blast
  also have "\<dots> = filter_mset (\<lambda>x. x \<in> set ys) (mset xs)" using assms(2) by (simp add: mset_set_set)
  finally have ys: "mset ys = filter_mset (\<lambda>x. x \<in> set ys) (mset xs)" .
  have f: "mset [x \<leftarrow> xs. x \<notin> set ys] = filter_mset (\<lambda>x. x \<notin> set ys) (mset xs)"
    by (simp add: mset_filter)
  have p: "mset xs = filter_mset (\<lambda>x. x \<in> set ys) (mset xs) + filter_mset (\<lambda>x. \<not> x \<in> set ys) (mset xs)"
    by (rule multiset_partition)
  from p ys f show ?thesis by (metis add.commute)
qed

text \<open>C26: when the training file has no repeated example and \<open>random.sample\<close> draws a
  sub-multiset of it, the remaining examples and the sample written by \<open>sample_examples\<close>
  are together exactly the training examples.\<close>

theorem sample_examples_partition:
  assumes "\<forall>xs k. mset (sample xs k) \<subseteq># mset xs"
      and "sample_examples sample lines k = Inr (remaining, selected)"
      and "pmap json_loads lines = Inr all_examples" "distinct all_examples"
  shows "mset remaining + mset selected = mset all_examples"
  using assms mset_filter_notin_sub [of "sample all_examples k" all_examples]
  by (auto simp: sample_examples_def pbind_def Let_def split: if_splits)

theorem sample_examples_partition_witness:
  "mset [PDict [(PStr ''a'', PInt 2)]] + mset [PDict [(PStr ''a'', PInt 1)]] =
   mset [PDict [(PStr ''a'', PInt 1)], PDict [(PStr ''a'', PInt 2)]]"
proof -
  have take_sub: "\<forall>xs k. mset (take k xs) \<subseteq># mset (xs :: pyval list)"
    by (metis append_take_drop_id mset_append mset_subset_eq_add_left)
  show ?thesis
    using sample_examples_partition [OF take_sub, where lines = "[''{\"a\": 1}'', ''{\"a\": 2}'']" and k = 1
            and remaining = "[PDict [(PStr ''a'', PInt 2)]]" and selected = "[PDict [(PStr ''a'', PInt 1)]]"
            and all_examples = "[PDict [(PStr ''a'', PInt 1)], PDict [(PStr ''a'', PInt 2)]]"]
    by (simp add: sample_examples_def eval_simps)
qed

text \<open>A repeated example is dropped from both files when one copy is sampled: the list
  comprehension removes every copy equal to a sampled item.\<close>

theorem sample_examples_duplicates:
  "sample_examples (\<lambda>xs k. take k xs) [''{\"a\": 1}'', ''{\"a\": 1}''] 1 = Inr ([], [PDict [(PStr ''a'', PInt 1)]])"
  by (simp add: sample_examples_def eval_simps)

end
