(* ===== verification/WikidataResults.thy ===== *)
theory WikidataResults
  imports WikidataEval
begin




subsection \<open>What a report promises\<close>



subsection \<open>A failed SELECT request aborts the evaluation\<close>

text \<open>\<open>answered P net f\<close>: \<open>f\<close> only appends to the trace, and when it returns normally,
  every request satisfying \<open>P\<close> that it sent was answered by the service.\<close>

definition is_select :: "request \<Rightarrow> bool" where
  "is_select r \<longleftrightarrow> (case r of RSelect q \<Rightarrow> True | _ \<Rightarrow> False)"

definition answered :: "(request \<Rightarrow> bool) \<Rightarrow> net \<Rightarrow> 'a wm \<Rightarrow> bool" where
  "answered P net f \<longleftrightarrow>
     issues (\<lambda>r. True) f \<and>
     (\<forall>s x. fst (f s) = Inr x \<longrightarrow>
        (\<forall>i. length (w_trace s) \<le> i \<longrightarrow> i < length (w_trace (snd (f s))) \<longrightarrow>
             P (w_trace (snd (f s)) ! i) \<longrightarrow> (\<exists>v. net i (w_trace (snd (f s)) ! i) = Inr v)))"

text \<open>A service that answers every search (a relation \<open>P1\<close>, no entity) and every
  SELECT request (no bindings), and fails the rest.\<close>

definition wn :: net where
  "wn i r = (case r of
     RSearch qt q \<Rightarrow> Inr (PDict [(PStr ''search'',
        PList (if qt = ''property'' then [PDict [(PStr ''id'', PStr ''P1'')]] else []))])
   | RSelect q \<Rightarrow> Inr (PDict [(PStr ''results'', PDict [(PStr ''bindings'', PList [])])])
   | _ \<Rightarrow> Inl RequestException)"




named_theorems answered_intros

lemma answered_no_P:
  assumes "issues (\<lambda>r. \<not> P r) f"
  shows "answered P net f"
  unfolding answered_def
proof (intro conjI allI impI)
  show "issues (\<lambda>r. True) f"
    using assms unfolding issues_def by (metis (mono_tags, lifting) list.pred_True)
next
  fix s x i
  assume "length (w_trace s) \<le> i" "i < length (w_trace (snd (f s)))" "P (w_trace (snd (f s)) ! i)"
  moreover from assms obtain new where "w_trace (snd (f s)) = w_trace s @ new" "list_all (\<lambda>r. \<not> P r) new"
    unfolding issues_def by blast
  ultimately show "\<exists>v. net i (w_trace (snd (f s)) ! i) = Inr v"
    by (auto simp: nth_append list_all_length)
qed

lemma answered_wret [answered_intros]: "answered P net (wret x)"
  by (rule answered_no_P) (rule issues_wret)

lemma answered_wlift [answered_intros]: "answered P net (wlift r)"
  by (rule answered_no_P) (rule issues_wlift)

lemma answered_wbind [answered_intros]:
  assumes m: "answered P net m" and f: "\<And>x. answered P net (f x)"
  shows "answered P net (wbind m f)"
  unfolding answered_def
proof (intro conjI allI impI)
  show "issues (\<lambda>r. True) (wbind m f)"
    using m f unfolding answered_def by (blast intro: issues_wbind)
next
  fix s y i
  assume res: "fst (wbind m f s) = Inr y" and lo: "length (w_trace s) \<le> i"
    and hi: "i < length (w_trace (snd (wbind m f s)))" and p: "P (w_trace (snd (wbind m f s)) ! i)"
  obtain r1 s1 where ms: "m s = (r1, s1)" by fastforce
  with res obtain x where r1: "r1 = Inr x" by (cases r1) auto
  obtain r2 s2 where fs: "f x s1 = (r2, s2)" by fastforce
  have b: "wbind m f s = (r2, s2)" using ms r1 fs by simp
  with res have r2: "r2 = Inr y" by simp
  from f [of x] fs obtain new2 where t2: "w_trace s2 = w_trace s1 @ new2"
    unfolding answered_def issues_def by (metis list.pred_True snd_conv)
  show "\<exists>v. net i (w_trace (snd (wbind m f s)) ! i) = Inr v"
  proof (cases "i < length (w_trace s1)")
    case True
    with t2 have eq: "w_trace s2 ! i = w_trace s1 ! i" by (simp add: nth_append)
    from m ms r1 lo True p b eq show ?thesis unfolding answered_def by (metis fst_conv snd_conv)
  next
    case False
    from f [of x] fs r2 False hi p b show ?thesis unfolding answered_def by (metis fst_conv not_le snd_conv)
  qed
qed

lemma answered_if [answered_intros]:
  "(c \<Longrightarrow> answered P net f) \<Longrightarrow> (\<not> c \<Longrightarrow> answered P net g) \<Longrightarrow> answered P net (if c then f else g)"
  by simp

lemma answered_case_prod [answered_intros]:
  "(\<And>a b. p = (a, b) \<Longrightarrow> answered P net (f a b)) \<Longrightarrow> answered P net (case p of (a, b) \<Rightarrow> f a b)"
  by (cases p) simp

lemma answered_case_option [answered_intros]:
  "(x = None \<Longrightarrow> answered P net f) \<Longrightarrow> (\<And>y. x = Some y \<Longrightarrow> answered P net (g y)) \<Longrightarrow>
   answered P net (case x of None \<Rightarrow> f | Some y \<Rightarrow> g y)"
  by (cases x) simp_all

lemma answered_foldl:
  "answered P net m \<Longrightarrow> (\<And>x m'. answered P net m' \<Longrightarrow> answered P net (F m' x)) \<Longrightarrow> answered P net (foldl F m xs)"
  by (induction xs arbitrary: m) simp_all

text \<open>A SELECT request that fails makes \<open>get_bindings_from_sparql_query\<close> raise.\<close>

lemma answered_get_bindings [answered_intros]:
  "answered is_select net (get_bindings_from_sparql_query net q qt)"
  unfolding answered_def
proof (intro conjI allI impI)
  show "issues (\<lambda>r. True) (get_bindings_from_sparql_query net q qt)"
    by (rule issues_get_bindings) simp
next
  fix s x i
  assume res: "fst (get_bindings_from_sparql_query net q qt s) = Inr x"
    and "length (w_trace s) \<le> i" "i < length (w_trace (snd (get_bindings_from_sparql_query net q qt s)))"
  then have i: "i = length (w_trace s)"
    by (simp add: get_bindings_from_sparql_query_def execute_sparql_query_result)
  show "\<exists>v. net i (w_trace (snd (get_bindings_from_sparql_query net q qt s)) ! i) = Inr v"
  proof (cases "net (length (w_trace s)) (RSelect q)")
    case (Inl e)
    with get_bindings_network_failure [of net s q e qt] res show ?thesis by simp
  next
    case (Inr v)
    with i show ?thesis by (simp add: get_bindings_from_sparql_query_def execute_sparql_query_result)
  qed
qed

lemma answered_get_wiki_ID [answered_intros]: "answered is_select net (get_wiki_ID net q qt)"
  unfolding get_wiki_ID_def by (rule answered_no_P) (intro issues_intros; simp add: is_select_def)

lemma answered_check_triple_exists [answered_intros]: "answered is_select net (check_triple_exists net t)"
  unfolding check_triple_exists_def case_prod_unfold
  by (rule answered_no_P) (intro issues_intros; simp add: is_select_def)

lemma answered_relation_fallback [answered_intros]: "answered is_select net (relation_fallback net t)"
proof (rule answered_no_P)
  have "issues (\<lambda>r. \<not> is_select r) (fallback_loop net r pfx p)" for r pfx p
    by (induction pfx arbitrary: p) (auto simp: get_wiki_ID_def is_select_def intro!: issues_intros)
  then show "issues (\<lambda>r. \<not> is_select r) (relation_fallback net t)"
    unfolding relation_fallback_def by (auto intro!: issues_intros split: pyval.splits)
qed

lemma answered_dr_match [answered_intros]: "answered P net (dr_match key sc dl rl e)"
  by (rule answered_no_P) (rule dr_match_issues)

lemma answered_eval_lookup [answered_intros]: "answered is_select net (eval_lookup net t0 t1 t2 e)"
  unfolding eval_lookup_def Let_def by (intro answered_intros)

lemma answered_eval_schema [answered_intros]: "answered is_select net (eval_schema net key p e)"
  unfolding eval_schema_def Let_def by (intro answered_intros)

lemma answered_eval_side [answered_intros]:
  "answered is_select net (eval_side net key side prefix x y sch e)"
  unfolding eval_side_def entity_match_def Let_def case_prod_unfold by (intro answered_intros)

lemma answered_eval_statement [answered_intros]:
  "answered is_select net (eval_statement net key t dl rl e)"
  unfolding eval_statement_def Let_def by (intro answered_intros)

lemma answered_eval_item: "answered is_select net (eval_item net input_text item e)"
  unfolding eval_item_def eval_triple_def Let_def case_prod_unfold
  by (intro answered_intros answered_foldl)

text \<open>C10: a failed SELECT request aborts the evaluation of the file.  Whatever the
  services answer, if the evaluation of an extraction file returns, every SELECT request it
  sent (domain, range, instanceOf and subclassOf lookups) was answered: \<open>execute_sparql_query\<close>
  turns a failure into \<open>None\<close>, \<open>get_bindings_from_sparql_query\<close> raises \<open>TypeError\<close> on it,
  and neither \<open>evaluate()\<close> nor the functions between them catch the exception, where the
  specification says a failed lookup degrades to a recorded outcome.\<close>

theorem eval_file_select_failure_aborts:
  "answered is_select net (eval_file net gold_data extractions)"
  unfolding eval_file_def case_prod_unfold
  by (intro answered_foldl answered_intros answered_eval_item)

theorem eval_file_select_failure_aborts_witness:
  "(\<exists>e. fst (eval_file wn [PDict [(PStr ''Text'', PStr ''t'')]]
          [PDict [(PStr ''postprocessed'', PList [PList [PStr ''a'', PStr ''b'', PStr ''c'']])]]
          \<lparr>w_trace = [], w_slept = 0\<rparr>) = Inr e) \<and>
   w_trace (snd (eval_file wn [PDict [(PStr ''Text'', PStr ''t'')]]
          [PDict [(PStr ''postprocessed'', PList [PList [PStr ''a'', PStr ''b'', PStr ''c'']])]]
          \<lparr>w_trace = [], w_slept = 0\<rparr>)) =
     [RSearch ''entity'' (PStr ''a''), RSearch ''entity'' (PStr ''c''), RSearch ''property'' (PStr ''b''),
      RSelect (QDomain (PStr ''P1'')), RSelect (QRange (PStr ''P1''))] \<and>
   (\<exists>v. wn 3 (RSelect (QDomain (PStr ''P1''))) = Inr v) \<and>
   (\<exists>v. wn 4 (RSelect (QRange (PStr ''P1''))) = Inr v)"
  (is "(\<exists>e. fst ?r = Inr e) \<and> w_trace (snd ?r) = ?t \<and> ?a3 \<and> ?a4")
proof -
  have run: "(case fst ?r of Inl x \<Rightarrow> False | Inr y \<Rightarrow> True) \<and> w_trace (snd ?r) = ?t"
    by code_simp
  then obtain e where e: "fst ?r = Inr e" by (cases "fst ?r") auto
  have sel: "\<forall>i. 0 \<le> i \<longrightarrow> i < length ?t \<longrightarrow> is_select (?t ! i) \<longrightarrow> (\<exists>v. wn i (?t ! i) = Inr v)"
    using eval_file_select_failure_aborts [of wn "[PDict [(PStr ''Text'', PStr ''t'')]]"
        "[PDict [(PStr ''postprocessed'', PList [PList [PStr ''a'', PStr ''b'', PStr ''c'']])]]"] e run
    unfolding answered_def by (metis list.size(3) wstate.select_convs(1))
  have "?a3" using sel [rule_format, of 3] by (simp add: is_select_def)
  moreover have "?a4" using sel [rule_format, of 4] by (simp add: is_select_def)
  ultimately show ?thesis using run e by blast
qed

end
