(* ===== verification/Spec2Isabelle.thy ===== *)
theory Spec2Isabelle
  imports PostProcess WikidataEval AnnotEval ConvertREDFM LinkStats TripleExtraction ELData ELPrompts PromptTemplates WikidataResults
begin

text \<open>
  \<^bold>\<open>A verification library for Prompt-Engineering-for-KE.\<close>

  The repository extracts knowledge-graph triples from the free text a language model
  generates, and evaluates them against gold annotations and against Wikidata.  Its parts:
  dataset preparation (\<open>src/convert_REDFM.py\<close>, \<open>src/Entity_Linking/data\<close>), prompt
  compilers (\<open>src/1_data_module\<close>, \<open>src/Entity_Linking/prompts\<close>, \<open>src/template_creator.py\<close>),
  inference scripts (\<open>src/2_inference_module/run_inference_LangChain_HF.py\<close>,
  \<open>src/run_inference.py\<close>, \<open>src/inference_OpenAI.py\<close>), two post-processors that recover
  the triples from the generated text (\<open>src/2_inference_module/post_process_generated_string.py\<close>
  for the open models, \<open>src/post_processing.py\<close> for the GPT-4 answers), and the evaluation
  (\<open>src/3_evaluation_module\<close>, \<open>src/general_evaluation_final.py\<close>).  The data flows from the
  converted dataset through the prompts and the model to a post-processor, whose
  \<open>'postprocessed'\<close> field both evaluations read (theory \<open>Triples\<close>).

  \<^bold>\<open>Theories.\<close>
  \<^item> \<open>Prelude\<close>: the collection \<open>eval_simps\<close> of rules that run the model on concrete
    inputs, Python dictionaries as association lists, \<open>str.startswith\<close> and \<open>in\<close> on strings.
  \<^item> \<open>Python\<close>: Python values (\<open>pyval\<close>), exceptions (\<open>pyexc\<close>), a computation that may
    raise (\<open>'a pyres = pyexc + 'a\<close>, \<open>Inl\<close> the exception), \<open>try/except\<close> (\<open>py_try\<close>),
    comprehensions and loops (\<open>pmap\<close>, \<open>pfilter\<close>, \<open>pfoldl\<close>), indexing, slicing and item
    assignment, and the string methods the code calls, each with the exceptions Python raises.
  \<^item> \<open>Regex\<close>: Python's \<open>re\<close> for the patterns the code uses, as a backtracking matcher
    over an explicit stack of frames (\<open>bt\<close>), with greedy and lazy repetition, groups and
    the empty-iteration check of \<open>sre\<close>; \<open>re_search\<close> and \<open>re_findall\<close>, sound for the
    inductive language \<open>rmatch\<close>.
  \<^item> \<open>Json\<close>: \<open>json.loads\<close> (\<open>json_loads\<close>), a recursive descent with fuel.
    \<open>JsonDump\<close>: \<open>json.dumps\<close> (\<open>json_dumps\<close>) with its default arguments, and the round
    trip of the two.
  \<^item> \<open>LiteralEval\<close>: \<open>ast.literal_eval\<close> (\<open>py_literal_eval\<close>): a tokenizer, a
    shift-reduce parser over a stack of open brackets, and the conversion of the tree.
  \<^item> \<open>Strategies\<close>, \<open>Cascade\<close>, \<open>PostProcess\<close>: \<open>post_process_generated_string.py\<close>.
    The fourteen extraction functions (\<open>load_structure\<close>, \<open>extract_*\<close>), each with its
    sentinel sentence (\<open>S_*\<close>) and pattern (\<open>pat_*\<close>), calling the two parsers through the
    record \<open>pylib\<close>; the loop of \<open>main()\<close> (lines 247--306): the sentinel tests
    (\<open>cascade_checks\<close>, \<open>run_checks\<close>, \<open>cascade\<close>), the conversion of sets
    (\<open>normalize_sets\<close>), one item (\<open>post_process\<close>) and a file (\<open>post_process_file\<close>); the
    specification's chain of responsibility (\<open>chain\<close>) with the condition \<open>clean\<close> under
    which the code refines it; and the script run with the standard library (\<open>std_lib\<close>).
  \<^item> \<open>TripleExtraction\<close>: \<open>post_processing.py\<close>, one definition per function
    (\<open>extract_last_list_of_lists\<close>, \<open>extract_zero_shot_CoT\<close>, \<open>get_extracted_triples\<close>,
    \<open>extract_json_object_from_string\<close>, \<open>extract_and_load_json\<close>) and the loop of
    \<open>main()\<close> (\<open>react_triples\<close>, \<open>default_triples\<close>, \<open>postprocess_item\<close>,
    \<open>postprocess_file\<close>, \<open>postprocess_folder\<close>), with Python's \<open>eval\<close> a parameter \<open>ev\<close>
    (the witnesses take \<open>py_literal_eval\<close>) and \<open>json.loads(json.dumps(x))\<close> as \<open>json_copy\<close>.
  \<^item> \<open>Service\<close>: the Wikidata calls of \<open>general_evaluation_final.py\<close> (lines 60--156) in a
    state monad \<open>'a wm\<close> over the trace of requests and sleeps; the services are an
    oracle \<open>net\<close> answering each request by its position in the trace, so every lemma holds
    whatever they answer.  The \<open>retry\<close> decorator (\<open>retry_loop\<close>), \<open>get_wiki_ID\<close>,
    \<open>check_triple_exists\<close>, \<open>execute_sparql_query\<close>, \<open>get_bindings_from_sparql_query\<close>;
    weakest preconditions \<open>wp\<close> and the trace predicate \<open>issues\<close> with their rule
    collections \<open>wp_intros\<close> and \<open>issues_intros\<close>.
  \<^item> \<open>Hierarchy\<close>: \<open>merge_dicts\<close>, \<open>find_matching_classes\<close> and
    \<open>convert_match_level_to_integer\<close>, with an abstract map of hops and labels that
    \<open>merge_dicts\<close> refines.
  \<^item> \<open>Triples\<close>: the two \<open>read_triples\<close> of the evaluations (\<open>read_triples\<close>,
    \<open>read_triples_ann\<close>).
  \<^item> \<open>WikidataEval\<close>: the per-file pass of \<open>evaluate()\<close> (lines 306--500) with its record of
    counters and audit records (\<open>estate\<close>): lookups with the relation fallback
    (\<open>eval_lookup\<close>), schema and hierarchy matches (\<open>eval_schema\<close>, \<open>eval_side\<close>), the
    statement check (\<open>eval_statement\<close>), one triple, item and file.
    \<open>WikidataResults\<close>: the results dictionary written for each file (\<open>results_dict\<close>,
    \<open>evaluate_file\<close>), whose numbers are consistent whatever the services answer.
  \<^item> \<open>AnnotEval\<close>: \<open>evaluate.py\<close> of the annotation evaluation (lines 87--162), with
    Python's float division as exact rational division (\<open>rat\<close>).
  \<^item> \<open>ConvertREDFM\<close>: \<open>convert_data\<close> of \<open>convert_REDFM.py\<close>, the entity and relation
    loops as steps on records of accumulators, with \<open>random.choice\<close> and
    \<open>random.shuffle\<close> as parameters.
  \<^item> \<open>LinkStats\<close>: \<open>count_linked_items.py\<close> and the statistics loop of
    \<open>get_domain_range_info.py\<close>, the latter over the service model.
  \<^item> \<open>ELData\<close>: \<open>src/Entity_Linking/data\<close>: \<open>convert_data\<close> of \<open>preprocess_data.py\<close>
    over the service model (its Wikidata call \<open>get_wikidata_label_and_description\<close> is the
    request \<open>RLabels\<close> under \<open>retry\<close>), and \<open>shuffle_and_split_jsonl\<close> of
    \<open>make_subset_4_demostration_selection.py\<close> with \<open>random.shuffle\<close> a parameter.
  \<^item> \<open>ELPrompts\<close>: the entity-linking prompt compilers of \<open>src/Entity_Linking/prompts\<close>
    over the service model: the Wikidata functions (\<open>wikidata_string_search\<close>,
    \<open>get_label_and_description_for_id\<close>, \<open>search_wikidata_pages\<close>, requests \<open>RSearchTop\<close>,
    \<open>RLabels\<close> and \<open>RPages\<close>), the demonstration reader (\<open>read_examples\<close>) and the loops
    of \<open>main()\<close> of the retrieval-augmented (\<open>ra_*\<close>), zero-shot (\<open>nr_*\<close>) and
    after-extraction (\<open>ke_*\<close>) scripts, each a fold of steps on a record of what \<open>main\<close>
    keeps (the prompts, the components without candidates, the local \<open>candidates\<close>, which
    may be unbound).  The LangChain template with its example selector is the parameter
    \<open>fmt\<close>, the iteration order of \<open>list(set(...))\<close> the parameter \<open>set_order\<close>.
  \<^item> \<open>PromptTemplates\<close>: Python's \<open>str.format\<close> with keyword arguments (\<open>fmt_parse\<close>,
    \<open>str_format\<close>) and LangChain's \<open>FewShotPromptTemplate.format\<close> (\<open>fewshot_format\<close>),
    from their documentation; the components of the two template creators (\<open>ke_*\<close>,
    \<open>el_*\<close>), the demonstration readers of the knowledge-extraction compilers
    (\<open>nr_get_examples\<close>, \<open>ra_get_examples\<close>, \<open>kd_read_data\<close>), \<open>sample_examples\<close> with
    \<open>random.sample\<close> a parameter, and the prompt loops (\<open>ke_prompts\<close>, \<open>kd_prompts\<close>);
    \<open>el_fewshot\<close> is the entity-linking template as a prompt format of \<open>ELPrompts\<close>.

  \<^bold>\<open>What the theorems show.\<close>  Post-processing of the open models: the cascade of
  sentinel tests computes the specification's first-success chain whenever no strategy
  returns the sentence of a later one (refinement); the labelled-field, set-conversion and
  enumerated-tuple behaviours.  Parsers: the JSON decoder's fuel is always enough (the
  regular-expression matcher is sound, \<open>re_findall_sound\<close>, a library lemma), and
  \<open>json.loads\<close> reads back what \<open>json.dumps\<close> writes (round trip, tuples becoming lists
  and keys strings).  Post-processing of the GPT-4 answers: results are lists of lists of
  lower-case stripped strings; an answer without a bracket gives \<open>[['.']]\<close>; a literal
  answer whose value is made of ASCII strings, ints, booleans and \<open>None\<close> by lists,
  tuples and dicts (\<open>json_ok\<close>) is stored as its JSON copy; an answer \<open>eval\<close> reads as a set ends the run with
  \<open>AttributeError\<close>, and \<open>extract_and_load_json\<close> raises on a JSON object; a file's
  output keeps its items.  Services: \<open>get_wiki_ID\<close> never retries, \<open>check_triple_exists\<close>
  makes one to three attempts.  Wikidata evaluation: whatever the services answer, no ASK
  query carries \<open>'no-wikiID'\<close>, the counters stay consistent and so does the results
  dictionary; a completed evaluation of a file had every SELECT request answered, because a
  failed one becomes \<open>None\<close>, then \<open>TypeError\<close> in \<open>get_bindings_from_sparql_query\<close>, which
  no caller catches (\<open>answered\<close>, with its composition rules \<open>answered_intros\<close>).  Annotation evaluation: scores lie in
  [0, 1], equal the set measures when nothing repeats, count a repeated triple twice, and an
  empty file divides by zero.  Conversion and statistics: the behaviours of the
  capitalisation tests, the corrupted-triple filter and the lookups, the invariant of the
  entity loop, the exact linked and unlinked counts of \<open>count_linked_items.py\<close>, and the
  totals of the domain-range statistics.  Entity-linking
  data: whatever Wikidata answers, every converted record stores under each identifier a
  label record of that identifier, and as many typed as identifier triples; the two parts
  of the demonstration split hold the parsed lines between them (\<open>Multiset\<close>), the first
  half of them rounded down.  Entity-linking prompts: whatever Wikidata answers, the
  retrieval-augmented compiler writes one prompt per entity and relation, in order, with its
  index and correct answer; each relation costs two identical searches; nested retries make
  a failing page search cost twelve requests; with page search the zero-shot compiler never
  lists an entity without candidates; the after-extraction script searches \<open>"paradox"\<close>
  for every entity and, on answers of the MediaWiki shape, lists every entity as without
  candidates.  Templates: doubled braces format back to themselves, so the
  escaped triples of the KE demonstrations come back as their JSON text (round trip); the
  entity-linking few-shot prompt never raises when no demonstration or argument holds a
  brace, and raises when a demonstration does; both template creators declare exactly the
  variables their templates use; the demonstration sample and the rest partition a
  training file without repetitions (\<open>Multiset\<close>).

  \<^bold>\<open>Fuel and bounds.\<close>  \<open>json_loads\<close> gives its descent \<open>2 * length s + 1\<close> steps: every
  call consumes a character or passes to a nested value after one, so this is enough
  (\<open>jvalue_enough_fuel\<close>); for the text \<open>json_dumps\<close> writes, the round trip needs fewer
  steps than the text has characters (\<open>dumps_parse\<close>).  The regular-expression matcher,
  the \<open>ast.literal_eval\<close> parser and \<open>json_dumps\<close> need no fuel: the matcher terminates by
  a lexicographic measure (input length, then the weight of the frame stack), the tokenizer
  by the input length, the parser is a fold over the tokens, and the dump recurses on the
  value.  The retry decorator is a recursion on the number of tries left (three).

  \<^bold>\<open>Not modelled.\<close>  File and network I/O (reading and writing the JSON files, listing
  folders, downloading RED-FM, HTTP itself: the services are the oracle \<open>net\<close>), the model
  inference (an external service), the embedding-based example selectors of LangChain
  (the parameter \<open>select\<close>, or the whole template as the parameter \<open>fmt\<close> of
  \<open>ELPrompts\<close>), fields of \<open>str.format\<close> with conversions, format specifications or
  attribute access (no template of the repository has one), the randomness of \<open>random.choice\<close> and
  \<open>random.shuffle\<close> and \<open>random.sample\<close> (parameters), Python's recursion
  limit, float values (kept as their text), non-ASCII text in the JSON round trip, the
  semantics of \<open>eval\<close> beyond literal displays (a parameter), and the hash order of sets (a
  set keeps its first occurrences in order).
\<close>

end
